(* ===== verification/Prelude.thy ===== *)
theory Prelude
  imports Main "HOL-Library.Word"
begin

text \<open>
  Shared vocabulary of the development: Go's 64-bit signed integers, Go strings and byte
  slices, the outcome of running a piece of a handler, nil-pointer dereference, counting
  loops over \<open>int64\<close>, and a few facts on lists and maps that every component uses.
\<close>

named_theorems int64_simps \<open>wrap-around arithmetic that stays in range\<close>
named_theorems outcome_simps \<open>sequencing of handler segments\<close>

section \<open>Machine integers\<close>

text \<open>
  \<open>int64\<close> is Go's \<open>int64\<close>, read as the integer it denotes. Every arithmetic operation of
  the source is written with its wrap-around (\<open>add64\<close>, \<open>sub64\<close>, \<open>mul64\<close>); comparisons need
  none. \<open>wrap64\<close> is two's complement reduction to 64 bits (\<open>wrap64_sint\<close>).
\<close>

type_synonym int64 = int
type_synonym bytes = string

definition max64 :: int64 where "max64 = 9223372036854775807"

definition min64 :: int64 where "min64 = - 9223372036854775808"

definition in64 :: "int \<Rightarrow> bool" where
  "in64 x \<longleftrightarrow> min64 \<le> x \<and> x \<le> max64"

definition wrap64 :: "int \<Rightarrow> int64" where
  "wrap64 x = (x + 9223372036854775808) mod 18446744073709551616 - 9223372036854775808"

definition add64 :: "int64 \<Rightarrow> int64 \<Rightarrow> int64" where "add64 a b = wrap64 (a + b)"

definition sub64 :: "int64 \<Rightarrow> int64 \<Rightarrow> int64" where "sub64 a b = wrap64 (a - b)"

definition mul64 :: "int64 \<Rightarrow> int64 \<Rightarrow> int64" where "mul64 a b = wrap64 (a * b)"

text \<open>Go's \<open>/\<close> and \<open>%\<close> truncate towards zero.\<close>

definition quot64 :: "int64 \<Rightarrow> int64 \<Rightarrow> int64" where
  "quot64 a b = wrap64 (sgn a * sgn b * (\<bar>a\<bar> div \<bar>b\<bar>))"

definition rem64 :: "int64 \<Rightarrow> int64 \<Rightarrow> int64" where
  "rem64 a b = wrap64 (sgn a * (\<bar>a\<bar> mod \<bar>b\<bar>))"

lemmas arith64_defs = add64_def sub64_def mul64_def quot64_def rem64_def

lemma in64_wrap64 [simp, intro]: "in64 (wrap64 x)"
proof -
  have "0 \<le> (x + 9223372036854775808) mod 18446744073709551616"
    and "(x + 9223372036854775808) mod 18446744073709551616 < 18446744073709551616"
    by simp_all
  then show ?thesis by (simp add: in64_def wrap64_def min64_def max64_def)
qed

lemma wrap64_id [simp]: "in64 x \<Longrightarrow> wrap64 x = x"
proof -
  assume "in64 x"
  then have "0 \<le> x + 9223372036854775808" "x + 9223372036854775808 < 18446744073709551616"
    by (simp_all add: in64_def min64_def max64_def)
  then have "(x + 9223372036854775808) mod 18446744073709551616 = x + 9223372036854775808"
    by (rule mod_pos_pos_trivial)
  then show ?thesis by (simp add: wrap64_def)
qed

lemma wrap64_cong: "x mod 18446744073709551616 = y mod 18446744073709551616 \<Longrightarrow> wrap64 x = wrap64 y"
proof -
  assume "x mod 18446744073709551616 = y mod 18446744073709551616"
  then have "(x + 9223372036854775808) mod 18446744073709551616
      = (y + 9223372036854775808) mod 18446744073709551616"
    by (rule mod_add_cong) (rule refl)
  then show ?thesis by (simp only: wrap64_def)
qed

lemma wrap64_mod: "wrap64 x mod 18446744073709551616 = x mod 18446744073709551616"
proof -
  have "wrap64 x mod 18446744073709551616
      = ((x + 9223372036854775808) - 9223372036854775808) mod 18446744073709551616"
    unfolding wrap64_def by (simp only: mod_diff_left_eq)
  then show ?thesis by simp
qed

lemma wrap64_add_left [simp]: "wrap64 (wrap64 x + y) = wrap64 (x + y)"
  by (rule wrap64_cong) (rule mod_add_cong [OF wrap64_mod refl])

lemma wrap64_add_right [simp]: "wrap64 (x + wrap64 y) = wrap64 (x + y)"
  by (rule wrap64_cong) (rule mod_add_cong [OF refl wrap64_mod])

lemma wrap64_diff_left [simp]: "wrap64 (wrap64 x - y) = wrap64 (x - y)"
  by (rule wrap64_cong) (rule mod_diff_cong [OF wrap64_mod refl])

lemma wrap64_sint: "wrap64 x = sint (word_of_int x :: 64 word)"
proof -
  have "sint (word_of_int x :: 64 word) = signed_take_bit 63 x"
    by (simp add: sint_sbintrunc')
  also have "\<dots> = wrap64 x"
    by (simp add: signed_take_bit_eq_take_bit_shift take_bit_eq_mod wrap64_def)
  finally show ?thesis by simp
qed

lemma add64_in [int64_simps]: "in64 (a + b) \<Longrightarrow> add64 a b = a + b"
  by (simp add: add64_def)

lemma sub64_in [int64_simps]: "in64 (a - b) \<Longrightarrow> sub64 a b = a - b"
  by (simp add: sub64_def)

lemma in64_arith [simp, intro]: "in64 (add64 a b)" "in64 (sub64 a b)" "in64 (mul64 a b)"
  by (simp_all add: arith64_defs)

text \<open>
  A debit and the matching credit cancel, whatever the amount and even when an
  intermediate balance wraps.
\<close>

lemma add64_sub64_cancel [simp]: "in64 a \<Longrightarrow> add64 (sub64 a b) b = a"
  by (simp add: add64_def sub64_def)

lemma sub64_add64_cancel [simp]: "in64 a \<Longrightarrow> sub64 (add64 a b) b = a"
  by (simp add: add64_def sub64_def)

section \<open>Running a segment of a handler\<close>

text \<open>
  A segment of Go code run from a state either returns with the new state and a value,
  or panics (gRPC handlers and goroutines have no \<open>recover\<close>, so the process dies and its
  memory with it), or never gets past some point (a mutex nobody will release, a channel
  nobody reads, a loop that does not end); the state it leaves then stays visible to the
  other goroutines.
\<close>

datatype ('s, 'a) outcome = Return 's 'a | Panic | Blocked 's

fun andThen :: "('s, 'a) outcome \<Rightarrow> ('s \<Rightarrow> 'a \<Rightarrow> ('s, 'b) outcome) \<Rightarrow> ('s, 'b) outcome" where
  "andThen (Return s x) k = k s x"
| "andThen Panic k = Panic"
| "andThen (Blocked s) k = Blocked s"

text \<open>Dereferencing a pointer: nil panics.\<close>

fun deref :: "'p option \<Rightarrow> ('p \<Rightarrow> ('s, 'a) outcome) \<Rightarrow> ('s, 'a) outcome" where
  "deref None k = Panic"
| "deref (Some p) k = k p"

fun returns :: "('s, 'a) outcome \<Rightarrow> bool" where
  "returns (Return s x) = True"
| "returns Panic = False"
| "returns (Blocked s) = False"

lemma deref_Panic [simp]: "deref p (\<lambda>_. Panic) = Panic"
  by (cases p) simp_all

text \<open>The state other goroutines see afterwards, if the process is still there.\<close>

fun state_after :: "('s, 'a) outcome \<Rightarrow> 's option" where
  "state_after (Return s x) = Some s"
| "state_after Panic = None"
| "state_after (Blocked s) = Some s"

declare andThen.simps [outcome_simps] deref.simps [outcome_simps]

lemma andThen_Return_iff [outcome_simps]:
  "andThen m k = Return s x \<longleftrightarrow> (\<exists>s' y. m = Return s' y \<and> k s' y = Return s x)"
  by (cases m) auto

lemma andThen_Panic_iff [outcome_simps]:
  "andThen m k = Panic \<longleftrightarrow> m = Panic \<or> (\<exists>s' y. m = Return s' y \<and> k s' y = Panic)"
  by (cases m) auto

lemma deref_Return_iff [outcome_simps]:
  "deref p k = Return s x \<longleftrightarrow> (\<exists>v. p = Some v \<and> k v = Return s x)"
  by (cases p) auto

lemma deref_Panic_iff [outcome_simps]:
  "deref p k = Panic \<longleftrightarrow> p = None \<or> (\<exists>v. p = Some v \<and> k v = Panic)"
  by (cases p) auto

lemma andThen_Blocked_iff [outcome_simps]:
  "andThen m k = Blocked s \<longleftrightarrow> m = Blocked s \<or> (\<exists>s' y. m = Return s' y \<and> k s' y = Blocked s)"
  by (cases m) auto

lemma deref_Blocked_iff [outcome_simps]:
  "deref p k = Blocked s \<longleftrightarrow> (\<exists>v. p = Some v \<and> k v = Blocked s)"
  by (cases p) auto

lemma andThen_assoc: "andThen (andThen m f) g = andThen m (\<lambda>s x. andThen (f s x) g)"
  by (cases m) auto

lemma state_after_andThen:
  "state_after (andThen m k) = Some s \<Longrightarrow>
     (\<exists>s' y. m = Return s' y \<and> state_after (k s' y) = Some s) \<or> m = Blocked s"
  by (cases m) auto

text \<open>
  An invariant of the state that a segment leaves behind wherever it stops: after returning,
  and while blocked. A panic leaves no state. The rules follow the shape of the code.
\<close>

definition keeps :: "('s \<Rightarrow> bool) \<Rightarrow> ('s, 'a) outcome \<Rightarrow> bool" where
  "keeps I m \<longleftrightarrow> (\<forall>s. state_after m = Some s \<longrightarrow> I s)"

named_theorems keeps_rules \<open>introduction rules for invariants of segments\<close>

lemma keepsD: "keeps I m \<Longrightarrow> state_after m = Some s \<Longrightarrow> I s"
  by (simp add: keeps_def)

lemma keeps_Return [keeps_rules]: "I s \<Longrightarrow> keeps I (Return s x)"
  by (simp add: keeps_def)

lemma keeps_Blocked [keeps_rules]: "I s \<Longrightarrow> keeps I (Blocked s)"
  by (simp add: keeps_def)

lemma keeps_Panic [keeps_rules]: "keeps I Panic"
  by (simp add: keeps_def)

lemma keeps_andThen [keeps_rules]:
  "keeps I m \<Longrightarrow> (\<And>s x. m = Return s x \<Longrightarrow> I s \<Longrightarrow> keeps I (k s x)) \<Longrightarrow> keeps I (andThen m k)"
  by (cases m) (simp_all add: keeps_def)

lemma keeps_deref [keeps_rules]: "(\<And>v. p = Some v \<Longrightarrow> keeps I (k v)) \<Longrightarrow> keeps I (deref p k)"
  by (cases p) (simp_all add: keeps_def)

lemma keeps_if [keeps_rules]:
  "(c \<Longrightarrow> keeps I a) \<Longrightarrow> (\<not> c \<Longrightarrow> keeps I b) \<Longrightarrow> keeps I (if c then a else b)"
  by simp

lemma keeps_option [keeps_rules]:
  "(x = None \<Longrightarrow> keeps I a) \<Longrightarrow> (\<And>v. x = Some v \<Longrightarrow> keeps I (b v)) \<Longrightarrow>
     keeps I (case x of None \<Rightarrow> a | Some v \<Rightarrow> b v)"
  by (cases x) simp_all

lemma keeps_sum [keeps_rules]:
  "(\<And>v. x = Inl v \<Longrightarrow> keeps I (a v)) \<Longrightarrow> (\<And>v. x = Inr v \<Longrightarrow> keeps I (b v)) \<Longrightarrow>
     keeps I (case x of Inl v \<Rightarrow> a v | Inr v \<Rightarrow> b v)"
  by (cases x) simp_all

lemma keeps_bool [keeps_rules]:
  "(b \<Longrightarrow> keeps I x) \<Longrightarrow> (\<not> b \<Longrightarrow> keeps I y) \<Longrightarrow> keeps I (case b of True \<Rightarrow> x | False \<Rightarrow> y)"
  by (cases b) simp_all

lemma keeps_pair [keeps_rules]:
  "(\<And>u v. x = (u, v) \<Longrightarrow> keeps I (a u v)) \<Longrightarrow> keeps I (case x of (u, v) \<Rightarrow> a u v)"
  by (cases x) simp

text \<open>What holds of state and value when a segment returns.\<close>

definition ensures :: "('s \<Rightarrow> 'a \<Rightarrow> bool) \<Rightarrow> ('s, 'a) outcome \<Rightarrow> bool" where
  "ensures Q m \<longleftrightarrow> (\<forall>s x. m = Return s x \<longrightarrow> Q s x)"

named_theorems ensures_rules \<open>introduction rules for results of segments\<close>

lemma ensuresD: "ensures Q m \<Longrightarrow> m = Return s x \<Longrightarrow> Q s x"
  by (simp add: ensures_def)

lemma ensures_Return [ensures_rules]: "Q s x \<Longrightarrow> ensures Q (Return s x)"
  by (simp add: ensures_def)

lemma ensures_stuck [ensures_rules]: "ensures Q Panic" "ensures Q (Blocked s)"
  by (simp_all add: ensures_def)

lemma ensures_andThen [ensures_rules]:
  "(\<And>s x. m = Return s x \<Longrightarrow> ensures Q (k s x)) \<Longrightarrow> ensures Q (andThen m k)"
  by (cases m) (simp_all add: ensures_def)

lemma ensures_deref [ensures_rules]: "(\<And>v. p = Some v \<Longrightarrow> ensures Q (k v)) \<Longrightarrow> ensures Q (deref p k)"
  by (cases p) (simp_all add: ensures_def)

lemma ensures_if [ensures_rules]:
  "(c \<Longrightarrow> ensures Q a) \<Longrightarrow> (\<not> c \<Longrightarrow> ensures Q b) \<Longrightarrow> ensures Q (if c then a else b)"
  by simp

lemma ensures_option [ensures_rules]:
  "(x = None \<Longrightarrow> ensures Q a) \<Longrightarrow> (\<And>v. x = Some v \<Longrightarrow> ensures Q (b v)) \<Longrightarrow>
     ensures Q (case x of None \<Rightarrow> a | Some v \<Rightarrow> b v)"
  by (cases x) simp_all

lemma ensures_sum [ensures_rules]:
  "(\<And>v. x = Inl v \<Longrightarrow> ensures Q (a v)) \<Longrightarrow> (\<And>v. x = Inr v \<Longrightarrow> ensures Q (b v)) \<Longrightarrow>
     ensures Q (case x of Inl v \<Rightarrow> a v | Inr v \<Rightarrow> b v)"
  by (cases x) simp_all

lemma ensures_pair [ensures_rules]:
  "(\<And>u v. x = (u, v) \<Longrightarrow> ensures Q (a u v)) \<Longrightarrow> ensures Q (case x of (u, v) \<Rightarrow> a u v)"
  by (cases x) simp

section \<open>Counting loops\<close>

text \<open>
  The iterations of \<open>for i := lo; i <= hi; i++\<close> over \<open>int64\<close>. When \<open>hi\<close> is the largest
  \<open>int64\<close>, \<open>i++\<close> wraps to the smallest one and the loop never ends: \<open>None\<close>.
\<close>

definition for_range :: "int64 \<Rightarrow> int64 \<Rightarrow> int64 list option" where
  "for_range lo hi = (if hi < lo then Some [] else if hi = max64 then None else Some [lo..hi])"

lemma for_range_Some: "for_range lo hi = Some is \<Longrightarrow> is = [lo..hi]"
  by (auto simp: for_range_def split: if_splits)

lemma for_range_ends: "hi < max64 \<Longrightarrow> for_range lo hi = Some [lo..hi]"
  by (simp add: for_range_def)

section \<open>Lists\<close>

text \<open>Go's \<open>s[i:]\<close> panics when \<open>i\<close> exceeds the length.\<close>

definition slice_from :: "nat \<Rightarrow> 'a list \<Rightarrow> 'a list option" where
  "slice_from i xs = (if i \<le> length xs then Some (drop i xs) else None)"

lemma length_filter_mono:
  assumes "\<And>x. x \<in> set xs \<Longrightarrow> P x \<Longrightarrow> Q x"
  shows "length (filter P xs) \<le> length (filter Q xs)"
  using assms by (induction xs) (auto intro: le_SucI)

lemma filter_idem: "filter P (filter P xs) = filter P xs"
  by simp

end
