(* ===== verification/Messages.thy ===== *)
theory Messages
  imports Prelude
begin

text \<open>
  The protobuf messages of \<open>pbft/pbft.proto\<close> and \<open>gateway/clientrpc/client.proto\<close> as the
  generated Go structs have them: one record per struct, a field per field, a pointer to a
  message as an option (nil is \<open>None\<close>; an absent submessage arrives as nil), a repeated
  field as a list. \<open>wire_*\<close> lists the numbered fields a message is marshalled from, which
  is all that \<open>proto.Marshal\<close> sees of it: field numbers and kinds, no message or field names.
\<close>

datatype wire =
    WInt int64
  | WStr string
  | WBytes bytes
  | WBool bool
  | WMsg "(nat \<times> wire) list"

type_synonym fields = "(nat \<times> wire) list"

text \<open>A nil submessage has no field on the wire; a nil message marshals as the empty one.\<close>

fun opt_field :: "nat \<Rightarrow> ('m \<Rightarrow> fields) \<Rightarrow> 'm option \<Rightarrow> fields" where
  "opt_field n w None = []"
| "opt_field n w (Some m) = [(n, WMsg (w m))]"

fun top_fields :: "('m \<Rightarrow> fields) \<Rightarrow> 'm option \<Rightarrow> fields" where
  "top_fields w None = []"
| "top_fields w (Some m) = w m"

definition rep_field :: "nat \<Rightarrow> ('m \<Rightarrow> fields) \<Rightarrow> 'm list \<Rightarrow> fields" where
  "rep_field n w ms = map (\<lambda>m. (n, WMsg (w m))) ms"

section \<open>Client requests\<close>

record Transaction =
  t_From :: string
  t_To :: string
  t_Amount :: int64
  t_ClusterFrom :: string
  t_ClusterTo :: string
  t_ClientSeq :: int64

text \<open>\<open>google.protobuf.Timestamp\<close>; the program uses \<open>Seconds\<close> only, for milliseconds.\<close>

record Timestamp =
  ts_Seconds :: int64
  ts_Nanos :: int64

record ClientRequest =
  cr_Transaction :: "Transaction option"
  cr_Timestamp :: "Timestamp option"
  cr_Signature :: bytes

record SignedClientRequest =
  scr_ClientRequest :: "ClientRequest option"
  scr_Signature :: bytes

definition wire_Transaction :: "Transaction \<Rightarrow> fields" where
  "wire_Transaction t =
     [(1, WStr (t_From t)), (2, WStr (t_To t)), (3, WInt (t_Amount t)),
      (4, WStr (t_ClusterFrom t)), (5, WStr (t_ClusterTo t)), (6, WInt (t_ClientSeq t))]"

definition wire_Timestamp :: "Timestamp \<Rightarrow> fields" where
  "wire_Timestamp t = [(1, WInt (ts_Seconds t)), (2, WInt (ts_Nanos t))]"

definition wire_ClientRequest :: "ClientRequest \<Rightarrow> fields" where
  "wire_ClientRequest r =
     opt_field 1 wire_Transaction (cr_Transaction r) @
     opt_field 2 wire_Timestamp (cr_Timestamp r) @ [(3, WBytes (cr_Signature r))]"

definition wire_SignedClientRequest :: "SignedClientRequest \<Rightarrow> fields" where
  "wire_SignedClientRequest r =
     opt_field 1 wire_ClientRequest (scr_ClientRequest r) @ [(2, WBytes (scr_Signature r))]"

section \<open>The three phases\<close>

record PrePrepare =
  pp_View :: int64
  pp_Sequence :: int64
  pp_Digest :: string
  pp_Status :: string
  pp_Wal :: "(string \<times> string) list"
  pp_Locks :: "string list"

record PrePrepareRequest =
  ppr_PrePrepare :: "PrePrepare option"
  ppr_Signature :: bytes
  ppr_ClientReq :: "SignedClientRequest option"

record Prepare =
  p_View :: int64
  p_Sequence :: int64
  p_Digest :: string
  p_NodeId :: string

record PrepareRequest =
  pr_Prepare :: "Prepare option"
  pr_Signature :: bytes

record Commit =
  c_View :: int64
  c_Sequence :: int64
  c_Digest :: string
  c_NodeId :: string

record CommitRequest =
  cmr_Commit :: "Commit option"
  cmr_Signature :: bytes

definition wire_PrePrepare :: "PrePrepare \<Rightarrow> fields" where
  "wire_PrePrepare p =
     [(1, WInt (pp_View p)), (2, WInt (pp_Sequence p)), (3, WStr (pp_Digest p)),
      (4, WStr (pp_Status p))] @
     map (\<lambda>(k, v). (5, WMsg [(1, WStr k), (2, WStr v)])) (pp_Wal p) @
     map (\<lambda>l. (6, WStr l)) (pp_Locks p)"

definition wire_PrePrepareRequest :: "PrePrepareRequest \<Rightarrow> fields" where
  "wire_PrePrepareRequest r =
     opt_field 1 wire_PrePrepare (ppr_PrePrepare r) @ [(2, WBytes (ppr_Signature r))] @
     opt_field 3 wire_SignedClientRequest (ppr_ClientReq r)"

definition wire_Prepare :: "Prepare \<Rightarrow> fields" where
  "wire_Prepare p =
     [(1, WInt (p_View p)), (2, WInt (p_Sequence p)), (3, WStr (p_Digest p)),
      (4, WStr (p_NodeId p))]"

definition wire_PrepareRequest :: "PrepareRequest \<Rightarrow> fields" where
  "wire_PrepareRequest r =
     opt_field 1 wire_Prepare (pr_Prepare r) @ [(2, WBytes (pr_Signature r))]"

definition wire_Commit :: "Commit \<Rightarrow> fields" where
  "wire_Commit c =
     [(1, WInt (c_View c)), (2, WInt (c_Sequence c)), (3, WStr (c_Digest c)),
      (4, WStr (c_NodeId c))]"

definition wire_CommitRequest :: "CommitRequest \<Rightarrow> fields" where
  "wire_CommitRequest r =
     opt_field 1 wire_Commit (cmr_Commit r) @ [(2, WBytes (cmr_Signature r))]"

section \<open>Checkpoints and view changes\<close>

record Checkpoint =
  cp_Sequence :: int64
  cp_Digest :: string
  cp_NodeId :: string

record SignedCheckpointRequest =
  scp_Checkpoint :: "Checkpoint option"
  scp_Signature :: bytes

record PreparedMessages =
  pm_PrePrepare :: "PrePrepareRequest option"
  pm_Certs :: "PrepareRequest list"

record BalanceStruct =
  bs_Client :: string
  bs_Amount :: int64

record BalanceStructList =
  bsl_BalanceMap :: "BalanceStruct list"

record ViewChangeRequest =
  vc_View :: int64
  vc_LastStableCheckpoint :: int64
  vc_CheckpointCerts :: "SignedCheckpointRequest list"
  vc_Prepared :: "PreparedMessages list"
  vc_NodeId :: string
  vc_State :: "BalanceStructList option"

record SignedViewChangeRequest =
  svc_ViewChangeRequest :: "ViewChangeRequest option"
  svc_Signature :: bytes

record NewViewRequest =
  nv_View :: int64
  nv_ViewChangeCerts :: "SignedViewChangeRequest list"
  nv_Prepared :: "PrePrepareRequest list"
  nv_State :: "BalanceStructList option"
  nv_LatestStableCheckpoint :: int64
  nv_CheckpointCerts :: "SignedCheckpointRequest list"

record SignedNewViewRequest =
  snv_NewView :: "NewViewRequest option"
  snv_Signature :: bytes

definition wire_Checkpoint :: "Checkpoint \<Rightarrow> fields" where
  "wire_Checkpoint c =
     [(1, WInt (cp_Sequence c)), (2, WStr (cp_Digest c)), (3, WStr (cp_NodeId c))]"

definition wire_SignedCheckpointRequest :: "SignedCheckpointRequest \<Rightarrow> fields" where
  "wire_SignedCheckpointRequest r =
     opt_field 1 wire_Checkpoint (scp_Checkpoint r) @ [(2, WBytes (scp_Signature r))]"

definition wire_PreparedMessages :: "PreparedMessages \<Rightarrow> fields" where
  "wire_PreparedMessages m =
     opt_field 1 wire_PrePrepareRequest (pm_PrePrepare m) @
     rep_field 2 wire_PrepareRequest (pm_Certs m)"

definition wire_BalanceStruct :: "BalanceStruct \<Rightarrow> fields" where
  "wire_BalanceStruct b = [(1, WStr (bs_Client b)), (2, WInt (bs_Amount b))]"

definition wire_BalanceStructList :: "BalanceStructList \<Rightarrow> fields" where
  "wire_BalanceStructList b = rep_field 1 wire_BalanceStruct (bsl_BalanceMap b)"

definition wire_ViewChangeRequest :: "ViewChangeRequest \<Rightarrow> fields" where
  "wire_ViewChangeRequest r =
     [(1, WInt (vc_View r)), (2, WInt (vc_LastStableCheckpoint r))] @
     rep_field 3 wire_SignedCheckpointRequest (vc_CheckpointCerts r) @
     rep_field 4 wire_PreparedMessages (vc_Prepared r) @
     [(5, WStr (vc_NodeId r))] @ opt_field 6 wire_BalanceStructList (vc_State r)"

definition wire_SignedViewChangeRequest :: "SignedViewChangeRequest \<Rightarrow> fields" where
  "wire_SignedViewChangeRequest r =
     opt_field 1 wire_ViewChangeRequest (svc_ViewChangeRequest r) @
     [(2, WBytes (svc_Signature r))]"

definition wire_NewViewRequest :: "NewViewRequest \<Rightarrow> fields" where
  "wire_NewViewRequest r =
     [(1, WInt (nv_View r))] @
     rep_field 2 wire_SignedViewChangeRequest (nv_ViewChangeCerts r) @
     rep_field 3 wire_PrePrepareRequest (nv_Prepared r) @
     opt_field 4 wire_BalanceStructList (nv_State r) @
     [(5, WInt (nv_LatestStableCheckpoint r))] @
     rep_field 6 wire_SignedCheckpointRequest (nv_CheckpointCerts r)"

section \<open>Two-phase commit, replies and queries\<close>

record PCPrepareReq =
  pcr_SignedClientReq :: "SignedClientRequest option"
  pcr_Commits :: "CommitRequest list"
  pcr_NodeId :: string

record PCReply =
  pcy_Success :: bool
  pcy_Cluster :: string
  pcy_NodeId :: string

record DatastoreData =
  dd_Seq :: int64
  dd_Transaction :: "Transaction option"
  dd_Status :: string

record Reply =
  r_View :: int64
  r_Timestamp :: "Timestamp option"
  r_Server :: string
  r_Result :: bool
  r_Clientseq :: int64

record SignedReply =
  sr_Reply :: "Reply option"
  sr_Signature :: bytes

definition wire_Reply :: "Reply \<Rightarrow> fields" where
  "wire_Reply r =
     [(1, WInt (r_View r))] @ opt_field 2 wire_Timestamp (r_Timestamp r) @
     [(3, WStr (r_Server r)), (4, WBool (r_Result r)), (5, WInt (r_Clientseq r))]"

section \<open>Following pointers into a client request\<close>

text \<open>\<open>r.ClientRequest.Transaction\<close> and \<open>r.ClientRequest.Timestamp.Seconds\<close>: each dot can panic.\<close>

definition with_tx ::
  "SignedClientRequest \<Rightarrow> (Transaction \<Rightarrow> ('s, 'a) outcome) \<Rightarrow> ('s, 'a) outcome" where
  "with_tx r k = deref (scr_ClientRequest r) (\<lambda>cr. deref (cr_Transaction cr) k)"

definition with_seconds ::
  "SignedClientRequest \<Rightarrow> (int64 \<Rightarrow> ('s, 'a) outcome) \<Rightarrow> ('s, 'a) outcome" where
  "with_seconds r k =
     deref (scr_ClientRequest r) (\<lambda>cr. deref (cr_Timestamp cr) (\<lambda>ts. k (ts_Seconds ts)))"

definition tx_of :: "SignedClientRequest \<Rightarrow> Transaction option" where
  "tx_of r = Option.bind (scr_ClientRequest r) cr_Transaction"

definition seconds_of :: "SignedClientRequest \<Rightarrow> int64 option" where
  "seconds_of r = map_option ts_Seconds (Option.bind (scr_ClientRequest r) cr_Timestamp)"

text \<open>A request with no nil pointer on the paths the program follows.\<close>

definition complete_request :: "SignedClientRequest \<Rightarrow> bool" where
  "complete_request r \<longleftrightarrow> tx_of r \<noteq> None \<and> seconds_of r \<noteq> None"

lemma with_tx_eq [outcome_simps]: "with_tx r k = deref (tx_of r) k"
  by (cases "scr_ClientRequest r") (simp_all add: with_tx_def tx_of_def)

lemma with_seconds_eq [outcome_simps]: "with_seconds r k = deref (seconds_of r) k"
  by (cases "scr_ClientRequest r"; cases "Option.bind (scr_ClientRequest r) cr_Timestamp")
    (simp_all add: with_seconds_def seconds_of_def)

lemma wire_Prepare_Commit:
  "wire_Prepare \<lparr>p_View = v, p_Sequence = n, p_Digest = d, p_NodeId = i\<rparr>
   = wire_Commit \<lparr>c_View = v, c_Sequence = n, c_Digest = d, c_NodeId = i\<rparr>"
  by (simp add: wire_Prepare_def wire_Commit_def)

end
