(* ===== verification/Strconv.thy ===== *)
theory Strconv
  imports Prelude
begin

text \<open>
  The decimal conversions of Go's \<open>strconv\<close> that the program stores its balances, keys and
  names with: \<open>FormatInt(i, 10)\<close>, \<open>ParseInt(s, 10, 64)\<close> and \<open>Atoi\<close>, with their errors.
  The program drops the error of \<open>ParseInt\<close> everywhere, so the value returned beside an
  error matters and is modelled too (0 on a syntax error, the nearest bound on overflow).
\<close>

section \<open>Formatting\<close>

definition digit_char :: "nat \<Rightarrow> char" where
  "digit_char d = char_of (48 + d)"

fun format_nat :: "nat \<Rightarrow> string" where
  "format_nat n =
     (if n < 10 then [digit_char n] else format_nat (n div 10) @ [digit_char (n mod 10)])"

declare format_nat.simps [simp del]

definition FormatInt :: "int64 \<Rightarrow> string" where
  "FormatInt i = (if i < 0 then CHR ''-'' # format_nat (nat (- i)) else format_nat (nat i))"

section \<open>Parsing\<close>

datatype num_error = ErrSyntax | ErrRange

definition digit_val :: "char \<Rightarrow> nat option" where
  "digit_val c =
     (let n = of_char c in if 48 \<le> n \<and> n \<le> 57 then Some (n - 48) else None)"

definition max_uint64 :: nat where "max_uint64 = 18446744073709551615"

text \<open>
  The loop of \<open>ParseUint\<close>: it stops at the first character that is not a digit, and at the
  first digit that takes the value past 64 bits, whichever comes first.
\<close>

fun parse_uint_loop :: "nat \<Rightarrow> string \<Rightarrow> num_error + nat" where
  "parse_uint_loop n [] = Inr n"
| "parse_uint_loop n (c # cs) =
     (case digit_val c of
        None \<Rightarrow> Inl ErrSyntax
      | Some d \<Rightarrow> if n * 10 + d > max_uint64 then Inl ErrRange
                  else parse_uint_loop (n * 10 + d) cs)"

definition ParseUint :: "string \<Rightarrow> num_error + nat" where
  "ParseUint s = (if s = [] then Inl ErrSyntax else parse_uint_loop 0 s)"

definition sign_of :: "string \<Rightarrow> bool \<times> string" where
  "sign_of s = (case s of
      [] \<Rightarrow> (False, [])
    | c # cs \<Rightarrow> if c = CHR ''+'' then (False, cs) else if c = CHR ''-'' then (True, cs)
                else (False, s))"

definition clamp_int64 :: "bool \<Rightarrow> nat \<Rightarrow> int64 \<times> num_error option" where
  "clamp_int64 neg un =
     (if \<not> neg \<and> int un > max64 then (max64, Some ErrRange)
      else if neg \<and> - int un < min64 then (min64, Some ErrRange)
      else (if neg then - int un else int un, None))"

definition ParseInt :: "string \<Rightarrow> int64 \<times> num_error option" where
  "ParseInt s =
     (if s = [] then (0, Some ErrSyntax)
      else let (neg, ds) = sign_of s in
        case ParseUint ds of
          Inl ErrSyntax \<Rightarrow> (0, Some ErrSyntax)
        | Inl ErrRange \<Rightarrow> (if neg then min64 else max64, Some ErrRange)
        | Inr un \<Rightarrow> clamp_int64 neg un)"

text \<open>\<open>v, _ := strconv.ParseInt(s, 10, 64)\<close>, as the program writes it.\<close>

definition parse_ignoring_error :: "string \<Rightarrow> int64" where
  "parse_ignoring_error s = fst (ParseInt s)"

section \<open>Parsing what was formatted\<close>

lemma digit_val_digit_char [simp]: "d < 10 \<Longrightarrow> digit_val (digit_char d) = Some d"
  by (simp add: digit_val_def digit_char_def Let_def of_char_of take_bit_eq_mod)

lemma format_nat_nonempty [simp]: "format_nat n \<noteq> []"
  by (subst format_nat.simps) simp

lemma format_nat_digits: "c \<in> set (format_nat n) \<Longrightarrow> digit_val c \<noteq> None"
proof (induction n rule: format_nat.induct)
  case (1 n)
  show ?case
  proof (cases "n < 10")
    case True
    with 1(2) show ?thesis by (subst (asm) format_nat.simps) simp
  next
    case False
    with 1(2) have "c \<in> set (format_nat (n div 10)) \<or> c = digit_char (n mod 10)"
      by (subst (asm) format_nat.simps) auto
    with 1(1) False show ?thesis by auto
  qed
qed

lemma parse_uint_loop_append:
  "parse_uint_loop m (xs @ ys) =
     (case parse_uint_loop m xs of Inl e \<Rightarrow> Inl e | Inr v \<Rightarrow> parse_uint_loop v ys)"
  by (induction xs arbitrary: m) (auto split: option.splits)

lemma parse_format_nat: "n \<le> max_uint64 \<Longrightarrow> parse_uint_loop 0 (format_nat n) = Inr n"
proof (induction n rule: format_nat.induct)
  case (1 n)
  show ?case
  proof (cases "n < 10")
    case True
    with 1(2) show ?thesis by (subst format_nat.simps) simp
  next
    case False
    have small: "n div 10 \<le> max_uint64" using 1(2) by (meson div_le_dividend le_trans)
    have "parse_uint_loop 0 (format_nat n)
        = parse_uint_loop (n div 10) [digit_char (n mod 10)]"
      using False 1(1)[OF False small]
      by (subst format_nat.simps) (simp add: parse_uint_loop_append)
    also have "\<dots> = Inr n" using 1(2) by simp
    finally show ?thesis .
  qed
qed

lemma ParseUint_format_nat: "n \<le> max_uint64 \<Longrightarrow> ParseUint (format_nat n) = Inr n"
  by (simp add: ParseUint_def parse_format_nat)

lemma sign_of_format_nat: "sign_of (format_nat n) = (False, format_nat n)"
proof (cases "format_nat n")
  case Nil
  then show ?thesis by simp
next
  case (Cons c cs)
  then have "digit_val c \<noteq> None" using format_nat_digits [of c n] by simp
  then have "c \<noteq> CHR ''+'' \<and> c \<noteq> CHR ''-''"
    by (auto simp: digit_val_def Let_def split: if_splits)
  with Cons show ?thesis by (simp add: sign_of_def)
qed

lemma sign_of_minus: "sign_of (CHR ''-'' # s) = (True, s)"
  by (simp add: sign_of_def)

lemma ParseInt_FormatInt: "in64 i \<Longrightarrow> ParseInt (FormatInt i) = (i, None)"
proof (cases "i < 0")
  case True
  assume "in64 i"
  with True have "nat (- i) \<le> max_uint64"
    by (simp add: in64_def min64_def max64_def max_uint64_def)
  with True \<open>in64 i\<close> show ?thesis
    by (simp add: FormatInt_def ParseInt_def sign_of_minus ParseUint_format_nat
        clamp_int64_def in64_def min64_def)
next
  case False
  assume "in64 i"
  with False have "nat i \<le> max_uint64"
    by (simp add: in64_def min64_def max64_def max_uint64_def)
  with False \<open>in64 i\<close> show ?thesis
    by (simp add: FormatInt_def ParseInt_def sign_of_format_nat ParseUint_format_nat
        clamp_int64_def in64_def max64_def)
qed

lemma parse_format [simp]: "in64 i \<Longrightarrow> parse_ignoring_error (FormatInt i) = i"
  by (simp add: parse_ignoring_error_def ParseInt_FormatInt)

lemma FormatInt_nonempty [simp]: "FormatInt i \<noteq> []"
  by (simp add: FormatInt_def)

lemma FormatInt_inj: "in64 i \<Longrightarrow> in64 j \<Longrightarrow> FormatInt i = FormatInt j \<longleftrightarrow> i = j"
  by (metis parse_format)

lemma ParseInt_in64: "in64 (fst (ParseInt s))"
  by (auto simp: ParseInt_def clamp_int64_def in64_def min64_def max64_def Let_def
      split: sum.splits num_error.splits prod.splits)

lemma parse_in64 [simp]: "in64 (parse_ignoring_error s)"
  by (simp add: parse_ignoring_error_def ParseInt_in64)

lemma length_format_nat: "n < 10 ^ Suc k \<Longrightarrow> length (format_nat n) \<le> Suc k"
proof (induction k arbitrary: n)
  case 0
  then show ?case by (subst format_nat.simps) simp
next
  case (Suc k)
  show ?case
  proof (cases "n < 10")
    case True
    then show ?thesis by (subst format_nat.simps) simp
  next
    case False
    have "n div 10 < 10 ^ Suc k" using Suc.prems by simp
    then have "length (format_nat (n div 10)) \<le> Suc k" by (rule Suc.IH)
    with False show ?thesis by (subst format_nat.simps) simp
  qed
qed

lemma length_FormatInt: "in64 i \<Longrightarrow> length (FormatInt i) \<le> 20"
proof -
  assume "in64 i"
  then have "\<bar>i\<bar> < 10 ^ 19"
    by (simp add: in64_def min64_def max64_def abs_less_iff)
  then have "nat \<bar>i\<bar> < 10 ^ Suc 18" by (simp add: nat_less_iff)
  then have "length (format_nat (nat \<bar>i\<bar>)) \<le> Suc 18" by (rule length_format_nat)
  then show ?thesis by (auto simp: FormatInt_def)
qed

section \<open>Big-endian keys\<close>

text \<open>\<open>binary.BigEndian.PutUint64\<close> and \<open>Uint64\<close>; the latter reads eight bytes and panics on fewer.\<close>

definition itob :: "64 word \<Rightarrow> bytes" where
  "itob v = map (\<lambda>k. char_of (unat v div 256 ^ k mod 256)) [7, 6, 5, 4, 3, 2, 1, 0]"

definition Btoi :: "bytes \<Rightarrow> 64 word option" where
  "Btoi bs = (if length bs < 8 then None
     else Some (word_of_nat (foldl (\<lambda>a c. a * 256 + of_char c) 0 (take 8 bs))))"

lemma div_pow_step: "(n::nat) div 256 ^ Suc k * 256 + n div 256 ^ k mod 256 = n div 256 ^ k"
proof -
  have "n div 256 ^ Suc k = n div 256 ^ k div 256"
    by (simp only: power_Suc2 div_mult2_eq)
  then show ?thesis by simp
qed

lemma base256_digits:
  "foldl (\<lambda>a k. a * 256 + n div 256 ^ k mod 256) (n div 256 ^ m) (rev [0..<m]) = (n::nat)"
proof (induction m)
  case 0
  show ?case by simp
next
  case (Suc m)
  have "rev [0..<Suc m] = m # rev [0..<m]" by simp
  with Suc div_pow_step [of n m] show ?case by simp
qed

lemma of_char_byte [simp]: "(of_char (char_of (n mod 256 :: nat)) :: nat) = n mod 256"
  by (simp add: of_char_of)

lemma itob_length [simp]: "length (itob v) = 8"
  by (simp add: itob_def)

lemma Btoi_itob_nat:
  "foldl (\<lambda>a c. a * 256 + of_char c) 0 (itob v) = unat v"
proof -
  let ?n = "unat v"
  have "?n < 256 ^ 8" using unsigned_less [of v, where ?'a = nat] by simp
  then have start: "?n div 256 ^ 8 = 0" by simp
  have "[7, 6, 5, 4, 3, 2, 1, 0] = rev [0..<8::nat]" by (simp add: upt_rec)
  then have "foldl (\<lambda>a c. a * 256 + of_char c) 0 (itob v)
      = foldl (\<lambda>a k. a * 256 + ?n div 256 ^ k mod 256) 0 (rev [0..<8])"
    by (simp only: itob_def foldl_map of_char_byte)
  with start base256_digits [of ?n 8] show ?thesis by simp
qed

lemma Btoi_itob: "Btoi (itob v) = Some v"
  by (simp add: Btoi_def Btoi_itob_nat)

end
