(* ===== verification/Externals.thy ===== *)
theory Externals
  imports Messages Strconv "HOL-Library.List_Lexorder" "HOL-Library.Char_ord"
begin

text \<open>
  What the program calls and the repository does not define, as one record of functions
  that every operation takes as its first argument: the protobuf and JSON encoders, the
  hash and RSA primitives, and the bbolt key/value store. What the code relies on is stated
  as separate predicates (\<open>crypto_ok\<close>, \<open>json_ok\<close>, \<open>bolt_ok\<close>), hypotheses of the theorems that
  need them. On top of the record stand the three functions of \<open>cryptox/crypto.go\<close> that
  the protocol uses.
\<close>

section \<open>Keys and JSON documents\<close>

datatype PublicKey = PublicKey (pk_N: int) (pk_E: int)

datatype PrivateKey = PrivateKey (sk_Public: PublicKey) (sk_D: int)

record WALLog =
  wl_Operation :: string
  wl_Subject :: string
  wl_Transaction :: "Transaction option"

text \<open>\<open>WALEntry\<close> has the single field \<open>Logs\<close>.\<close>

record WALEntry =
  Logs :: "WALLog list"

text \<open>\<open>db.DBUnit\<close>, the row of the transactions bucket (\<open>node.DBUnit\<close> is another type).\<close>

record db_DBUnit =
  du_Seq :: int64
  du_Transaction :: "Transaction option"
  du_Status :: string

datatype json_obj =
    JClientReq "SignedClientRequest option"
  | JBalances "(string \<times> int64) list"
  | JWALEntry WALEntry
  | JDBUnit db_DBUnit

section \<open>The external functions\<close>

text \<open>
  \<open>'b\<close> is the type of a bbolt bucket. \<open>bkt_put\<close> fails (\<open>None\<close>) where \<open>Bucket.Put\<close> returns an
  error; \<open>bkt_next\<close> is \<open>NextSequence\<close>; \<open>bkt_list\<close> is what a cursor walks from \<open>First\<close> by
  \<open>Next\<close>. Encoders that return an error are \<open>None\<close>.
\<close>

record 'b env =
  proto_marshal :: "fields \<Rightarrow> bytes option"
  json_marshal :: "json_obj \<Rightarrow> bytes option"
  wal_unmarshal :: "bytes \<Rightarrow> WALEntry option"
  unit_unmarshal :: "bytes \<Rightarrow> db_DBUnit option"
  sha256_sum :: "bytes \<Rightarrow> bytes"
  md5_sum :: "bytes \<Rightarrow> bytes"
  rsa_sign :: "PrivateKey \<Rightarrow> bytes \<Rightarrow> bytes option"
  rsa_verify :: "PublicKey \<Rightarrow> bytes \<Rightarrow> bytes \<Rightarrow> bool"
  bkt_empty :: 'b
  bkt_get :: "'b \<Rightarrow> bytes \<Rightarrow> bytes option"
  bkt_put :: "'b \<Rightarrow> bytes \<Rightarrow> bytes \<Rightarrow> 'b option"
  bkt_delete :: "'b \<Rightarrow> bytes \<Rightarrow> 'b"
  bkt_list :: "'b \<Rightarrow> (bytes \<times> bytes) list"
  bkt_sequence :: "'b \<Rightarrow> 64 word"
  bkt_next :: "'b \<Rightarrow> 64 word \<times> 'b"

text \<open>A signature made with a private key verifies under its public key.\<close>

definition crypto_ok :: "'b env \<Rightarrow> bool" where
  "crypto_ok E \<longleftrightarrow>
     (\<forall>sk h sg. rsa_sign E sk h = Some sg \<longrightarrow> rsa_verify E (sk_Public sk) h sg)"

text \<open>
  JSON text decodes to the value it was made from, for strings that are ASCII (\<open>json.Marshal\<close>
  replaces invalid UTF-8).
\<close>

definition ascii :: "string \<Rightarrow> bool" where
  "ascii s \<longleftrightarrow> list_all (\<lambda>c. (of_char c :: nat) < 128) s"

definition ascii_tx :: "Transaction \<Rightarrow> bool" where
  "ascii_tx t \<longleftrightarrow> ascii (t_From t) \<and> ascii (t_To t) \<and> ascii (t_ClusterFrom t) \<and> ascii (t_ClusterTo t)"

definition ascii_tx_opt :: "Transaction option \<Rightarrow> bool" where
  "ascii_tx_opt t = (case t of None \<Rightarrow> True | Some t \<Rightarrow> ascii_tx t)"

definition ascii_wal :: "WALEntry \<Rightarrow> bool" where
  "ascii_wal w \<longleftrightarrow>
     list_all (\<lambda>l. ascii (wl_Operation l) \<and> ascii (wl_Subject l) \<and> ascii_tx_opt (wl_Transaction l)) (Logs w)"

definition ascii_unit :: "db_DBUnit \<Rightarrow> bool" where
  "ascii_unit u \<longleftrightarrow> ascii_tx_opt (du_Transaction u) \<and> ascii (du_Status u)"

definition json_ok :: "'b env \<Rightarrow> bool" where
  "json_ok E \<longleftrightarrow>
     (\<forall>w. ascii_wal w \<longrightarrow>
        (\<exists>bs. json_marshal E (JWALEntry w) = Some bs \<and> wal_unmarshal E bs = Some w)) \<and>
     (\<forall>u. ascii_unit u \<longrightarrow>
        (\<exists>bs. json_marshal E (JDBUnit u) = Some bs \<and> unit_unmarshal E bs = Some u))"

lemma json_wal: "json_ok E \<Longrightarrow> ascii_wal w \<Longrightarrow>
    \<exists>bs. json_marshal E (JWALEntry w) = Some bs \<and> wal_unmarshal E bs = Some w"
  by (simp add: json_ok_def)

lemma json_unit: "json_ok E \<Longrightarrow> ascii_unit u \<Longrightarrow>
    \<exists>bs. json_marshal E (JDBUnit u) = Some bs \<and> unit_unmarshal E bs = Some u"
  by (simp add: json_ok_def)

text \<open>
  Whatever the strings, a pointer to a transaction that is not nil decodes as one that is not
  nil (an object, not \<open>null\<close>).
\<close>

definition json_pointers_ok :: "'b env \<Rightarrow> bool" where
  "json_pointers_ok E \<longleftrightarrow>
     (\<forall>w bs w'. json_marshal E (JWALEntry w) = Some bs \<and> wal_unmarshal E bs = Some w' \<longrightarrow>
        map (\<lambda>l. wl_Transaction l = None) (Logs w') = map (\<lambda>l. wl_Transaction l = None) (Logs w))"

text \<open>
  The documented behaviour of a bbolt bucket: a sorted map from non-empty keys (of at most
  32768 bytes, with values of at most $2^{31} - 2$) to values, and a sequence number of its own.
\<close>

definition valid_key :: "bytes \<Rightarrow> bool" where
  "valid_key k \<longleftrightarrow> k \<noteq> [] \<and> length k \<le> 32768"

lemma valid_key_FormatInt [simp]: "in64 i \<Longrightarrow> valid_key (FormatInt i)"
  using length_FormatInt [of i] by (simp add: valid_key_def)

definition bolt_ok :: "'b env \<Rightarrow> bool" where
  "bolt_ok E \<longleftrightarrow>
     (\<forall>k. bkt_get E (bkt_empty E) k = None) \<and>
     (\<forall>b k. bkt_get E b k \<noteq> None \<longrightarrow> valid_key k) \<and>
     (\<forall>b k v. valid_key k \<and> length v \<le> 2147483646 \<longrightarrow> bkt_put E b k v \<noteq> None) \<and>
     (\<forall>b k v b'. bkt_put E b k v = Some b' \<longrightarrow> valid_key k \<and>
        bkt_get E b' = (bkt_get E b)(k \<mapsto> v) \<and> bkt_sequence E b' = bkt_sequence E b) \<and>
     (\<forall>b k. bkt_get E (bkt_delete E b k) = (bkt_get E b)(k := None)) \<and>
     (\<forall>b. map_of (bkt_list E b) = bkt_get E b \<and> sorted_wrt (<) (map fst (bkt_list E b))) \<and>
     (\<forall>b. fst (bkt_next E b) = bkt_sequence E b + 1 \<and>
          bkt_get E (snd (bkt_next E b)) = bkt_get E b \<and>
          bkt_sequence E (snd (bkt_next E b)) = bkt_sequence E b + 1)"

named_theorems bolt_simps \<open>the laws of a bucket, as rewrite rules under \<open>bolt_ok\<close>\<close>

lemma bolt_get_empty [bolt_simps]: "bolt_ok E \<Longrightarrow> bkt_get E (bkt_empty E) k = None"
  by (simp add: bolt_ok_def)

lemma bolt_key: "bolt_ok E \<Longrightarrow> bkt_get E b k = Some v \<Longrightarrow> valid_key k"
  unfolding bolt_ok_def by (metis option.distinct(1))

lemma bolt_put_key: "bolt_ok E \<Longrightarrow> bkt_put E b k v = Some b' \<Longrightarrow> valid_key k"
  by (simp add: bolt_ok_def)

lemma bolt_put_ok:
  "bolt_ok E \<Longrightarrow> valid_key k \<Longrightarrow> length v \<le> 2147483646 \<Longrightarrow>
     \<exists>b'. bkt_put E b k v = Some b'"
  by (auto simp: bolt_ok_def)

lemma bolt_get_put: "bolt_ok E \<Longrightarrow> bkt_put E b k v = Some b' \<Longrightarrow> bkt_get E b' = (bkt_get E b)(k \<mapsto> v)"
  by (simp add: bolt_ok_def)

lemma bolt_get_delete [bolt_simps]:
  "bolt_ok E \<Longrightarrow> bkt_get E (bkt_delete E b k) = (bkt_get E b)(k := None)"
  by (simp add: bolt_ok_def)

lemma bolt_list [bolt_simps]: "bolt_ok E \<Longrightarrow> map_of (bkt_list E b) = bkt_get E b"
  by (simp add: bolt_ok_def)

lemma bolt_list_sorted: "bolt_ok E \<Longrightarrow> sorted_wrt (<) (map fst (bkt_list E b))"
  by (simp add: bolt_ok_def)

lemma bolt_next [bolt_simps]:
  "bolt_ok E \<Longrightarrow> fst (bkt_next E b) = bkt_sequence E b + 1"
  "bolt_ok E \<Longrightarrow> bkt_get E (snd (bkt_next E b)) = bkt_get E b"
  "bolt_ok E \<Longrightarrow> bkt_sequence E (snd (bkt_next E b)) = bkt_sequence E b + 1"
  by (simp_all add: bolt_ok_def)

section \<open>Signing, verifying, hashing\<close>

text \<open>\<open>SignMessage\<close>: marshal, hash, sign; an error of either step is returned.\<close>

definition SignMessage :: "'b env \<Rightarrow> PrivateKey \<Rightarrow> fields \<Rightarrow> bytes option" where
  "SignMessage E sk m =
     (case proto_marshal E m of
        None \<Rightarrow> None
      | Some bs \<Rightarrow> rsa_sign E sk (sha256_sum E bs))"

text \<open>\<open>signature, _ := SignMessage(...)\<close>: on an error the signature is nil.\<close>

definition signature_or_nil :: "'b env \<Rightarrow> PrivateKey \<Rightarrow> fields \<Rightarrow> bytes" where
  "signature_or_nil E sk m = (case SignMessage E sk m of None \<Rightarrow> [] | Some sg \<Rightarrow> sg)"

text \<open>
  \<open>VerifySignature\<close> returns nil (\<open>True\<close>) or an error (\<open>False\<close>). Given a nil key it panics in
  \<open>rsa.VerifyPKCS1v15\<close>, once the message has been marshalled: \<open>None\<close>.
\<close>

definition VerifySignature :: "'b env \<Rightarrow> PublicKey option \<Rightarrow> fields \<Rightarrow> bytes \<Rightarrow> bool option" where
  "VerifySignature E pk m sg =
     (case proto_marshal E m of
        None \<Rightarrow> Some False
      | Some bs \<Rightarrow>
          (case pk of
             None \<Rightarrow> None
           | Some k \<Rightarrow> Some (rsa_verify E k (sha256_sum E bs) sg)))"

definition hex_digit :: "nat \<Rightarrow> char" where
  "hex_digit d = (if d < 10 then char_of (48 + d) else char_of (87 + d))"

definition hex_encode :: "bytes \<Rightarrow> string" where
  "hex_encode bs = concat (map (\<lambda>c. [hex_digit (of_char c div 16), hex_digit (of_char c mod 16)]) bs)"

text \<open>\<open>MD5Hash\<close>: the lower-case hexadecimal MD5 of the JSON text.\<close>

definition MD5Hash :: "'b env \<Rightarrow> json_obj \<Rightarrow> string option" where
  "MD5Hash E obj =
     (case json_marshal E obj of None \<Rightarrow> None | Some bs \<Rightarrow> Some (hex_encode (md5_sum E bs)))"

text \<open>The check with a key that is there.\<close>

abbreviation verified :: "'b env \<Rightarrow> PublicKey \<Rightarrow> fields \<Rightarrow> bytes \<Rightarrow> bool" where
  "verified E pk m sg \<equiv> VerifySignature E (Some pk) m sg = Some True"

lemma VerifySignature_key: "VerifySignature E (Some pk) m sg \<noteq> None"
  by (cases "proto_marshal E m") (simp_all add: VerifySignature_def)

lemma VerifySignature_nil_key:
  "VerifySignature E None m sg = (if proto_marshal E m = None then Some False else None)"
  by (simp add: VerifySignature_def split: option.splits)

lemma SignMessage_verified:
  "crypto_ok E \<Longrightarrow> SignMessage E sk m = Some sg \<Longrightarrow> verified E (sk_Public sk) m sg"
  by (auto simp: SignMessage_def VerifySignature_def crypto_ok_def split: option.splits)

lemma verified_cong: "m = m' \<Longrightarrow> verified E pk m sg = verified E pk m' sg"
  by simp

lemma hex_encode_length: "length (hex_encode bs) = 2 * length bs"
  by (induction bs) (simp_all add: hex_encode_def)

lemma of_char_hex_digit: "a < 16 \<Longrightarrow> (of_char (hex_digit a) :: nat) = (if a < 10 then 48 + a else 87 + a)"
  by (simp add: hex_digit_def)

lemma hex_digit_inj: "a < 16 \<Longrightarrow> b < 16 \<Longrightarrow> hex_digit a = hex_digit b \<longleftrightarrow> a = b"
proof
  assume "a < 16" "b < 16" "hex_digit a = hex_digit b"
  then have "(if a < 10 then 48 + a else 87 + a) = (if b < 10 then 48 + b else 87 + b)"
    by (metis of_char_hex_digit)
  with \<open>a < 16\<close> \<open>b < 16\<close> show "a = b" by (simp split: if_splits)
qed simp

lemma hex_encode_inj: "hex_encode xs = hex_encode ys \<Longrightarrow> xs = ys"
proof (induction xs arbitrary: ys)
  case Nil
  then show ?case by (cases ys) (simp_all add: hex_encode_def)
next
  case (Cons x xs)
  then obtain y zs where ys: "ys = y # zs" by (cases ys) (simp_all add: hex_encode_def)
  from Cons.prems ys have
    d: "hex_digit (of_char x div 16) = hex_digit (of_char y div 16)"
       "hex_digit (of_char x mod 16) = hex_digit (of_char y mod 16)"
    and rest: "hex_encode xs = hex_encode zs"
    by (simp_all add: hex_encode_def)
  have small: "(of_char c :: nat) < 256" for c :: char by simp
  have "(of_char x :: nat) div 16 < 16" "(of_char y :: nat) div 16 < 16"
    using small [of x] small [of y] by (simp_all only: div_less_iff_less_mult)
  with d have "(of_char x :: nat) div 16 = of_char y div 16" "(of_char x :: nat) mod 16 = of_char y mod 16"
    by (simp_all add: hex_digit_inj)
  then have "(of_char x :: nat) = of_char y" by (metis div_mult_mod_eq)
  then have "x = y" by simp
  with Cons.IH [OF rest] ys show ?case by simp
qed

end
