(* ===== verification/Db.thy ===== *)
theory Db
  imports Externals
begin

text \<open>
  The node's durable store, \<open>db/\<close>: four buckets of a bbolt database and the operations on
  them. An operation that writes runs in one \<open>db.Update\<close> transaction, so when it returns an
  error the store is unchanged; a model function returns the store and the error (\<open>None\<close>
  for nil).
\<close>

datatype db_error =
    NotInShard string
  | PutFailed
  | AlreadyLocked
  | SerializeFailed
  | DeserializeFailed
  | NoWal int64

record 'b Database =
  balancesBucket :: 'b
  transactionsBucket :: 'b
  walBucket :: 'b
  locksBucket :: 'b

text \<open>\<open>InitDatabase\<close> on a new file: \<open>createBuckets\<close> makes the four buckets, all empty.\<close>

definition createBuckets :: "'b env \<Rightarrow> 'b Database" where
  "createBuckets E = \<lparr>balancesBucket = bkt_empty E, transactionsBucket = bkt_empty E,
     walBucket = bkt_empty E, locksBucket = bkt_empty E\<rparr>"

section \<open>Balances\<close>

definition GetBalance :: "'b env \<Rightarrow> 'b Database \<Rightarrow> string \<Rightarrow> db_error + int64" where
  "GetBalance E d client =
     (case bkt_get E (balancesBucket d) client of
        None \<Rightarrow> Inl (NotInShard client)
      | Some balance \<Rightarrow> Inr (parse_ignoring_error balance))"

definition PutBalance ::
  "'b env \<Rightarrow> 'b Database \<Rightarrow> string \<Rightarrow> int64 \<Rightarrow> 'b Database \<times> db_error option" where
  "PutBalance E d client balance =
     (case bkt_put E (balancesBucket d) client (FormatInt balance) of
        None \<Rightarrow> (d, Some PutFailed)
      | Some b \<Rightarrow> (d\<lparr>balancesBucket := b\<rparr>, None))"

text \<open>
  \<open>UpdateBalances\<close> debits \<open>From\<close> and then credits \<open>To\<close>, each only if the account is in this
  shard; the second read sees the first write. Errors of \<open>PutBalance\<close> are dropped.
\<close>

definition debit :: "'b env \<Rightarrow> Transaction \<Rightarrow> 'b Database \<Rightarrow> 'b Database" where
  "debit E t d =
     (case GetBalance E d (t_From t) of
        Inl e \<Rightarrow> d
      | Inr balanceFrom \<Rightarrow> fst (PutBalance E d (t_From t) (sub64 balanceFrom (t_Amount t))))"

definition credit :: "'b env \<Rightarrow> Transaction \<Rightarrow> 'b Database \<Rightarrow> 'b Database" where
  "credit E t d =
     (case GetBalance E d (t_To t) of
        Inl e \<Rightarrow> d
      | Inr balanceTo \<Rightarrow> fst (PutBalance E d (t_To t) (add64 balanceTo (t_Amount t))))"

definition UpdateBalances :: "'b env \<Rightarrow> 'b Database \<Rightarrow> Transaction \<Rightarrow> 'b Database" where
  "UpdateBalances E d t = credit E t (debit E t d)"

text \<open>
  \<open>InitiateBalances\<close>: one transaction that gives every client of the shard the initial
  balance; the first failing \<open>Put\<close> rolls all of it back.
\<close>

definition InitialBalance :: int64 where "InitialBalance = 10"

fun put_initial :: "'b env \<Rightarrow> int64 list \<Rightarrow> 'b \<Rightarrow> 'b option" where
  "put_initial E [] b = Some b"
| "put_initial E (i # is) b =
     (case bkt_put E b (FormatInt i) (FormatInt InitialBalance) of
        None \<Rightarrow> None
      | Some b' \<Rightarrow> put_initial E is b')"

definition InitiateBalances ::
  "'b env \<Rightarrow> 'b Database \<Rightarrow> string \<Rightarrow> string \<Rightarrow> ('b Database, db_error option) outcome" where
  "InitiateBalances E d startId endId =
     (case for_range (parse_ignoring_error startId) (parse_ignoring_error endId) of
        None \<Rightarrow> Blocked d
      | Some is \<Rightarrow>
          (case put_initial E is (balancesBucket d) of
             None \<Rightarrow> Return d (Some PutFailed)
           | Some b \<Rightarrow> Return (d\<lparr>balancesBucket := b\<rparr>) None))"

section \<open>Locks\<close>

definition lock_value :: bytes where "lock_value = ''true''"

fun delete_all :: "'b env \<Rightarrow> string list \<Rightarrow> 'b \<Rightarrow> 'b" where
  "delete_all E [] b = b"
| "delete_all E (c # cs) b = delete_all E cs (bkt_delete E b c)"

definition ReleaseLocksDB :: "'b env \<Rightarrow> 'b Database \<Rightarrow> string list \<Rightarrow> 'b Database" where
  "ReleaseLocksDB E d clients = d\<lparr>locksBucket := delete_all E clients (locksBucket d)\<rparr>"

text \<open>The errors of \<open>Put\<close> are dropped: a key bbolt refuses is not locked, and nobody is told.\<close>

fun put_locks :: "'b env \<Rightarrow> string list \<Rightarrow> 'b \<Rightarrow> 'b" where
  "put_locks E [] b = b"
| "put_locks E (c # cs) b =
     put_locks E cs (case bkt_put E b c lock_value of None \<Rightarrow> b | Some b' \<Rightarrow> b')"

definition GetLocksDB :: "'b env \<Rightarrow> 'b Database \<Rightarrow> string list \<Rightarrow> 'b Database" where
  "GetLocksDB E d clients = d\<lparr>locksBucket := put_locks E clients (locksBucket d)\<rparr>"

definition locked :: "'b env \<Rightarrow> 'b Database \<Rightarrow> string \<Rightarrow> bool" where
  "locked E d client \<longleftrightarrow> bkt_get E (locksBucket d) client \<noteq> None"

fun CheckLocksDB :: "'b env \<Rightarrow> 'b Database \<Rightarrow> string list \<Rightarrow> db_error option" where
  "CheckLocksDB E d [] = None"
| "CheckLocksDB E d (c # cs) =
     (if locked E d c then Some AlreadyLocked else CheckLocksDB E d cs)"

text \<open>
  \<open>CheckAndGetLocks\<close>; a Byzantine node checks the locks but does not take them. (The
  sequence number the source passes is only logged.)
\<close>

definition CheckAndGetLocks ::
  "'b env \<Rightarrow> 'b Database \<Rightarrow> string list \<Rightarrow> bool \<Rightarrow> 'b Database \<times> db_error option" where
  "CheckAndGetLocks E d clients byz =
     (case CheckLocksDB E d clients of
        Some err \<Rightarrow> (d, Some AlreadyLocked)
      | None \<Rightarrow> (if \<not> byz then (GetLocksDB E d clients, None) else (d, None)))"

text \<open>\<open>CatchUpLockMap\<close> replaces the locks by the keys of a map (its values are not read).\<close>

definition CatchUpLockMap :: "'b env \<Rightarrow> 'b Database \<Rightarrow> (string \<times> bool) list \<Rightarrow> 'b Database" where
  "CatchUpLockMap E d lockMap =
     d\<lparr>locksBucket := put_locks E (map fst lockMap) (bkt_empty E)\<rparr>"

definition GetAllLocks :: "'b env \<Rightarrow> 'b Database \<Rightarrow> string list" where
  "GetAllLocks E d = map fst (bkt_list E (locksBucket d))"

section \<open>Write-ahead log\<close>

definition AppendToWALEntry ::
  "'b env \<Rightarrow> 'b Database \<Rightarrow> int64 \<Rightarrow> WALLog list \<Rightarrow> 'b Database \<times> db_error option" where
  "AppendToWALEntry E d clientSeq newLogs =
     (case (case bkt_get E (walBucket d) (FormatInt clientSeq) of
              None \<Rightarrow> Some \<lparr>Logs = []\<rparr>
            | Some data \<Rightarrow> wal_unmarshal E data) of
        None \<Rightarrow> (d, Some DeserializeFailed)
      | Some currentEntry \<Rightarrow>
          (case json_marshal E (JWALEntry (currentEntry\<lparr>Logs := Logs currentEntry @ newLogs\<rparr>)) of
             None \<Rightarrow> (d, Some SerializeFailed)
           | Some updatedData \<Rightarrow>
               (case bkt_put E (walBucket d) (FormatInt clientSeq) updatedData of
                  None \<Rightarrow> (d, Some PutFailed)
                | Some b \<Rightarrow> (d\<lparr>walBucket := b\<rparr>, None))))"

definition ReadWALEntry :: "'b env \<Rightarrow> 'b Database \<Rightarrow> int64 \<Rightarrow> db_error + WALEntry" where
  "ReadWALEntry E d clientSeq =
     (case bkt_get E (walBucket d) (FormatInt clientSeq) of
        None \<Rightarrow> Inl (NoWal clientSeq)
      | Some data \<Rightarrow>
          (case wal_unmarshal E data of None \<Rightarrow> Inl DeserializeFailed | Some entry \<Rightarrow> Inr entry))"

definition EraseWal :: "'b env \<Rightarrow> 'b Database \<Rightarrow> int64 \<Rightarrow> 'b Database" where
  "EraseWal E d clientSeq = d\<lparr>walBucket := bkt_delete E (walBucket d) (FormatInt clientSeq)\<rparr>"

text \<open>\<open>GetWalCopy\<close> skips the entries it cannot decode.\<close>

definition GetWalCopy :: "'b env \<Rightarrow> 'b Database \<Rightarrow> (string \<times> string) list" where
  "GetWalCopy E d = filter (\<lambda>(k, v). wal_unmarshal E v \<noteq> None) (bkt_list E (walBucket d))"

section \<open>Transaction blocks\<close>

definition serializeDBUnit ::
  "'b env \<Rightarrow> int64 \<Rightarrow> Transaction option \<Rightarrow> string \<Rightarrow> bytes option" where
  "serializeDBUnit E seq t status =
     json_marshal E (JDBUnit \<lparr>du_Seq = seq, du_Transaction = t, du_Status = status\<rparr>)"

definition deserializeDBUnit :: "'b env \<Rightarrow> bytes \<Rightarrow> db_DBUnit option" where
  "deserializeDBUnit E bs = unit_unmarshal E bs"

definition SaveTransactionToDBBytes ::
  "'b env \<Rightarrow> 'b Database \<Rightarrow> bytes \<Rightarrow> 'b Database \<times> db_error option" where
  "SaveTransactionToDBBytes E d bs =
     (let (id, b) = bkt_next E (transactionsBucket d) in
      case bkt_put E b (itob id) bs of
        None \<Rightarrow> (d, Some PutFailed)
      | Some b' \<Rightarrow> (d\<lparr>transactionsBucket := b'\<rparr>, None))"

definition SaveTransactionToDB ::
  "'b env \<Rightarrow> 'b Database \<Rightarrow> int64 \<Rightarrow> Transaction option \<Rightarrow> string
     \<Rightarrow> 'b Database \<times> (db_error + bytes)" where
  "SaveTransactionToDB E d seq t status =
     (case serializeDBUnit E seq t status of
        None \<Rightarrow> (d, Inl SerializeFailed)
      | Some bs \<Rightarrow>
          (let (id, b) = bkt_next E (transactionsBucket d) in
           case bkt_put E b (itob id) bs of
             None \<Rightarrow> (d, Inl PutFailed)
           | Some b' \<Rightarrow> (d\<lparr>transactionsBucket := b'\<rparr>, Inr bs)))"

fun decode_blocks :: "'b env \<Rightarrow> (bytes \<times> bytes) list \<Rightarrow> db_DBUnit list" where
  "decode_blocks E [] = []"
| "decode_blocks E ((k, v) # rows) =
     (case deserializeDBUnit E v of
        None \<Rightarrow> decode_blocks E rows
      | Some u \<Rightarrow> u # decode_blocks E rows)"

definition GetAllTransactionBlocks :: "'b env \<Rightarrow> 'b Database \<Rightarrow> db_DBUnit list" where
  "GetAllTransactionBlocks E d = decode_blocks E (bkt_list E (transactionsBucket d))"

end
