(* ===== verification/DemoEnv.thy ===== *)
theory DemoEnv
  imports Externals "HOL-Library.AList" "HOL-Library.Countable"
begin

text \<open>
  One concrete set of external functions, at which the witnesses instantiate the theorems:
  a bucket is an association list with a sequence number, a message marshals to the text of
  its fields, a signature is the key's modulus followed by the hash. It satisfies
  \<open>crypto_ok\<close>, \<open>json_ok\<close> and \<open>bolt_ok\<close>, so those hypotheses can hold together.
\<close>

section \<open>Buckets\<close>

type_synonym demo_bucket = "(bytes \<times> bytes) list \<times> 64 word"

definition demo_get :: "demo_bucket \<Rightarrow> bytes \<Rightarrow> bytes option" where
  "demo_get b k = (if valid_key k then map_of (fst b) k else None)"

definition demo_put :: "demo_bucket \<Rightarrow> bytes \<Rightarrow> bytes \<Rightarrow> demo_bucket option" where
  "demo_put b k v = (if valid_key k then Some (AList.update k v (fst b), snd b) else None)"

definition demo_delete :: "demo_bucket \<Rightarrow> bytes \<Rightarrow> demo_bucket" where
  "demo_delete b k = (AList.delete k (fst b), snd b)"

definition demo_list :: "demo_bucket \<Rightarrow> (bytes \<times> bytes) list" where
  "demo_list b = sort_key fst (filter (\<lambda>(k, v). valid_key k) (AList.clearjunk (fst b)))"

definition demo_next :: "demo_bucket \<Rightarrow> 64 word \<times> demo_bucket" where
  "demo_next b = (snd b + 1, (fst b, snd b + 1))"

section \<open>Encodings\<close>

fun demo_text :: "wire \<Rightarrow> string" where
  "demo_text (WInt i) = FormatInt i @ '',''"
| "demo_text (WStr s) = s @ '',''"
| "demo_text (WBytes s) = s @ '',''"
| "demo_text (WBool b) = (if b then ''t,'' else ''f,'')"
| "demo_text (WMsg fs) = ''('' @ concat (map (\<lambda>(n, w). demo_text w) fs) @ '')''"

definition demo_marshal :: "fields \<Rightarrow> bytes option" where
  "demo_marshal fs = Some (demo_text (WMsg fs))"

text \<open>Documents of the store are written in unary, so that they can be read back.\<close>

instance Transaction_ext :: (countable) countable
  by (rule countable_classI [of "\<lambda>t. to_nat (t_From t, t_To t, t_Amount t, t_ClusterFrom t,
        t_ClusterTo t, t_ClientSeq t, Transaction.more t)"]) auto

instance WALLog_ext :: (countable) countable
  by (rule countable_classI [of "\<lambda>l. to_nat (wl_Operation l, wl_Subject l, wl_Transaction l,
        WALLog.more l)"]) auto

instance WALEntry_ext :: (countable) countable
  by (rule countable_classI [of "\<lambda>w. to_nat (Logs w, WALEntry.more w)"]) auto

instance db_DBUnit_ext :: (countable) countable
  by (rule countable_classI [of "\<lambda>u. to_nat (du_Seq u, du_Transaction u, du_Status u,
        db_DBUnit.more u)"]) auto

definition demo_json :: "json_obj \<Rightarrow> bytes option" where
  "demo_json obj = (case obj of
       JClientReq r \<Rightarrow> Some (demo_text (WMsg (top_fields wire_SignedClientRequest r)))
     | JBalances bs \<Rightarrow> Some (concat (map (\<lambda>(c, n). c @ '':'' @ FormatInt n @ '','') bs))
     | JWALEntry w \<Rightarrow> Some (replicate (to_nat w) CHR ''w'')
     | JDBUnit u \<Rightarrow> Some (replicate (to_nat u) CHR ''u''))"

definition demo_wal_read :: "bytes \<Rightarrow> WALEntry option" where
  "demo_wal_read bs = Some (from_nat (length bs))"

definition demo_unit_read :: "bytes \<Rightarrow> db_DBUnit option" where
  "demo_unit_read bs = Some (from_nat (length bs))"

section \<open>Signatures\<close>

definition demo_sign :: "PrivateKey \<Rightarrow> bytes \<Rightarrow> bytes option" where
  "demo_sign sk h = Some (FormatInt (pk_N (sk_Public sk)) @ '':'' @ h)"

definition demo_verify :: "PublicKey \<Rightarrow> bytes \<Rightarrow> bytes \<Rightarrow> bool" where
  "demo_verify pk h sg \<longleftrightarrow> sg = FormatInt (pk_N pk) @ '':'' @ h"

section \<open>The environment\<close>

definition demo_env :: "demo_bucket env" where
  "demo_env = \<lparr>
     proto_marshal = demo_marshal,
     json_marshal = demo_json,
     wal_unmarshal = demo_wal_read,
     unit_unmarshal = demo_unit_read,
     sha256_sum = (\<lambda>bs. bs),
     md5_sum = (\<lambda>bs. bs),
     rsa_sign = demo_sign,
     rsa_verify = demo_verify,
     bkt_empty = ([], 0),
     bkt_get = demo_get,
     bkt_put = demo_put,
     bkt_delete = demo_delete,
     bkt_list = demo_list,
     bkt_sequence = snd,
     bkt_next = demo_next\<rparr>"

named_theorems demo_simps \<open>evaluation of the demonstration environment\<close>

lemma demo_env_sel [demo_simps]:
  "proto_marshal demo_env = demo_marshal" "json_marshal demo_env = demo_json"
  "wal_unmarshal demo_env = demo_wal_read" "unit_unmarshal demo_env = demo_unit_read"
  "sha256_sum demo_env = (\<lambda>bs. bs)" "md5_sum demo_env = (\<lambda>bs. bs)"
  "rsa_sign demo_env = demo_sign" "rsa_verify demo_env = demo_verify"
  "bkt_empty demo_env = ([], 0)" "bkt_get demo_env = demo_get"
  "bkt_put demo_env = demo_put" "bkt_delete demo_env = demo_delete"
  "bkt_list demo_env = demo_list" "bkt_sequence demo_env = snd" "bkt_next demo_env = demo_next"
  by (simp_all add: demo_env_def)

lemma demo_crypto_ok: "crypto_ok demo_env"
  by (simp add: crypto_ok_def demo_simps demo_sign_def demo_verify_def)

lemma demo_json_ok: "json_ok demo_env"
  by (simp add: json_ok_def demo_simps demo_json_def demo_wal_read_def demo_unit_read_def)

lemma demo_json_pointers_ok: "json_pointers_ok demo_env"
  by (simp add: json_pointers_ok_def demo_simps demo_json_def demo_wal_read_def)

lemma map_of_sort_key_distinct:
  "distinct (map fst xs) \<Longrightarrow> map_of (sort_key fst xs) = map_of (xs :: (bytes \<times> bytes) list)"
  by (rule map_of_eqI) (auto simp: map_of_eq_Some_iff distinct_map inj_on_def)

lemma distinct_demo_rows:
  "distinct (map fst (filter P (AList.clearjunk (xs :: (bytes \<times> bytes) list))))"
  using distinct_clearjunk [of xs] by (rule distinct_map_filter)

lemma map_of_filter_key:
  "map_of (filter (\<lambda>(k, v). P k) xs) k = (if P k then map_of xs k else None)"
  by (induction xs) auto

lemma demo_list_map_of: "map_of (demo_list b) = demo_get b"
  by (rule ext)
    (simp add: demo_list_def demo_get_def map_of_sort_key_distinct [OF distinct_demo_rows]
      map_of_filter_key map_of_clearjunk)

lemma demo_list_sorted: "sorted_wrt (<) (map fst (demo_list b))"
proof -
  have "distinct (map fst (demo_list b))"
    using distinct_demo_rows [of "\<lambda>(k, v). valid_key k" "fst b"]
    by (simp add: demo_list_def distinct_map)
  moreover have "sorted (map fst (demo_list b))" by (simp add: demo_list_def)
  ultimately show ?thesis by (simp add: strict_sorted_iff)
qed

lemma demo_bolt_ok: "bolt_ok demo_env"
  unfolding bolt_ok_def
  by (simp add: demo_simps demo_list_map_of demo_list_sorted)
    (auto simp: fun_eq_iff valid_key_def demo_get_def demo_put_def demo_delete_def demo_next_def
      update_conv' delete_conv' split: if_splits)

end
