(* ===== verification/Interfaces.thy ===== *)
theory Interfaces
  imports Prelude
begin

text \<open>
  The contracts between components, as locales. \<open>keyed_store\<close> is a table that is written by
  key and read back (the balances, the node's log of sequence numbers, its pre-prepares, its
  request log and its datastore are five providers); \<open>lock_table\<close> is a set of names that is
  taken all or nothing; \<open>certificate_filter\<close> is a pass over received certificates that keeps
  those that satisfy a check (prepares and commits). Each is interpreted on the model's
  definitions in the theory of its provider.
\<close>

section \<open>Tables written by key\<close>

locale keyed_store =
  fixes look :: "'s \<Rightarrow> 'k \<Rightarrow> 'v option"
    and upd :: "'s \<Rightarrow> 'k \<Rightarrow> 'v \<Rightarrow> 's"
    and ok :: "'s \<Rightarrow> bool"
    and key_ok :: "'s \<Rightarrow> 'k \<Rightarrow> bool"
    and val_ok :: "'v \<Rightarrow> bool"
  assumes look_upd: "ok s \<Longrightarrow> key_ok s k \<Longrightarrow> val_ok v \<Longrightarrow> look (upd s k v) = (look s)(k \<mapsto> v)"
    and ok_upd: "ok s \<Longrightarrow> ok (upd s k v)"
begin

lemma look_same: "ok s \<Longrightarrow> key_ok s k \<Longrightarrow> val_ok v \<Longrightarrow> look (upd s k v) k = Some v"
  by (simp add: look_upd)

lemma look_other: "ok s \<Longrightarrow> key_ok s k \<Longrightarrow> val_ok v \<Longrightarrow> k' \<noteq> k \<Longrightarrow> look (upd s k v) k' = look s k'"
  by (simp add: look_upd)

lemma dom_upd: "ok s \<Longrightarrow> key_ok s k \<Longrightarrow> val_ok v \<Longrightarrow> dom (look (upd s k v)) = insert k (dom (look s))"
  by (simp add: look_upd)

lemma overwrite:
  "ok s \<Longrightarrow> key_ok s k \<Longrightarrow> key_ok (upd s k v) k \<Longrightarrow> val_ok v \<Longrightarrow> val_ok v' \<Longrightarrow>
     look (upd (upd s k v) k v') = (look s)(k \<mapsto> v')"
  by (simp add: look_upd ok_upd)

lemma commute:
  assumes "ok s" "k \<noteq> k'" "key_ok s k" "key_ok s k'" "key_ok (upd s k v) k'" "key_ok (upd s k' v') k"
    and "val_ok v" "val_ok v'"
  shows "look (upd (upd s k v) k' v') = look (upd (upd s k' v') k v)"
  using assms by (simp add: look_upd ok_upd fun_upd_twist)

end

section \<open>Names taken all or nothing\<close>

fun attempts :: "('s \<Rightarrow> 'n list \<Rightarrow> 's option) \<Rightarrow> 's \<Rightarrow> 'n list list \<Rightarrow> 's" where
  "attempts acq s [] = s"
| "attempts acq s (cs # css) = attempts acq (case acq s cs of None \<Rightarrow> s | Some s' \<Rightarrow> s') css"

locale lock_table =
  fixes held :: "'s \<Rightarrow> 'n set"
    and acquire :: "'s \<Rightarrow> 'n list \<Rightarrow> 's option"
    and release :: "'s \<Rightarrow> 'n list \<Rightarrow> 's"
    and ok :: "'s \<Rightarrow> bool"
    and name_ok :: "'n \<Rightarrow> bool"
  assumes acquire_None: "ok s \<Longrightarrow> acquire s cs = None \<longleftrightarrow> set cs \<inter> held s \<noteq> {}"
    and acquire_held:
      "ok s \<Longrightarrow> acquire s cs = Some s' \<Longrightarrow> held s' = held s \<union> {c \<in> set cs. name_ok c}"
    and acquire_ok: "ok s \<Longrightarrow> acquire s cs = Some s' \<Longrightarrow> ok s'"
    and release_held: "ok s \<Longrightarrow> held (release s cs) = held s - set cs"
    and release_ok: "ok s \<Longrightarrow> ok (release s cs)"
begin

text \<open>Whoever comes second fails, as long as nobody released.\<close>

lemma exclusion:
  assumes "ok s" "acquire s cs = Some s'" "c \<in> set cs" "c \<in> set ds" "name_ok c"
  shows "acquire s' ds = None"
proof -
  have "c \<in> held s'" using acquire_held [OF assms(1,2)] assms(3,5) by blast
  then show ?thesis using acquire_None [OF acquire_ok [OF assms(1,2)], of ds] assms(4) by blast
qed

lemma attempts_grow: "ok s \<Longrightarrow> held s \<subseteq> held (attempts acquire s css) \<and> ok (attempts acquire s css)"
proof (induction css arbitrary: s)
  case Nil
  then show ?case by simp
next
  case (Cons cs css)
  show ?case
  proof (cases "acquire s cs")
    case None
    with Cons show ?thesis by simp
  next
    case (Some s')
    with Cons.prems have "ok s'" "held s \<subseteq> held s'" by (auto dest: acquire_ok acquire_held)
    with Cons.IH [of s'] Some show ?thesis by auto
  qed
qed

lemma exclusion_later:
  assumes "ok s" "acquire s cs = Some s'" "c \<in> set cs" "c \<in> set ds" "name_ok c"
  shows "acquire (attempts acquire s' css) ds = None"
proof -
  have "c \<in> held s'" using acquire_held [OF assms(1,2)] assms(3,5) by blast
  with attempts_grow [OF acquire_ok [OF assms(1,2)], of css]
  have "ok (attempts acquire s' css)" "c \<in> held (attempts acquire s' css)" by blast+
  then show ?thesis using acquire_None assms(4) by blast
qed

text \<open>Releasing what was taken gives the table back as it was.\<close>

lemma release_restores:
  assumes "ok s" "acquire s cs = Some s'"
  shows "held (release s' cs) = held s"
proof -
  have "set cs \<inter> held s = {}" using acquire_None [OF assms(1)] assms(2) by (metis option.distinct(1))
  with acquire_held [OF assms] release_held [OF acquire_ok [OF assms]] show ?thesis by blast
qed

end

section \<open>Certificates that pass a check\<close>

locale certificate_filter =
  fixes collect :: "'s \<Rightarrow> int64 \<Rightarrow> 'c list \<Rightarrow> 'c list"
    and passes :: "'s \<Rightarrow> int64 \<Rightarrow> 'c \<Rightarrow> bool"
    and well_formed :: "'c \<Rightarrow> bool"
  assumes collect_filter:
    "list_all well_formed cs \<Longrightarrow> collect s seq cs = filter (passes s seq) cs"
begin

lemma collect_sound:
  "list_all well_formed cs \<Longrightarrow> c \<in> set (collect s seq cs) \<Longrightarrow> c \<in> set cs \<and> passes s seq c"
  by (simp add: collect_filter)

lemma collect_well_formed: "list_all well_formed cs \<Longrightarrow> list_all well_formed (collect s seq cs)"
  by (auto simp: collect_filter list_all_iff)

text \<open>A peer whose checks agree accepts the same list again, all of it.\<close>

lemma collect_again:
  assumes wf: "list_all well_formed cs"
    and agree: "\<And>c. c \<in> set cs \<Longrightarrow> passes s seq c \<Longrightarrow> passes t seq c"
  shows "collect t seq (collect s seq cs) = collect s seq cs"
proof -
  have "collect t seq (collect s seq cs) = filter (passes t seq) (collect s seq cs)"
    by (rule collect_filter [OF collect_well_formed [OF wf]])
  with agree show ?thesis by (auto simp: collect_filter [OF wf] intro: filter_cong)
qed

text \<open>Nothing looks at who sent a certificate: copies of one valid one all count.\<close>

lemma collect_copies:
  "well_formed c \<Longrightarrow> passes s seq c \<Longrightarrow> collect s seq (replicate n c) = replicate n c"
  by (simp add: collect_filter list_all_iff)

end

end
