(* ===== verification/Timer.thy ===== *)
theory Timer
  imports Prelude
begin

text \<open>
  The view-change timer of \<open>node/timer.go\<close>. A Go \<open>time.Timer\<close> is running, has expired with
  its tick waiting in the channel, or is idle (stopped, or its tick was received); with the
  module's Go 1.23 semantics \<open>Stop\<close> and \<open>Reset\<close> leave no stale tick. The clock is the
  environment's: \<open>timer_expires\<close> is the moment a running timer fires.
\<close>

datatype gotimer = Running | Expired | Idle

record Timer =
  duration :: int64
  timer :: "gotimer option"
  timerStarted :: bool

definition NewTimer :: "int64 \<Rightarrow> Timer" where
  "NewTimer d = \<lparr>duration = d, timer = None, timerStarted = False\<rparr>"

text \<open>Both branches leave a running timer: \<open>Reset\<close> of the old one or a new one.\<close>

definition StartOrReset :: "Timer \<Rightarrow> Timer" where
  "StartOrReset t =
     (case timer t of
        Some old \<Rightarrow> t\<lparr>timer := Some Running, timerStarted := True\<rparr>
      | None \<Rightarrow> t\<lparr>timer := Some Running, timerStarted := True\<rparr>)"

definition StartIfNotRunning :: "Timer \<Rightarrow> Timer" where
  "StartIfNotRunning t =
     (if \<not> timerStarted t then t\<lparr>timer := Some Running, timerStarted := True\<rparr> else t)"

definition Stop :: "Timer \<Rightarrow> Timer" where
  "Stop t = (case timer t of
      Some old \<Rightarrow> t\<lparr>timer := Some Idle, timerStarted := False\<rparr>
    | None \<Rightarrow> t\<lparr>timerStarted := False\<rparr>)"

definition timer_expires :: "Timer \<Rightarrow> Timer" where
  "timer_expires t = (if timer t = Some Running then t\<lparr>timer := Some Expired\<rparr> else t)"

text \<open>
  The receive of one round of \<open>startMonitoringTimer\<close>: a tick is taken only from a timer that
  is marked as started, and at most one is there to take.
\<close>

definition tick_ready :: "Timer \<Rightarrow> bool" where
  "tick_ready t \<longleftrightarrow> timerStarted t \<and> timer t = Some Expired"

definition take_tick :: "Timer \<Rightarrow> Timer" where
  "take_tick t = t\<lparr>timer := Some Idle\<rparr>"

text \<open>A timer that can still fire, now or later, without anyone restarting it.\<close>

definition can_fire :: "Timer \<Rightarrow> bool" where
  "can_fire t \<longleftrightarrow> timerStarted t \<and> (timer t = Some Running \<or> timer t = Some Expired)"

lemma Stop_quiet [simp]: "\<not> tick_ready (Stop t)" "\<not> timerStarted (Stop t)"
  by (simp_all add: Stop_def tick_ready_def split: option.splits)

lemma StartIfNotRunning_started [simp]: "timerStarted (StartIfNotRunning t)"
  by (simp add: StartIfNotRunning_def)

lemma restart_after_stop: "can_fire (StartIfNotRunning (Stop t))"
  by (simp add: StartIfNotRunning_def can_fire_def)

lemma StartIfNotRunning_idem: "StartIfNotRunning (StartIfNotRunning t) = StartIfNotRunning t"
  by (simp add: StartIfNotRunning_def)

text \<open>
  Once a tick has been taken and nobody calls \<open>Stop\<close>, the timer is marked as started for
  good and \<open>StartIfNotRunning\<close> never arms it again.
\<close>

lemma taken_tick_is_final:
  "tick_ready t \<Longrightarrow> \<not> can_fire ((StartIfNotRunning ^^ n) (take_tick t))"
proof -
  assume "tick_ready t"
  then have "(StartIfNotRunning ^^ n) (take_tick t) = take_tick t"
    by (induction n) (simp_all add: StartIfNotRunning_def take_tick_def tick_ready_def)
  then show ?thesis by (simp add: can_fire_def take_tick_def)
qed

end
