(* ===== verification/NodeState.thy ===== *)
theory NodeState
  imports Db DemoEnv Interfaces Timer
begin

text \<open>
  The state of a node (\<open>node/node.go\<close>), the constants it is configured with, and the tables
  it keeps by sequence number: the transaction log, the pre-prepares, the request log and
  the datastore. Fields that only feed the console (durations, counters for printing) and
  the gRPC connection objects have no field here; what a handler sends, or leaves to a
  goroutine it starts, is recorded in \<open>effects\<close>, in order.
\<close>

section \<open>Configuration\<close>

definition F :: nat where "F = 1"

text \<open>\<open>config.States\<close>: a Go map, so an unknown name gives 0.\<close>

definition States :: "string \<Rightarrow> int64" where
  "States s =
     (if s = ''pre-prepared'' then 1 else if s = ''prepared'' then 2
      else if s = ''committed'' then 3 else if s = ''pexecuted'' then 4
      else if s = ''executed'' then 5 else 0)"

definition IntToStates :: "int64 \<Rightarrow> string" where
  "IntToStates n =
     (if n = 1 then ''PP'' else if n = 2 then ''P'' else if n = 3 then ''C''
      else if n = 4 then ''PE'' else if n = 5 then ''E'' else [])"

section \<open>Records of the node\<close>

record TransactionLog =
  tl_Transaction :: "Transaction option"
  tl_View :: int64
  tl_State :: int64
  tl_Digest :: string
  tl_Timestamp :: int64
  tl_ClientSeq :: int64

definition zero_log :: TransactionLog where
  "zero_log = \<lparr>tl_Transaction = None, tl_View = 0, tl_State = 0, tl_Digest = [],
     tl_Timestamp = 0, tl_ClientSeq = 0\<rparr>"

record RequestData =
  rd_Seq :: int64
  rd_Executed :: bool
  rd_Result :: bool

type_synonym balance_map = "(string \<times> int64) list"

record CheckpointData =
  cd_Stable :: bool
  cd_Digest :: string
  cd_Balances :: balance_map
  cd_Certs :: "SignedCheckpointRequest list"
  cd_Waiting :: "SignedCheckpointRequest list"

record DBUnit =
  u_Seq :: int64
  u_Transaction :: "Transaction option"
  u_Status :: string
  u_timestamp :: int64
  u_ClientSeq :: int64

section \<open>What a handler causes\<close>

text \<open>
  Messages go to a named peer; \<open>Go*\<close> is a goroutine the code starts with \<open>go\<close>, to be run as
  the definition of that name; \<open>Chan*\<close> is a certificate handed to the channel of a sequence
  number.
\<close>

datatype effect =
    RpcExecuteTransaction string SignedClientRequest
  | RpcPrePrepare string PrePrepareRequest
  | RpcPrepare string PrepareRequest
  | RpcCommit string CommitRequest
  | RpcViewChange string SignedViewChangeRequest
  | RpcNewView string SignedNewViewRequest
  | RpcPCPrepare string PCPrepareReq
  | RpcPCCommit string PCPrepareReq
  | RpcReply SignedReply
  | ChanPrepare int64 PrepareRequest
  | ChanCommit int64 CommitRequest
  | GoReplyToClient int64 bool int64
  | GoUpdateLog int64 string
  | GoSaveTransaction int64 string
  | GoTimerStartIfNotRunning
  | GoSendPrepareReq int64 PrePrepareRequest string string
  | GoSendCommitToSelf int64
  | GoCollectGarbage int64
  | GoSendViewChange int64
  | GoSendNewView int64 "SignedViewChangeRequest list"
  | GoWaitForPCCommit SignedClientRequest
  | GoEraseWal int64

section \<open>The node\<close>

record 'b Node =
  ClusterId :: string
  node_Id :: string
  NodeMap :: "(string \<times> (string \<times> string) list) list"
  ClientMap :: "(string \<times> string list) list"
  Datastore :: "int64 \<rightharpoonup> DBUnit"
  DatastoreMax :: int64
  node_PrivateKey :: PrivateKey
  PublicKeyMap :: "string \<rightharpoonup> PublicKey"
  View :: int64
  Seq :: int64
  TransactionLog :: "int64 \<rightharpoonup> TransactionLog"
  PrePrepares :: "int64 \<rightharpoonup> PrePrepareRequest"
  PrepareCertChans :: "int64 \<Rightarrow> bool"
  PrepareCerts :: "int64 \<Rightarrow> PrepareRequest list"
  CommitCertChans :: "int64 \<Rightarrow> bool"
  CommitCerts :: "int64 \<Rightarrow> CommitRequest list"
  CheckpointCerts :: "int64 \<rightharpoonup> CheckpointData"
  CheckpointCertsLock :: bool
  RequestLog :: "int64 \<rightharpoonup> RequestData"
  Live :: bool
  Byzantine :: bool
  LastStable :: int64
  LastStableBalances :: balance_map
  ViewChanging :: bool
  NewViewNum :: int64
  NewViewCerts :: "NewViewRequest list"
  ExecutionCount :: int64
  Tmr :: Timer
  ViewChangeCerts :: "int64 \<Rightarrow> SignedViewChangeRequest list"
  MaxSeq :: int64
  ExecutorSeq :: int64
  NewViewsSent :: "int64 \<Rightarrow> bool"
  LowWater :: int64
  HighWater :: int64
  DB :: "'b Database"
  StartId :: string
  EndId :: string
  LeaderMap :: "string \<rightharpoonup> string"
  PCCommitsMap :: "int64 \<Rightarrow> bool"
  effects :: "effect list"

definition emit :: "effect \<Rightarrow> 'b Node \<Rightarrow> 'b Node" where
  "emit e n = n\<lparr>effects := effects n @ [e]\<rparr>"

definition emits :: "effect list \<Rightarrow> 'b Node \<Rightarrow> 'b Node" where
  "emits es n = n\<lparr>effects := effects n @ es\<rparr>"

lemma emits_Nil [simp]: "emits [] n = n"
  by (simp add: emits_def)

lemma emits_frame [simp]:
  "DB (emits es n) = DB n" "Datastore (emits es n) = Datastore n" "ExecutorSeq (emits es n) = ExecutorSeq n"
  "effects (emits es n) = effects n @ es"
  by (simp_all add: emits_def)

end
