(* ===== verification/Locks.thy ===== *)
theory Locks
  imports Db DemoEnv Interfaces
begin

text \<open>
  What the locks bucket means: the set of clients that are locked (\<open>held\<close>). Taking locks is
  all or nothing, and bbolt's refusal of a key (the empty client name) goes unnoticed, so
  only valid names end up locked.
\<close>

definition held :: "'b env \<Rightarrow> 'b Database \<Rightarrow> string set" where
  "held E d = {c. locked E d c}"

lemma CheckLocksDB_None: "CheckLocksDB E d cs = None \<longleftrightarrow> set cs \<inter> held E d = {}"
  by (induction cs) (auto simp: held_def)

lemma get_put_locks:
  "bolt_ok E \<Longrightarrow>
     bkt_get E (put_locks E cs b) c =
       (if c \<in> set cs \<and> valid_key c then Some lock_value else bkt_get E b c)"
proof (induction cs arbitrary: b)
  case Nil
  then show ?case by simp
next
  case (Cons x xs)
  have "length lock_value \<le> 2147483646" by (simp add: lock_value_def)
  with Cons.prems show ?case
  proof (cases "bkt_put E b x lock_value")
    case None
    with Cons.prems have "\<not> valid_key x"
      using bolt_put_ok [OF _ _ \<open>length lock_value \<le> 2147483646\<close>] by (metis option.distinct(1))
    with None Cons show ?thesis by auto
  next
    case (Some b')
    have "bkt_get E b' = (bkt_get E b)(x \<mapsto> lock_value)" "valid_key x"
      by (rule bolt_get_put [OF Cons.prems Some], rule bolt_put_key [OF Cons.prems Some])
    with Some Cons show ?thesis by simp
  qed
qed

lemma get_delete_all:
  "bolt_ok E \<Longrightarrow> bkt_get E (delete_all E cs b) c = (if c \<in> set cs then None else bkt_get E b c)"
  by (induction cs arbitrary: b) (auto simp: bolt_simps)

lemma held_GetLocksDB:
  "bolt_ok E \<Longrightarrow> held E (GetLocksDB E d cs) = held E d \<union> {c \<in> set cs. valid_key c}"
  by (auto simp: held_def locked_def GetLocksDB_def get_put_locks)

lemma held_ReleaseLocksDB: "bolt_ok E \<Longrightarrow> held E (ReleaseLocksDB E d cs) = held E d - set cs"
  by (auto simp: held_def locked_def ReleaseLocksDB_def get_delete_all)

lemma CheckAndGetLocks_cases:
  "CheckAndGetLocks E d cs byz =
     (if set cs \<inter> held E d = {} then (if byz then d else GetLocksDB E d cs, None)
      else (d, Some AlreadyLocked))"
  by (auto simp: CheckAndGetLocks_def CheckLocksDB_None [symmetric] split: option.splits)

text \<open>The lock table as the protocol uses it: an attempt, seen as a partial function.\<close>

definition try_locks :: "'b env \<Rightarrow> 'b Database \<Rightarrow> string list \<Rightarrow> 'b Database option" where
  "try_locks E d cs =
     (case CheckAndGetLocks E d cs False of (d', None) \<Rightarrow> Some d' | (d', Some e) \<Rightarrow> None)"

lemma try_locks_eq: "try_locks E d cs = (if set cs \<inter> held E d = {} then Some (GetLocksDB E d cs) else None)"
  by (simp add: try_locks_def CheckAndGetLocks_cases)

interpretation lt: lock_table
  "\<lambda>(E, d). held E d"
  "\<lambda>(E, d) cs. map_option (Pair E) (try_locks E d cs)"
  "\<lambda>(E, d) cs. (E, ReleaseLocksDB E d cs)"
  "\<lambda>(E, d). bolt_ok E" valid_key
  by unfold_locales
    (auto simp: try_locks_eq held_GetLocksDB held_ReleaseLocksDB split: if_splits)

text \<open>Locks and balances live in different buckets.\<close>

lemma locks_frame [simp]:
  "balancesBucket (GetLocksDB E d cs) = balancesBucket d"
  "balancesBucket (ReleaseLocksDB E d cs) = balancesBucket d"
  "walBucket (GetLocksDB E d cs) = walBucket d"
  "walBucket (ReleaseLocksDB E d cs) = walBucket d"
  "transactionsBucket (GetLocksDB E d cs) = transactionsBucket d"
  "transactionsBucket (ReleaseLocksDB E d cs) = transactionsBucket d"
  by (simp_all add: GetLocksDB_def ReleaseLocksDB_def)

end
