(* ===== verification/Balances.thy ===== *)
theory Balances
  imports Db DemoEnv Interfaces
begin

text \<open>
  What the balances bucket means: a map from clients to \<open>int64\<close> amounts (\<open>balance_view\<close>),
  on which a transaction acts as \<open>transfer\<close>. \<open>UpdateBalances\<close> refines \<open>transfer\<close>; a transfer
  is undone by the opposite one and keeps the sum over the shards it touches.
\<close>

section \<open>The abstract view\<close>

definition balance_view :: "'b env \<Rightarrow> 'b Database \<Rightarrow> string \<rightharpoonup> int64" where
  "balance_view E d client = (case GetBalance E d client of Inl e \<Rightarrow> None | Inr v \<Rightarrow> Some v)"

definition debit_view :: "Transaction \<Rightarrow> (string \<rightharpoonup> int64) \<Rightarrow> (string \<rightharpoonup> int64)" where
  "debit_view t m =
     (case m (t_From t) of None \<Rightarrow> m | Some b \<Rightarrow> m(t_From t \<mapsto> sub64 b (t_Amount t)))"

definition credit_view :: "Transaction \<Rightarrow> (string \<rightharpoonup> int64) \<Rightarrow> (string \<rightharpoonup> int64)" where
  "credit_view t m =
     (case m (t_To t) of None \<Rightarrow> m | Some b \<Rightarrow> m(t_To t \<mapsto> add64 b (t_Amount t)))"

definition transfer :: "Transaction \<Rightarrow> (string \<rightharpoonup> int64) \<Rightarrow> (string \<rightharpoonup> int64)" where
  "transfer t m = credit_view t (debit_view t m)"

text \<open>The transaction that \<open>undoWAL\<close> applies for a logged one.\<close>

definition reverse_tx :: "Transaction \<Rightarrow> Transaction" where
  "reverse_tx t = \<lparr>t_From = t_To t, t_To = t_From t, t_Amount = t_Amount t,
     t_ClusterFrom = [], t_ClusterTo = [], t_ClientSeq = 0\<rparr>"

lemma balance_view_Some: "balance_view E d c = Some v \<longleftrightarrow> GetBalance E d c = Inr v"
  by (simp add: balance_view_def split: sum.splits)

lemma balance_view_None: "balance_view E d c = None \<longleftrightarrow> (\<exists>e. GetBalance E d c = Inl e)"
  by (simp add: balance_view_def split: sum.splits)

lemma balance_view_in64: "balance_view E d c = Some v \<Longrightarrow> in64 v"
  by (auto simp: balance_view_Some GetBalance_def split: option.splits)

lemma dom_balance_view: "c \<in> dom (balance_view E d) \<longleftrightarrow> bkt_get E (balancesBucket d) c \<noteq> None"
  by (auto simp: dom_def balance_view_def GetBalance_def split: option.splits)

section \<open>Putting a balance\<close>

lemma PutBalance_view:
  assumes "bolt_ok E" "c \<in> dom (balance_view E d)" "in64 v"
  shows "balance_view E (fst (PutBalance E d c v)) = (balance_view E d)(c \<mapsto> v)"
    and "snd (PutBalance E d c v) = None"
proof -
  from assms(2) have "bkt_get E (balancesBucket d) c \<noteq> None" by (simp add: dom_balance_view)
  then have "valid_key c" using bolt_key [OF assms(1)] by blast
  moreover have "length (FormatInt v) \<le> 2147483646"
    using length_FormatInt [OF assms(3)] by simp
  ultimately obtain b where b: "bkt_put E (balancesBucket d) c (FormatInt v) = Some b"
    using bolt_put_ok [OF assms(1)] by blast
  then have get: "bkt_get E b = (bkt_get E (balancesBucket d))(c \<mapsto> FormatInt v)"
    by (rule bolt_get_put [OF assms(1)])
  show "balance_view E (fst (PutBalance E d c v)) = (balance_view E d)(c \<mapsto> v)"
    using b get assms(3) by (auto simp: fun_eq_iff PutBalance_def balance_view_def GetBalance_def)
  show "snd (PutBalance E d c v) = None" using b by (simp add: PutBalance_def)
qed

interpretation balances: keyed_store
  "\<lambda>(E, d). balance_view E d" "\<lambda>(E, d) c v. (E, fst (PutBalance E d c v))"
  "\<lambda>(E, d). bolt_ok E" "\<lambda>(E, d) c. c \<in> dom (balance_view E d)" in64
  by unfold_locales (auto simp: PutBalance_view domI)

section \<open>UpdateBalances refines transfer\<close>

lemma debit_refines: "bolt_ok E \<Longrightarrow> balance_view E (debit E t d) = debit_view t (balance_view E d)"
proof (cases "GetBalance E d (t_From t)")
  case (Inl e)
  then show ?thesis by (simp add: debit_def debit_view_def balance_view_def)
next
  case (Inr b)
  moreover assume "bolt_ok E"
  moreover from Inr have "balance_view E d (t_From t) = Some b" by (simp add: balance_view_Some)
  ultimately show ?thesis
    using balances.look_upd [of "(E, d)" "t_From t" "sub64 b (t_Amount t)"]
    by (auto simp: debit_def debit_view_def)
qed

lemma credit_refines: "bolt_ok E \<Longrightarrow> balance_view E (credit E t d) = credit_view t (balance_view E d)"
proof (cases "GetBalance E d (t_To t)")
  case (Inl e)
  then show ?thesis by (simp add: credit_def credit_view_def balance_view_def)
next
  case (Inr b)
  moreover assume "bolt_ok E"
  moreover from Inr have "balance_view E d (t_To t) = Some b" by (simp add: balance_view_Some)
  ultimately show ?thesis
    using balances.look_upd [of "(E, d)" "t_To t" "add64 b (t_Amount t)"]
    by (auto simp: credit_def credit_view_def)
qed

lemma UpdateBalances_refines:
  "bolt_ok E \<Longrightarrow> balance_view E (UpdateBalances E d t) = transfer t (balance_view E d)"
  by (simp add: UpdateBalances_def transfer_def credit_refines debit_refines)

section \<open>What a transfer does\<close>

lemma dom_debit_view [simp]: "dom (debit_view t m) = dom m"
  by (auto simp: debit_view_def split: option.splits)

lemma dom_credit_view [simp]: "dom (credit_view t m) = dom m"
  by (auto simp: credit_view_def split: option.splits)

lemma dom_transfer [simp]: "dom (transfer t m) = dom m"
  by (simp add: transfer_def)

definition view_in64 :: "(string \<rightharpoonup> int64) \<Rightarrow> bool" where
  "view_in64 m \<longleftrightarrow> (\<forall>c v. m c = Some v \<longrightarrow> in64 v)"

lemma view_in64_balance_view [simp]: "view_in64 (balance_view E d)"
  by (simp add: view_in64_def balance_view_in64)

lemma transfer_in64: "view_in64 m \<Longrightarrow> view_in64 (transfer t m)"
  by (auto simp: view_in64_def transfer_def credit_view_def debit_view_def
      split: option.splits if_splits)

lemma transfer_reverse: "view_in64 m \<Longrightarrow> transfer (reverse_tx t) (transfer t m) = m"
  by (cases "t_From t = t_To t"; cases "m (t_From t)"; cases "m (t_To t)")
    (auto simp: view_in64_def transfer_def credit_view_def debit_view_def reverse_tx_def fun_eq_iff)

lemma transfer_other: "c \<noteq> t_From t \<Longrightarrow> c \<noteq> t_To t \<Longrightarrow> transfer t m c = m c"
  by (auto simp: transfer_def credit_view_def debit_view_def split: option.splits)

lemma transfer_self: "view_in64 m \<Longrightarrow> t_From t = t_To t \<Longrightarrow> transfer t m = m"
  by (auto simp: view_in64_def transfer_def credit_view_def debit_view_def fun_eq_iff
      split: option.splits)

lemma transfer_from:
  "t_From t \<noteq> t_To t \<Longrightarrow> m (t_From t) = Some b \<Longrightarrow> transfer t m (t_From t) = Some (sub64 b (t_Amount t))"
  by (auto simp: transfer_def credit_view_def debit_view_def split: option.splits)

lemma transfer_to:
  "t_From t \<noteq> t_To t \<Longrightarrow> m (t_To t) = Some b \<Longrightarrow> transfer t m (t_To t) = Some (add64 b (t_Amount t))"
  by (auto simp: transfer_def credit_view_def debit_view_def split: option.splits)

section \<open>Transfers as differences\<close>

text \<open>
  What a transfer adds to the balance of each client, up to wrapping. As differences add,
  transfers commute, and the reverse of a transfer cancels it wherever it comes later.
\<close>

definition delta :: "Transaction \<Rightarrow> string \<Rightarrow> int" where
  "delta t c = (if c = t_To t then t_Amount t else 0) - (if c = t_From t then t_Amount t else 0)"

definition shift_view :: "(string \<Rightarrow> int) \<Rightarrow> (string \<rightharpoonup> int64) \<Rightarrow> (string \<rightharpoonup> int64)" where
  "shift_view f m = (\<lambda>c. map_option (\<lambda>b. wrap64 (b + f c)) (m c))"

lemma transfer_shift: "view_in64 m \<Longrightarrow> transfer t m = shift_view (delta t) m"
proof (rule ext)
  fix c
  assume m: "view_in64 m"
  show "transfer t m c = shift_view (delta t) m c"
  proof (cases "c = t_From t"; cases "c = t_To t")
    assume "c = t_From t" "c = t_To t"
    with transfer_self [OF m, of t] m show ?thesis
      by (cases "m c") (auto simp: shift_view_def delta_def view_in64_def)
  next
    assume "c = t_From t" "c \<noteq> t_To t"
    with transfer_from [of t m] show ?thesis
      by (cases "m c") (auto simp: shift_view_def delta_def sub64_def transfer_def credit_view_def
          debit_view_def split: option.splits)
  next
    assume "c \<noteq> t_From t" "c = t_To t"
    with transfer_to [of t m] show ?thesis
      by (cases "m c") (auto simp: shift_view_def delta_def add64_def transfer_def credit_view_def
          debit_view_def split: option.splits)
  next
    assume "c \<noteq> t_From t" "c \<noteq> t_To t"
    with transfer_other [of c t m] m show ?thesis
      by (cases "m c") (auto simp: shift_view_def delta_def view_in64_def)
  qed
qed

lemma shift_view_in64 [simp]: "view_in64 (shift_view f m)"
  by (auto simp: view_in64_def shift_view_def)

lemma dom_shift_view [simp]: "dom (shift_view f m) = dom m"
  by (auto simp: shift_view_def dom_def)

lemma shift_shift: "shift_view g (shift_view f m) = shift_view (\<lambda>c. f c + g c) m"
proof (rule ext)
  fix c
  show "shift_view g (shift_view f m) c = shift_view (\<lambda>c. f c + g c) m c"
    by (cases "m c") (simp_all add: shift_view_def add.assoc)
qed

lemma shift_zero: "view_in64 m \<Longrightarrow> shift_view (\<lambda>_. 0) m = m"
proof (rule ext)
  fix c
  assume "view_in64 m"
  then show "shift_view (\<lambda>_. 0) m c = m c"
    by (cases "m c") (simp_all add: shift_view_def view_in64_def)
qed

lemma delta_reverse: "delta (reverse_tx t) c = - delta t c"
  by (simp add: delta_def reverse_tx_def)

section \<open>The sum of a shard\<close>

definition total :: "(string \<rightharpoonup> int64) \<Rightarrow> int" where
  "total m = (\<Sum>c\<in>dom m. the (m c))"

lemma wrap64_mod_sum:
  assumes "finite S"
  shows "(\<Sum>c\<in>S. wrap64 (f c)) mod 18446744073709551616 = (\<Sum>c\<in>S. f c) mod 18446744073709551616"
  using assms
proof (induction S rule: finite_induct)
  case empty
  then show ?case by simp
next
  case (insert x S)
  then show ?case by (simp add: mod_add_cong [OF wrap64_mod])
qed

lemma total_shift:
  assumes "finite (dom m)"
  shows "total (shift_view f m) mod 18446744073709551616
      = (total m + (\<Sum>c\<in>dom m. f c)) mod 18446744073709551616"
proof -
  have "total (shift_view f m) = (\<Sum>c\<in>dom m. wrap64 (the (m c) + f c))"
    by (auto simp: total_def shift_view_def dom_def intro!: sum.cong)
  then show ?thesis
    by (simp add: wrap64_mod_sum [OF assms] total_def sum.distrib)
qed

lemma sum_delta:
  assumes "finite S"
  shows "(\<Sum>c\<in>S. delta t c) = (if t_To t \<in> S then t_Amount t else 0) - (if t_From t \<in> S then t_Amount t else 0)"
  using assms by (simp add: delta_def sum_subtractf)

end
