(* ===== verification/Wal.thy ===== *)
theory Wal
  imports Db DemoEnv Interfaces
begin

text \<open>
  The write-ahead log and the stored blocks read back: appending and then reading gives the
  old entry followed by the new logs, erasing removes the entry, and a saved transaction is
  among the decoded blocks.
\<close>

definition wal_view :: "'b env \<Rightarrow> 'b Database \<Rightarrow> int64 \<Rightarrow> WALLog list" where
  "wal_view E d n = (case ReadWALEntry E d n of Inl e \<Rightarrow> [] | Inr w \<Rightarrow> Logs w)"

definition wal_readable :: "'b env \<Rightarrow> 'b Database \<Rightarrow> int64 \<Rightarrow> bool" where
  "wal_readable E d n \<longleftrightarrow> (\<exists>w. ReadWALEntry E d n = Inr w) \<or> bkt_get E (walBucket d) (FormatInt n) = None"

lemma AppendToWALEntry_read:
  assumes B: "bolt_ok E" and J: "json_ok E" and R: "wal_readable E d n"
    and A: "ascii_wal \<lparr>Logs = wal_view E d n @ logs\<rparr>"
    and S: "AppendToWALEntry E d n logs = (d', None)"
  shows "ReadWALEntry E d' n = Inr \<lparr>Logs = wal_view E d n @ logs\<rparr>"
proof -
  let ?cur = "case bkt_get E (walBucket d) (FormatInt n) of None \<Rightarrow> Some \<lparr>Logs = []\<rparr> | Some x \<Rightarrow> wal_unmarshal E x"
  have cur: "?cur = Some \<lparr>Logs = wal_view E d n\<rparr>"
    using R by (cases "bkt_get E (walBucket d) (FormatInt n)")
      (auto simp: wal_readable_def wal_view_def ReadWALEntry_def split: option.splits)
  from J A obtain bs where bs: "json_marshal E (JWALEntry \<lparr>Logs = wal_view E d n @ logs\<rparr>) = Some bs"
    and un: "wal_unmarshal E bs = Some \<lparr>Logs = wal_view E d n @ logs\<rparr>"
    using json_wal by blast
  from S cur bs obtain b where "bkt_put E (walBucket d) (FormatInt n) bs = Some b"
    and "d' = d\<lparr>walBucket := b\<rparr>"
    by (auto simp: AppendToWALEntry_def split: option.splits)
  with bolt_get_put [OF B] un show ?thesis by (simp add: ReadWALEntry_def)
qed

lemma AppendToWALEntry_other:
  assumes "bolt_ok E" "AppendToWALEntry E d n logs = (d', None)" "in64 n" "in64 m" "m \<noteq> n"
  shows "ReadWALEntry E d' m = ReadWALEntry E d m"
proof -
  from assms(2) obtain b bs where "bkt_put E (walBucket d) (FormatInt n) bs = Some b"
    and d': "d' = d\<lparr>walBucket := b\<rparr>"
    by (auto simp: AppendToWALEntry_def split: option.splits)
  with bolt_get_put [OF assms(1)] have "bkt_get E b = (bkt_get E (walBucket d))(FormatInt n \<mapsto> bs)"
    by blast
  with d' assms(3-5) show ?thesis by (simp add: ReadWALEntry_def FormatInt_inj)
qed

lemma AppendToWALEntry_frame:
  "AppendToWALEntry E d n logs = (d', e) \<Longrightarrow>
     balancesBucket d' = balancesBucket d \<and> locksBucket d' = locksBucket d \<and>
     transactionsBucket d' = transactionsBucket d"
  by (auto simp: AppendToWALEntry_def split: option.splits)

lemma EraseWal_read: "bolt_ok E \<Longrightarrow> ReadWALEntry E (EraseWal E d n) n = Inl (NoWal n)"
  by (simp add: ReadWALEntry_def EraseWal_def bolt_simps)

lemma EraseWal_other:
  "bolt_ok E \<Longrightarrow> in64 n \<Longrightarrow> in64 m \<Longrightarrow> m \<noteq> n \<Longrightarrow> ReadWALEntry E (EraseWal E d n) m = ReadWALEntry E d m"
  by (simp add: ReadWALEntry_def EraseWal_def bolt_simps FormatInt_inj)

section \<open>Stored blocks\<close>

lemma decode_blocks_mem:
  "(k, v) \<in> set rows \<Longrightarrow> deserializeDBUnit E v = Some u \<Longrightarrow> u \<in> set (decode_blocks E rows)"
  by (induction E rows rule: decode_blocks.induct) (auto split: option.splits)

lemma SaveTransactionToDB_stored:
  assumes "bolt_ok E" "json_ok E" "ascii_tx_opt t" "ascii status"
    and "SaveTransactionToDB E d seq t status = (d', Inr bs)"
  shows "\<lparr>du_Seq = seq, du_Transaction = t, du_Status = status\<rparr> \<in> set (GetAllTransactionBlocks E d')"
proof -
  let ?u = "\<lparr>du_Seq = seq, du_Transaction = t, du_Status = status\<rparr>"
  obtain i b where nx: "bkt_next E (transactionsBucket d) = (i, b)" by (cases "bkt_next E (transactionsBucket d)")
  with assms(5) obtain b' where put: "bkt_put E b (itob i) bs = Some b'"
    and ser: "json_marshal E (JDBUnit ?u) = Some bs" and d': "d' = d\<lparr>transactionsBucket := b'\<rparr>"
    by (auto simp: SaveTransactionToDB_def serializeDBUnit_def split: option.splits prod.splits)
  from put have "map_of (bkt_list E b') (itob i) = Some bs"
    using bolt_get_put [OF assms(1)] bolt_list [OF assms(1)] by simp
  then have row: "(itob i, bs) \<in> set (bkt_list E b')" by (rule map_of_SomeD)
  have "ascii_unit ?u" using assms(3,4) by (simp add: ascii_unit_def)
  from json_unit [OF assms(2) this] ser have "deserializeDBUnit E bs = Some ?u"
    by (auto simp: deserializeDBUnit_def)
  with row d' show ?thesis by (auto simp: GetAllTransactionBlocks_def intro: decode_blocks_mem)
qed

end
