(* ===== verification/NodeLog.thy ===== *)
theory NodeLog
  imports NodeState Locks Balances Wal
begin

text \<open>
  Starting a node and the operations on the tables it keeps by sequence number
  (\<open>node/node.go\<close>, \<open>node/utils.go\<close>): the transaction log and its states, the pre-prepares,
  the request log, the datastore, and who leads a view.
\<close>

section \<open>Starting\<close>

record ClusterStruct =
  cs_Nodes :: "(string \<times> string) list"
  cs_Start :: string
  cs_End :: string

text \<open>
  \<open>NewNode\<close> over a freshly opened database. The private key comes from \<open>initKeys\<close> and the
  public keys from the files other nodes write; the model's node has both from the start. So
  it has the timer, which is nil in the code until \<open>Start\<close> makes it, before anything uses it.
\<close>

definition NewNode ::
  "PrivateKey \<Rightarrow> (string \<rightharpoonup> PublicKey) \<Rightarrow> 'b Database \<Rightarrow> string \<Rightarrow> string \<Rightarrow>
   (string \<times> ClusterStruct) list \<Rightarrow> string \<Rightarrow> string \<Rightarrow> 'b Node" where
  "NewNode sk keys d clusterId nodeId clusters start endId = \<lparr>
     ClusterId = clusterId,
     node_Id = nodeId,
     NodeMap = map (\<lambda>(c, data). (c, fold (\<lambda>(i, p). AList.update i p) (cs_Nodes data) [])) clusters,
     ClientMap = [],
     Datastore = Map.empty,
     DatastoreMax = 0,
     node_PrivateKey = sk,
     PublicKeyMap = keys,
     View = 1,
     Seq = 1,
     TransactionLog = Map.empty,
     PrePrepares = Map.empty,
     PrepareCertChans = (\<lambda>_. False),
     PrepareCerts = (\<lambda>_. []),
     CommitCertChans = (\<lambda>_. False),
     CommitCerts = (\<lambda>_. []),
     CheckpointCerts = Map.empty,
     CheckpointCertsLock = False,
     RequestLog = Map.empty,
     Live = True,
     Byzantine = False,
     LastStable = 0,
     LastStableBalances = [],
     ViewChanging = False,
     NewViewNum = 0,
     NewViewCerts = [],
     ExecutionCount = 0,
     Tmr = NewTimer 2500000000000,
     ViewChangeCerts = (\<lambda>_. []),
     MaxSeq = 0,
     ExecutorSeq = 1,
     NewViewsSent = (\<lambda>_. False),
     LowWater = 1,
     HighWater = 10,
     DB = d,
     StartId = start,
     EndId = endId,
     LeaderMap = Map.empty,
     PCCommitsMap = (\<lambda>_. False),
     effects = []\<rparr>"

text \<open>
  \<open>establishConns\<close>: the initial leaders, and a client for every node but this one. Making a
  client does not connect, and is taken to succeed.
\<close>

definition establishConns :: "'b Node \<Rightarrow> 'b Node" where
  "establishConns n = n\<lparr>
     LeaderMap := (LeaderMap n)(''C1'' \<mapsto> ''S1'', ''C2'' \<mapsto> ''S5'', ''C3'' \<mapsto> ''S9''),
     ClientMap := map (\<lambda>(cluster, nodes). (cluster, filter (\<lambda>i. i \<noteq> node_Id n) (map fst nodes))) (NodeMap n)\<rparr>"

definition resetBalances :: "'b env \<Rightarrow> 'b Node \<Rightarrow> ('b Node, db_error option) outcome" where
  "resetBalances E n =
     (case InitiateBalances E (DB n) (StartId n) (EndId n) of
        Return d e \<Rightarrow> Return (n\<lparr>DB := d\<rparr>) e
      | Panic \<Rightarrow> Panic
      | Blocked d \<Rightarrow> Blocked (n\<lparr>DB := d\<rparr>))"

text \<open>The part of \<open>Start\<close> before its goroutines and its menu; errors are dropped there.\<close>

definition Start :: "'b env \<Rightarrow> 'b Node \<Rightarrow> ('b Node, unit) outcome" where
  "Start E n =
     andThen (resetBalances E (establishConns n)) (\<lambda>n _.
     andThen (resetBalances E n) (\<lambda>n _.
     Return (n\<lparr>Tmr := NewTimer 2500000000000\<rparr>) ()))"

section \<open>Public keys\<close>

text \<open>\<open>strings.Split\<close> for a separator of one character.\<close>

fun split_on :: "char \<Rightarrow> string \<Rightarrow> string list" where
  "split_on c [] = [[]]"
| "split_on c (x # xs) =
     (if x = c then [] # split_on c xs
      else (case split_on c xs of [] \<Rightarrow> [[x]] | p # ps \<Rightarrow> (x # p) # ps))"

definition key_path :: "string \<Rightarrow> string" where
  "key_path i = ''keys/'' @ i @ ''_pub.pem''"

text \<open>\<open>read\<close> is what the PEM file at \<open>path\<close> holds, \<open>None\<close> when it cannot be read.\<close>

definition readPublicKeyIntoMap :: "(string \<rightharpoonup> PublicKey) \<Rightarrow> 'b Node \<Rightarrow> string \<Rightarrow> 'b Node" where
  "readPublicKeyIntoMap read n path =
     (case read path of
        None \<Rightarrow> n
      | Some pubKey \<Rightarrow>
          n\<lparr>PublicKeyMap := (PublicKeyMap n)(hd (split_on CHR ''_'' (last (split_on CHR ''/'' path))) \<mapsto> pubKey)\<rparr>)"

text \<open>
  The gRPC client of a peer. A missing one is a nil interface, and a call on it panics.
\<close>

definition peers :: "'b Node \<Rightarrow> string \<Rightarrow> string list" where
  "peers n cluster = (case map_of (ClientMap n) cluster of None \<Rightarrow> [] | Some ids \<Rightarrow> ids)"

definition with_client :: "'b Node \<Rightarrow> string \<Rightarrow> string \<Rightarrow> ('b Node, 'a) outcome \<Rightarrow> ('b Node, 'a) outcome" where
  "with_client n cluster i k = (if i \<in> set (peers n cluster) then k else Panic)"

section \<open>The leader of a view\<close>

definition leader_name :: "int64 \<Rightarrow> int64 \<Rightarrow> string" where
  "leader_name clusterInt view =
     CHR ''S'' # FormatInt (add64 (mul64 (sub64 clusterInt 1) 4) (add64 (rem64 (sub64 view 1) 4) 1))"

text \<open>\<open>getViewLeader\<close>; slicing an empty cluster name panics (\<open>None\<close>).\<close>

definition getViewLeader :: "'b Node \<Rightarrow> string option" where
  "getViewLeader n =
     map_option (\<lambda>digits. leader_name (parse_ignoring_error digits) (View n))
       (slice_from 1 (ClusterId n))"

section \<open>Tables\<close>

definition getPublicKey :: "'b Node \<Rightarrow> string \<Rightarrow> PublicKey option" where
  "getPublicKey n i = PublicKeyMap n i"

definition getTransactionLog :: "'b Node \<Rightarrow> int64 \<Rightarrow> TransactionLog \<times> bool" where
  "getTransactionLog n seq =
     (case TransactionLog n seq of None \<Rightarrow> (zero_log, False) | Some l \<Rightarrow> (l, True))"

text \<open>Indexing the map without looking at the second result.\<close>

definition log_at :: "'b Node \<Rightarrow> int64 \<Rightarrow> TransactionLog" where
  "log_at n seq = fst (getTransactionLog n seq)"

definition writeLog ::
  "'b Node \<Rightarrow> int64 \<Rightarrow> Transaction \<Rightarrow> int64 \<Rightarrow> string \<Rightarrow> int64 \<Rightarrow> 'b Node" where
  "writeLog n seq t view digest timestamp = n\<lparr>
     MaxSeq := max (MaxSeq n) seq,
     TransactionLog := (TransactionLog n)(seq \<mapsto>
       \<lparr>tl_Transaction = Some t, tl_View = view, tl_State = States ''pre-prepared'',
        tl_Digest = digest, tl_Timestamp = timestamp, tl_ClientSeq = t_ClientSeq t\<rparr>)\<rparr>"

definition updateLog :: "'b Node \<Rightarrow> int64 \<Rightarrow> string \<Rightarrow> 'b Node" where
  "updateLog n seq status =
     (case TransactionLog n seq of
        None \<Rightarrow> n
      | Some l \<Rightarrow>
          if tl_State l < States status
          then n\<lparr>TransactionLog := (TransactionLog n)(seq \<mapsto> l\<lparr>tl_State := States status\<rparr>)\<rparr>
          else n)"

definition savePrePrepare :: "'b Node \<Rightarrow> int64 \<Rightarrow> PrePrepareRequest \<Rightarrow> 'b Node" where
  "savePrePrepare n seq p = n\<lparr>PrePrepares := (PrePrepares n)(seq \<mapsto> p)\<rparr>"

definition checkPrePrepare :: "'b Node \<Rightarrow> int64 \<Rightarrow> bool" where
  "checkPrePrepare n seq \<longleftrightarrow> PrePrepares n seq \<noteq> None"

definition put_request :: "'b Node \<Rightarrow> int64 \<Rightarrow> int64 \<Rightarrow> 'b Node" where
  "put_request n timestamp seq = n\<lparr>RequestLog :=
     (RequestLog n)(timestamp \<mapsto> \<lparr>rd_Seq = seq, rd_Executed = False, rd_Result = False\<rparr>)\<rparr>"

definition logClientRequest ::
  "'b Node \<Rightarrow> SignedClientRequest \<Rightarrow> int64 \<Rightarrow> ('b Node, unit) outcome" where
  "logClientRequest n r seq = with_seconds r (\<lambda>ts. Return (put_request n ts seq) ())"

definition saveTransactionToDatastore :: "'b Node \<Rightarrow> int64 \<Rightarrow> string \<Rightarrow> int64 \<Rightarrow> 'b Node" where
  "saveTransactionToDatastore n seq status clientSeq =
     (let logEntry = log_at n seq in n\<lparr>
        Datastore := (Datastore n)(seq \<mapsto>
          \<lparr>u_Seq = seq, u_Transaction = tl_Transaction logEntry, u_Status = status,
           u_timestamp = tl_Timestamp logEntry, u_ClientSeq = clientSeq\<rparr>),
        DatastoreMax := max (DatastoreMax n) seq\<rparr>)"

definition GetDatastoreLog :: "'b Node \<Rightarrow> int64 \<Rightarrow> DBUnit option" where
  "GetDatastoreLog n seq = Datastore n seq"

definition GetAllDatastore :: "'b Node \<Rightarrow> DBUnit list option" where
  "GetAllDatastore n =
     map_option (\<lambda>is. List.map_filter (Datastore n) is) (for_range 1 (DatastoreMax n))"

definition saveTransaction :: "'b env \<Rightarrow> 'b Node \<Rightarrow> int64 \<Rightarrow> string \<Rightarrow> ('b Node, unit) outcome" where
  "saveTransaction E n seq status =
     (let logEntry = log_at n seq in
      case SaveTransactionToDB E (DB n) seq (tl_Transaction logEntry) status of
        (d, Inr bs) \<Rightarrow> Return (n\<lparr>DB := d\<rparr>) ()
      | (d, Inl err) \<Rightarrow> deref (tl_Transaction logEntry) (\<lambda>t. Return (n\<lparr>DB := d\<rparr>) ()))"

text \<open>
  \<open>collectGarbage\<close> forgets the certificates and pre-prepares up to a sequence number. Its
  loops do not end at the largest \<open>int64\<close>; the first of them wraps around and clears the
  whole table meanwhile.
\<close>

definition collectGarbage :: "'b Node \<Rightarrow> int64 \<Rightarrow> ('b Node, unit) outcome" where
  "collectGarbage n seq =
     (case for_range 1 seq of
        None \<Rightarrow> Blocked (n\<lparr>PrepareCerts := (\<lambda>_. [])\<rparr>)
      | Some is \<Rightarrow> Return (n\<lparr>
          PrepareCerts := (\<lambda>i. if i \<in> set is then [] else PrepareCerts n i),
          CommitCerts := (\<lambda>i. if i \<in> set is then [] else CommitCerts n i),
          PrePrepares := (\<lambda>i. if i \<in> set is then None else PrePrepares n i)\<rparr>) ())"

section \<open>The tables as stores\<close>

interpretation tlog: keyed_store TransactionLog
  "\<lambda>n seq l. n\<lparr>MaxSeq := max (MaxSeq n) seq, TransactionLog := (TransactionLog n)(seq \<mapsto> l)\<rparr>"
  "\<lambda>_. True" "\<lambda>_ _. True" "\<lambda>_. True"
  by unfold_locales simp_all

interpretation pps: keyed_store PrePrepares savePrePrepare "\<lambda>_. True" "\<lambda>_ _. True" "\<lambda>_. True"
  by unfold_locales (simp_all add: savePrePrepare_def)

end
