(* ===== verification/Certs.thy ===== *)
theory Certs
  imports NodeLog
begin

text \<open>
  Certificates: the checks on a received prepare or commit (\<open>node/utils.go\<close>), the passes that
  keep the valid ones, and what a node does once it has enough of them
  (\<open>node/operations.go\<close>).
\<close>

datatype error =
    NotAlive
  | IsByzantine
  | NotPrepared
  | NotCommitted
  | NoPublicKey string
  | BadSignature
  | DigestMismatch
  | ViewMismatch
  | MissingPrePrepare
  | DigestFailed
  | NoTransactionAt int64
  | RpcFailed
  | SignFailed
  | InsufficientBalance
  | InsufficientCommits
  | CertsInvalid
  | Database_error db_error

section \<open>Checking one certificate on arrival\<close>

text \<open>The digest is compared with the log's, which is empty when nothing is logged.\<close>

definition verifyPrepareRequest :: "'b env \<Rightarrow> 'b Node \<Rightarrow> PrepareRequest \<Rightarrow> ('b Node, error option) outcome" where
  "verifyPrepareRequest E n req =
     deref (pr_Prepare req) (\<lambda>p.
       case PublicKeyMap n (p_NodeId p) of
         None \<Rightarrow> Return n (Some (NoPublicKey (p_NodeId p)))
       | Some pk \<Rightarrow>
           if \<not> verified E pk (wire_Prepare p) (pr_Signature req) then Return n (Some BadSignature)
           else if tl_Digest (log_at n (p_Sequence p)) \<noteq> p_Digest p then Return n (Some DigestMismatch)
           else Return n None)"

definition verifyCommitRequest :: "'b env \<Rightarrow> 'b Node \<Rightarrow> CommitRequest \<Rightarrow> ('b Node, error option) outcome" where
  "verifyCommitRequest E n req =
     deref (cmr_Commit req) (\<lambda>c.
       case PublicKeyMap n (c_NodeId c) of
         None \<Rightarrow> Return n (Some (NoPublicKey (c_NodeId c)))
       | Some pk \<Rightarrow>
           if \<not> verified E pk (wire_Commit c) (cmr_Signature req) then Return n (Some BadSignature)
           else if tl_Digest (log_at n (c_Sequence c)) \<noteq> c_Digest c then Return n (Some DigestMismatch)
           else Return n None)"

section \<open>Keeping the valid ones\<close>

text \<open>The body of the loop over prepares, for a log entry that is there.\<close>

definition prepare_passes :: "'b env \<Rightarrow> 'b Node \<Rightarrow> TransactionLog \<Rightarrow> Prepare \<Rightarrow> bytes \<Rightarrow> bool" where
  "prepare_passes E n l p sg =
     (case getPublicKey n (p_NodeId p) of
        None \<Rightarrow> False
      | Some pk \<Rightarrow> if \<not> verified E pk (wire_Prepare p) sg then False
                   else if tl_Digest l \<noteq> p_Digest p then False else True)"

fun prepare_certs_loop ::
  "'b env \<Rightarrow> 'b Node \<Rightarrow> TransactionLog \<Rightarrow> PrepareRequest list \<Rightarrow> PrepareRequest list
     \<Rightarrow> ('b Node, PrepareRequest list) outcome" where
  "prepare_certs_loop E n l certs [] = Return n certs"
| "prepare_certs_loop E n l certs (r # rs) =
     deref (pr_Prepare r) (\<lambda>p.
       prepare_certs_loop E n l
         (if prepare_passes E n l p (pr_Signature r) then certs @ [r] else certs) rs)"

definition getValidPrepareCerts ::
  "'b env \<Rightarrow> 'b Node \<Rightarrow> int64 \<Rightarrow> PrepareRequest list \<Rightarrow> ('b Node, PrepareRequest list) outcome" where
  "getValidPrepareCerts E n seq prepares =
     (case getTransactionLog n seq of
        (l, False) \<Rightarrow> Return n []
      | (l, True) \<Rightarrow> prepare_certs_loop E n l [] prepares)"

definition commit_passes :: "'b env \<Rightarrow> 'b Node \<Rightarrow> TransactionLog \<Rightarrow> Commit \<Rightarrow> bytes \<Rightarrow> bool" where
  "commit_passes E n l c sg =
     (case getPublicKey n (c_NodeId c) of
        None \<Rightarrow> False
      | Some pk \<Rightarrow> if \<not> verified E pk (wire_Commit c) sg then False
                   else if tl_State l < States ''prepared'' then False
                   else if tl_Digest l \<noteq> c_Digest c then False else True)"

fun commit_certs_loop ::
  "'b env \<Rightarrow> 'b Node \<Rightarrow> TransactionLog \<Rightarrow> CommitRequest list \<Rightarrow> CommitRequest list
     \<Rightarrow> ('b Node, CommitRequest list) outcome" where
  "commit_certs_loop E n l certs [] = Return n certs"
| "commit_certs_loop E n l certs (r # rs) =
     deref (cmr_Commit r) (\<lambda>c.
       commit_certs_loop E n l
         (if commit_passes E n l c (cmr_Signature r) then certs @ [r] else certs) rs)"

definition getValidCommitCerts ::
  "'b env \<Rightarrow> 'b Node \<Rightarrow> int64 \<Rightarrow> CommitRequest list \<Rightarrow> ('b Node, CommitRequest list) outcome" where
  "getValidCommitCerts E n seq commits =
     (case getTransactionLog n seq of
        (l, False) \<Rightarrow> Return n []
      | (l, True) \<Rightarrow> commit_certs_loop E n l [] commits)"

section \<open>Acting on enough of them\<close>

definition validatePrepares ::
  "'b env \<Rightarrow> 'b Node \<Rightarrow> int64 \<Rightarrow> PrepareRequest list \<Rightarrow> ('b Node, bool) outcome" where
  "validatePrepares E n seq prepares =
     andThen (getValidPrepareCerts E n seq prepares) (\<lambda>n certs.
       if 2 * F \<le> length certs then
         (let n1 = (if \<not> Byzantine n then updateLog n seq ''prepared'' else n) in
          Return (n1\<lparr>PrepareCerts := (PrepareCerts n1)(seq := certs)\<rparr>) True)
       else Return n False)"

text \<open>
  Committing: the state of the log entry, the write-ahead log for a prepare of a cross-shard
  transaction, the datastore entry the executor waits for, and the certificates. The error
  of \<open>AppendToWALEntry\<close> is dropped.
\<close>

definition commit_entry ::
  "'b env \<Rightarrow> 'b Node \<Rightarrow> int64 \<Rightarrow> string \<Rightarrow> int64 \<Rightarrow> Transaction option \<Rightarrow> 'b Node" where
  "commit_entry E n seq status clientSeq t =
     (let n1 = updateLog n seq ''committed'';
          n2 = (if status = ''P''
                then n1\<lparr>DB := fst (AppendToWALEntry E (DB n1) clientSeq
                        [\<lparr>wl_Operation = ''transaction'', wl_Subject = [], wl_Transaction = t\<rparr>])\<rparr>
                else n1)
      in saveTransactionToDatastore n2 seq status clientSeq)"

definition validateCommits ::
  "'b env \<Rightarrow> 'b Node \<Rightarrow> int64 \<Rightarrow> CommitRequest list \<Rightarrow> string \<Rightarrow> int64 \<Rightarrow> Transaction option
     \<Rightarrow> ('b Node, bool) outcome" where
  "validateCommits E n seq commits status clientSeq t =
     andThen (getValidCommitCerts E n seq commits) (\<lambda>n certs.
       if 2 * F + 1 \<le> length certs then
         (let n1 = (if \<not> Byzantine n then commit_entry E n seq status clientSeq t else n);
              n2 = n1\<lparr>CommitCerts := (CommitCerts n1)(seq := certs)\<rparr>
          in Return (emit (GoSaveTransaction seq status) n2) True)
       else Return n False)"

section \<open>The passes are filters\<close>

definition prepare_valid :: "'b env \<Rightarrow> 'b Node \<Rightarrow> int64 \<Rightarrow> PrepareRequest \<Rightarrow> bool" where
  "prepare_valid E n seq r \<longleftrightarrow>
     (\<exists>p pk l. pr_Prepare r = Some p \<and> TransactionLog n seq = Some l \<and>
        PublicKeyMap n (p_NodeId p) = Some pk \<and>
        verified E pk (wire_Prepare p) (pr_Signature r) \<and> p_Digest p = tl_Digest l)"

definition commit_valid :: "'b env \<Rightarrow> 'b Node \<Rightarrow> int64 \<Rightarrow> CommitRequest \<Rightarrow> bool" where
  "commit_valid E n seq r \<longleftrightarrow>
     (\<exists>c pk l. cmr_Commit r = Some c \<and> TransactionLog n seq = Some l \<and>
        PublicKeyMap n (c_NodeId c) = Some pk \<and>
        verified E pk (wire_Commit c) (cmr_Signature r) \<and>
        2 \<le> tl_State l \<and> c_Digest c = tl_Digest l)"

abbreviation has_prepare :: "PrepareRequest \<Rightarrow> bool" where
  "has_prepare r \<equiv> pr_Prepare r \<noteq> None"

abbreviation has_commit :: "CommitRequest \<Rightarrow> bool" where
  "has_commit r \<equiv> cmr_Commit r \<noteq> None"

lemma prepare_valid_eq:
  "TransactionLog n seq = Some l \<Longrightarrow> pr_Prepare r = Some p \<Longrightarrow>
     prepare_valid E n seq r = prepare_passes E n l p (pr_Signature r)"
  by (auto simp: prepare_valid_def prepare_passes_def getPublicKey_def split: option.splits)

lemma commit_valid_eq:
  "TransactionLog n seq = Some l \<Longrightarrow> cmr_Commit r = Some c \<Longrightarrow>
     commit_valid E n seq r = commit_passes E n l c (cmr_Signature r)"
  by (auto simp: commit_valid_def commit_passes_def getPublicKey_def States_def split: option.splits)

lemma prepare_certs_loop_filter:
  "TransactionLog n seq = Some l \<Longrightarrow> list_all has_prepare rs \<Longrightarrow>
     prepare_certs_loop E n l certs rs = Return n (certs @ filter (prepare_valid E n seq) rs)"
  by (induction rs arbitrary: certs) (auto simp: prepare_valid_eq)

lemma commit_certs_loop_filter:
  "TransactionLog n seq = Some l \<Longrightarrow> list_all has_commit rs \<Longrightarrow>
     commit_certs_loop E n l certs rs = Return n (certs @ filter (commit_valid E n seq) rs)"
  by (induction rs arbitrary: certs) (auto simp: commit_valid_eq)

lemma getValidPrepareCerts_filter:
  "list_all has_prepare rs \<Longrightarrow>
     getValidPrepareCerts E n seq rs = Return n (filter (prepare_valid E n seq) rs)"
proof (cases "TransactionLog n seq")
  case None
  then show ?thesis by (simp add: getValidPrepareCerts_def getTransactionLog_def prepare_valid_def)
next
  case (Some l)
  assume "list_all has_prepare rs"
  with Some show ?thesis
    by (simp add: getValidPrepareCerts_def getTransactionLog_def prepare_certs_loop_filter)
qed

lemma getValidCommitCerts_filter:
  "list_all has_commit rs \<Longrightarrow>
     getValidCommitCerts E n seq rs = Return n (filter (commit_valid E n seq) rs)"
proof (cases "TransactionLog n seq")
  case None
  then show ?thesis by (simp add: getValidCommitCerts_def getTransactionLog_def commit_valid_def)
next
  case (Some l)
  assume "list_all has_commit rs"
  with Some show ?thesis
    by (simp add: getValidCommitCerts_def getTransactionLog_def commit_certs_loop_filter)
qed

lemma prepare_certs_loop_nil:
  "TransactionLog n seq = Some l \<Longrightarrow> \<not> list_all has_prepare rs \<Longrightarrow>
     prepare_certs_loop E n l certs rs = Panic"
  by (induction rs arbitrary: certs) auto

lemma commit_certs_loop_nil:
  "TransactionLog n seq = Some l \<Longrightarrow> \<not> list_all has_commit rs \<Longrightarrow>
     commit_certs_loop E n l certs rs = Panic"
  by (induction rs arbitrary: certs) auto

text \<open>The whole behaviour of the two passes: a nil certificate panics, unless nothing is logged.\<close>

lemma getValidPrepareCerts_cases:
  "getValidPrepareCerts E n seq rs =
     (if TransactionLog n seq \<noteq> None \<and> \<not> list_all has_prepare rs then Panic
      else Return n (filter (prepare_valid E n seq) rs))"
  by (cases "TransactionLog n seq")
    (auto simp: getValidPrepareCerts_def getTransactionLog_def prepare_certs_loop_filter
      prepare_certs_loop_nil prepare_valid_def)

lemma getValidCommitCerts_cases:
  "getValidCommitCerts E n seq rs =
     (if TransactionLog n seq \<noteq> None \<and> \<not> list_all has_commit rs then Panic
      else Return n (filter (commit_valid E n seq) rs))"
  by (cases "TransactionLog n seq")
    (auto simp: getValidCommitCerts_def getTransactionLog_def commit_certs_loop_filter
      commit_certs_loop_nil commit_valid_def)

fun value_or_nil :: "('s, 'c list) outcome \<Rightarrow> 'c list" where
  "value_or_nil (Return s cs) = cs"
| "value_or_nil Panic = []"
| "value_or_nil (Blocked s) = []"

interpretation pcerts: certificate_filter
  "\<lambda>(E, n) seq rs. value_or_nil (getValidPrepareCerts E n seq rs)"
  "\<lambda>(E, n) seq. prepare_valid E n seq" has_prepare
  by unfold_locales (simp add: getValidPrepareCerts_filter split: prod.splits)

interpretation ccerts: certificate_filter
  "\<lambda>(E, n) seq rs. value_or_nil (getValidCommitCerts E n seq rs)"
  "\<lambda>(E, n) seq. commit_valid E n seq" has_commit
  by unfold_locales (simp add: getValidCommitCerts_filter split: prod.splits)

section \<open>What the two validations do\<close>

definition prepared_state :: "'b Node \<Rightarrow> int64 \<Rightarrow> PrepareRequest list \<Rightarrow> 'b Node" where
  "prepared_state n seq certs =
     (let n1 = (if \<not> Byzantine n then updateLog n seq ''prepared'' else n) in
      n1\<lparr>PrepareCerts := (PrepareCerts n1)(seq := certs)\<rparr>)"

definition committed_state ::
  "'b env \<Rightarrow> 'b Node \<Rightarrow> int64 \<Rightarrow> CommitRequest list \<Rightarrow> string \<Rightarrow> int64 \<Rightarrow> Transaction option \<Rightarrow> 'b Node" where
  "committed_state E n seq certs status clientSeq t =
     (let n1 = (if \<not> Byzantine n then commit_entry E n seq status clientSeq t else n) in
      emit (GoSaveTransaction seq status) (n1\<lparr>CommitCerts := (CommitCerts n1)(seq := certs)\<rparr>))"

lemma validatePrepares_cases:
  "validatePrepares E n seq rs =
     (if TransactionLog n seq \<noteq> None \<and> \<not> list_all has_prepare rs then Panic
      else if 2 * F \<le> length (filter (prepare_valid E n seq) rs)
      then Return (prepared_state n seq (filter (prepare_valid E n seq) rs)) True
      else Return n False)"
  by (simp add: validatePrepares_def getValidPrepareCerts_cases prepared_state_def Let_def)

lemma validateCommits_cases:
  "validateCommits E n seq rs status k t =
     (if TransactionLog n seq \<noteq> None \<and> \<not> list_all has_commit rs then Panic
      else if 2 * F + 1 \<le> length (filter (commit_valid E n seq) rs)
      then Return (committed_state E n seq (filter (commit_valid E n seq) rs) status k t) True
      else Return n False)"
  by (simp add: validateCommits_def getValidCommitCerts_cases committed_state_def Let_def)

end
