(* ===== verification/Replica.thy ===== *)
theory Replica
  imports Certs
begin

text \<open>
  The handlers of the three phases on a replica (\<open>PrePrepare\<close>, \<open>Prepare\<close>, \<open>Commit\<close> of
  \<open>node/rpc.go\<close>) and the goroutines a replica runs in answer to a pre-prepare
  (\<open>sendPrepareReq\<close>, \<open>sendCommitReq\<close> of \<open>node/operations.go\<close>).

  Handlers run concurrently. Where a handler waits, what the others do to the node in the
  meantime is an argument: a function on the node for each wait (\<open>rely\<close>), the answers of
  remote calls, and what a polling loop sees each time it looks.
\<close>

section \<open>Waiting for locks\<close>

text \<open>
  The retry loop around \<open>CheckAndGetLocks\<close>: after each failed attempt the others run for one
  entry of \<open>rely\<close>; with none left the handler is still waiting.
\<close>

fun lock_loop ::
  "'b env \<Rightarrow> string list \<Rightarrow> ('b Node \<Rightarrow> bool) \<Rightarrow> ('b Node \<Rightarrow> 'b Node) list \<Rightarrow> 'b Node
     \<Rightarrow> ('b Node, unit) outcome" where
  "lock_loop E clients byz rely n =
     (case CheckAndGetLocks E (DB n) clients (byz n) of
        (d, None) \<Rightarrow> Return (n\<lparr>DB := d\<rparr>) ()
      | (d, Some err) \<Rightarrow>
          (case rely of [] \<Rightarrow> Blocked n | r # rs \<Rightarrow> lock_loop E clients byz rs (r n)))"

declare lock_loop.simps [simp del]

definition tx_clients :: "Transaction \<Rightarrow> string list" where
  "tx_clients t = [t_From t, t_To t]"

section \<open>PrePrepare\<close>

text \<open>The checks before anything is written, in the order of the source.\<close>

definition preprepare_checks ::
  "'b env \<Rightarrow> 'b Node \<Rightarrow> PrePrepareRequest \<Rightarrow> PrePrepare \<Rightarrow> ('b Node, error option) outcome" where
  "preprepare_checks E n req pp =
     (let seq = pp_Sequence pp in
      if View n \<noteq> pp_View pp then Return n (Some ViewMismatch)
      else if seq \<noteq> 1 \<and> \<not> checkPrePrepare n (sub64 seq 1) then Return n (Some MissingPrePrepare)
      else if (case TransactionLog n seq of
                 None \<Rightarrow> False
               | Some l \<Rightarrow> tl_View l = pp_View pp \<and> tl_Digest l \<noteq> pp_Digest pp)
        then Return n (Some DigestMismatch)
      else (case MD5Hash E (JClientReq (ppr_ClientReq req)) of
          None \<Rightarrow> Return n (Some DigestFailed)
        | Some computedDigest \<Rightarrow>
            if computedDigest \<noteq> pp_Digest pp then Return n (Some DigestMismatch)
            else (case PublicKeyMap n ''client'' of
                None \<Rightarrow> Return n (Some (NoPublicKey ''client''))
              | Some clientKey \<Rightarrow>
                  deref (ppr_ClientReq req) (\<lambda>cr.
                    if \<not> verified E clientKey (top_fields wire_ClientRequest (scr_ClientRequest cr))
                           (scr_Signature cr)
                    then Return n (Some BadSignature)
                    else deref (getViewLeader n) (\<lambda>leader.
                      deref (PublicKeyMap n leader) (\<lambda>leaderKey.
                        if \<not> verified E leaderKey (wire_PrePrepare pp) (ppr_Signature req)
                        then Return n (Some BadSignature)
                        else Return n None))))))"

text \<open>
  After the checks: the timer, the request log, the locks for a transaction that has not
  been prepared before, and then the log entry, the saved pre-prepare and the prepare.
\<close>

definition preprepare_accept ::
  "'b env \<Rightarrow> ('b Node \<Rightarrow> 'b Node) list \<Rightarrow> 'b Node \<Rightarrow> PrePrepareRequest \<Rightarrow> PrePrepare \<Rightarrow> string
     \<Rightarrow> ('b Node, error option) outcome" where
  "preprepare_accept E rely n req pp leader =
     (let seq = pp_Sequence pp; n = emit GoTimerStartIfNotRunning n in
      deref (ppr_ClientReq req) (\<lambda>cr.
      with_seconds cr (\<lambda>ts.
      let n = (if RequestLog n ts = None then put_request n ts seq else n) in
      andThen
        (if pp_Status pp = [] \<or> pp_Status pp = ''P''
         then with_tx cr (\<lambda>t. lock_loop E (tx_clients t) Byzantine rely n)
         else Return n ())
        (\<lambda>n _. with_tx cr (\<lambda>t.
           Return
             (emit (GoSendPrepareReq seq req leader (pp_Status pp))
                (savePrePrepare (writeLog n seq t (View n) (pp_Digest pp) ts) seq req))
             None)))))"

definition rpc_PrePrepare ::
  "'b env \<Rightarrow> ('b Node \<Rightarrow> 'b Node) list \<Rightarrow> 'b Node \<Rightarrow> PrePrepareRequest
     \<Rightarrow> ('b Node, error option) outcome" where
  "rpc_PrePrepare E rely n req =
     (if ViewChanging n then Return (emit GoTimerStartIfNotRunning n) None
      else if \<not> Live n then Return n None
      else deref (ppr_PrePrepare req) (\<lambda>pp.
        andThen (preprepare_checks E n req pp) (\<lambda>n err.
          case err of
            Some e \<Rightarrow> Return n (Some e)
          | None \<Rightarrow> deref (getViewLeader n) (\<lambda>leader. preprepare_accept E rely n req pp leader))))"

section \<open>Prepare and Commit at the leader\<close>

text \<open>
  The polling loop: each round before the timer fires looks at the collected certificates
  and stops once there are enough; the list holds what the rounds see.
\<close>

fun poll_certs :: "nat \<Rightarrow> 'c list list \<Rightarrow> 'c list \<Rightarrow> 'c list" where
  "poll_certs enough [] seen = seen"
| "poll_certs enough (c # cs) seen = (if enough \<le> length c then c else poll_certs enough cs c)"

text \<open>
  Handing a valid certificate to the collector of its sequence number: with no channel (nil)
  or with no collector reading it any more, the send never returns.
\<close>

definition rpc_Prepare ::
  "'b env \<Rightarrow> bool \<Rightarrow> PrepareRequest list list \<Rightarrow> 'b Node \<Rightarrow> PrepareRequest
     \<Rightarrow> ('b Node, error + PrepareRequest list) outcome" where
  "rpc_Prepare E collector_reads polls n req =
     (if \<not> Live n then Return n (Inl NotAlive)
      else if ViewChanging n then Return n (Inr [])
      else if Byzantine n then Return n (Inl IsByzantine)
      else andThen (verifyPrepareRequest E n req) (\<lambda>n err.
        deref (pr_Prepare req) (\<lambda>p.
        andThen
          (if err = None then
             if PrepareCertChans n (p_Sequence p) \<and> collector_reads
             then Return (emit (ChanPrepare (p_Sequence p) req) n) ()
             else Blocked n
           else Return n ())
          (\<lambda>n _.
             let prepareCerts = poll_certs (2 * F) polls [] in
             if 2 * F \<le> length prepareCerts then Return n (Inr prepareCerts)
             else Return n (Inl NotPrepared)))))"

definition rpc_Commit ::
  "'b env \<Rightarrow> bool \<Rightarrow> CommitRequest list list \<Rightarrow> 'b Node \<Rightarrow> CommitRequest
     \<Rightarrow> ('b Node, error + CommitRequest list) outcome" where
  "rpc_Commit E collector_reads polls n req =
     (if \<not> Live n then Return n (Inl NotAlive)
      else if ViewChanging n then Return n (Inr [])
      else andThen (verifyCommitRequest E n req) (\<lambda>n err.
        deref (cmr_Commit req) (\<lambda>c.
        andThen
          (if err = None then
             if CommitCertChans n (c_Sequence c) \<and> collector_reads
             then Return (emit (ChanCommit (c_Sequence c) req) n) ()
             else Blocked n
           else Return n ())
          (\<lambda>n _.
             let commitCerts = poll_certs (2 * F + 1) polls [] in
             if 2 * F < length commitCerts then Return n (Inr commitCerts)
             else Return n (Inl NotCommitted)))))"

section \<open>A replica's side of the phases\<close>

definition own_commit :: "'b Node \<Rightarrow> int64 \<Rightarrow> string \<Rightarrow> Commit" where
  "own_commit n seq digest =
     \<lparr>c_View = View n, c_Sequence = seq, c_Digest = digest, c_NodeId = node_Id n\<rparr>"

text \<open>
  \<open>sendCommitReq\<close>; a Byzantine node sends an empty digest. \<open>rely\<close> is what happens to the node
  during the call, \<open>reply\<close> what the leader answers (\<open>None\<close> for an RPC error).
\<close>

definition sendCommitReq ::
  "'b env \<Rightarrow> ('b Node \<Rightarrow> 'b Node) \<Rightarrow> CommitRequest list option \<Rightarrow> 'b Node \<Rightarrow> int64 \<Rightarrow> string \<Rightarrow> int64
     \<Rightarrow> Transaction option \<Rightarrow> ('b Node, error option) outcome" where
  "sendCommitReq E rely reply n seq status clientSeq t =
     (case getTransactionLog n seq of
        (l, False) \<Rightarrow> Return n (Some (NoTransactionAt seq))
      | (l, True) \<Rightarrow>
          deref (getViewLeader n) (\<lambda>leader.
          let commit = own_commit n seq (if \<not> Byzantine n then tl_Digest l else []) in
          case SignMessage E (node_PrivateKey n) (wire_Commit commit) of
            None \<Rightarrow> Return n (Some SignFailed)
          | Some signature \<Rightarrow>
              with_client n (ClusterId n) leader
                (let n = rely (emit (RpcCommit leader
                           \<lparr>cmr_Commit = Some commit, cmr_Signature = signature\<rparr>) n) in
                 case reply of
                   None \<Rightarrow> Return n (Some RpcFailed)
                 | Some commitCerts \<Rightarrow>
                     andThen (validateCommits E
                        (n\<lparr>CommitCerts := (CommitCerts n)(seq := commitCerts)\<rparr>)
                        seq commitCerts status clientSeq t)
                       (\<lambda>n committed. Return n None))))"

definition own_prepare :: "'b Node \<Rightarrow> PrePrepare \<Rightarrow> Prepare" where
  "own_prepare n pp =
     \<lparr>p_View = pp_View pp, p_Sequence = pp_Sequence pp,
      p_Digest = (if \<not> Byzantine n then pp_Digest pp else []), p_NodeId = node_Id n\<rparr>"

definition release_of :: "'b env \<Rightarrow> 'b Node \<Rightarrow> Transaction \<Rightarrow> 'b Node" where
  "release_of E n t = n\<lparr>DB := ReleaseLocksDB E (DB n) (tx_clients t)\<rparr>"

definition with_request_tx ::
  "PrePrepareRequest \<Rightarrow> (Transaction \<Rightarrow> ('s, 'a) outcome) \<Rightarrow> ('s, 'a) outcome" where
  "with_request_tx req k = deref (ppr_ClientReq req) (\<lambda>cr. with_tx cr k)"

text \<open>
  \<open>sendPrepareReq\<close>: on any failure to get certificates the locks are released; with enough
  valid prepares the commit phase follows at once.
\<close>

definition sendPrepareReq ::
  "'b env \<Rightarrow> ('b Node \<Rightarrow> 'b Node) \<Rightarrow> PrepareRequest list option
     \<Rightarrow> ('b Node \<Rightarrow> 'b Node) \<Rightarrow> CommitRequest list option
     \<Rightarrow> 'b Node \<Rightarrow> int64 \<Rightarrow> PrePrepareRequest \<Rightarrow> string \<Rightarrow> string \<Rightarrow> ('b Node, error option) outcome" where
  "sendPrepareReq E rely1 reply1 rely2 reply2 n seq req leader status =
     deref (ppr_PrePrepare req) (\<lambda>pp.
     let prepare = own_prepare n pp in
     case SignMessage E (node_PrivateKey n) (wire_Prepare prepare) of
       None \<Rightarrow> with_request_tx req (\<lambda>t. Return (release_of E n t) (Some SignFailed))
     | Some signature \<Rightarrow>
         with_client n (ClusterId n) leader
           (let n = rely1 (emit (RpcPrepare leader
                      \<lparr>pr_Prepare = Some prepare, pr_Signature = signature\<rparr>) n) in
            case reply1 of
              None \<Rightarrow> with_request_tx req (\<lambda>t. Return (release_of E n t) (Some RpcFailed))
            | Some prepareCerts \<Rightarrow>
                andThen (validatePrepares E
                    (n\<lparr>PrepareCerts := (PrepareCerts n)(seq := prepareCerts)\<rparr>) seq prepareCerts)
                  (\<lambda>n prepared.
                     if prepared then with_request_tx req (\<lambda>t.
                       andThen (sendCommitReq E rely2 reply2 n seq status (t_ClientSeq t) (Some t))
                         (\<lambda>n e. Return n None))
                     else Return n None)))"

end
