(* ===== verification/Primary.thy ===== *)
theory Primary
  imports Replica
begin

text \<open>
  One run of the protocol at the leader (\<open>runPBFT\<close>, \<open>collectPrepares\<close>, \<open>collectCommits\<close>,
  \<open>sendCommitToSelf\<close> of \<open>node/operations.go\<close>). What the environment contributes to a run is
  a record \<open>pbft_io\<close>: what the other goroutines do to the node while the run waits, and the
  order in which certificates and timers arrive at the two collectors.
\<close>

section \<open>Collecting from a channel\<close>

datatype 'c chan_event = Receive 'c | TimerFires | AfterMajorityFires

text \<open>
  Once the majority is there, only the second timer ends the collection (the first is no
  longer selected on); \<open>None\<close> means the events given so far do not end it.
\<close>

fun collect_more :: "'c chan_event list \<Rightarrow> 'c list \<Rightarrow> 'c list option" where
  "collect_more [] certs = None"
| "collect_more (Receive c # es) certs = collect_more es (certs @ [c])"
| "collect_more (AfterMajorityFires # es) certs = Some certs"
| "collect_more (TimerFires # es) certs = collect_more es certs"

fun collect :: "nat \<Rightarrow> 'c chan_event list \<Rightarrow> 'c list \<Rightarrow> 'c list option" where
  "collect majority [] certs = None"
| "collect majority (Receive c # es) certs =
     (if length (certs @ [c]) = majority then collect_more es (certs @ [c])
      else collect majority es (certs @ [c]))"
| "collect majority (TimerFires # es) certs = Some certs"
| "collect majority (AfterMajorityFires # es) certs = collect majority es certs"

record 'b pbft_io =
  lock_rely :: "('b Node \<Rightarrow> 'b Node) list"
  prepare_rely :: "'b Node \<Rightarrow> 'b Node"
  prepare_events :: "PrepareRequest chan_event list"
  commit_rely :: "'b Node \<Rightarrow> 'b Node"
  commit_events :: "CommitRequest chan_event list"

definition collectPrepares ::
  "('b Node \<Rightarrow> 'b Node) \<Rightarrow> PrepareRequest chan_event list \<Rightarrow> 'b Node \<Rightarrow> int64
     \<Rightarrow> ('b Node, error option) outcome" where
  "collectPrepares rely events n seq =
     (let n = rely n in
      case collect (2 * F) events [] of
        None \<Rightarrow> Blocked n
      | Some certs \<Rightarrow> Return (n\<lparr>PrepareCerts := (PrepareCerts n)(seq := certs)\<rparr>) None)"

definition collectCommits ::
  "'b env \<Rightarrow> ('b Node \<Rightarrow> 'b Node) \<Rightarrow> CommitRequest chan_event list \<Rightarrow> 'b Node \<Rightarrow> int64 \<Rightarrow> string
     \<Rightarrow> int64 \<Rightarrow> Transaction option \<Rightarrow> ('b Node, bool) outcome" where
  "collectCommits E rely events n seq status clientSeq t =
     (let n = rely n in
      case collect (2 * F + 1) events [] of
        None \<Rightarrow> Blocked n
      | Some certs \<Rightarrow>
          validateCommits E (n\<lparr>CommitCerts := (CommitCerts n)(seq := certs)\<rparr>)
            seq certs status clientSeq t)"

section \<open>The run\<close>

definition empty_request :: PrePrepareRequest where
  "empty_request = \<lparr>ppr_PrePrepare = None, ppr_Signature = [], ppr_ClientReq = None\<rparr>"

text \<open>
  The first part, for a transaction that is new (status empty) or prepared (\<open>P\<close>): take the
  locks, and at the sender's shard check the balance, giving the locks back when it fails.
\<close>

definition secure_locks ::
  "'b env \<Rightarrow> ('b Node \<Rightarrow> 'b Node) list \<Rightarrow> 'b Node \<Rightarrow> SignedClientRequest
     \<Rightarrow> ('b Node, error option) outcome" where
  "secure_locks E rely n r =
     with_tx r (\<lambda>t.
     andThen (lock_loop E (tx_clients t) (\<lambda>_. False) rely n) (\<lambda>n _.
     if t_ClusterFrom t = ClusterId n then
       (case GetBalance E (DB n) (t_From t) of
          Inl err \<Rightarrow> Return (release_of E n t) (Some (Database_error err))
        | Inr balance \<Rightarrow>
            if balance < t_Amount t then Return (release_of E n t) (Some InsufficientBalance)
            else Return n None)
     else Return n None))"

text \<open>
  A new sequence number and a signed pre-prepare, or the one saved under \<open>oldSeq\<close>.
\<close>

definition assign_seq ::
  "'b env \<Rightarrow> 'b Node \<Rightarrow> SignedClientRequest \<Rightarrow> int64 \<Rightarrow> string \<Rightarrow> string
     \<Rightarrow> ('b Node, PrePrepareRequest \<times> PrePrepare) outcome" where
  "assign_seq E n r oldSeq status digest =
     (if oldSeq = 0 then
        (let prePrepare = \<lparr>pp_View = View n, pp_Sequence = Seq n, pp_Digest = digest,
               pp_Status = status, pp_Wal = [], pp_Locks = []\<rparr> in
         Return (n\<lparr>Seq := add64 (Seq n) 1\<rparr>)
           (\<lparr>ppr_PrePrepare = Some prePrepare,
             ppr_Signature = signature_or_nil E (node_PrivateKey n) (wire_PrePrepare prePrepare),
             ppr_ClientReq = Some r\<rparr>, prePrepare))
      else deref (PrePrepares n oldSeq) (\<lambda>req.
        deref (ppr_PrePrepare req) (\<lambda>pp. Return n (req, pp))))"

text \<open>Log the request and the pre-prepare, make the channels, and send it to the cluster.\<close>

definition announce ::
  "'b Node \<Rightarrow> SignedClientRequest \<Rightarrow> PrePrepareRequest \<Rightarrow> PrePrepare \<Rightarrow> ('b Node, unit) outcome" where
  "announce n r req pp =
     (let seq = pp_Sequence pp in
      andThen (logClientRequest n r seq) (\<lambda>n _.
      deref (ppr_ClientReq req) (\<lambda>cr.
      deref (scr_ClientRequest cr) (\<lambda>cq.
      with_seconds cr (\<lambda>ts.
      deref (cr_Transaction cq) (\<lambda>t.
      let n = savePrePrepare (writeLog n seq t (View n) (pp_Digest pp) ts) seq req;
          n = n\<lparr>PrepareCertChans := (PrepareCertChans n)(seq := True),
                CommitCertChans := (CommitCertChans n)(seq := True)\<rparr>
      in Return
           (emits (map (\<lambda>i. RpcPrePrepare i req)
              (filter (\<lambda>i. i \<noteq> node_Id n) (peers n (ClusterId n)))) n) ()))))))"

text \<open>Any failure after the pre-prepare was sent releases the locks and is an error.\<close>

definition give_up ::
  "'b env \<Rightarrow> 'b Node \<Rightarrow> SignedClientRequest \<Rightarrow> PrePrepareRequest option \<Rightarrow> error
     \<Rightarrow> ('b Node, PrePrepareRequest option \<times> error option) outcome" where
  "give_up E n r req err = with_tx r (\<lambda>t. Return (release_of E n t) (req, Some err))"

definition runPBFT ::
  "'b env \<Rightarrow> 'b pbft_io \<Rightarrow> 'b Node \<Rightarrow> SignedClientRequest \<Rightarrow> int64 \<Rightarrow> string
     \<Rightarrow> ('b Node, PrePrepareRequest option \<times> error option) outcome" where
  "runPBFT E io n r oldSeq status =
     (case MD5Hash E (JClientReq (Some r)) of
        None \<Rightarrow> Return n (Some empty_request, Some DigestFailed)
      | Some digest \<Rightarrow>
          andThen (if status = ''P'' \<or> status = [] then secure_locks E (lock_rely io) n r
                   else Return n None)
          (\<lambda>n lockErr. case lockErr of
             Some err \<Rightarrow> Return n (Some empty_request, Some err)
           | None \<Rightarrow>
               andThen (assign_seq E n r oldSeq status digest) (\<lambda>n (req, pp).
               andThen (announce n r req pp) (\<lambda>n _.
               andThen (collectPrepares (prepare_rely io) (prepare_events io) n (pp_Sequence pp)) (\<lambda>n err.
               case err of
                 Some e \<Rightarrow> give_up E n r None e
               | None \<Rightarrow>
                   andThen (validatePrepares E n (pp_Sequence pp) (PrepareCerts n (pp_Sequence pp)))
                   (\<lambda>n prepared.
                      if prepared then with_tx r (\<lambda>t.
                        andThen (collectCommits E (commit_rely io) (commit_events io)
                            (emit (GoSendCommitToSelf (pp_Sequence pp)) n)
                            (pp_Sequence pp) status (t_ClientSeq t) (Some t))
                          (\<lambda>n res. if res then Return n (Some req, None)
                                   else give_up E n r (Some req) NotCommitted))
                      else give_up E n r (Some req) NotPrepared))))))"

text \<open>
  \<open>sendCommitToSelf\<close>: the leader's own commit, through its own handler. A signing error is
  only logged, and the commit goes out without a signature.
\<close>

definition sendCommitToSelf ::
  "'b env \<Rightarrow> ('b Node \<Rightarrow> 'b Node) \<Rightarrow> bool \<Rightarrow> CommitRequest list list \<Rightarrow> 'b Node \<Rightarrow> int64
     \<Rightarrow> ('b Node, error + CommitRequest list) outcome" where
  "sendCommitToSelf E rely collector_reads polls n seq =
     (let commit = own_commit n seq (tl_Digest (log_at n seq)) in
      rpc_Commit E collector_reads polls (rely n)
        \<lparr>cmr_Commit = Some commit,
         cmr_Signature = signature_or_nil E (node_PrivateKey n) (wire_Commit commit)\<rparr>)"

end
