(* ===== verification/Executor.thy ===== *)
theory Executor
  imports NodeLog
begin

text \<open>
  The executor goroutine (\<open>executor\<close>, \<open>executeDatastoreLog\<close> of \<open>node/node.go\<close>, \<open>undoWAL\<close> of
  \<open>node/utils.go\<close>): it takes the committed entries of the datastore in sequence order,
  applies or undoes them, releases their locks and answers the client.
\<close>

section \<open>One entry\<close>

text \<open>Undoing applies the opposite of every logged transaction; a nil one panics.\<close>

fun undo_logs :: "'b env \<Rightarrow> WALLog list \<Rightarrow> 'b Node \<Rightarrow> ('b Node, db_error option) outcome" where
  "undo_logs E [] n = Return n None"
| "undo_logs E (l # ls) n =
     deref (wl_Transaction l) (\<lambda>t.
       undo_logs E ls (n\<lparr>DB := UpdateBalances E (DB n) (reverse_tx t)\<rparr>))"

definition undoWAL :: "'b env \<Rightarrow> 'b Node \<Rightarrow> int64 \<Rightarrow> ('b Node, db_error option) outcome" where
  "undoWAL E n clientSeq =
     (case ReadWALEntry E (DB n) clientSeq of
        Inl err \<Rightarrow> Return n (Some err)
      | Inr wal \<Rightarrow> undo_logs E (Logs wal) n)"

definition executeDatastoreLog :: "'b env \<Rightarrow> 'b Node \<Rightarrow> DBUnit \<Rightarrow> ('b Node, bool) outcome" where
  "executeDatastoreLog E n u =
     andThen
       (if u_Status u = [] \<or> u_Status u = ''P'' then
          deref (u_Transaction u) (\<lambda>t. Return (n\<lparr>DB := UpdateBalances E (DB n) t\<rparr>) ())
        else if u_Status u = ''A'' then
          andThen (undoWAL E n (u_ClientSeq u)) (\<lambda>n err. Return n ())
        else Return n ())
     (\<lambda>n _. andThen
       (if u_Status u \<noteq> ''P'' then
          deref (u_Transaction u) (\<lambda>t.
            Return (n\<lparr>DB := ReleaseLocksDB E (DB n) [t_From t, t_To t]\<rparr>) ())
        else Return n ())
     (\<lambda>n _. Return (n\<lparr>ExecutionCount := add64 (ExecutionCount n) 1\<rparr>) True))"

section \<open>The loop\<close>

text \<open>
  One round: nothing to do until the next sequence number is in the datastore. An aborted
  transaction is reported as failed; one that is only prepared is not reported.
\<close>

definition executor_round :: "'b env \<Rightarrow> 'b Node \<Rightarrow> ('b Node, unit) outcome" where
  "executor_round E n =
     (case GetDatastoreLog n (ExecutorSeq n) of
        None \<Rightarrow> Return n ()
      | Some u \<Rightarrow>
          andThen (executeDatastoreLog E n u) (\<lambda>n res.
          andThen
            (if u_Status u = [] \<or> u_Status u = ''C'' then
               deref (u_Transaction u) (\<lambda>t.
                 Return (emits [GoReplyToClient (u_timestamp u) res (t_ClientSeq t),
                                GoUpdateLog (u_Seq u) ''executed''] n) ())
             else if u_Status u = ''A'' then
               deref (u_Transaction u) (\<lambda>t.
                 Return (emits [GoReplyToClient (u_timestamp u) False (t_ClientSeq t),
                                GoUpdateLog (u_Seq u) ''executed''] n) ())
             else Return n ())
          (\<lambda>n _. Return (n\<lparr>ExecutorSeq := add64 (ExecutorSeq n) 1\<rparr>) ())))"

fun executor_rounds :: "'b env \<Rightarrow> nat \<Rightarrow> 'b Node \<Rightarrow> ('b Node, unit) outcome" where
  "executor_rounds E 0 n = Return n ()"
| "executor_rounds E (Suc k) n = andThen (executor_round E n) (\<lambda>n _. executor_rounds E k n)"

section \<open>Answering the client\<close>

definition replyToClient :: "'b env \<Rightarrow> 'b Node \<Rightarrow> int64 \<Rightarrow> bool \<Rightarrow> int64 \<Rightarrow> 'b Node" where
  "replyToClient E n timestamp result clientSeq =
     (let reply = \<lparr>r_View = View n,
            r_Timestamp = Some \<lparr>ts_Seconds = timestamp, ts_Nanos = 0\<rparr>,
            r_Server = node_Id n, r_Result = result, r_Clientseq = clientSeq\<rparr> in
      case SignMessage E (node_PrivateKey n) (wire_Reply reply) of
        None \<Rightarrow> n
      | Some signature \<Rightarrow>
          emit (RpcReply \<lparr>sr_Reply = Some reply, sr_Signature = signature\<rparr>) n)"

end
