(* ===== verification/TwoPhase.thy ===== *)
theory TwoPhase
  imports Primary Executor
begin

text \<open>
  Client requests and two-phase commit across shards: \<open>runIntrashard\<close> and \<open>runCrossShard\<close>
  of \<open>node/pbft_runner.go\<close>, and \<open>ExecuteTransaction\<close>, \<open>PCPrepare\<close>, \<open>waitForPCCommit\<close>,
  \<open>PCCommit\<close> and \<open>validatePCPCommits\<close> of \<open>node/rpc.go\<close>. The coordinator is the leader of the
  sender's shard, the participant the leader of the receiver's; each phase is one run of
  PBFT in the shard, with status \<open>P\<close>, then \<open>C\<close> or \<open>A\<close>.
\<close>

section \<open>Within one shard\<close>

definition runIntrashard ::
  "'b env \<Rightarrow> 'b pbft_io \<Rightarrow> 'b Node \<Rightarrow> SignedClientRequest \<Rightarrow> int64 \<Rightarrow> ('b Node, unit) outcome" where
  "runIntrashard E io n r oldSeq =
     deref (scr_ClientRequest r) (\<lambda>cq.
     andThen (runPBFT E io n r oldSeq []) (\<lambda>n res.
     deref (cr_Transaction cq) (\<lambda>t. Return n ())))"

section \<open>Across shards: the coordinator\<close>

text \<open>
  The environment of a cross-shard run: the runs' own, what happens during the remote
  prepare and whether it is acknowledged, and the same for each attempt of the commit.
\<close>

record 'b cross_io =
  prepare_run :: "'b pbft_io"
  ack_rely :: "'b Node \<Rightarrow> 'b Node"
  ack :: bool
  decide_run :: "'b pbft_io"
  commit_attempts :: "(('b Node \<Rightarrow> 'b Node) \<times> bool) list"

text \<open>The commit is sent again, without a pause, until the participant accepts it.\<close>

fun send_commit ::
  "string \<Rightarrow> PCPrepareReq \<Rightarrow> (('b Node \<Rightarrow> 'b Node) \<times> bool) list \<Rightarrow> 'b Node
     \<Rightarrow> ('b Node, unit) outcome" where
  "send_commit leader req [] n = Blocked n"
| "send_commit leader req ((rely, accepted) # rest) n =
     (let n = rely (emit (RpcPCCommit leader req) n) in
      if accepted then Return n () else send_commit leader req rest n)"

text \<open>The part after the local prepare succeeded.\<close>

definition cross_decide ::
  "'b env \<Rightarrow> 'b cross_io \<Rightarrow> 'b Node \<Rightarrow> SignedClientRequest \<Rightarrow> Transaction \<Rightarrow> int64
     \<Rightarrow> ('b Node, unit) outcome" where
  "cross_decide E io n r t seq =
     deref (LeaderMap n (t_ClusterTo t)) (\<lambda>participantLeader.
     let pc = \<lparr>pcr_SignedClientReq = Some r, pcr_Commits = CommitCerts n seq, pcr_NodeId = node_Id n\<rparr> in
     with_client n (t_ClusterTo t) participantLeader
       (let n = ack_rely io (emit (RpcPCPrepare participantLeader pc) n) in
        if \<not> ack io then
          andThen (runPBFT E (decide_run io) n r 0 ''A'') (\<lambda>n res. Return n ())
        else
          andThen (runPBFT E (decide_run io) n r 0 ''C'') (\<lambda>n res.
            case snd res of
              Some err \<Rightarrow> Return n ()
            | None \<Rightarrow> with_seconds r (\<lambda>ts.
                send_commit participantLeader pc (commit_attempts io)
                  (emits [GoReplyToClient ts True (t_ClientSeq t), GoEraseWal (t_ClientSeq t)] n)))))"

definition runCrossShard ::
  "'b env \<Rightarrow> 'b cross_io \<Rightarrow> 'b Node \<Rightarrow> SignedClientRequest \<Rightarrow> int64 \<Rightarrow> ('b Node, unit) outcome" where
  "runCrossShard E io n r oldSeq =
     deref (scr_ClientRequest r) (\<lambda>cq.
     andThen (runPBFT E (prepare_run io) n r oldSeq ''P'') (\<lambda>n (preq, err).
     if err = None then
       deref (cr_Transaction cq) (\<lambda>t.
       deref preq (\<lambda>req. deref (ppr_PrePrepare req) (\<lambda>pp.
         cross_decide E io n r t (pp_Sequence pp))))
     else Return n ()))"

section \<open>ExecuteTransaction\<close>

text \<open>
  A request that was executed is answered again; otherwise the leader runs it (under its old
  sequence number if it has one) and the others forward it to the leader.
\<close>

definition rpc_ExecuteTransaction ::
  "'b env \<Rightarrow> 'b cross_io \<Rightarrow> 'b Node \<Rightarrow> SignedClientRequest \<Rightarrow> ('b Node, error option) outcome" where
  "rpc_ExecuteTransaction E io n r =
     (if \<not> Live n then Return n None
      else if ViewChanging n then Return (emit GoTimerStartIfNotRunning n) None
      else (case PublicKeyMap n ''client'' of
          None \<Rightarrow> Return n (Some (NoPublicKey ''client''))
        | Some pk \<Rightarrow>
            if \<not> verified E pk (top_fields wire_ClientRequest (scr_ClientRequest r)) (scr_Signature r)
            then Return n (Some BadSignature)
            else with_seconds r (\<lambda>ts.
              let requestData = RequestLog n ts in
              if (case requestData of None \<Rightarrow> False | Some rd \<Rightarrow> rd_Executed rd) then
                with_tx r (\<lambda>t. Return
                  (replyToClient E n ts (rd_Result (the requestData)) (t_ClientSeq t)) None)
              else
                (let n = emit GoTimerStartIfNotRunning n in
                 deref (getViewLeader n) (\<lambda>leader.
                 if leader \<noteq> node_Id n then
                   with_client n (ClusterId n) leader
                     (Return (emit (RpcExecuteTransaction leader r) n) None)
                 else
                   (let seq = (case requestData of None \<Rightarrow> 0 | Some rd \<Rightarrow> rd_Seq rd) in
                    with_tx r (\<lambda>t.
                    andThen
                      (if t_ClusterFrom t = t_ClusterTo t
                       then runIntrashard E (prepare_run io) n r seq
                       else runCrossShard E io n r seq)
                      (\<lambda>n _. Return n None))))))))"

section \<open>Across shards: the participant\<close>

fun count_commits ::
  "'b env \<Rightarrow> 'b Node \<Rightarrow> string \<Rightarrow> CommitRequest list \<Rightarrow> nat \<Rightarrow> ('b Node, nat) outcome" where
  "count_commits E n digest [] cnt = Return n cnt"
| "count_commits E n digest (r # rs) cnt =
     deref (cmr_Commit r) (\<lambda>c.
       count_commits E n digest rs
         (if digest = c_Digest c then
            (case getPublicKey n (c_NodeId c) of
               None \<Rightarrow> cnt
             | Some pk \<Rightarrow> if verified E pk (wire_Commit c) (cmr_Signature r) then cnt + 1 else cnt)
          else cnt))"

definition validatePCPCommits ::
  "'b env \<Rightarrow> 'b Node \<Rightarrow> PCPrepareReq \<Rightarrow> ('b Node, error option) outcome" where
  "validatePCPCommits E n req =
     (case getPublicKey n ''client'' of
        None \<Rightarrow> Return n (Some (NoPublicKey ''client''))
      | Some pk \<Rightarrow>
          deref (pcr_SignedClientReq req) (\<lambda>r.
          if \<not> verified E pk (top_fields wire_ClientRequest (scr_ClientRequest r)) (scr_Signature r)
          then Return n (Some BadSignature)
          else (case MD5Hash E (JClientReq (Some r)) of
              None \<Rightarrow> with_tx r (\<lambda>t. Return n (Some DigestFailed))
            | Some digest \<Rightarrow>
                andThen (count_commits E n digest (pcr_Commits req) 0) (\<lambda>n cnt.
                  if 2 * F + 1 \<le> cnt then Return n None
                  else Return n (Some InsufficientCommits)))))"

definition pc_success :: "'b Node \<Rightarrow> PCReply" where
  "pc_success n = \<lparr>pcy_Success = True, pcy_Cluster = ClusterId n, pcy_NodeId = node_Id n\<rparr>"

text \<open>Logging the arrival dereferences the request down to its transaction.\<close>

definition rpc_PCPrepare ::
  "'b env \<Rightarrow> 'b pbft_io \<Rightarrow> 'b Node \<Rightarrow> PCPrepareReq \<Rightarrow> ('b Node, error + PCReply) outcome" where
  "rpc_PCPrepare E io n req =
     deref (pcr_SignedClientReq req) (\<lambda>r. with_tx r (\<lambda>t.
     andThen (validatePCPCommits E n req) (\<lambda>n err.
     case err of
       Some e \<Rightarrow> Return n (Inl e)
     | None \<Rightarrow>
         andThen (runPBFT E io n r 0 ''P'') (\<lambda>n res.
         case snd res of
           None \<Rightarrow> Return n (Inr (pc_success n))
         | Some e \<Rightarrow> Return (emit (GoWaitForPCCommit r) n) (Inl e)))))"

text \<open>After a second, unless a commit has arrived meanwhile, the participant aborts.\<close>

definition waitForPCCommit ::
  "'b env \<Rightarrow> ('b Node \<Rightarrow> 'b Node) \<Rightarrow> 'b pbft_io \<Rightarrow> 'b Node \<Rightarrow> SignedClientRequest
     \<Rightarrow> ('b Node, unit) outcome" where
  "waitForPCCommit E rely io n r =
     with_tx r (\<lambda>t.
       let n = rely n in
       if PCCommitsMap n (t_ClientSeq t) then Return n ()
       else andThen (runPBFT E io n r 0 ''A'') (\<lambda>n res. Return n ()))"

text \<open>\<open>PCCommit\<close> runs the commit for whoever asks; nothing in the request is checked.\<close>

definition rpc_PCCommit ::
  "'b env \<Rightarrow> 'b pbft_io \<Rightarrow> 'b Node \<Rightarrow> PCPrepareReq \<Rightarrow> ('b Node, error + PCReply) outcome" where
  "rpc_PCCommit E io n req =
     deref (pcr_SignedClientReq req) (\<lambda>r. with_tx r (\<lambda>t.
     let n = n\<lparr>PCCommitsMap := (PCCommitsMap n)(t_ClientSeq t := True)\<rparr> in
     andThen (runPBFT E io n r 0 ''C'') (\<lambda>n res.
       case snd res of
         None \<Rightarrow> Return n (Inr (pc_success n))
       | Some e \<Rightarrow> Return n (Inl e))))"

end
