(* ===== verification/Checkpoints.thy ===== *)
theory Checkpoints
  imports Certs
begin

text \<open>
  Checkpoints (\<open>validateCheckpoint\<close>, \<open>convertBalancesToProto\<close>, \<open>convertProtoBalancesToMap\<close> of
  \<open>node/utils.go\<close>, \<open>Checkpoint\<close> of \<open>node/rpc.go\<close>, \<open>validateCheckpointCerts\<close> of
  \<open>node/operations.go\<close>). The mutex \<open>CheckpointCertsLock\<close> is part of the state because one
  function returns without releasing it.
\<close>

section \<open>Balances as messages\<close>

definition convertBalancesToProto :: "balance_map \<Rightarrow> BalanceStructList" where
  "convertBalancesToProto balances = \<lparr>bsl_BalanceMap =
     map (\<lambda>node. \<lparr>bs_Client = node, bs_Amount = the (map_of balances node)\<rparr>)
       (sort (remdups (map fst balances)))\<rparr>"

text \<open>A nil list panics.\<close>

definition convertProtoBalancesToMap :: "BalanceStructList option \<Rightarrow> balance_map option" where
  "convertProtoBalancesToMap b =
     map_option (\<lambda>l. fold (\<lambda>x m. AList.update (bs_Client x) (bs_Amount x) m) (bsl_BalanceMap l) []) b"

section \<open>A checkpoint message\<close>

definition empty_checkpoint :: "SignedCheckpointRequest list \<Rightarrow> CheckpointData" where
  "empty_checkpoint waiting = \<lparr>cd_Stable = False, cd_Digest = [], cd_Balances = [],
     cd_Certs = [], cd_Waiting = waiting\<rparr>"

text \<open>
  With the third matching certificate the checkpoint is stable: the water marks move, the
  stable sequence number and the next sequence number only forwards, and old certificates
  are left to the garbage collector.
\<close>

definition stabilise :: "'b Node \<Rightarrow> int64 \<Rightarrow> CheckpointData \<Rightarrow> 'b Node" where
  "stabilise n seq data =
     (let n = (if LastStable n < seq
               then n\<lparr>LastStable := seq, LastStableBalances := cd_Balances data,
                      Seq := max (Seq n) (add64 seq 1)\<rparr>
               else n);
          low = add64 seq 1
      in emit (GoCollectGarbage seq) (n\<lparr>LowWater := low, HighWater := add64 low 50\<rparr>))"

definition record_checkpoint ::
  "'b Node \<Rightarrow> SignedCheckpointRequest \<Rightarrow> Checkpoint \<Rightarrow> 'b Node" where
  "record_checkpoint n req cp =
     (let seq = cp_Sequence cp in
      case CheckpointCerts n seq of
        Some data \<Rightarrow>
          if cd_Digest data = cp_Digest cp then
            (let data = data\<lparr>cd_Certs := cd_Certs data @ [req]\<rparr> in
             if length (cd_Certs data) = 2 * F + 1 then
               (let data = data\<lparr>cd_Stable := True\<rparr>; n = stabilise n seq data in
                n\<lparr>CheckpointCerts := (CheckpointCerts n)(seq \<mapsto> data)\<rparr>)
             else n\<lparr>CheckpointCerts := (CheckpointCerts n)(seq \<mapsto> data)\<rparr>)
          else if cd_Digest data = [] then
            n\<lparr>CheckpointCerts := (CheckpointCerts n)(seq \<mapsto>
                data\<lparr>cd_Waiting := cd_Waiting data @ [req]\<rparr>)\<rparr>
          else n
      | None \<Rightarrow> n\<lparr>CheckpointCerts := (CheckpointCerts n)(seq \<mapsto> empty_checkpoint [req])\<rparr>)"

definition validateCheckpoint ::
  "'b env \<Rightarrow> 'b Node \<Rightarrow> SignedCheckpointRequest \<Rightarrow> ('b Node, error option) outcome" where
  "validateCheckpoint E n req =
     deref (scp_Checkpoint req) (\<lambda>cp.
       case getPublicKey n (cp_NodeId cp) of
         None \<Rightarrow> Return n (Some (NoPublicKey (cp_NodeId cp)))
       | Some pk \<Rightarrow>
           if \<not> verified E pk (wire_Checkpoint cp) (scp_Signature req) then Return n (Some BadSignature)
           else if CheckpointCertsLock n then Blocked n
           else Return (record_checkpoint n req cp) None)"

definition rpc_Checkpoint ::
  "'b env \<Rightarrow> 'b Node \<Rightarrow> SignedCheckpointRequest \<Rightarrow> ('b Node, error option) outcome" where
  "rpc_Checkpoint E n req =
     deref (scp_Checkpoint req) (\<lambda>cp.
       if \<not> Live n then Return n (Some NotAlive) else validateCheckpoint E n req)"

section \<open>The certificates of a view change\<close>

text \<open>The key is looked up without looking at the error: a nil key panics in the check.\<close>

fun checkpoint_certs_loop ::
  "'b env \<Rightarrow> 'b Node \<Rightarrow> string \<Rightarrow> SignedCheckpointRequest list \<Rightarrow> SignedCheckpointRequest list
     \<Rightarrow> ('b Node, SignedCheckpointRequest list) outcome" where
  "checkpoint_certs_loop E n digest certs [] = Return n certs"
| "checkpoint_certs_loop E n digest certs (r # rs) =
     deref (scp_Checkpoint r) (\<lambda>cp.
     deref (VerifySignature E (getPublicKey n (cp_NodeId cp)) (wire_Checkpoint cp) (scp_Signature r)) (\<lambda>valid.
       checkpoint_certs_loop E n digest
         (if \<not> valid then certs else if digest \<noteq> cp_Digest cp then certs else certs @ [r]) rs))"

text \<open>\<open>json.Marshal\<close> writes the keys of a map in order.\<close>

definition balances_doc :: "balance_map \<Rightarrow> json_obj" where
  "balances_doc m = JBalances (map (\<lambda>b. (bs_Client b, bs_Amount b)) (bsl_BalanceMap (convertBalancesToProto m)))"

text \<open>
  Enough certificates for the state's digest make the checkpoint stable. The mutex is taken
  for that and never released.
\<close>

definition validateCheckpointCerts ::
  "'b env \<Rightarrow> 'b Node \<Rightarrow> int64 \<Rightarrow> SignedCheckpointRequest list \<Rightarrow> balance_map
     \<Rightarrow> ('b Node, error option) outcome" where
  "validateCheckpointCerts E n seq reqs state =
     (if seq = 0 then Return n None
      else
        (let digest = (case MD5Hash E (balances_doc state) of None \<Rightarrow> [] | Some d \<Rightarrow> d) in
         andThen (checkpoint_certs_loop E n digest [] reqs) (\<lambda>n certs.
           if 2 * F + 1 \<le> length certs then
             (if CheckpointCertsLock n then Blocked n
              else deref (scp_Checkpoint (hd certs)) (\<lambda>cp. Return
                (n\<lparr>CheckpointCertsLock := True,
                   CheckpointCerts := (CheckpointCerts n)(seq \<mapsto>
                     \<lparr>cd_Stable = True, cd_Digest = cp_Digest cp, cd_Balances = state,
                      cd_Certs = certs, cd_Waiting = []\<rparr>)\<rparr>) None))
           else Return n (Some CertsInvalid))))"

end
