(* ===== verification/ViewChange.thy ===== *)
theory ViewChange
  imports Checkpoints
begin

text \<open>
  View changes (\<open>sendViewChange\<close>, \<open>sendNewView\<close>, \<open>validateViewChangeCerts\<close> of
  \<open>node/operations.go\<close>, \<open>ViewChange\<close>, \<open>NewView\<close> and the administrative calls of
  \<open>node/rpc.go\<close>, \<open>startMonitoringTimer\<close> of \<open>node/timer.go\<close>).
\<close>

section \<open>Asking for a view\<close>

text \<open>\<open>node.CheckpointCerts[seq]\<close>: the zero value when nothing is there.\<close>

definition checkpoint_at :: "'b Node \<Rightarrow> int64 \<Rightarrow> CheckpointData" where
  "checkpoint_at n seq = (case CheckpointCerts n seq of None \<Rightarrow> empty_checkpoint [] | Some d \<Rightarrow> d)"

definition prepared_messages :: "'b Node \<Rightarrow> int64 list \<Rightarrow> PreparedMessages list" where
  "prepared_messages n is =
     map (\<lambda>i. \<lparr>pm_PrePrepare = PrePrepares n i, pm_Certs = PrepareCerts n i\<rparr>)
       (filter (\<lambda>i. case TransactionLog n i of None \<Rightarrow> False | Some l \<Rightarrow> 2 \<le> tl_State l) is)"

definition sendViewChange :: "'b env \<Rightarrow> 'b Node \<Rightarrow> int64 \<Rightarrow> ('b Node, unit) outcome" where
  "sendViewChange E n view =
     (if \<not> Live n then Return n ()
      else if view \<le> View n then Return n ()
      else if ViewChanging n \<and> view \<le> NewViewNum n then Return n ()
      else
        (let n = n\<lparr>Tmr := Stop (Tmr n), ViewChanging := True, NewViewNum := view\<rparr> in
         case for_range (add64 (LastStable n) 1) (MaxSeq n) of
           None \<Rightarrow> Blocked n
         | Some is \<Rightarrow>
             (let req = \<lparr>vc_View = view, vc_LastStableCheckpoint = LastStable n,
                     vc_CheckpointCerts = cd_Certs (checkpoint_at n (LastStable n)),
                     vc_Prepared = prepared_messages n is, vc_NodeId = node_Id n,
                     vc_State = Some (convertBalancesToProto
                       (cd_Balances (checkpoint_at n (LastStable n))))\<rparr>;
                  signedReq = \<lparr>svc_ViewChangeRequest = Some req,
                     svc_Signature = signature_or_nil E (node_PrivateKey n) (wire_ViewChangeRequest req)\<rparr>;
                  n = emits (map (\<lambda>i. RpcViewChange i signedReq) (peers n (ClusterId n))) n
              in Return (n\<lparr>ViewChangeCerts :=
                   (ViewChangeCerts n)(view := ViewChangeCerts n view @ [signedReq])\<rparr>) ())))"

section \<open>Announcing it\<close>

text \<open>The checkpoint with the highest number above 0 that the requests name; nil panics.\<close>

fun newest_checkpoint ::
  "SignedViewChangeRequest list
     \<Rightarrow> int64 \<times> BalanceStructList option \<times> SignedCheckpointRequest list
     \<Rightarrow> (int64 \<times> BalanceStructList option \<times> SignedCheckpointRequest list) option" where
  "newest_checkpoint [] best = Some best"
| "newest_checkpoint (c # cs) best =
     (case svc_ViewChangeRequest c of
        None \<Rightarrow> None
      | Some vc \<Rightarrow> newest_checkpoint cs
          (if fst best < vc_LastStableCheckpoint vc
           then (vc_LastStableCheckpoint vc, vc_State vc, vc_CheckpointCerts vc) else best))"

text \<open>The first pre-prepare named for each sequence number, in the order met.\<close>

fun gather_prepared ::
  "PreparedMessages list \<Rightarrow> (int64 \<times> PrePrepare) list \<Rightarrow> (int64 \<times> PrePrepare) list option" where
  "gather_prepared [] acc = Some acc"
| "gather_prepared (m # ms) acc =
     (case Option.bind (pm_PrePrepare m) ppr_PrePrepare of
        None \<Rightarrow> None
      | Some pp \<Rightarrow> gather_prepared ms
          (if map_of acc (pp_Sequence pp) = None then acc @ [(pp_Sequence pp, pp)] else acc))"

fun gather_all ::
  "SignedViewChangeRequest list \<Rightarrow> (int64 \<times> PrePrepare) list \<Rightarrow> (int64 \<times> PrePrepare) list option" where
  "gather_all [] acc = Some acc"
| "gather_all (c # cs) acc =
     (case svc_ViewChangeRequest c of
        None \<Rightarrow> None
      | Some vc \<Rightarrow>
          (case gather_prepared (vc_Prepared vc) acc of
             None \<Rightarrow> None
           | Some acc \<Rightarrow> gather_all cs acc))"

text \<open>A pre-prepare for the new view, with an empty digest for a gap, and no client request.\<close>

definition new_view_pre_prepare ::
  "'b env \<Rightarrow> 'b Node \<Rightarrow> int64 \<Rightarrow> (int64 \<times> PrePrepare) list \<Rightarrow> int64 \<Rightarrow> PrePrepareRequest" where
  "new_view_pre_prepare E n view prePrepares i =
     (let prep = \<lparr>pp_View = view, pp_Sequence = i,
            pp_Digest = (case map_of prePrepares i of None \<Rightarrow> [] | Some pp \<Rightarrow> pp_Digest pp),
            pp_Status = [], pp_Wal = [], pp_Locks = []\<rparr>
      in \<lparr>ppr_PrePrepare = Some prep,
          ppr_Signature = signature_or_nil E (node_PrivateKey n) (wire_PrePrepare prep),
          ppr_ClientReq = None\<rparr>)"

definition prep_range :: "int64 list \<Rightarrow> int64 list option" where
  "prep_range prepSeqs =
     (case sort prepSeqs of
        [] \<Rightarrow> Some []
      | s # ss \<Rightarrow> for_range s (last (s # ss)))"

text \<open>
  What \<open>sendNewView\<close> does at its end, as the leader, with the message it made. The last
  assignment of \<open>Seq\<close> repeats the first when something was prepared.
\<close>

definition enter_view :: "'b Node \<Rightarrow> int64 list \<Rightarrow> int64 \<Rightarrow> 'b Node" where
  "enter_view n prepSeqs latest =
     (let n = n\<lparr>Seq := add64 (if prepSeqs = [] then latest else last (sort prepSeqs)) 1,
                ExecutorSeq := add64 latest 1, ViewChanging := False\<rparr>
      in n\<lparr>Tmr := Stop (Tmr n)\<rparr>)"

definition sendNewView ::
  "'b env \<Rightarrow> 'b Node \<Rightarrow> int64 \<Rightarrow> SignedViewChangeRequest list \<Rightarrow> ('b Node, unit) outcome" where
  "sendNewView E n view certs =
     (if \<not> Live n then Return n ()
      else if Byzantine n then Return n ()
      else if NewViewsSent n view then Return n ()
      else
        (let n = n\<lparr>View := view, NewViewsSent := (NewViewsSent n)(view := True)\<rparr> in
         case newest_checkpoint certs (0, Some (convertBalancesToProto (LastStableBalances n)), []) of
           None \<Rightarrow> Panic
         | Some (latest, state, checkpointCerts) \<Rightarrow>
             (case gather_all certs [] of
                None \<Rightarrow> Panic
              | Some prePrepares \<Rightarrow>
                  (case prep_range (map fst prePrepares) of
                     None \<Rightarrow> Blocked n
                   | Some is \<Rightarrow>
                       (let newView = \<lparr>nv_View = view, nv_ViewChangeCerts = certs,
                              nv_Prepared = map (new_view_pre_prepare E n view prePrepares) is,
                              nv_State = state, nv_LatestStableCheckpoint = latest,
                              nv_CheckpointCerts = checkpointCerts\<rparr>;
                            signed = \<lparr>snv_NewView = Some newView,
                              snv_Signature =
                                signature_or_nil E (node_PrivateKey n) (wire_NewViewRequest newView)\<rparr>
                        in Return (enter_view
                             (emits (map (\<lambda>i. RpcNewView i signed) (peers n (ClusterId n))) n)
                             (map fst prePrepares) latest) ())))))"

section \<open>Receiving a request for a view\<close>

text \<open>
  The key is looked up without looking at the error. The count that triggers joining is of
  the messages received for that view, and nothing is asked of the sender but a signature.
\<close>

definition rpc_ViewChange ::
  "'b env \<Rightarrow> 'b Node \<Rightarrow> SignedViewChangeRequest \<Rightarrow> ('b Node, error option) outcome" where
  "rpc_ViewChange E n req =
     deref (svc_ViewChangeRequest req) (\<lambda>vc.
     deref (VerifySignature E (getPublicKey n (vc_NodeId vc)) (wire_ViewChangeRequest vc)
              (svc_Signature req)) (\<lambda>valid.
     if \<not> valid then Return n (Some BadSignature)
     else
       (let view = vc_View vc; certs = ViewChangeCerts n view @ [req];
            n = n\<lparr>ViewChangeCerts := (ViewChangeCerts n)(view := certs)\<rparr>
        in andThen
          (if View n < view \<and> length certs = F + 1 then sendViewChange E n view else Return n ())
          (\<lambda>n _.
             if View n < view \<and> 2 * F + 1 \<le> length certs then
               deref (getViewLeader n) (\<lambda>leader.
                 Return (if leader = node_Id n then emit (GoSendNewView view certs) n else n) None)
             else Return n None))))"

section \<open>Receiving the new view\<close>

fun view_change_certs_loop ::
  "'b env \<Rightarrow> 'b Node \<Rightarrow> SignedViewChangeRequest list \<Rightarrow> nat \<Rightarrow> ('b Node, error + nat) outcome" where
  "view_change_certs_loop E n [] valid = Return n (Inr valid)"
| "view_change_certs_loop E n (c # cs) valid =
     deref (svc_ViewChangeRequest c) (\<lambda>vc.
     deref (VerifySignature E (getPublicKey n (vc_NodeId vc)) (wire_ViewChangeRequest vc)
              (svc_Signature c)) (\<lambda>ok.
     if \<not> ok then view_change_certs_loop E n cs valid
     else if 0 < vc_LastStableCheckpoint vc then
       deref (convertProtoBalancesToMap (vc_State vc)) (\<lambda>state.
       andThen (validateCheckpointCerts E n (vc_LastStableCheckpoint vc) (vc_CheckpointCerts vc) state)
         (\<lambda>n err. case err of
            Some e \<Rightarrow> Return n (Inl e)
          | None \<Rightarrow> view_change_certs_loop E n cs (valid + 1)))
     else view_change_certs_loop E n cs (valid + 1)))"

definition validateViewChangeCerts ::
  "'b env \<Rightarrow> 'b Node \<Rightarrow> SignedViewChangeRequest list \<Rightarrow> ('b Node, error option) outcome" where
  "validateViewChangeCerts E n certs =
     andThen (view_change_certs_loop E n certs 0) (\<lambda>n res.
       case res of
         Inl e \<Rightarrow> Return n (Some e)
       | Inr valid \<Rightarrow> if 2 * F + 1 \<le> valid then Return n None else Return n (Some CertsInvalid))"

text \<open>Raising \<open>Seq\<close> over the pre-prepares of the message; a nil one panics.\<close>

fun raise_seq :: "PrePrepareRequest list \<Rightarrow> 'b Node \<Rightarrow> ('b Node, unit) outcome" where
  "raise_seq [] n = Return n ()"
| "raise_seq (p # ps) n =
     deref (ppr_PrePrepare p) (\<lambda>pp.
       raise_seq ps (n\<lparr>Seq := max (Seq n) (add64 (pp_Sequence pp) 1)\<rparr>))"

definition adopt_view :: "'b Node \<Rightarrow> NewViewRequest \<Rightarrow> ('b Node, error option) outcome" where
  "adopt_view n nv =
     andThen (raise_seq (nv_Prepared nv) (n\<lparr>ViewChanging := False, View := nv_View nv\<rparr>)) (\<lambda>n _.
       let n = n\<lparr>NewViewCerts := NewViewCerts n @ [nv], LastStable := nv_LatestStableCheckpoint nv\<rparr> in
       andThen
         (if nv_Prepared nv \<noteq> [] then
            deref (ppr_PrePrepare (last (nv_Prepared nv))) (\<lambda>pp.
              Return (n\<lparr>Seq := add64 (pp_Sequence pp) 1\<rparr>) ())
          else Return (n\<lparr>Seq := add64 (nv_LatestStableCheckpoint nv) 1\<rparr>) ())
         (\<lambda>n _. Return (n\<lparr>ExecutorSeq := add64 (nv_LatestStableCheckpoint nv) 1\<rparr>) None))"

text \<open>
  The message must be signed by the leader of the view the node is in, not of the view it
  announces. A failed check of its checkpoint is logged and answered without an error.
\<close>

definition rpc_NewView ::
  "'b env \<Rightarrow> 'b Node \<Rightarrow> SignedNewViewRequest \<Rightarrow> ('b Node, error option) outcome" where
  "rpc_NewView E n req =
     deref (snv_NewView req) (\<lambda>nv.
     deref (convertProtoBalancesToMap (nv_State nv)) (\<lambda>mapState.
     let n = n\<lparr>Tmr := Stop (Tmr n)\<rparr> in
     deref (getViewLeader n) (\<lambda>newLeader.
     case getPublicKey n newLeader of
       None \<Rightarrow> Return n (Some (NoPublicKey newLeader))
     | Some pk \<Rightarrow>
         if \<not> verified E pk (wire_NewViewRequest nv) (snv_Signature req)
         then Return n (Some BadSignature)
         else andThen (validateViewChangeCerts E n (nv_ViewChangeCerts nv)) (\<lambda>n err.
           case err of
             Some e \<Rightarrow> Return n (Some e)
           | None \<Rightarrow>
               andThen (validateCheckpointCerts E n (nv_LatestStableCheckpoint nv)
                          (nv_CheckpointCerts nv) mapState) (\<lambda>n err.
                 case err of
                   Some e \<Rightarrow> Return n None
                 | None \<Rightarrow> adopt_view n nv)))))"

section \<open>The monitor and the administrative calls\<close>

definition monitor_round :: "'b Node \<Rightarrow> 'b Node" where
  "monitor_round n =
     (if tick_ready (Tmr n) then
        emit (GoSendViewChange (add64 (if \<not> ViewChanging n then View n else NewViewNum n) 1))
          (n\<lparr>Tmr := take_tick (Tmr n)\<rparr>)
      else n)"

definition rpc_SetStatus :: "'b Node \<Rightarrow> bool \<Rightarrow> 'b Node" where
  "rpc_SetStatus n live = n\<lparr>Live := live\<rparr>"

definition rpc_SetByzantine :: "'b Node \<Rightarrow> bool \<Rightarrow> 'b Node" where
  "rpc_SetByzantine n byz = n\<lparr>Byzantine := byz\<rparr>"

definition rpc_GetBalance :: "'b env \<Rightarrow> 'b Node \<Rightarrow> string \<Rightarrow> int64 \<times> error option" where
  "rpc_GetBalance E n client =
     (case GetBalance E (DB n) client of
        Inl e \<Rightarrow> (0, Some (Database_error e))
      | Inr balance \<Rightarrow> (balance, None))"

definition rpc_GetStatus :: "'b Node \<Rightarrow> int64 \<Rightarrow> error + string" where
  "rpc_GetStatus n seq =
     (case TransactionLog n seq of
        None \<Rightarrow> Inl (NoTransactionAt seq)
      | Some l \<Rightarrow> Inr (IntToStates (tl_State l)))"

definition rpc_GetDatastore :: "'b Node \<Rightarrow> DatastoreData list option" where
  "rpc_GetDatastore n =
     map_option (map (\<lambda>u. \<lparr>dd_Seq = u_Seq u, dd_Transaction = u_Transaction u, dd_Status = u_Status u\<rparr>))
       (GetAllDatastore n)"

end
