(* ===== verification/WellFormed.thy ===== *)
theory WellFormed
  imports TwoPhase ViewChange
begin

text \<open>
  The well-formedness of a node's tables and its preservation by every handler and goroutine,
  at every point where one stops or waits, provided that what the others do meanwhile
  preserves it too.
\<close>

section \<open>Well-formed tables\<close>

definition log_wf :: "int64 \<Rightarrow> (int64 \<rightharpoonup> TransactionLog) \<Rightarrow> bool" where
  "log_wf hi txlog \<longleftrightarrow>
     (\<forall>seq l. txlog seq = Some l \<longrightarrow>
        tl_Transaction l \<noteq> None \<and> 1 \<le> tl_State l \<and> tl_State l \<le> 5 \<and> seq \<le> hi)"

definition datastore_wf :: "(int64 \<rightharpoonup> TransactionLog) \<Rightarrow> int64 \<Rightarrow> (int64 \<rightharpoonup> DBUnit) \<Rightarrow> bool" where
  "datastore_wf txlog hi ds \<longleftrightarrow>
     (\<forall>seq u. ds seq = Some u \<longrightarrow>
        u_Seq u = seq \<and> u_Transaction u \<noteq> None \<and> txlog seq \<noteq> None \<and> seq \<le> hi)"

definition requests_wf :: "(int64 \<rightharpoonup> RequestData) \<Rightarrow> bool" where
  "requests_wf rl \<longleftrightarrow> (\<forall>ts rd. rl ts = Some rd \<longrightarrow> \<not> rd_Executed rd)"

definition preprepares_wf :: "(int64 \<rightharpoonup> PrePrepareRequest) \<Rightarrow> bool" where
  "preprepares_wf pps \<longleftrightarrow>
     (\<forall>seq req. pps seq = Some req \<longrightarrow>
        (\<exists>pp. ppr_PrePrepare req = Some pp \<and> pp_Sequence pp = seq) \<and> ppr_ClientReq req \<noteq> None)"

definition pointers_set :: "WALEntry \<Rightarrow> bool" where
  "pointers_set w \<longleftrightarrow> list_all (\<lambda>l. wl_Transaction l \<noteq> None) (Logs w)"

definition wal_wf :: "'b env \<Rightarrow> 'b \<Rightarrow> bool" where
  "wal_wf E b \<longleftrightarrow>
     (\<forall>k v w. bkt_get E b k = Some v \<and> wal_unmarshal E v = Some w \<longrightarrow> pointers_set w)"

definition node_wf :: "'b env \<Rightarrow> 'b Node \<Rightarrow> bool" where
  "node_wf E n \<longleftrightarrow>
     log_wf (MaxSeq n) (TransactionLog n) \<and>
     datastore_wf (TransactionLog n) (DatastoreMax n) (Datastore n) \<and>
     requests_wf (RequestLog n) \<and> preprepares_wf (PrePrepares n) \<and> wal_wf E (walBucket (DB n))"

named_theorems wf_simps \<open>operations that leave well-formedness as it is\<close>
named_theorems wf_rules \<open>operations and segments that preserve well-formedness\<close>

section \<open>Operations on the tables\<close>

lemma wf_emit [wf_simps]: "node_wf E (emit e n) = node_wf E n" "node_wf E (emits es n) = node_wf E n"
  by (simp_all add: node_wf_def emit_def emits_def)

lemma log_wf_upd:
  "log_wf hi txlog \<Longrightarrow> tl_Transaction l \<noteq> None \<Longrightarrow> 1 \<le> tl_State l \<Longrightarrow> tl_State l \<le> 5 \<Longrightarrow> hi \<le> hi' \<Longrightarrow>
     seq \<le> hi' \<Longrightarrow> log_wf hi' (txlog(seq \<mapsto> l))"
  by (fastforce simp: log_wf_def)

lemma datastore_wf_more: "datastore_wf txlog hi ds \<Longrightarrow> datastore_wf (txlog(seq \<mapsto> l)) hi ds"
  by (auto simp: datastore_wf_def)

lemma States_cases: "States s \<in> {0, 1, 2, 3, 4, 5}"
  by (simp add: States_def)

lemma wf_writeLog [wf_rules]: "node_wf E n \<Longrightarrow> node_wf E (writeLog n seq t v d ts)"
  by (auto simp: node_wf_def writeLog_def datastore_wf_more States_def intro: log_wf_upd)

lemma wf_updateLog [wf_rules]: "node_wf E n \<Longrightarrow> node_wf E (updateLog n seq s)"
proof (cases "TransactionLog n seq")
  case None
  moreover assume "node_wf E n"
  ultimately show ?thesis by (simp add: updateLog_def)
next
  case (Some l)
  assume wf: "node_wf E n"
  then have l: "tl_Transaction l \<noteq> None" "1 \<le> tl_State l" "seq \<le> MaxSeq n" "log_wf (MaxSeq n) (TransactionLog n)"
    using Some by (auto simp: node_wf_def log_wf_def)
  have st: "States s \<le> 5" using States_cases [of s] by auto
  have "log_wf (MaxSeq n) ((TransactionLog n)(seq \<mapsto> l\<lparr>tl_State := States s\<rparr>))" if "tl_State l < States s"
    by (rule log_wf_upd [OF l(4)]) (use l st that in simp_all)
  with Some wf show ?thesis by (simp add: updateLog_def node_wf_def datastore_wf_more)
qed

lemma wf_savePrePrepare [wf_rules]:
  "node_wf E n \<Longrightarrow> ppr_PrePrepare req = Some pp \<Longrightarrow> pp_Sequence pp = seq \<Longrightarrow>
     ppr_ClientReq req \<noteq> None \<Longrightarrow> node_wf E (savePrePrepare n seq req)"
  by (auto simp: node_wf_def savePrePrepare_def preprepares_wf_def)

lemma wf_put_request [wf_rules]: "node_wf E n \<Longrightarrow> node_wf E (put_request n ts seq)"
  by (auto simp: node_wf_def put_request_def requests_wf_def)

lemma datastore_wf_upd:
  "datastore_wf txlog hi ds \<Longrightarrow> u_Seq u = seq \<Longrightarrow> u_Transaction u \<noteq> None \<Longrightarrow> txlog seq \<noteq> None \<Longrightarrow>
     hi \<le> hi' \<Longrightarrow> seq \<le> hi' \<Longrightarrow> datastore_wf txlog hi' (ds(seq \<mapsto> u))"
  by (fastforce simp: datastore_wf_def)

lemma wf_saveTransactionToDatastore:
  assumes "node_wf E n" "TransactionLog n seq = Some l"
  shows "node_wf E (saveTransactionToDatastore n seq s k)"
proof -
  from assms have "tl_Transaction l \<noteq> None" by (auto simp: node_wf_def log_wf_def)
  with assms show ?thesis
    by (auto simp: node_wf_def saveTransactionToDatastore_def log_at_def getTransactionLog_def Let_def
        intro: datastore_wf_upd)
qed

lemma wal_wf_put:
  assumes "bolt_ok E" "wal_wf E b" "bkt_put E b k v = Some b'"
    and "\<And>w. wal_unmarshal E v = Some w \<Longrightarrow> pointers_set w"
  shows "wal_wf E b'"
  using assms bolt_get_put [OF assms(1,3)] by (auto simp: wal_wf_def)

lemma pointers_set_map: "pointers_set w \<longleftrightarrow> True \<notin> set (map (\<lambda>l. wl_Transaction l = None) (Logs w))"
  by (auto simp: pointers_set_def list_all_iff)

lemma pointers_set_decoded:
  "json_pointers_ok E \<Longrightarrow> json_marshal E (JWALEntry w) = Some bs \<Longrightarrow> wal_unmarshal E bs = Some w' \<Longrightarrow>
     pointers_set w \<Longrightarrow> pointers_set w'"
  unfolding json_pointers_ok_def pointers_set_map by metis

lemma wal_wf_AppendToWALEntry:
  assumes "bolt_ok E" "json_pointers_ok E" "wal_wf E (walBucket d)" "list_all (\<lambda>l. wl_Transaction l \<noteq> None) logs"
  shows "wal_wf E (walBucket (fst (AppendToWALEntry E d k logs)))"
proof -
  let ?cur = "case bkt_get E (walBucket d) (FormatInt k) of None \<Rightarrow> Some \<lparr>Logs = []\<rparr> | Some x \<Rightarrow> wal_unmarshal E x"
  show ?thesis
  proof (cases ?cur)
    case None
    with assms(3) show ?thesis by (simp add: AppendToWALEntry_def split: option.splits)
  next
    case (Some w)
    then have "pointers_set w"
      using assms(3) by (auto simp: wal_wf_def pointers_set_def split: option.splits)
    then have new: "pointers_set (w\<lparr>Logs := Logs w @ logs\<rparr>)"
      using assms(4) by (simp add: pointers_set_def)
    show ?thesis
    proof (cases "json_marshal E (JWALEntry (w\<lparr>Logs := Logs w @ logs\<rparr>))")
      case None
      with Some assms(3) show ?thesis by (simp add: AppendToWALEntry_def)
    next
      case (Some bs)
      then have "wal_wf E b'" if "bkt_put E (walBucket d) (FormatInt k) bs = Some b'" for b'
        using wal_wf_put [OF assms(1,3) that] pointers_set_decoded [OF assms(2) _ _ new] by blast
      with Some \<open>?cur = Some w\<close> assms(3) show ?thesis
        by (simp add: AppendToWALEntry_def split: option.splits)
    qed
  qed
qed

text \<open>Databases with the same write-ahead log are equally good.\<close>

lemma wf_DB: "walBucket d = walBucket (DB n) \<Longrightarrow> node_wf E (n\<lparr>DB := d\<rparr>) = node_wf E n"
  by (simp add: node_wf_def)

lemma PutBalance_frame [simp]:
  "walBucket (fst (PutBalance E d c v)) = walBucket d"
  "locksBucket (fst (PutBalance E d c v)) = locksBucket d"
  "transactionsBucket (fst (PutBalance E d c v)) = transactionsBucket d"
  by (simp_all add: PutBalance_def split: option.splits)

lemma UpdateBalances_frame [simp]:
  "walBucket (UpdateBalances E d t) = walBucket d"
  "locksBucket (UpdateBalances E d t) = locksBucket d"
  "transactionsBucket (UpdateBalances E d t) = transactionsBucket d"
  by (simp_all add: UpdateBalances_def credit_def debit_def split: sum.splits)

lemma CheckAndGetLocks_frame:
  "CheckAndGetLocks E d cs byz = (d', e) \<Longrightarrow>
     walBucket d' = walBucket d \<and> balancesBucket d' = balancesBucket d \<and>
     transactionsBucket d' = transactionsBucket d"
  by (auto simp: CheckAndGetLocks_cases split: if_splits)

lemma wf_release_of [wf_simps]: "node_wf E (release_of E n t) = node_wf E n"
  by (simp add: release_of_def wf_DB)

section \<open>Frames between the buckets\<close>

lemma balance_view_cong: "balancesBucket d = balancesBucket d' \<Longrightarrow> balance_view E d = balance_view E d'"
  by (simp add: balance_view_def GetBalance_def fun_eq_iff)

lemma held_cong: "locksBucket d = locksBucket d' \<Longrightarrow> held E d = held E d'"
  by (simp add: held_def locked_def)

lemma ReadWALEntry_cong: "walBucket d = walBucket d' \<Longrightarrow> ReadWALEntry E d k = ReadWALEntry E d' k"
  by (simp add: ReadWALEntry_def)

lemma wal_view_cong: "walBucket d = walBucket d' \<Longrightarrow> wal_view E d = wal_view E d'"
  by (rule ext) (simp add: wal_view_def ReadWALEntry_def)

lemma balance_view_locks [simp]:
  "balance_view E (ReleaseLocksDB E d cs) = balance_view E d"
  "balance_view E (GetLocksDB E d cs) = balance_view E d"
  by (rule balance_view_cong, simp)+

lemma held_UpdateBalances [simp]: "held E (UpdateBalances E d t) = held E d"
  by (rule held_cong) simp

lemma wal_view_frame [simp]:
  "wal_view E (UpdateBalances E d t) = wal_view E d"
  "wal_view E (ReleaseLocksDB E d cs) = wal_view E d"
  by (rule wal_view_cong, simp)+

section \<open>Frames of well-formedness\<close>

text \<open>Fields that well-formedness does not look at.\<close>

lemma wf_frame [wf_simps]:
  "node_wf E (n\<lparr>PrepareCerts := pc\<rparr>) = node_wf E n"
  "node_wf E (n\<lparr>CommitCerts := cc\<rparr>) = node_wf E n"
  "node_wf E (n\<lparr>PrepareCertChans := ch\<rparr>) = node_wf E n"
  "node_wf E (n\<lparr>CommitCertChans := ch\<rparr>) = node_wf E n"
  "node_wf E (n\<lparr>PCCommitsMap := pm\<rparr>) = node_wf E n"
  "node_wf E (n\<lparr>Seq := i\<rparr>) = node_wf E n"
  "node_wf E (n\<lparr>View := i\<rparr>) = node_wf E n"
  "node_wf E (n\<lparr>ExecutorSeq := i\<rparr>) = node_wf E n"
  "node_wf E (n\<lparr>ExecutionCount := i\<rparr>) = node_wf E n"
  "node_wf E (n\<lparr>LastStable := i\<rparr>) = node_wf E n"
  "node_wf E (n\<lparr>LastStableBalances := m\<rparr>) = node_wf E n"
  "node_wf E (n\<lparr>LowWater := i\<rparr>) = node_wf E n"
  "node_wf E (n\<lparr>HighWater := i\<rparr>) = node_wf E n"
  "node_wf E (n\<lparr>CheckpointCerts := cp\<rparr>) = node_wf E n"
  "node_wf E (n\<lparr>CheckpointCertsLock := b\<rparr>) = node_wf E n"
  "node_wf E (n\<lparr>ViewChanging := b\<rparr>) = node_wf E n"
  "node_wf E (n\<lparr>NewViewNum := i\<rparr>) = node_wf E n"
  "node_wf E (n\<lparr>NewViewCerts := nvs\<rparr>) = node_wf E n"
  "node_wf E (n\<lparr>NewViewsSent := s\<rparr>) = node_wf E n"
  "node_wf E (n\<lparr>ViewChangeCerts := vcs\<rparr>) = node_wf E n"
  "node_wf E (n\<lparr>Tmr := t\<rparr>) = node_wf E n"
  "node_wf E (n\<lparr>Live := b\<rparr>) = node_wf E n"
  "node_wf E (n\<lparr>Byzantine := b\<rparr>) = node_wf E n"
  "node_wf E (n\<lparr>PublicKeyMap := pk\<rparr>) = node_wf E n"
  by (simp_all add: node_wf_def)

section \<open>Committing an entry\<close>

lemma updateLog_logged:
  "TransactionLog n i = Some l \<Longrightarrow> \<exists>l'. TransactionLog (updateLog n seq s) i = Some l'"
  by (auto simp: updateLog_def split: option.splits)

lemma wf_commit_entry:
  assumes "bolt_ok E" "json_pointers_ok E" "node_wf E n" "TransactionLog n seq = Some l"
  shows "node_wf E (commit_entry E n seq s k (Some t))"
proof -
  let ?n = "updateLog n seq ''committed''"
  have wf: "node_wf E ?n" by (rule wf_updateLog [OF assms(3)])
  then have "wal_wf E (walBucket (DB ?n))" by (simp add: node_wf_def)
  then have "node_wf E (?n\<lparr>DB := fst (AppendToWALEntry E (DB ?n) k
      [\<lparr>wl_Operation = ''transaction'', wl_Subject = [], wl_Transaction = Some t\<rparr>])\<rparr>)"
    using wf wal_wf_AppendToWALEntry [OF assms(1,2)] by (simp add: node_wf_def)
  moreover obtain l' where "TransactionLog ?n seq = Some l'" using updateLog_logged [OF assms(4)] by blast
  ultimately show ?thesis using wf
    by (auto simp: commit_entry_def Let_def intro!: wf_saveTransactionToDatastore)
qed

lemma enough_commits_logged:
  assumes "2 * F + 1 \<le> length (filter (commit_valid E n seq) rs)"
  shows "\<exists>l. TransactionLog n seq = Some l"
proof -
  from assms have "filter (commit_valid E n seq) rs \<noteq> []" by (metis list.size(3) add_is_0 le_zero_eq one_neq_zero)
  then obtain r where "commit_valid E n seq r" by (auto simp: filter_empty_conv)
  then show ?thesis by (auto simp: commit_valid_def)
qed

section \<open>Segments that leave the node alone\<close>

lemma getValidPrepareCerts_state:
  "getValidPrepareCerts E n seq rs = Return n' x \<Longrightarrow> n' = n"
  by (simp add: getValidPrepareCerts_cases split: if_splits)

lemma preprepare_checks_state: "preprepare_checks E n req pp = Return n' e \<Longrightarrow> n' = n"
  by (auto simp: preprepare_checks_def Let_def outcome_simps split: if_splits option.splits)

lemma preprepare_checks_not_Blocked: "preprepare_checks E n req pp \<noteq> Blocked n'"
  by (auto simp: preprepare_checks_def Let_def outcome_simps split: if_splits option.splits)

lemma keeps_preprepare_checks [wf_rules]:
  "I n \<Longrightarrow> keeps I (preprepare_checks E n req pp)"
  by (cases "preprepare_checks E n req pp")
    (auto simp: keeps_def preprepare_checks_not_Blocked dest: preprepare_checks_state)

lemma keeps_verifyPrepareRequest [wf_rules]: "I n \<Longrightarrow> keeps I (verifyPrepareRequest E n req)"
  unfolding verifyPrepareRequest_def by (intro keeps_rules) simp_all

lemma keeps_verifyCommitRequest [wf_rules]: "I n \<Longrightarrow> keeps I (verifyCommitRequest E n req)"
  unfolding verifyCommitRequest_def by (intro keeps_rules) simp_all

lemma keeps_with_client [wf_rules]: "keeps I k \<Longrightarrow> keeps I (with_client n c i k)"
  by (simp add: with_client_def keeps_Panic)

lemma assign_seq_request: "assign_seq E n r oldSeq status digest = Return n' (req, pp) \<Longrightarrow> ppr_PrePrepare req = Some pp"
  by (auto simp: assign_seq_def Let_def outcome_simps split: if_splits)

lemma keeps_count_commits [wf_rules]: "I n \<Longrightarrow> keeps I (count_commits E n digest rs cnt)"
  by (induction E n digest rs cnt rule: count_commits.induct) (auto intro!: keeps_rules)

lemma keeps_validatePCPCommits [wf_rules]: "I n \<Longrightarrow> keeps I (validatePCPCommits E n req)"
  unfolding validatePCPCommits_def with_tx_def by (intro keeps_rules wf_rules)

lemma keeps_checkpoint_certs_loop [wf_rules]:
  "I n \<Longrightarrow> keeps I (checkpoint_certs_loop E n digest certs rs)"
  by (induction E n digest certs rs rule: checkpoint_certs_loop.induct) (auto intro!: keeps_rules)

section \<open>Housekeeping\<close>

lemma SaveTransactionToDB_frame:
  "SaveTransactionToDB E d seq t s = (d', x) \<Longrightarrow>
     walBucket d' = walBucket d \<and> balancesBucket d' = balancesBucket d \<and> locksBucket d' = locksBucket d"
  by (auto simp: SaveTransactionToDB_def split: option.splits prod.splits)

lemma wf_EraseWal [wf_rules]:
  "bolt_ok E \<Longrightarrow> node_wf E n \<Longrightarrow> node_wf E (n\<lparr>DB := EraseWal E (DB n) k\<rparr>)"
  by (auto simp: node_wf_def wal_wf_def EraseWal_def bolt_get_delete split: if_splits)

section \<open>The start\<close>

lemma wf_NewNode:
  "bolt_ok E \<Longrightarrow> node_wf E (NewNode sk keys (createBuckets E) cluster i clusters start endId)"
  by (simp add: NewNode_def node_wf_def log_wf_def datastore_wf_def requests_wf_def preprepares_wf_def
      wal_wf_def createBuckets_def bolt_get_empty)

lemma InitiateBalances_frame:
  "state_after (InitiateBalances E d s e) = Some d' \<Longrightarrow>
     walBucket d' = walBucket d \<and> locksBucket d' = locksBucket d"
  by (auto simp: InitiateBalances_def split: option.splits)

lemma keeps_resetBalances [wf_rules]: "node_wf E n \<Longrightarrow> keeps (node_wf E) (resetBalances E n)"
  using InitiateBalances_frame [of E "DB n" "StartId n" "EndId n"]
  by (auto simp: resetBalances_def wf_DB keeps_def split: outcome.splits)

lemma keeps_Start [wf_rules]: "node_wf E n \<Longrightarrow> keeps (node_wf E) (Start E n)"
  unfolding Start_def
  by (intro keeps_rules wf_rules) (simp_all add: wf_simps establishConns_def node_wf_def)

end
