(* ===== verification/DemoNode.thy ===== *)
theory DemoNode
  imports WellFormed
begin

text \<open>
  A concrete node for the witnesses: node \<open>S1\<close> of the first cluster over the demonstration
  environment, with the keys of all nodes and of the client, three transactions, and a node
  that has committed one of them.
\<close>

definition demo_key :: "int \<Rightarrow> PrivateKey" where
  "demo_key i = PrivateKey (PublicKey i 65537) (i + 1000)"

definition demo_keys :: "string \<rightharpoonup> PublicKey" where
  "demo_keys = map_of [(''S1'', PublicKey 1 65537), (''S2'', PublicKey 2 65537),
     (''S3'', PublicKey 3 65537), (''S4'', PublicKey 4 65537), (''client'', PublicKey 0 65537)]"

definition demo_clusters :: "(string \<times> ClusterStruct) list" where
  "demo_clusters = [
     (''C1'', \<lparr>cs_Nodes = [(''S1'', ''8081''), (''S2'', ''8082''), (''S3'', ''8083''), (''S4'', ''8084'')],
               cs_Start = ''1'', cs_End = ''1000''\<rparr>),
     (''C2'', \<lparr>cs_Nodes = [(''S5'', ''8085'')], cs_Start = ''1001'', cs_End = ''2000''\<rparr>)]"

text \<open>Three accounts of the first shard.\<close>

definition demo_db :: "demo_bucket Database" where
  "demo_db = (createBuckets demo_env)\<lparr>balancesBucket := ([(''1'', ''10''), (''2'', ''10''), (''3'', ''10'')], 0)\<rparr>"

definition demo_node :: "demo_bucket Node" where
  "demo_node = establishConns (NewNode (demo_key 1) demo_keys demo_db ''C1'' ''S1'' demo_clusters ''1'' ''1000'')"

lemma demo_node_tables:
  "TransactionLog demo_node = Map.empty" "Datastore demo_node = Map.empty" "RequestLog demo_node = Map.empty"
  "PrePrepares demo_node = Map.empty" "MaxSeq demo_node = 0" "DatastoreMax demo_node = 0"
  "DB demo_node = demo_db" "ExecutorSeq demo_node = 1" "View demo_node = 1" "Seq demo_node = 1"
  "ClusterId demo_node = ''C1''" "node_Id demo_node = ''S1''" "PublicKeyMap demo_node = demo_keys"
  "Live demo_node" "\<not> Byzantine demo_node" "\<not> ViewChanging demo_node"
  "\<not> CheckpointCertsLock demo_node" "node_PrivateKey demo_node = demo_key 1"
  "LastStable demo_node = 0" "effects demo_node = []" "CheckpointCerts demo_node = Map.empty"
  "PrepareCerts demo_node = (\<lambda>_. [])" "CommitCerts demo_node = (\<lambda>_. [])"
  "PrepareCertChans demo_node = (\<lambda>_. False)" "CommitCertChans demo_node = (\<lambda>_. False)"
  "NewViewNum demo_node = 0" "ViewChangeCerts demo_node = (\<lambda>_. [])" "NewViewsSent demo_node = (\<lambda>_. False)"
  "NewViewCerts demo_node = []" "LastStableBalances demo_node = []" "PCCommitsMap demo_node = (\<lambda>_. False)"
  by (simp_all add: demo_node_def establishConns_def NewNode_def)

lemma demo_node_peers:
  "peers demo_node ''C1'' = [''S2'', ''S3'', ''S4'']" "peers demo_node ''C2'' = [''S5'']"
  by (simp_all add: peers_def demo_node_def establishConns_def NewNode_def demo_clusters_def)

lemma demo_db_buckets:
  "balancesBucket demo_db = ([(''1'', ''10''), (''2'', ''10''), (''3'', ''10'')], 0)"
  "walBucket demo_db = ([], 0)" "locksBucket demo_db = ([], 0)" "transactionsBucket demo_db = ([], 0)"
  by (simp_all add: demo_db_def createBuckets_def demo_simps)

lemma demo_wal_empty: "wal_wf demo_env ([], 0)"
  by (simp add: wal_wf_def demo_simps demo_get_def)

lemma demo_node_wf: "node_wf demo_env demo_node"
  by (simp add: node_wf_def demo_node_tables demo_db_buckets demo_wal_empty log_wf_def datastore_wf_def
      requests_wf_def preprepares_wf_def)

section \<open>A transaction and its request\<close>

definition demo_tx :: Transaction where
  "demo_tx = \<lparr>t_From = ''1'', t_To = ''2'', t_Amount = 3, t_ClusterFrom = ''C1'', t_ClusterTo = ''C1'',
     t_ClientSeq = 7\<rparr>"

text \<open>The client's signed request for a transaction, made at second 100.\<close>

definition demo_request_of :: "Transaction \<Rightarrow> SignedClientRequest" where
  "demo_request_of t = (let r = \<lparr>cr_Transaction = Some t,
        cr_Timestamp = Some \<lparr>ts_Seconds = 100, ts_Nanos = 0\<rparr>, cr_Signature = []\<rparr>
    in \<lparr>scr_ClientRequest = Some r,
        scr_Signature = signature_or_nil demo_env (demo_key 0) (wire_ClientRequest r)\<rparr>)"

lemma demo_request_parts: "tx_of (demo_request_of t) = Some t" "seconds_of (demo_request_of t) = Some 100"
  by (simp_all add: demo_request_of_def tx_of_def seconds_of_def Let_def)

definition demo_unit :: "string \<Rightarrow> int64 \<Rightarrow> DBUnit" where
  "demo_unit status seq = \<lparr>u_Seq = seq, u_Transaction = Some demo_tx, u_Status = status,
     u_timestamp = 100, u_ClientSeq = 7\<rparr>"

definition demo_log :: "int64 \<Rightarrow> string \<Rightarrow> TransactionLog" where
  "demo_log st dig = \<lparr>tl_Transaction = Some demo_tx, tl_View = 1, tl_State = st, tl_Digest = dig,
     tl_Timestamp = 100, tl_ClientSeq = 7\<rparr>"

text \<open>A node with entries committed from sequence number 1 on, with the given statuses.\<close>

definition demo_committed :: "string list \<Rightarrow> demo_bucket Node" where
  "demo_committed statuses = demo_node\<lparr>
     TransactionLog := (\<lambda>i. if 1 \<le> i \<and> i \<le> int (length statuses) then Some (demo_log 3 ''d'') else None),
     MaxSeq := int (length statuses),
     Datastore := (\<lambda>i. if 1 \<le> i \<and> i \<le> int (length statuses)
                       then Some (demo_unit (statuses ! nat (i - 1)) i) else None),
     DatastoreMax := int (length statuses)\<rparr>"

lemma demo_committed_wf: "node_wf demo_env (demo_committed statuses)"
  by (auto simp: node_wf_def demo_committed_def demo_node_tables demo_db_buckets demo_wal_empty log_wf_def
      datastore_wf_def requests_wf_def preprepares_wf_def demo_log_def demo_unit_def split: if_splits)

lemma demo_ten: "FormatInt 10 = ''10''"
  by code_simp

lemma demo_ten_parsed: "parse_ignoring_error ''10'' = 10"
  using parse_format [of 10] by (simp add: demo_ten in64_def min64_def max64_def)

definition demo_digest :: "Transaction \<Rightarrow> string" where
  "demo_digest t = the (MD5Hash demo_env (JClientReq (Some (demo_request_of t))))"

lemma demo_MD5: "MD5Hash demo_env (JClientReq (Some (demo_request_of t))) = Some (demo_digest t)"
  by (simp add: demo_digest_def MD5Hash_def demo_simps demo_json_def)

text \<open>A transfer to a client of the second shard.\<close>

definition demo_cross_tx :: Transaction where
  "demo_cross_tx = \<lparr>t_From = ''1'', t_To = ''1001'', t_Amount = 4, t_ClusterFrom = ''C1'',
     t_ClusterTo = ''C2'', t_ClientSeq = 8\<rparr>"

lemma demo_verified: "verified demo_env (PublicKey i 65537) m (signature_or_nil demo_env (demo_key i) m)"
  by (simp add: signature_or_nil_def SignMessage_def VerifySignature_def demo_simps demo_marshal_def
      demo_sign_def demo_verify_def demo_key_def)

lemma demo_no_locks: "held demo_env demo_db = {}"
  by (simp add: held_def locked_def demo_db_buckets demo_simps demo_get_def)

lemma demo_has_ten: "GetBalance demo_env demo_db ''1'' = Inr 10"
  by (simp add: GetBalance_def demo_db_buckets demo_simps demo_get_def valid_key_def demo_ten_parsed)

end
