(* ===== verification/Execution.thy ===== *)
theory Execution
  imports DemoNode
begin

text \<open>
  What the executor promises, as a small abstract machine: a position in the datastore, the
  balances, the locks, and the replies and log updates it has caused. The executor of
  \<open>node/node.go\<close> refines it on well-formed nodes; in particular it never panics there.
\<close>

section \<open>The abstract executor\<close>

record exec_state =
  es_next :: int64
  es_balances :: "string \<rightharpoonup> int64"
  es_locks :: "string set"
  es_effects :: "effect list"

text \<open>The transactions an entry applies, given the write-ahead logs.\<close>

definition unit_transfers :: "(int64 \<Rightarrow> WALLog list) \<Rightarrow> DBUnit \<Rightarrow> Transaction list" where
  "unit_transfers wal u =
     (if u_Status u = [] \<or> u_Status u = ''P'' then [the (u_Transaction u)]
      else if u_Status u = ''A'' then map (\<lambda>l. reverse_tx (the (wl_Transaction l))) (wal (u_ClientSeq u))
      else [])"

definition unit_releases :: "DBUnit \<Rightarrow> string set" where
  "unit_releases u =
     (if u_Status u \<noteq> ''P'' then {t_From (the (u_Transaction u)), t_To (the (u_Transaction u))} else {})"

definition unit_effects :: "DBUnit \<Rightarrow> effect list" where
  "unit_effects u =
     (let k = t_ClientSeq (the (u_Transaction u)) in
      if u_Status u = [] \<or> u_Status u = ''C'' then
        [GoReplyToClient (u_timestamp u) True k, GoUpdateLog (u_Seq u) ''executed'']
      else if u_Status u = ''A'' then
        [GoReplyToClient (u_timestamp u) False k, GoUpdateLog (u_Seq u) ''executed'']
      else [])"

definition exec_unit :: "(int64 \<Rightarrow> WALLog list) \<Rightarrow> DBUnit \<Rightarrow> exec_state \<Rightarrow> exec_state" where
  "exec_unit wal u s = s\<lparr>
     es_next := add64 (es_next s) 1,
     es_balances := fold transfer (unit_transfers wal u) (es_balances s),
     es_locks := es_locks s - unit_releases u,
     es_effects := es_effects s @ unit_effects u\<rparr>"

definition exec_step :: "(int64 \<rightharpoonup> DBUnit) \<Rightarrow> (int64 \<Rightarrow> WALLog list) \<Rightarrow> exec_state \<Rightarrow> exec_state" where
  "exec_step ds wal s = (case ds (es_next s) of None \<Rightarrow> s | Some u \<Rightarrow> exec_unit wal u s)"

definition abs_exec :: "'b env \<Rightarrow> 'b Node \<Rightarrow> exec_state" where
  "abs_exec E n = \<lparr>es_next = ExecutorSeq n, es_balances = balance_view E (DB n),
     es_locks = held E (DB n), es_effects = effects n\<rparr>"

section \<open>Undoing a write-ahead log\<close>

definition pointers_ok :: "WALLog list \<Rightarrow> bool" where
  "pointers_ok ls \<longleftrightarrow> list_all (\<lambda>l. wl_Transaction l \<noteq> None) ls"

text \<open>Only the balances change, and they change as the reversed transfers say.\<close>

lemma undo_logs_runs:
  "bolt_ok E \<Longrightarrow> pointers_ok ls \<Longrightarrow>
     \<exists>d. undo_logs E ls n = Return (n\<lparr>DB := d\<rparr>) None \<and>
         balance_view E d = fold transfer (map (\<lambda>l. reverse_tx (the (wl_Transaction l))) ls) (balance_view E (DB n)) \<and>
         walBucket d = walBucket (DB n) \<and> locksBucket d = locksBucket (DB n)"
proof (induction ls arbitrary: n)
  case Nil
  show ?case by (rule exI [of _ "DB n"]) simp
next
  case (Cons l ls)
  then obtain t where t: "wl_Transaction l = Some t" by (auto simp: pointers_ok_def)
  from Cons.prems have "pointers_ok ls" by (simp add: pointers_ok_def)
  from Cons.IH [OF Cons.prems(1) this, of "n\<lparr>DB := UpdateBalances E (DB n) (reverse_tx t)\<rparr>"] t
  show ?case by (auto simp: UpdateBalances_refines [OF Cons.prems(1)])
qed

lemma node_wf_pointers: "node_wf E n \<Longrightarrow> ReadWALEntry E (DB n) k = Inr w \<Longrightarrow> pointers_ok (Logs w)"
  by (auto simp: node_wf_def wal_wf_def ReadWALEntry_def pointers_set_def pointers_ok_def
      split: option.splits)

lemma undoWAL_runs:
  assumes "bolt_ok E" "node_wf E n"
  shows "\<exists>d e. undoWAL E n k = Return (n\<lparr>DB := d\<rparr>) e \<and>
         balance_view E d = fold transfer (map (\<lambda>l. reverse_tx (the (wl_Transaction l))) (wal_view E (DB n) k))
           (balance_view E (DB n)) \<and>
         walBucket d = walBucket (DB n) \<and> locksBucket d = locksBucket (DB n)"
proof (cases "ReadWALEntry E (DB n) k")
  case (Inl e)
  then show ?thesis by (intro exI [of _ "DB n"] exI [of _ "Some e"]) (simp add: undoWAL_def wal_view_def)
next
  case (Inr w)
  from undo_logs_runs [OF assms(1) node_wf_pointers [OF assms(2) Inr], of n] Inr
  show ?thesis by (auto simp: undoWAL_def wal_view_def)
qed

section \<open>One round\<close>

text \<open>
  What an entry does to the store: balances by its transfers, locks by its releases, and
  nothing else.
\<close>

definition count_one :: "'b Node \<Rightarrow> 'b Node" where
  "count_one n = n\<lparr>ExecutionCount := add64 (ExecutionCount n) 1\<rparr>"

lemma executeDatastoreLog_apply:
  "u_Transaction u = Some t \<Longrightarrow> u_Status u = ''P'' \<Longrightarrow>
     executeDatastoreLog E n u = Return (count_one (n\<lparr>DB := UpdateBalances E (DB n) t\<rparr>)) True"
  "u_Transaction u = Some t \<Longrightarrow> u_Status u = [] \<Longrightarrow>
     executeDatastoreLog E n u =
       Return (count_one (n\<lparr>DB := ReleaseLocksDB E (UpdateBalances E (DB n) t) [t_From t, t_To t]\<rparr>)) True"
  by (simp_all add: executeDatastoreLog_def count_one_def)

lemma executeDatastoreLog_other:
  "u_Transaction u = Some t \<Longrightarrow> u_Status u \<notin> {[], ''P'', ''A''} \<Longrightarrow>
     executeDatastoreLog E n u =
       Return (count_one (n\<lparr>DB := ReleaseLocksDB E (DB n) [t_From t, t_To t]\<rparr>)) True"
  by (simp add: executeDatastoreLog_def count_one_def)

lemma executeDatastoreLog_undo:
  "u_Transaction u = Some t \<Longrightarrow> u_Status u = ''A'' \<Longrightarrow>
     undoWAL E n (u_ClientSeq u) = Return (n\<lparr>DB := d\<rparr>) e \<Longrightarrow>
     executeDatastoreLog E n u =
       Return (count_one (n\<lparr>DB := ReleaseLocksDB E d [t_From t, t_To t]\<rparr>)) True"
  by (simp add: executeDatastoreLog_def count_one_def)

lemma executeDatastoreLog_runs:
  assumes "bolt_ok E" "node_wf E n" "u_Transaction u = Some t"
  shows "\<exists>d. executeDatastoreLog E n u = Return (count_one (n\<lparr>DB := d\<rparr>)) True \<and>
         balance_view E d = fold transfer (unit_transfers (wal_view E (DB n)) u) (balance_view E (DB n)) \<and>
         held E d = held E (DB n) - unit_releases u \<and> walBucket d = walBucket (DB n)"
proof -
  consider (prep) "u_Status u = ''P''" | (plain) "u_Status u = []" | (undo) "u_Status u = ''A''"
    | (rest) "u_Status u \<notin> {[], ''P'', ''A''}" by blast
  then show ?thesis
  proof cases
    case prep
    show ?thesis
      by (rule exI, rule conjI, rule executeDatastoreLog_apply(1) [OF assms(3) prep])
        (simp add: prep assms unit_transfers_def unit_releases_def UpdateBalances_refines)
  next
    case plain
    show ?thesis
      by (rule exI, rule conjI, rule executeDatastoreLog_apply(2) [OF assms(3) plain])
        (simp add: plain assms unit_transfers_def unit_releases_def UpdateBalances_refines
          held_ReleaseLocksDB)
  next
    case undo
    from undoWAL_runs [OF assms(1,2), of "u_ClientSeq u"] obtain d e where
      run: "undoWAL E n (u_ClientSeq u) = Return (n\<lparr>DB := d\<rparr>) e"
      and d: "balance_view E d = fold transfer
          (map (\<lambda>l. reverse_tx (the (wl_Transaction l))) (wal_view E (DB n) (u_ClientSeq u)))
          (balance_view E (DB n))" "walBucket d = walBucket (DB n)" "locksBucket d = locksBucket (DB n)"
      by blast
    show ?thesis
      by (rule exI, rule conjI, rule executeDatastoreLog_undo [OF assms(3) undo run])
        (simp add: undo assms d held_cong [OF d(3)] unit_transfers_def unit_releases_def
          held_ReleaseLocksDB)
  next
    case rest
    show ?thesis
      by (rule exI, rule conjI, rule executeDatastoreLog_other [OF assms(3) rest])
        (use rest assms in \<open>simp add: unit_transfers_def unit_releases_def held_ReleaseLocksDB\<close>)
  qed
qed

text \<open>A round of the code is a step of the abstract executor.\<close>

lemma executor_round_done:
  assumes "Datastore n (ExecutorSeq n) = Some u" "u_Transaction u = Some t"
    and "executeDatastoreLog E n u = Return n1 True"
  shows "executor_round E n =
    Return ((emits (unit_effects u) n1)\<lparr>ExecutorSeq := add64 (ExecutorSeq n1) 1\<rparr>) ()"
proof -
  consider "u_Status u \<in> {[], ''C''}" | "u_Status u = ''A''" | "u_Status u \<notin> {[], ''C'', ''A''}" by blast
  then show ?thesis
    by cases (use assms in \<open>auto simp: executor_round_def GetDatastoreLog_def unit_effects_def Let_def\<close>)
qed

lemma executor_round_refines:
  assumes "bolt_ok E" "node_wf E n"
  shows "\<exists>n'. executor_round E n = Return n' () \<and>
     abs_exec E n' = exec_step (Datastore n) (wal_view E (DB n)) (abs_exec E n) \<and>
     Datastore n' = Datastore n \<and> wal_view E (DB n') = wal_view E (DB n) \<and> node_wf E n'"
proof (cases "Datastore n (ExecutorSeq n)")
  case None
  with assms show ?thesis
    by (simp add: executor_round_def GetDatastoreLog_def exec_step_def abs_exec_def)
next
  case (Some u)
  with assms(2) obtain t where t: "u_Transaction u = Some t"
    by (auto simp: node_wf_def datastore_wf_def)
  obtain d where run: "executeDatastoreLog E n u = Return (count_one (n\<lparr>DB := d\<rparr>)) True"
    and view: "balance_view E d = fold transfer (unit_transfers (wal_view E (DB n)) u) (balance_view E (DB n))"
      "held E d = held E (DB n) - unit_releases u" "walBucket d = walBucket (DB n)"
    using executeDatastoreLog_runs [OF assms t] by blast
  let ?n1 = "count_one (n\<lparr>DB := d\<rparr>)"
  let ?n' = "(emits (unit_effects u) ?n1)\<lparr>ExecutorSeq := add64 (ExecutorSeq ?n1) 1\<rparr>"
  have n1: "DB ?n1 = d" "ExecutorSeq ?n1 = ExecutorSeq n" "Datastore ?n1 = Datastore n"
    "effects ?n1 = effects n" by (simp_all add: count_one_def)
  have "abs_exec E ?n' = exec_step (Datastore n) (wal_view E (DB n)) (abs_exec E n)"
    using Some view by (simp add: abs_exec_def exec_step_def exec_unit_def n1)
  moreover have "wal_view E (DB ?n') = wal_view E (DB n)"
    using wal_view_cong [OF view(3)] by (simp add: n1)
  moreover have "node_wf E ?n'" using assms(2) view(3)
    by (simp add: count_one_def wf_simps wf_DB)
  moreover have "Datastore ?n' = Datastore n" by (simp add: n1)
  ultimately show ?thesis using executor_round_done [OF Some t run] by blast
qed

lemma executor_rounds_refine:
  assumes "bolt_ok E" "node_wf E n"
  shows "\<exists>n'. executor_rounds E k n = Return n' () \<and>
     abs_exec E n' = (exec_step (Datastore n) (wal_view E (DB n)) ^^ k) (abs_exec E n) \<and>
     Datastore n' = Datastore n \<and> wal_view E (DB n') = wal_view E (DB n) \<and> node_wf E n'"
  using assms(2)
proof (induction k arbitrary: n)
  case 0
  then show ?case by simp
next
  case (Suc k)
  from executor_round_refines [OF assms(1) Suc.prems] obtain n1 where
    n1: "executor_round E n = Return n1 ()"
      "abs_exec E n1 = exec_step (Datastore n) (wal_view E (DB n)) (abs_exec E n)"
      "Datastore n1 = Datastore n" "wal_view E (DB n1) = wal_view E (DB n)" "node_wf E n1" by blast
  from Suc.IH [OF n1(5)] n1 show ?case
    by (auto simp: funpow_Suc_right simp del: funpow.simps)
qed

section \<open>Many rounds\<close>

lemma fold_transfer_shift:
  "view_in64 m \<Longrightarrow> fold transfer ts m = shift_view (\<lambda>c. \<Sum>t\<leftarrow>ts. delta t c) m"
proof (induction ts arbitrary: m)
  case Nil
  then show ?case by (simp add: shift_zero)
next
  case (Cons t ts)
  then show ?case by (simp add: transfer_shift shift_shift)
qed

lemma fold_exec_unit:
  "es_balances (fold (exec_unit wal) us s) = fold transfer (concat (map (unit_transfers wal) us)) (es_balances s)"
  "es_locks (fold (exec_unit wal) us s) = es_locks s - (\<Union>u\<in>set us. unit_releases u)"
  "es_effects (fold (exec_unit wal) us s) = es_effects s @ concat (map unit_effects us)"
  by (induction us arbitrary: s) (auto simp: exec_unit_def)

lemma fold_exec_unit_next:
  "in64 (es_next s) \<Longrightarrow> in64 (es_next s + int (length us)) \<Longrightarrow>
     es_next (fold (exec_unit wal) us s) = es_next s + int (length us)"
proof (induction us arbitrary: s)
  case Nil
  then show ?case by simp
next
  case (Cons u us)
  then have "in64 (es_next s + 1)" by (simp add: in64_def)
  then have "es_next (exec_unit wal u s) = es_next s + 1" by (simp add: exec_unit_def int64_simps)
  with Cons \<open>in64 (es_next s + 1)\<close> show ?case by (simp add: add.assoc)
qed

text \<open>The entries of the datastore from a position on, without a gap.\<close>

definition entries_from :: "(int64 \<rightharpoonup> DBUnit) \<Rightarrow> int64 \<Rightarrow> DBUnit list \<Rightarrow> bool" where
  "entries_from ds s us \<longleftrightarrow> in64 s \<and> in64 (s + int (length us)) \<and>
     map (\<lambda>i. ds (s + int i)) [0..<length us] = map Some us"

lemma entries_from_Nil: "entries_from ds s [] \<longleftrightarrow> in64 s"
  by (simp add: entries_from_def)

lemma entries_from_Cons:
  "entries_from ds s (u # us) \<Longrightarrow> ds s = Some u \<and> entries_from ds (s + 1) us \<and> add64 s 1 = s + 1"
proof -
  assume e: "entries_from ds s (u # us)"
  then have "in64 s" "in64 (s + int (length (u # us)))" by (simp_all add: entries_from_def)
  then have "in64 (s + 1)" by (simp add: in64_def)
  moreover from e have "ds s = Some u" "map (\<lambda>i. ds (s + 1 + int i)) [0..<length us] = map Some us"
    by (auto simp: entries_from_def upt_conv_Cons map_Suc_upt [symmetric] add.assoc o_def simp del: upt_Suc)
  ultimately show ?thesis using e by (simp add: entries_from_def int64_simps add.assoc)
qed

lemma exec_steps_contiguous:
  "entries_from ds (es_next s) us \<Longrightarrow>
     (exec_step ds wal ^^ length us) s = fold (exec_unit wal) us s"
proof (induction us arbitrary: s)
  case Nil
  then show ?case by simp
next
  case (Cons u us)
  from entries_from_Cons [OF Cons.prems] have u: "ds (es_next s) = Some u"
    "entries_from ds (es_next s + 1) us" "add64 (es_next s) 1 = es_next s + 1" by simp_all
  have "exec_step ds wal s = exec_unit wal u s" using u(1) by (simp add: exec_step_def)
  moreover have "es_next (exec_unit wal u s) = es_next s + 1" using u(3) by (simp add: exec_unit_def)
  ultimately show ?case using Cons.IH [of "exec_unit wal u s"] u(2)
    by (simp add: funpow_Suc_right del: funpow.simps)
qed

lemma exec_step_gap: "ds (es_next s) = None \<Longrightarrow> (exec_step ds wal ^^ k) s = s"
  by (induction k) (simp_all add: exec_step_def)

lemma exec_steps_until_gap:
  assumes "entries_from ds (es_next s) us" "ds (es_next s + int (length us)) = None" "length us \<le> k"
  shows "(exec_step ds wal ^^ k) s = fold (exec_unit wal) us s"
proof -
  let ?s = "fold (exec_unit wal) us s"
  have "es_next ?s = es_next s + int (length us)"
    using assms(1) by (intro fold_exec_unit_next) (simp_all add: entries_from_def)
  with assms(2) have stay: "(exec_step ds wal ^^ (k - length us)) ?s = ?s" by (intro exec_step_gap) simp
  have "(exec_step ds wal ^^ ((k - length us) + length us)) s =
      (exec_step ds wal ^^ (k - length us)) ((exec_step ds wal ^^ length us) s)"
    by (simp only: funpow_add o_apply)
  with stay exec_steps_contiguous [OF assms(1)] assms(3) show ?thesis by simp
qed

text \<open>The rounds of the code over a stretch of the datastore.\<close>

lemma executor_stretch:
  assumes "bolt_ok E" "node_wf E n" "entries_from (Datastore n) (ExecutorSeq n) us"
    and "Datastore n (ExecutorSeq n + int (length us)) = None" "length us \<le> k"
  shows "\<exists>n'. executor_rounds E k n = Return n' () \<and> node_wf E n' \<and>
     abs_exec E n' = fold (exec_unit (wal_view E (DB n))) us (abs_exec E n)"
proof -
  have "entries_from (Datastore n) (es_next (abs_exec E n)) us"
    "Datastore n (es_next (abs_exec E n) + int (length us)) = None"
    using assms(3,4) by (simp_all add: abs_exec_def)
  from exec_steps_until_gap [OF this assms(5)] executor_rounds_refine [OF assms(1,2), of k]
  show ?thesis by auto
qed

lemma unit_transfers_prepare: "u_Status u = ''P'' \<Longrightarrow> u_Transaction u = Some t \<Longrightarrow> unit_transfers wal u = [t]"
  by (simp add: unit_transfers_def)

text \<open>A prepared entry and the entry that aborts it cancel, whatever is executed between them.\<close>

lemma abort_cancels_transfers:
  assumes "view_in64 m" "unit_transfers wal p = [t]" "unit_transfers wal a = [reverse_tx t]"
  shows "fold transfer (concat (map (unit_transfers wal) (us @ [p] @ vs @ [a] @ ws))) m
       = fold transfer (concat (map (unit_transfers wal) (us @ vs @ ws))) m"
proof -
  let ?f = "\<lambda>xs c. \<Sum>t\<leftarrow>concat (map (unit_transfers wal) xs). delta t c"
  have "?f (us @ [p] @ vs @ [a] @ ws) c = ?f (us @ vs @ ws) c" for c
    using assms(2,3) by (simp add: delta_reverse)
  then have "?f (us @ [p] @ vs @ [a] @ ws) = ?f (us @ vs @ ws)" by (rule ext)
  then show ?thesis unfolding fold_transfer_shift [OF assms(1)] by (simp only:)
qed

text \<open>One prepared or plain entry at one shard.\<close>

lemma finite_balance_view: "bolt_ok E \<Longrightarrow> finite (dom (balance_view E d))"
proof -
  assume "bolt_ok E"
  then have "dom (balance_view E d) = dom (map_of (bkt_list E (balancesBucket d)))"
    by (auto simp: dom_balance_view bolt_simps) (auto simp: dom_def balance_view_def GetBalance_def bolt_simps split: option.splits)
  then show ?thesis by (simp add: finite_dom_map_of)
qed

lemma executor_round_transfer:
  assumes "bolt_ok E" "node_wf E n" "Datastore n (ExecutorSeq n) = Some u"
    and "u_Status u = ''P'' \<or> u_Status u = []" "u_Transaction u = Some t"
    and "executor_round E n = Return n' ()"
  shows "balance_view E (DB n') = transfer t (balance_view E (DB n))"
proof -
  have "es_balances (abs_exec E n') = transfer t (balance_view E (DB n))"
    using executor_round_refines [OF assms(1,2)] assms(3-6)
    by (auto simp: exec_step_def exec_unit_def abs_exec_def unit_transfers_def)
  then show ?thesis by (simp add: abs_exec_def)
qed

lemma total_transfer:
  assumes "finite (dom m)" "view_in64 m"
  shows "total (transfer t m) mod 18446744073709551616 =
     (total m + ((if t_To t \<in> dom m then t_Amount t else 0) - (if t_From t \<in> dom m then t_Amount t else 0)))
       mod 18446744073709551616"
  unfolding transfer_shift [OF assms(2)] total_shift [OF assms(1)] sum_delta [OF assms(1)] ..

section \<open>Demonstration nodes\<close>

lemma demo_committed_entries:
  "entries_from (Datastore (demo_committed ss)) (ExecutorSeq (demo_committed ss))
     (map (\<lambda>i. demo_unit (ss ! i) (1 + int i)) [0..<length ss])
   \<and> Datastore (demo_committed ss) (ExecutorSeq (demo_committed ss) + int (length ss)) = None"
  if "in64 (1 + int (length ss))"
  using that by (auto simp: entries_from_def demo_committed_def demo_node_tables in64_def min64_def max64_def)

text \<open>A node that prepared and then aborted the transaction, its write-ahead log written.\<close>

definition demo_wal_db :: "demo_bucket Database" where
  "demo_wal_db = fst (AppendToWALEntry demo_env demo_db 7
     [\<lparr>wl_Operation = ''transaction'', wl_Subject = [], wl_Transaction = Some demo_tx\<rparr>])"

definition demo_aborting :: "demo_bucket Node" where
  "demo_aborting = (demo_committed [''P'', ''A''])\<lparr>DB := demo_wal_db\<rparr>"

lemma demo_wal_view:
  "wal_view demo_env demo_wal_db 7 =
     [\<lparr>wl_Operation = ''transaction'', wl_Subject = [], wl_Transaction = Some demo_tx\<rparr>]"
  "balancesBucket demo_wal_db = balancesBucket demo_db"
proof -
  let ?l = "\<lparr>wl_Operation = ''transaction'', wl_Subject = [], wl_Transaction = Some demo_tx\<rparr>"
  have none: "bkt_get demo_env (walBucket demo_db) k = None" for k
    by (simp add: demo_db_buckets demo_simps demo_get_def)
  have "wal_readable demo_env demo_db 7" by (simp add: wal_readable_def none)
  moreover have "wal_view demo_env demo_db 7 = []" by (simp add: wal_view_def ReadWALEntry_def none)
  moreover have "ascii_wal \<lparr>Logs = [?l]\<rparr>"
    by (simp add: ascii_wal_def ascii_def ascii_tx_opt_def ascii_tx_def demo_tx_def)
  moreover have app: "AppendToWALEntry demo_env demo_db 7 [?l] = (demo_wal_db, None)"
    unfolding demo_wal_db_def
    by (simp add: AppendToWALEntry_def demo_db_buckets demo_simps demo_get_def demo_json_def
        demo_put_def in64_def min64_def max64_def)
  ultimately have "ReadWALEntry demo_env demo_wal_db 7 = Inr \<lparr>Logs = [?l]\<rparr>"
    using AppendToWALEntry_read [OF demo_bolt_ok demo_json_ok, of demo_db 7 "[?l]" demo_wal_db] by simp
  then show "wal_view demo_env demo_wal_db 7 = [?l]" by (simp add: wal_view_def)
  show "balancesBucket demo_wal_db = balancesBucket demo_db"
    using AppendToWALEntry_frame [OF app] by simp
qed

lemma demo_aborting_wf: "node_wf demo_env demo_aborting"
proof -
  have "wal_wf demo_env (walBucket demo_wal_db)"
    unfolding demo_wal_db_def
    by (rule wal_wf_AppendToWALEntry [OF demo_bolt_ok demo_json_pointers_ok])
      (simp_all add: demo_db_buckets demo_wal_empty)
  with demo_committed_wf [of "[''P'', ''A'']"] show ?thesis
    by (simp add: node_wf_def demo_aborting_def)
qed

section \<open>Properties of the executor\<close>

text \<open>
  C15. Refinement: on a well-formed node, any number of rounds of the executor's loop returns
  (no panic, no wait), and position, balances, locks and replies are those of the abstract
  executor after as many steps.
\<close>

theorem executor_refines_machine:
  assumes "bolt_ok E" "node_wf E n"
  shows "\<exists>n'. executor_rounds E k n = Return n' () \<and>
     abs_exec E n' = (exec_step (Datastore n) (wal_view E (DB n)) ^^ k) (abs_exec E n)"
  using executor_rounds_refine [OF assms, of k] by blast

theorem executor_refines_machine_witness:
  "\<exists>n'. executor_rounds demo_env 3 (demo_committed [[], ''C'']) = Return n' () \<and>
     abs_exec demo_env n' =
       (exec_step (Datastore (demo_committed [[], ''C''])) (wal_view demo_env (DB (demo_committed [[], ''C'']))) ^^ 3)
         (abs_exec demo_env (demo_committed [[], ''C'']))"
  by (rule executor_refines_machine [OF demo_bolt_ok demo_committed_wf])

text \<open>
  C16. Order and completeness: with entries \<open>us\<close> committed from the executor's position up to a
  gap, enough rounds apply exactly these entries, each once and in the order of their sequence
  numbers, and then wait at the gap: the balances are the fold of their transfers, the
  replies are theirs in order, and the position is the gap's.
\<close>

theorem executor_in_order:
  assumes "bolt_ok E" "node_wf E n" "entries_from (Datastore n) (ExecutorSeq n) us"
    and "Datastore n (ExecutorSeq n + int (length us)) = None" "length us \<le> k"
  shows "\<exists>n'. executor_rounds E k n = Return n' () \<and>
     ExecutorSeq n' = ExecutorSeq n + int (length us) \<and>
     balance_view E (DB n') =
       fold transfer (concat (map (unit_transfers (wal_view E (DB n))) us)) (balance_view E (DB n)) \<and>
     held E (DB n') = held E (DB n) - (\<Union>u\<in>set us. unit_releases u) \<and>
     effects n' = effects n @ concat (map unit_effects us)"
proof -
  obtain n' where run: "executor_rounds E k n = Return n' ()"
    and abs: "abs_exec E n' = fold (exec_unit (wal_view E (DB n))) us (abs_exec E n)"
    using executor_stretch [OF assms] by blast
  have "in64 (es_next (abs_exec E n))" "in64 (es_next (abs_exec E n) + int (length us))"
    using assms(3) by (simp_all add: entries_from_def abs_exec_def)
  from fold_exec_unit_next [OF this, of "wal_view E (DB n)"]
    fold_exec_unit [of "wal_view E (DB n)" us "abs_exec E n", folded abs]
  show ?thesis using run by (simp add: abs [symmetric]) (simp add: abs_exec_def)
qed

theorem executor_in_order_witness:
  "\<exists>n'. executor_rounds demo_env 5 (demo_committed [[], ''C'']) = Return n' () \<and>
     ExecutorSeq n' = 3 \<and>
     balance_view demo_env (DB n') = transfer demo_tx (balance_view demo_env demo_db) \<and>
     effects n' = [GoReplyToClient 100 True 7, GoUpdateLog 1 ''executed'',
                   GoReplyToClient 100 True 7, GoUpdateLog 2 ''executed'']"
  using executor_in_order [OF demo_bolt_ok demo_committed_wf, of "[[], ''C'']",
      OF demo_committed_entries [THEN conjunct1], of 5]
    demo_committed_entries [of "[[], ''C'']"]
  by (auto simp: in64_def min64_def max64_def demo_unit_def unit_transfers_def unit_effects_def
      demo_committed_def demo_node_tables demo_tx_def upt_rec)

text \<open>
  C17. Two-phase abort: when a transaction was executed as prepared and the entry that aborts
  it comes later, with the write-ahead log holding the transaction, the balances after both
  are those of a run without either, whatever was executed before, between and after.
\<close>

theorem abort_restores_balances:
  assumes "bolt_ok E" "node_wf E n"
    and "entries_from (Datastore n) (ExecutorSeq n) (us @ [p] @ vs @ [a] @ ws)"
    and "Datastore n (ExecutorSeq n + int (length (us @ [p] @ vs @ [a] @ ws))) = None"
    and "u_Status p = ''P''" "u_Transaction p = Some t"
    and "u_Status a = ''A''" "map wl_Transaction (wal_view E (DB n) (u_ClientSeq a)) = [Some t]"
  shows "\<exists>n'. executor_rounds E (length (us @ [p] @ vs @ [a] @ ws)) n = Return n' () \<and>
     balance_view E (DB n') =
       fold transfer (concat (map (unit_transfers (wal_view E (DB n))) (us @ vs @ ws))) (balance_view E (DB n))"
proof -
  let ?wal = "wal_view E (DB n)"
  have "unit_transfers ?wal p = [t]" using assms(5,6) by (rule unit_transfers_prepare)
  moreover have "unit_transfers ?wal a = [reverse_tx t]"
    using assms(7,8) by (auto simp: unit_transfers_def)
  ultimately have "fold transfer (concat (map (unit_transfers ?wal) (us @ [p] @ vs @ [a] @ ws))) (balance_view E (DB n))
      = fold transfer (concat (map (unit_transfers ?wal) (us @ vs @ ws))) (balance_view E (DB n))"
    by (rule abort_cancels_transfers [OF view_in64_balance_view])
  then have spec: "es_balances (fold (exec_unit ?wal) (us @ [p] @ vs @ [a] @ ws) (abs_exec E n)) =
      fold transfer (concat (map (unit_transfers ?wal) (us @ vs @ ws))) (balance_view E (DB n))"
    unfolding fold_exec_unit(1) by (simp add: abs_exec_def)
  obtain n' where "executor_rounds E (length (us @ [p] @ vs @ [a] @ ws)) n = Return n' ()"
    "abs_exec E n' = fold (exec_unit ?wal) (us @ [p] @ vs @ [a] @ ws) (abs_exec E n)"
    using executor_stretch [OF assms(1-4)] by blast
  with spec show ?thesis by (metis abs_exec_def exec_state.select_convs(2))
qed

theorem abort_restores_balances_witness:
  "\<exists>n'. executor_rounds demo_env 2 demo_aborting = Return n' () \<and>
     balance_view demo_env (DB n') = balance_view demo_env demo_wal_db"
  using abort_restores_balances [OF demo_bolt_ok demo_aborting_wf, of "[]" "demo_unit ''P'' 1" "[]"
      "demo_unit ''A'' 2" "[]" demo_tx]
    demo_committed_entries [of "[''P'', ''A'']"]
  by (simp add: demo_aborting_def demo_unit_def demo_wal_view upt_rec in64_def min64_def max64_def
      demo_committed_def demo_node_tables numeral_2_eq_2)

text \<open>
  C18. Conservation: when the coordinator's shard, which holds the sender's account, and the
  participant's shard, which holds the receiver's, have each executed the prepared entry of
  the same transaction, the money in the two shards together is what it was (as \<open>int64\<close>
  sums wrap, modulo $2^{64}$), and the two accounts changed by exactly the amount.
\<close>

theorem cross_shard_conserves:
  assumes "bolt_ok E" "node_wf E n" "bolt_ok E'" "node_wf E' m"
    and "Datastore n (ExecutorSeq n) = Some u" "u_Status u = ''P''" "u_Transaction u = Some t"
    and "Datastore m (ExecutorSeq m) = Some v" "u_Status v = ''P''" "u_Transaction v = Some t"
    and "balance_view E (DB n) (t_From t) = Some b" "balance_view E (DB n) (t_To t) = None"
    and "balance_view E' (DB m) (t_To t) = Some c" "balance_view E' (DB m) (t_From t) = None"
    and "executor_round E n = Return n' ()" "executor_round E' m = Return m' ()"
  shows "(total (balance_view E (DB n')) + total (balance_view E' (DB m'))) mod 18446744073709551616 =
         (total (balance_view E (DB n)) + total (balance_view E' (DB m))) mod 18446744073709551616
     \<and> balance_view E (DB n') (t_From t) = Some (sub64 b (t_Amount t))
     \<and> balance_view E' (DB m') (t_To t) = Some (add64 c (t_Amount t))"
proof -
  let ?M = "18446744073709551616 :: int"
  let ?n = "balance_view E (DB n)" and ?m = "balance_view E' (DB m)"
  have views: "balance_view E (DB n') = transfer t ?n" "balance_view E' (DB m') = transfer t ?m"
    using executor_round_transfer [OF assms(1,2,5) _ assms(7,15)] assms(6)
      executor_round_transfer [OF assms(3,4,8) _ assms(10,16)] assms(9) by simp_all
  have "total (transfer t ?n) mod ?M = (total ?n - t_Amount t) mod ?M"
    using total_transfer [OF finite_balance_view [OF assms(1)], of "DB n" t] assms(11,12)
    by (simp add: domIff)
  moreover have "total (transfer t ?m) mod ?M = (total ?m + t_Amount t) mod ?M"
    using total_transfer [OF finite_balance_view [OF assms(3)], of "DB m" t] assms(13,14)
    by (simp add: domIff)
  ultimately have "(total (transfer t ?n) + total (transfer t ?m)) mod ?M
      = (total ?n - t_Amount t + (total ?m + t_Amount t)) mod ?M"
    by (rule mod_add_cong)
  moreover have "t_From t \<noteq> t_To t" using assms(11,12) by auto
  ultimately show ?thesis using views assms(11,13) by (simp add: transfer_from transfer_to)
qed

definition demo_db2 :: "demo_bucket Database" where
  "demo_db2 = (createBuckets demo_env)\<lparr>balancesBucket := ([(''1001'', ''10'')], 0)\<rparr>"

definition demo_shard :: "demo_bucket Database \<Rightarrow> demo_bucket Node" where
  "demo_shard d = (demo_committed [''P''])\<lparr>DB := d,
     Datastore := [1 \<mapsto> (demo_unit ''P'' 1)\<lparr>u_Transaction := Some demo_cross_tx\<rparr>]\<rparr>"

lemma demo_shard_wf:
  assumes "walBucket d = ([], 0)"
  shows "node_wf demo_env (demo_shard d)"
proof -
  have "datastore_wf (TransactionLog (demo_committed [''P''])) (DatastoreMax (demo_committed [''P'']))
      [1 \<mapsto> (demo_unit ''P'' 1)\<lparr>u_Transaction := Some demo_cross_tx\<rparr>]"
    by (simp add: datastore_wf_def demo_committed_def demo_unit_def)
  with demo_committed_wf [of "[''P'']"] assms show ?thesis
    by (simp add: node_wf_def demo_shard_def demo_wal_empty)
qed

lemma demo_db2_wal: "walBucket demo_db2 = ([], 0)"
  by (simp add: demo_db2_def createBuckets_def demo_simps)

lemma demo_balances:
  "balance_view demo_env demo_db ''1'' = Some 10" "balance_view demo_env demo_db ''1001'' = None"
  "balance_view demo_env demo_db2 ''1001'' = Some 10" "balance_view demo_env demo_db2 ''1'' = None"
  by (simp_all add: balance_view_def GetBalance_def demo_db_buckets demo_db2_def createBuckets_def
      demo_simps demo_get_def valid_key_def demo_ten_parsed)

theorem cross_shard_conserves_witness:
  "\<exists>n' m'. executor_round demo_env (demo_shard demo_db) = Return n' () \<and>
     executor_round demo_env (demo_shard demo_db2) = Return m' () \<and>
     (total (balance_view demo_env (DB n')) + total (balance_view demo_env (DB m'))) mod 18446744073709551616 =
       (total (balance_view demo_env demo_db) + total (balance_view demo_env demo_db2)) mod 18446744073709551616"
proof -
  have wf: "node_wf demo_env (demo_shard demo_db)" "node_wf demo_env (demo_shard demo_db2)"
    by (simp_all add: demo_shard_wf demo_db_buckets demo_db2_wal)
  obtain n' m' where run: "executor_round demo_env (demo_shard demo_db) = Return n' ()"
    "executor_round demo_env (demo_shard demo_db2) = Return m' ()"
    using executor_round_refines [OF demo_bolt_ok wf(1)] executor_round_refines [OF demo_bolt_ok wf(2)] by blast
  have sel: "DB (demo_shard d) = d" "ExecutorSeq (demo_shard d) = 1"
    "Datastore (demo_shard d) 1 = Some ((demo_unit ''P'' 1)\<lparr>u_Transaction := Some demo_cross_tx\<rparr>)" for d
    by (simp_all add: demo_shard_def demo_committed_def demo_node_tables)
  show ?thesis
    using cross_shard_conserves [OF demo_bolt_ok wf(1) demo_bolt_ok wf(2), of
        "(demo_unit ''P'' 1)\<lparr>u_Transaction := Some demo_cross_tx\<rparr>" demo_cross_tx
        "(demo_unit ''P'' 1)\<lparr>u_Transaction := Some demo_cross_tx\<rparr>" 10 10 n' m'] run
    by (auto simp: sel demo_unit_def demo_cross_tx_def demo_balances)
qed

end
