(* ===== verification/Quorum.thy ===== *)
theory Quorum
  imports NodeLog
begin

text \<open>
  Why \<open>2 * F + 1\<close> of a cluster's four nodes are enough: two sets of that size share a node
  that is not faulty, and the nodes that are not faulty are such a set. The contract is a
  locale; the clusters of the program (the names \<open>getViewLeader\<close> computes) are its instance.
\<close>

section \<open>Quorums among nodes of which some are faulty\<close>

locale quorum_system =
  fixes nodes :: "'n set" and faulty :: "'n set" and quorum :: nat
  assumes finite_nodes: "finite nodes"
    and overlap: "card nodes + card (nodes \<inter> faulty) < 2 * quorum"
begin

lemma quorums_share_correct:
  assumes "A \<subseteq> nodes" "B \<subseteq> nodes" "quorum \<le> card A" "quorum \<le> card B"
  shows "\<exists>x. x \<in> A \<and> x \<in> B \<and> x \<notin> faulty"
proof -
  have fin: "finite A" "finite B" using assms(1,2) finite_nodes finite_subset by blast+
  have "card A + card B = card (A \<union> B) + card (A \<inter> B)" by (rule card_Un_Int [OF fin])
  moreover have "card (A \<union> B) \<le> card nodes" using assms(1,2) finite_nodes by (simp add: card_mono)
  ultimately have "card (nodes \<inter> faulty) < card (A \<inter> B)" using overlap assms(3,4) by linarith
  then have "\<not> A \<inter> B \<subseteq> nodes \<inter> faulty"
    using card_mono [of "nodes \<inter> faulty" "A \<inter> B"] finite_nodes by (auto simp: not_le [symmetric])
  with assms(1) show ?thesis by blast
qed

text \<open>A correct node that gives one vote forces two quorums to agree.\<close>

lemma quorums_agree:
  assumes "A \<subseteq> nodes" "B \<subseteq> nodes" "quorum \<le> card A" "quorum \<le> card B"
    and "\<And>i. i \<in> A \<Longrightarrow> votes i x" "\<And>i. i \<in> B \<Longrightarrow> votes i y"
    and "\<And>i v w. i \<in> nodes \<Longrightarrow> i \<notin> faulty \<Longrightarrow> votes i v \<Longrightarrow> votes i w \<Longrightarrow> v = w"
  shows "x = y"
  using quorums_share_correct [OF assms(1-4)] assms by blast

lemma quorum_has_correct:
  assumes "A \<subseteq> nodes" "quorum \<le> card A"
  shows "\<exists>x. x \<in> A \<and> x \<notin> faulty"
  using quorums_share_correct [OF assms(1,1,2,2)] by blast

end

text \<open>If the correct nodes are enough, the protocol can go on without the faulty ones.\<close>

locale available_quorum_system = quorum_system +
  assumes enough_correct: "quorum \<le> card (nodes - faulty)"
begin

lemma correct_is_quorum: "nodes - faulty \<subseteq> nodes \<and> quorum \<le> card (nodes - faulty)"
  using enough_correct by blast

end

section \<open>The clusters\<close>

definition cluster_nodes :: "int64 \<Rightarrow> string set" where
  "cluster_nodes c = {leader_name c 1, leader_name c 2, leader_name c 3, leader_name c 4}"

lemma add64_left_inj: "in64 a \<Longrightarrow> in64 b \<Longrightarrow> add64 x a = add64 x b \<longleftrightarrow> a = b"
proof
  assume ab: "in64 a" "in64 b" and eq: "add64 x a = add64 x b"
  have "sub64 (add64 x i) x = i" if "in64 i" for i using that by (simp add: add64_def sub64_def)
  with ab eq show "a = b" by metis
qed simp

lemma mod4_in64: "in64 (x mod 4)" "in64 (x mod 4 + 1)"
proof -
  have "0 \<le> x mod 4" "x mod 4 < 4" by simp_all
  then show "in64 (x mod 4)" "in64 (x mod 4 + 1)"
    unfolding in64_def min64_def max64_def by linarith+
qed

lemma leader_name_slot:
  assumes "1 \<le> v" "v \<le> max64"
  shows "leader_name c v = CHR ''S'' # FormatInt (add64 (mul64 (sub64 c 1) 4) ((v - 1) mod 4 + 1))"
proof -
  have "in64 (v - 1)" using assms by (simp add: in64_def min64_def max64_def)
  moreover have "in64 ((v - 1) mod 4)" "in64 ((v - 1) mod 4 + 1)"
    by (rule mod4_in64)+
  moreover have "sgn (v - 1) * (\<bar>v - 1\<bar> mod 4) = (v - 1) mod 4"
    using assms by (cases "v = 1") simp_all
  ultimately show ?thesis by (simp add: leader_name_def rem64_def int64_simps)
qed

lemma leader_name_eq:
  assumes "1 \<le> v" "v \<le> max64" "1 \<le> w" "w \<le> max64"
  shows "leader_name c v = leader_name c w \<longleftrightarrow> (v - 1) mod 4 = (w - 1) mod 4"
proof -
  show ?thesis
    using assms by (simp add: leader_name_slot FormatInt_inj add64_left_inj mod4_in64)
qed

lemma leader_name_in_cluster:
  assumes "1 \<le> v" "v \<le> max64"
  shows "leader_name c v \<in> cluster_nodes c"
proof -
  have "(v - 1) mod 4 \<in> {0, 1, 2, 3}" using pos_mod_bound [of 4 "v - 1"] pos_mod_sign [of 4 "v - 1"] by auto
  then obtain w where "w \<in> {1, 2, 3, 4}" "(v - 1) mod 4 = (w - 1) mod 4" by fastforce
  with assms have "leader_name c v = leader_name c w" by (auto simp: leader_name_eq max64_def)
  with \<open>w \<in> {1, 2, 3, 4}\<close> show ?thesis by (auto simp: cluster_nodes_def)
qed

lemma card_cluster_nodes: "card (cluster_nodes c) = 3 * F + 1"
proof -
  have "leader_name c v \<noteq> leader_name c w" if "v \<in> {1, 2, 3, 4}" "w \<in> {1, 2, 3, 4}" "v \<noteq> w" for v w
    using that leader_name_eq [of v w c] by (auto simp: max64_def)
  then show ?thesis by (simp add: cluster_nodes_def F_def)
qed

interpretation cluster: available_quorum_system "cluster_nodes c" "{bad}" "2 * F + 1"
proof
  show "finite (cluster_nodes c)" by (simp add: cluster_nodes_def)
  have "card (cluster_nodes c \<inter> {bad}) \<le> 1"
    using card_mono [of "{bad}" "cluster_nodes c \<inter> {bad}"] by simp
  then show "card (cluster_nodes c) + card (cluster_nodes c \<inter> {bad}) < 2 * (2 * F + 1)"
    by (simp add: card_cluster_nodes F_def)
  have "card (cluster_nodes c) \<le> card (cluster_nodes c - {bad}) + 1"
    using card_Diff_singleton_if [of "cluster_nodes c" bad] by (cases "bad \<in> cluster_nodes c") simp_all
  then show "2 * F + 1 \<le> card (cluster_nodes c - {bad})"
    by (simp add: card_cluster_nodes F_def)
qed

section \<open>Who leads\<close>

lemma getViewLeader_name:
  "ClusterId n = x # FormatInt c \<Longrightarrow> in64 c \<Longrightarrow> getViewLeader n = Some (leader_name c (View n))"
  by (simp add: getViewLeader_def slice_from_def)

text \<open>
  Leaders rotate: in a cluster named by a letter and its number, four consecutive views
  are led by the four nodes of the cluster, each once, and the fifth by the first again.
\<close>

theorem leaders_rotate:
  assumes "ClusterId n = x # FormatInt c" "in64 c" "1 \<le> View n" "View n + 4 \<le> max64"
  shows "(\<lambda>i. getViewLeader (n\<lparr>View := View n + i\<rparr>)) ` {0, 1, 2, 3} = Some ` cluster_nodes c \<and>
     inj_on (\<lambda>i. getViewLeader (n\<lparr>View := View n + i\<rparr>)) {0, 1, 2, 3} \<and>
     getViewLeader (n\<lparr>View := View n + 4\<rparr>) = getViewLeader n"
proof -
  let ?v = "View n"
  let ?f = "\<lambda>i. leader_name c (?v + i)"
  have leader: "getViewLeader (n\<lparr>View := w\<rparr>) = Some (leader_name c w)" for w
    using getViewLeader_name [of "n\<lparr>View := w\<rparr>" x c] assms(1,2) by simp
  have eq: "?f i = ?f j \<longleftrightarrow> i = j" if "i \<in> {0, 1, 2, 3}" "j \<in> {0, 1, 2, 3}" for i j
  proof -
    have "?f i = ?f j \<longleftrightarrow> (?v + i - 1) mod 4 = (?v + j - 1) mod 4"
      using that assms(3,4) by (intro leader_name_eq) auto
    moreover have "(?v + i - 1) mod 4 = (?v + j - 1) mod 4 \<longleftrightarrow> 4 dvd i - j"
      by (simp add: mod_eq_dvd_iff)
    moreover have "4 dvd i - j \<longleftrightarrow> i = j" using that by auto
    ultimately show ?thesis by simp
  qed
  have inj: "inj_on ?f {0, 1, 2, 3}" using eq by (simp add: inj_on_def)
  have "?f ` {0, 1, 2, 3} \<subseteq> cluster_nodes c"
    using assms(3,4) by (auto intro!: leader_name_in_cluster)
  moreover have "card (?f ` {0, 1, 2, 3}) = card (cluster_nodes c)"
    using card_image [OF inj] card_cluster_nodes [of c] by (simp add: F_def)
  moreover have "finite (cluster_nodes c)" by (simp add: cluster_nodes_def)
  ultimately have img: "?f ` {0, 1, 2, 3} = cluster_nodes c" by (simp add: card_subset_eq)
  have "(?v + 4 - 1) mod 4 = (?v - 1) mod 4" by (simp add: mod_eq_dvd_iff)
  then have "leader_name c (?v + 4) = leader_name c ?v"
    using assms(3,4) leader_name_eq [of "?v + 4" ?v c] by simp
  moreover have "(\<lambda>i. Some (?f i)) ` {0, 1, 2, 3} = Some ` cluster_nodes c"
    by (simp only: img [symmetric] image_image)
  moreover have "inj_on (\<lambda>i. Some (?f i)) {0, 1, 2, 3}" using inj by (simp add: inj_on_def)
  moreover have "getViewLeader n = Some (leader_name c ?v)" using leader [of ?v] by simp
  ultimately show ?thesis by (simp only: leader HOL.simp_thms)
qed

theorem leaders_rotate_witness:
  "(\<lambda>i. getViewLeader ((NewNode (PrivateKey (PublicKey 1 2) 3) Map.empty (createBuckets demo_env)
        ''C2'' ''S5'' [] ''1001'' ''2000'')\<lparr>View := 1 + i\<rparr>)) ` {0, 1, 2, 3} = Some ` cluster_nodes 2"
proof -
  have "FormatInt 2 = ''2''" by code_simp
  then show ?thesis
    using leaders_rotate [of "NewNode (PrivateKey (PublicKey 1 2) 3) Map.empty (createBuckets demo_env)
        ''C2'' ''S5'' [] ''1001'' ''2000''" "CHR ''C''" 2]
    by (simp add: NewNode_def in64_def min64_def max64_def)
qed

end
