(* ===== verification/Agreement.thy ===== *)
theory Agreement
  imports Quorum DemoNode
begin

text \<open>
  What a commit means: what it takes (\<open>2 * F + 1\<close> valid certificates), what it does, that a
  peer that agrees accepts the same certificates, when two nodes that commit must agree (for
  certificates of distinct signers that vote once), and what the checks do not look at.
\<close>

section \<open>What validation does\<close>

lemma log_at_logged: "TransactionLog n seq = Some l \<Longrightarrow> log_at n seq = l"
  by (simp add: log_at_def getTransactionLog_def)

lemma updateLog_Some:
  "TransactionLog n seq = Some l \<Longrightarrow>
     TransactionLog (updateLog n seq s) = (TransactionLog n)(seq \<mapsto> l\<lparr>tl_State := max (tl_State l) (States s)\<rparr>)"
  by (auto simp: updateLog_def fun_eq_iff)

lemma updateLog_Some_eq:
  "TransactionLog n seq = Some l \<Longrightarrow>
     updateLog n seq s = n\<lparr>TransactionLog := (TransactionLog n)(seq \<mapsto> l\<lparr>tl_State := max (tl_State l) (States s)\<rparr>)\<rparr>"
  by (auto simp: updateLog_def fun_eq_iff)

lemma updateLog_frame [simp]:
  "Datastore (updateLog n seq s) = Datastore n" "DatastoreMax (updateLog n seq s) = DatastoreMax n"
  "DB (updateLog n seq s) = DB n" "PrepareCerts (updateLog n seq s) = PrepareCerts n"
  "CommitCerts (updateLog n seq s) = CommitCerts n" "PublicKeyMap (updateLog n seq s) = PublicKeyMap n"
  "View (updateLog n seq s) = View n" "effects (updateLog n seq s) = effects n"
  "Byzantine (updateLog n seq s) = Byzantine n"
  by (simp_all add: updateLog_def split: option.splits)

lemma commit_entry_tables:
  assumes "TransactionLog n seq = Some l"
  shows "TransactionLog (commit_entry E n seq s k t) =
      (TransactionLog n)(seq \<mapsto> l\<lparr>tl_State := max (tl_State l) 3\<rparr>)"
    and "Datastore (commit_entry E n seq s k t) = (Datastore n)(seq \<mapsto>
      \<lparr>u_Seq = seq, u_Transaction = tl_Transaction l, u_Status = s, u_timestamp = tl_Timestamp l,
       u_ClientSeq = k\<rparr>)"
    and "CommitCerts (commit_entry E n seq s k t) = CommitCerts n"
    and "PublicKeyMap (commit_entry E n seq s k t) = PublicKeyMap n"
    and "effects (commit_entry E n seq s k t) = effects n"
    and "locksBucket (DB (commit_entry E n seq s k t)) = locksBucket (DB n)"
    and "balancesBucket (DB (commit_entry E n seq s k t)) = balancesBucket (DB n)"
proof -
  let ?app = "AppendToWALEntry E (DB n) k
      [\<lparr>wl_Operation = ''transaction'', wl_Subject = [], wl_Transaction = t\<rparr>]"
  have upd: "TransactionLog (updateLog n seq ''committed'') =
      (TransactionLog n)(seq \<mapsto> l\<lparr>tl_State := max (tl_State l) 3\<rparr>)"
    using updateLog_Some [OF assms] by (simp add: States_def)
  have frame: "locksBucket (fst ?app) = locksBucket (DB n) \<and> balancesBucket (fst ?app) = balancesBucket (DB n)"
    using AppendToWALEntry_frame [of E "DB n" k _ "fst ?app" "snd ?app"] by simp
  show "TransactionLog (commit_entry E n seq s k t) =
      (TransactionLog n)(seq \<mapsto> l\<lparr>tl_State := max (tl_State l) 3\<rparr>)"
    "Datastore (commit_entry E n seq s k t) = (Datastore n)(seq \<mapsto>
      \<lparr>u_Seq = seq, u_Transaction = tl_Transaction l, u_Status = s, u_timestamp = tl_Timestamp l,
       u_ClientSeq = k\<rparr>)"
    "CommitCerts (commit_entry E n seq s k t) = CommitCerts n"
    "PublicKeyMap (commit_entry E n seq s k t) = PublicKeyMap n"
    "effects (commit_entry E n seq s k t) = effects n"
    "locksBucket (DB (commit_entry E n seq s k t)) = locksBucket (DB n)"
    "balancesBucket (DB (commit_entry E n seq s k t)) = balancesBucket (DB n)"
    using upd frame
    by (simp_all add: commit_entry_def saveTransactionToDatastore_def log_at_def getTransactionLog_def Let_def)
qed

lemma validateCommits_True:
  assumes "validateCommits E n seq rs s k t = Return n' True"
  shows "2 * F + 1 \<le> length (filter (commit_valid E n seq) rs)"
    and "n' = committed_state E n seq (filter (commit_valid E n seq) rs) s k t"
  using assms by (simp_all add: validateCommits_cases split: if_splits)

lemma valid_commit_logged:
  assumes "2 * F + 1 \<le> length (filter (commit_valid E n seq) rs)"
  shows "\<exists>l. TransactionLog n seq = Some l \<and> 2 \<le> tl_State l"
proof -
  from assms have "filter (commit_valid E n seq) rs \<noteq> []" by (metis list.size(3) add_is_0 le_zero_eq one_neq_zero)
  then obtain r where "commit_valid E n seq r" by (auto simp: filter_empty_conv)
  then show ?thesis by (auto simp: commit_valid_def)
qed

section \<open>Certificates of the demonstration cluster\<close>

text \<open>Signed by node \<open>S<i>\<close> of the first cluster.\<close>

definition demo_commit_cert :: "int \<Rightarrow> string \<Rightarrow> int64 \<Rightarrow> string \<Rightarrow> CommitRequest" where
  "demo_commit_cert i name seq dig =
     (let c = \<lparr>c_View = 1, c_Sequence = seq, c_Digest = dig, c_NodeId = name\<rparr> in
      \<lparr>cmr_Commit = Some c, cmr_Signature = signature_or_nil demo_env (demo_key i) (wire_Commit c)\<rparr>)"

definition demo_certs :: "CommitRequest list" where
  "demo_certs = [demo_commit_cert 1 ''S1'' 1 ''d'', demo_commit_cert 2 ''S2'' 1 ''d'',
     demo_commit_cert 3 ''S3'' 1 ''d'']"

text \<open>A node that has prepared sequence number 1.\<close>

definition demo_prepared :: "demo_bucket Node" where
  "demo_prepared = demo_node\<lparr>TransactionLog := [1 \<mapsto> demo_log 2 ''d''], MaxSeq := 1\<rparr>"

lemma demo_signed:
  "verified demo_env (sk_Public sk) m (signature_or_nil demo_env sk m)"
  by (simp add: signature_or_nil_def SignMessage_def VerifySignature_def demo_simps demo_marshal_def
      demo_sign_def demo_verify_def)

lemma demo_cert_valid:
  assumes "demo_keys name = Some (PublicKey i 65537)"
  shows "commit_valid demo_env demo_prepared 1 (demo_commit_cert i name 1 ''d'')"
  using assms demo_signed [of "demo_key i"]
  by (simp add: commit_valid_def demo_commit_cert_def demo_prepared_def demo_node_tables demo_log_def
      Let_def demo_key_def)

lemma demo_prepared_sel:
  "TransactionLog demo_prepared = [1 \<mapsto> demo_log 2 ''d'']" "\<not> Byzantine demo_prepared"
  "Datastore demo_prepared = Map.empty" "CommitCerts demo_prepared = (\<lambda>_. [])"
  "PublicKeyMap demo_prepared = demo_keys" "DB demo_prepared = demo_db" "effects demo_prepared = []"
  "View demo_prepared = 1" "ClusterId demo_prepared = ''C1''"
  by (simp_all add: demo_prepared_def demo_node_tables)

lemma demo_certs_valid: "filter (commit_valid demo_env demo_prepared 1) demo_certs = demo_certs"
proof -
  have "demo_keys ''S1'' = Some (PublicKey 1 65537)" "demo_keys ''S2'' = Some (PublicKey 2 65537)"
    "demo_keys ''S3'' = Some (PublicKey 3 65537)" by (simp_all add: demo_keys_def)
  then show ?thesis by (simp add: demo_certs_def demo_cert_valid)
qed

lemma demo_certs_present: "list_all (\<lambda>r. \<exists>c. cmr_Commit r = Some c) demo_certs"
  by (simp add: demo_certs_def demo_commit_cert_def Let_def)

lemma demo_certs_length: "length demo_certs = 3"
  by (simp add: demo_certs_def)

lemma demo_commits:
  "validateCommits demo_env demo_prepared 1 demo_certs s k t =
     Return (committed_state demo_env demo_prepared 1 demo_certs s k t) True"
  by (simp add: validateCommits_cases demo_certs_valid demo_certs_present demo_certs_length F_def)

section \<open>Properties of commits\<close>

text \<open>
  C6. A commit takes a quorum and records it: when \<open>validateCommits\<close> succeeds at a node that
  is not set Byzantine, the entry was logged and prepared, at least \<open>2 * F + 1\<close> of the received
  certificates pass every check, exactly these are kept, the entry's state is at least
  committed with digest and transaction as they were, and the datastore gains this entry and
  nothing else. The database is changed by the write-ahead log alone: for a prepared entry the
  transaction is appended under the client's sequence number, for any other the database is
  as it was. Nothing else of the node
  changes, and saving the block is started.
\<close>

theorem commit_takes_quorum:
  assumes "validateCommits E n seq rs s k t = Return n' True" "\<not> Byzantine n"
  shows "\<exists>l. TransactionLog n seq = Some l \<and> 2 \<le> tl_State l \<and>
     2 * F + 1 \<le> length (filter (commit_valid E n seq) rs) \<and>
     n' = n\<lparr>CommitCerts := (CommitCerts n)(seq := filter (commit_valid E n seq) rs),
            TransactionLog := (TransactionLog n)(seq \<mapsto> l\<lparr>tl_State := max (tl_State l) 3\<rparr>),
            Datastore := (Datastore n)(seq \<mapsto> \<lparr>u_Seq = seq, u_Transaction = tl_Transaction l,
              u_Status = s, u_timestamp = tl_Timestamp l, u_ClientSeq = k\<rparr>),
            DatastoreMax := max (DatastoreMax n) seq,
            DB := (if s = ''P'' then fst (AppendToWALEntry E (DB n) k
                [\<lparr>wl_Operation = ''transaction'', wl_Subject = [], wl_Transaction = t\<rparr>]) else DB n),
            effects := effects n @ [GoSaveTransaction seq s]\<rparr>"
proof -
  note enough = validateCommits_True(1) [OF assms(1)] and n' = validateCommits_True(2) [OF assms(1)]
  obtain l where l: "TransactionLog n seq = Some l" "2 \<le> tl_State l"
    using valid_commit_logged [OF enough] by blast
  show ?thesis
    using l enough assms(2)
    by (simp add: n' committed_state_def emit_def commit_entry_def saveTransactionToDatastore_def updateLog_Some_eq
        log_at_def getTransactionLog_def States_def Let_def)
qed

theorem commit_takes_quorum_witness:
  "\<exists>n'. validateCommits demo_env demo_prepared 1 demo_certs [] 7 (Some demo_tx) = Return n' True \<and>
     Datastore n' 1 = Some (demo_unit [] 1) \<and> CommitCerts n' 1 = demo_certs"
proof -
  let ?n' = "committed_state demo_env demo_prepared 1 demo_certs [] 7 (Some demo_tx)"
  have "validateCommits demo_env demo_prepared 1 demo_certs [] 7 (Some demo_tx) = Return ?n' True"
    by (rule demo_commits)
  then show ?thesis
    using commit_takes_quorum [of demo_env demo_prepared 1 demo_certs "[]" 7 "Some demo_tx" ?n']
    by (auto simp: demo_prepared_sel demo_certs_valid demo_unit_def demo_log_def)
qed

text \<open>Who ledger a list of commits, and commits of distinct cluster nodes for one view and number.\<close>

definition commit_signers :: "CommitRequest list \<Rightarrow> string list" where
  "commit_signers rs = map (\<lambda>r. c_NodeId (the (cmr_Commit r))) rs"

definition certs_for :: "int64 \<Rightarrow> int64 \<Rightarrow> int64 \<Rightarrow> CommitRequest list \<Rightarrow> bool" where
  "certs_for c view seq rs \<longleftrightarrow> distinct (commit_signers rs) \<and> set (commit_signers rs) \<subseteq> cluster_nodes c \<and>
     (\<forall>r\<in>set rs. c_View (the (cmr_Commit r)) = view \<and> c_Sequence (the (cmr_Commit r)) = seq)"

text \<open>
  What the nodes have signed, as a set of commits. Nobody forges: a received certificate of a
  node that is not faulty is in the set. The nodes that are not faulty sign one digest for a
  view and sequence number.
\<close>

definition unforged :: "'b env \<Rightarrow> (string \<rightharpoonup> PublicKey) \<Rightarrow> Commit set \<Rightarrow> string \<Rightarrow> CommitRequest list \<Rightarrow> bool" where
  "unforged E keys ledger bad rs \<longleftrightarrow>
     (\<forall>r\<in>set rs. \<forall>c pk. cmr_Commit r = Some c \<and> c_NodeId c \<noteq> bad \<and> keys (c_NodeId c) = Some pk \<and>
        verified E pk (wire_Commit c) (cmr_Signature r) \<longrightarrow> c \<in> ledger)"

definition signs_once :: "Commit set \<Rightarrow> string \<Rightarrow> bool" where
  "signs_once ledger bad \<longleftrightarrow>
     (\<forall>c\<in>ledger. \<forall>d\<in>ledger. c_NodeId c = c_NodeId d \<and> c_NodeId c \<noteq> bad \<and> c_View c = c_View d \<and>
        c_Sequence c = c_Sequence d \<longrightarrow> c_Digest c = c_Digest d)"

definition votes_for :: "Commit set \<Rightarrow> string \<Rightarrow> int64 \<Rightarrow> int64 \<Rightarrow> string \<Rightarrow> string \<Rightarrow> bool" where
  "votes_for ledger bad view seq i digest \<longleftrightarrow> i = bad \<or>
     (\<exists>c\<in>ledger. c_NodeId c = i \<and> c_View c = view \<and> c_Sequence c = seq \<and> c_Digest c = digest)"

lemma signs_once_vote:
  assumes "signs_once ledger bad" "i \<noteq> bad" "votes_for ledger bad view seq i v" "votes_for ledger bad view seq i w"
  shows "v = w"
proof -
  from assms(2-4) obtain c d where "c \<in> ledger" "c_NodeId c = i" "c_View c = view" "c_Sequence c = seq"
    "c_Digest c = v" "d \<in> ledger" "c_NodeId d = i" "c_View d = view" "c_Sequence d = seq" "c_Digest d = w"
    unfolding votes_for_def by blast
  with assms(1,2) show ?thesis unfolding signs_once_def by metis
qed

lemma valid_certs_vote:
  assumes "certs_for c view seq' (filter (commit_valid E n seq) rs)" "unforged E (PublicKeyMap n) ledger bad rs"
    and "TransactionLog n seq = Some l" "i \<in> set (commit_signers (filter (commit_valid E n seq) rs))"
  shows "votes_for ledger bad view seq' i (tl_Digest l)"
proof -
  from assms(4) obtain r where r: "r \<in> set rs" "commit_valid E n seq r" "i = c_NodeId (the (cmr_Commit r))"
    by (auto simp: commit_signers_def)
  then obtain cm pk where cm: "cmr_Commit r = Some cm" "PublicKeyMap n (c_NodeId cm) = Some pk"
    "verified E pk (wire_Commit cm) (cmr_Signature r)" "c_Digest cm = tl_Digest l"
    using assms(3) by (auto simp: commit_valid_def)
  have "c_View cm = view" "c_Sequence cm = seq'"
    using assms(1) r cm(1) by (auto simp: certs_for_def)
  moreover have "i \<noteq> bad \<Longrightarrow> cm \<in> ledger"
    using assms(2) r cm unfolding unforged_def by auto
  ultimately show ?thesis using r(3) cm(1,4) by (auto simp: votes_for_def)
qed

lemma card_commit_signers: "distinct (commit_signers rs) \<Longrightarrow> card (set (commit_signers rs)) = length rs"
  using distinct_card [of "commit_signers rs"] by (simp add: commit_signers_def)

lemma quorum_commits_agree:
  assumes "validateCommits E n seq rs s k t = Return n' True"
    and "validateCommits E m seq rs' s' k' t' = Return m' True"
    and "certs_for c view seq (filter (commit_valid E n seq) rs)"
    and "certs_for c view seq (filter (commit_valid E m seq) rs')"
    and "unforged E (PublicKeyMap n) ledger bad rs" "unforged E (PublicKeyMap m) ledger bad rs'"
    and "signs_once ledger bad"
  shows "tl_Digest (log_at n seq) = tl_Digest (log_at m seq)"
proof -
  let ?A = "filter (commit_valid E n seq) rs" and ?B = "filter (commit_valid E m seq) rs'"
  note enough = validateCommits_True(1) [OF assms(1)] validateCommits_True(1) [OF assms(2)]
  obtain l where l: "TransactionLog n seq = Some l" using valid_commit_logged [OF enough(1)] by blast
  obtain l' where l': "TransactionLog m seq = Some l'" using valid_commit_logged [OF enough(2)] by blast
  have "tl_Digest l = tl_Digest l'"
  proof (rule cluster.quorums_agree [where A = "set (commit_signers ?A)" and c = c
        and B = "set (commit_signers ?B)" and bad = bad and votes = "votes_for ledger bad view seq"])
    show "set (commit_signers ?A) \<subseteq> cluster_nodes c" "set (commit_signers ?B) \<subseteq> cluster_nodes c"
      using assms(3,4) by (simp_all add: certs_for_def)
    show "2 * F + 1 \<le> card (set (commit_signers ?A))" "2 * F + 1 \<le> card (set (commit_signers ?B))"
      using assms(3,4) enough by (simp_all only: certs_for_def card_commit_signers)
    show "votes_for ledger bad view seq i (tl_Digest l)" if "i \<in> set (commit_signers ?A)" for i
      by (rule valid_certs_vote [OF assms(3,5) l that])
    show "votes_for ledger bad view seq i (tl_Digest l')" if "i \<in> set (commit_signers ?B)" for i
      by (rule valid_certs_vote [OF assms(4,6) l' that])
    show "v = w" if "i \<notin> {bad}" "votes_for ledger bad view seq i v" "votes_for ledger bad view seq i w" for i v w
      using that by (intro signs_once_vote [OF assms(7)]) auto
  qed
  then show ?thesis by (simp add: log_at_logged [OF l] log_at_logged [OF l'])
qed

section \<open>Certificates travel\<close>

lemma commit_valid_mono:
  assumes "commit_valid E n seq r" "PublicKeyMap n = PublicKeyMap m" "TransactionLog n seq = Some l"
    and "TransactionLog m seq = Some l'" "tl_Digest l' = tl_Digest l" "2 \<le> tl_State l'"
  shows "commit_valid E m seq r"
  using assms by (auto simp: commit_valid_def)

text \<open>
  What the leader kept, a replica accepts: the certificates under which a node committed
  make any node with the same keys that has prepared the same digest commit too, and it keeps
  the same certificates.
\<close>

theorem kept_certs_convince_peers:
  assumes "validateCommits E n seq rs s k t = Return n' True" "list_all has_commit rs"
    and "PublicKeyMap n = PublicKeyMap m" "TransactionLog m seq = Some l'" "2 \<le> tl_State l'"
    and "tl_Digest l' = tl_Digest (log_at n seq)"
  shows "\<exists>m'. validateCommits E m seq (CommitCerts n' seq) s k t = Return m' True \<and>
     CommitCerts m' seq = CommitCerts n' seq"
proof -
  note enough = validateCommits_True(1) [OF assms(1)] and n' = validateCommits_True(2) [OF assms(1)]
  obtain l where l: "TransactionLog n seq = Some l" using valid_commit_logged [OF enough] by blast
  let ?cs = "filter (commit_valid E n seq) rs"
  have kept: "CommitCerts n' seq = ?cs"
    by (simp add: n' committed_state_def Let_def emit_def commit_entry_tables [OF l])
  have "commit_valid E m seq r" if "commit_valid E n seq r" for r
    using commit_valid_mono [OF that assms(3) l assms(4)] assms(5,6) by (simp add: log_at_logged [OF l])
  then have "value_or_nil (getValidCommitCerts E m seq (value_or_nil (getValidCommitCerts E n seq rs)))
      = value_or_nil (getValidCommitCerts E n seq rs)"
    using ccerts.collect_again [OF assms(2), of "(E, n)" seq "(E, m)"] by simp
  moreover have wf: "list_all has_commit ?cs" using assms(2) by (auto simp: list_all_iff)
  ultimately have again: "filter (commit_valid E m seq) ?cs = ?cs"
    by (simp only: getValidCommitCerts_filter [OF assms(2)] getValidCommitCerts_filter [OF wf] value_or_nil.simps)
  have "CommitCerts (committed_state E m seq ?cs s k t) seq = ?cs"
    by (simp add: committed_state_def Let_def emit_def commit_entry_tables [OF assms(4)])
  then show ?thesis unfolding kept validateCommits_cases again using wf enough by simp
qed

theorem kept_certs_convince_peers_witness:
  "\<exists>m'. validateCommits demo_env (demo_prepared\<lparr>node_Id := ''S2''\<rparr>) 1
       (CommitCerts (committed_state demo_env demo_prepared 1 demo_certs [] 7 (Some demo_tx)) 1) [] 7 (Some demo_tx)
     = Return m' True"
  using kept_certs_convince_peers [OF demo_commits [of "[]" 7 "Some demo_tx"], of "demo_prepared\<lparr>node_Id := ''S2''\<rparr>"
      "demo_log 2 ''d''"] demo_certs_present
  by (auto simp: demo_prepared_sel demo_log_def log_at_def getTransactionLog_def)

text \<open>
  A node's own commit passes at any node that holds its public key and the same digest:
  the signature \<open>sendCommitReq\<close> makes is the one \<open>verifyCommitRequest\<close> checks; the commit of
  a node set to be Byzantine, which carries an empty digest, is refused.
\<close>

theorem own_commit_checked:
  assumes "crypto_ok E" "SignMessage E (node_PrivateKey n) (wire_Commit c) = Some sg"
    and "c = own_commit n seq digest" "PublicKeyMap m (node_Id n) = Some (sk_Public (node_PrivateKey n))"
    and "TransactionLog m seq = Some l" "tl_Digest l \<noteq> []"
  shows "verifyCommitRequest E m \<lparr>cmr_Commit = Some c, cmr_Signature = sg\<rparr> =
     Return m (if digest = tl_Digest l then None else Some DigestMismatch)"
  using assms SignMessage_verified [OF assms(1,2)]
  by (auto simp: verifyCommitRequest_def own_commit_def log_at_logged)

theorem own_commit_checked_witness:
  "verifyCommitRequest demo_env demo_prepared
     \<lparr>cmr_Commit = Some (own_commit demo_node 1 ''d''),
      cmr_Signature = signature_or_nil demo_env (demo_key 1) (wire_Commit (own_commit demo_node 1 ''d''))\<rparr> =
   Return demo_prepared None \<and>
   verifyCommitRequest demo_env demo_prepared
     \<lparr>cmr_Commit = Some (own_commit demo_node 1 []),
      cmr_Signature = signature_or_nil demo_env (demo_key 1) (wire_Commit (own_commit demo_node 1 []))\<rparr> =
   Return demo_prepared (Some DigestMismatch)"
proof -
  have sig: "SignMessage demo_env (node_PrivateKey demo_node) m = Some (signature_or_nil demo_env (demo_key 1) m)" for m
    by (simp add: signature_or_nil_def SignMessage_def demo_simps demo_marshal_def demo_sign_def demo_node_tables)
  have key: "PublicKeyMap demo_prepared (node_Id demo_node) = Some (sk_Public (node_PrivateKey demo_node))"
    by (simp add: demo_node_tables demo_prepared_sel demo_keys_def demo_key_def)
  have log: "TransactionLog demo_prepared 1 = Some (demo_log 2 ''d'')" by (simp add: demo_prepared_sel)
  show ?thesis
    using own_commit_checked [OF demo_crypto_ok sig refl key log] by (simp add: demo_log_def)
qed

section \<open>What the checks do not look at\<close>

definition as_commit :: "Prepare \<Rightarrow> Commit" where
  "as_commit p = \<lparr>c_View = p_View p, c_Sequence = p_Sequence p, c_Digest = p_Digest p, c_NodeId = p_NodeId p\<rparr>"

lemma wire_as_commit: "wire_Commit (as_commit p) = wire_Prepare p"
  by (simp add: wire_Commit_def wire_Prepare_def as_commit_def)

lemma prepare_valid_as_commit:
  assumes "prepare_valid E n seq r" "pr_Prepare r = Some p" "TransactionLog n seq = Some l" "2 \<le> tl_State l"
  shows "commit_valid E n seq \<lparr>cmr_Commit = Some (as_commit p), cmr_Signature = pr_Signature r\<rparr>"
proof -
  have "c_NodeId (as_commit p) = p_NodeId p" "c_Digest (as_commit p) = p_Digest p"
    by (simp_all add: as_commit_def)
  with assms show ?thesis by (auto simp: commit_valid_def prepare_valid_def wire_as_commit)
qed

text \<open>
  C29. A certificate is counted as often as it is repeated, and a prepare has the wire form of
  the commit with the same fields: once an entry is prepared, one valid prepare of one node,
  presented as three commits, commits it.
\<close>

theorem one_prepare_commits:
  assumes "prepare_valid E n seq r" "pr_Prepare r = Some p" "TransactionLog n seq = Some l" "2 \<le> tl_State l"
  shows "\<exists>n'. validateCommits E n seq
     (replicate (2 * F + 1) \<lparr>cmr_Commit = Some (as_commit p), cmr_Signature = pr_Signature r\<rparr>) s k t = Return n' True"
proof -
  let ?c = "\<lparr>cmr_Commit = Some (as_commit p), cmr_Signature = pr_Signature r\<rparr>"
  have valid: "commit_valid E n seq ?c" by (rule prepare_valid_as_commit [OF assms])
  have "value_or_nil (getValidCommitCerts E n seq (replicate (2 * F + 1) ?c)) = replicate (2 * F + 1) ?c"
    using ccerts.collect_copies [of ?c "(E, n)" seq "2 * F + 1"] valid by simp
  moreover have "list_all has_commit (replicate (2 * F + 1) ?c)" by (simp add: list_all_iff)
  ultimately have "filter (commit_valid E n seq) (replicate (2 * F + 1) ?c) = replicate (2 * F + 1) ?c"
    by (simp add: getValidCommitCerts_filter)
  then show ?thesis unfolding validateCommits_cases using \<open>list_all has_commit _\<close> by simp
qed

theorem one_prepare_commits_witness:
  "\<exists>n'. validateCommits demo_env demo_prepared 1
     (replicate 3 \<lparr>cmr_Commit = Some (as_commit (own_prepare demo_node
          \<lparr>pp_View = 1, pp_Sequence = 1, pp_Digest = ''d'', pp_Status = [], pp_Wal = [], pp_Locks = []\<rparr>)),
        cmr_Signature = signature_or_nil demo_env (demo_key 1) (wire_Prepare (own_prepare demo_node
          \<lparr>pp_View = 1, pp_Sequence = 1, pp_Digest = ''d'', pp_Status = [], pp_Wal = [], pp_Locks = []\<rparr>))\<rparr>)
     [] 7 (Some demo_tx) = Return n' True"
proof -
  let ?p = "own_prepare demo_node
      \<lparr>pp_View = 1, pp_Sequence = 1, pp_Digest = ''d'', pp_Status = [], pp_Wal = [], pp_Locks = []\<rparr>"
  let ?r = "\<lparr>pr_Prepare = Some ?p, pr_Signature = signature_or_nil demo_env (demo_key 1) (wire_Prepare ?p)\<rparr>"
  have "p_NodeId ?p = ''S1''" "p_Digest ?p = ''d''" by (simp_all add: own_prepare_def demo_node_tables)
  then have "prepare_valid demo_env demo_prepared 1 ?r"
    using demo_signed [of "demo_key 1" "wire_Prepare ?p"]
    by (simp add: prepare_valid_def demo_prepared_sel demo_keys_def demo_log_def demo_key_def)
  from one_prepare_commits [OF this, of ?p "demo_log 2 ''d''" "[]" 7 "Some demo_tx"] show ?thesis
    by (simp add: demo_prepared_sel demo_log_def F_def)
qed

end
