(* ===== verification/Acceptance.thy ===== *)
theory Acceptance
  imports DemoNode
begin

text \<open>
  What a replica promises about pre-prepares: it accepts one only when every check of the
  protocol holds, a refusal changes nothing, it does not accept a second digest for a
  sequence number of a view, and it waits while a client of the transaction is locked.
\<close>

section \<open>Waiting for locks\<close>

lemma lock_loop_waits:
  assumes "c \<in> set cs" "c \<in> held E (DB n)"
    and "\<And>r m. r \<in> set rely \<Longrightarrow> c \<in> held E (DB m) \<Longrightarrow> c \<in> held E (DB (r m))"
  shows "\<exists>m. lock_loop E cs byz rely n = Blocked m \<and> c \<in> held E (DB m)"
  using assms(2,3)
proof (induction rely arbitrary: n)
  case Nil
  with assms(1) have "set cs \<inter> held E (DB n) \<noteq> {}" by blast
  with Nil show ?case by (subst lock_loop.simps) (simp add: CheckAndGetLocks_cases)
next
  case (Cons r rs)
  with assms(1) have "set cs \<inter> held E (DB n) \<noteq> {}" by blast
  moreover have "c \<in> held E (DB (r n))" using Cons.prems by simp
  ultimately show ?case using Cons.IH [of "r n"] Cons.prems(2)
    by (subst lock_loop.simps) (simp add: CheckAndGetLocks_cases)
qed

text \<open>When it gets them, none was held just before, and the valid names are held now.\<close>

lemma lock_loop_takes:
  assumes "bolt_ok E" "lock_loop E cs byz rely n = Return n' ()"
  shows "\<exists>m. set cs \<inter> held E (DB m) = {} \<and> n' = m\<lparr>DB := if byz m then DB m else GetLocksDB E (DB m) cs\<rparr> \<and>
     (\<not> byz m \<longrightarrow> held E (DB n') = held E (DB m) \<union> {c \<in> set cs. valid_key c})"
  using assms(2)
proof (induction rely arbitrary: n)
  case Nil
  show ?case
  proof (cases "set cs \<inter> held E (DB n) = {}")
    case True
    with Nil show ?thesis
      by (subst (asm) lock_loop.simps) (auto simp: CheckAndGetLocks_cases held_GetLocksDB [OF assms(1)] intro!: exI [of _ n])
  next
    case False
    with Nil show ?thesis by (subst (asm) lock_loop.simps) (simp add: CheckAndGetLocks_cases)
  qed
next
  case (Cons r rs)
  show ?case
  proof (cases "set cs \<inter> held E (DB n) = {}")
    case True
    with Cons.prems show ?thesis
      by (subst (asm) lock_loop.simps) (auto simp: CheckAndGetLocks_cases held_GetLocksDB [OF assms(1)] intro!: exI [of _ n])
  next
    case False
    with Cons show ?thesis by (subst (asm) lock_loop.simps) (simp add: CheckAndGetLocks_cases)
  qed
qed

section \<open>The checks\<close>

text \<open>The conditions of PBFT's pre-prepare, as one predicate on the node and the message.\<close>

definition acceptable ::
  "'b env \<Rightarrow> 'b Node \<Rightarrow> PrePrepareRequest \<Rightarrow> PrePrepare \<Rightarrow> SignedClientRequest \<Rightarrow> bool" where
  "acceptable E n req pp cr \<longleftrightarrow>
     ppr_PrePrepare req = Some pp \<and> ppr_ClientReq req = Some cr \<and> pp_View pp = View n \<and>
     (pp_Sequence pp = 1 \<or> PrePrepares n (sub64 (pp_Sequence pp) 1) \<noteq> None) \<and>
     (\<forall>l. TransactionLog n (pp_Sequence pp) = Some l \<and> tl_View l = View n \<longrightarrow> tl_Digest l = pp_Digest pp) \<and>
     MD5Hash E (JClientReq (Some cr)) = Some (pp_Digest pp) \<and>
     (\<exists>pk. PublicKeyMap n ''client'' = Some pk \<and>
        verified E pk (top_fields wire_ClientRequest (scr_ClientRequest cr)) (scr_Signature cr)) \<and>
     (\<exists>leader pk. getViewLeader n = Some leader \<and> PublicKeyMap n leader = Some pk \<and>
        verified E pk (wire_PrePrepare pp) (ppr_Signature req))"

lemma preprepare_checks_pass:
  assumes "preprepare_checks E n req pp = Return n' None" "ppr_PrePrepare req = Some pp"
  shows "\<exists>cr. acceptable E n req pp cr"
  using assms
  by (auto simp: preprepare_checks_def acceptable_def checkPrePrepare_def Let_def outcome_simps
      split: if_splits option.splits)

lemma acceptable_passes:
  assumes "acceptable E n req pp cr"
  shows "preprepare_checks E n req pp = Return n None"
  using assms
  by (auto simp: preprepare_checks_def acceptable_def checkPrePrepare_def Let_def split: option.splits)

lemma rpc_PrePrepare_accepts:
  assumes "rpc_PrePrepare E rely n req = Return n' None" "Live n" "\<not> ViewChanging n"
  shows "\<exists>pp cr leader. acceptable E n req pp cr \<and> getViewLeader n = Some leader \<and>
     preprepare_accept E rely n req pp leader = Return n' None"
proof -
  from assms obtain pp n1 err where pp: "ppr_PrePrepare req = Some pp"
    and chk: "preprepare_checks E n req pp = Return n1 err"
    and rest: "(case err of Some e \<Rightarrow> Return n1 (Some e)
       | None \<Rightarrow> deref (getViewLeader n1) (\<lambda>leader. preprepare_accept E rely n1 req pp leader)) = Return n' None"
    by (auto simp: rpc_PrePrepare_def outcome_simps)
  from rest have "err = None" by (cases err) simp_all
  moreover have "n1 = n" by (rule preprepare_checks_state [OF chk])
  ultimately show ?thesis
    using preprepare_checks_pass [OF _ pp, of E n n1] chk rest by (auto simp: outcome_simps)
qed

text \<open>What acceptance writes, over the node as it is after the wait for the locks.\<close>

lemma preprepare_accept_writes:
  assumes "preprepare_accept E rely n req pp leader = Return n' None" "ppr_ClientReq req = Some cr"
  shows "\<exists>t ts m. tx_of cr = Some t \<and> seconds_of cr = Some ts \<and>
     n' = emit (GoSendPrepareReq (pp_Sequence pp) req leader (pp_Status pp))
       (savePrePrepare (writeLog m (pp_Sequence pp) t (View m) (pp_Digest pp) ts) (pp_Sequence pp) req)"
  using assms by (auto simp: preprepare_accept_def Let_def outcome_simps split: if_splits)

section \<open>A pre-prepare for the demonstration node\<close>

definition demo_preprepare :: PrePrepareRequest where
  "demo_preprepare =
     (let pp = \<lparr>pp_View = 1, pp_Sequence = 1, pp_Digest = (demo_digest demo_tx), pp_Status = [], pp_Wal = [], pp_Locks = []\<rparr>
      in \<lparr>ppr_PrePrepare = Some pp,
          ppr_Signature = signature_or_nil demo_env (demo_key 1) (wire_PrePrepare pp),
          ppr_ClientReq = Some (demo_request_of demo_tx)\<rparr>)"

text \<open>Node \<open>S2\<close>, a replica in the first view.\<close>

definition demo_replica :: "demo_bucket Node" where
  "demo_replica = demo_node\<lparr>node_Id := ''S2'', node_PrivateKey := demo_key 2\<rparr>"

lemma demo_replica_sel:
  "View demo_replica = 1" "PublicKeyMap demo_replica = demo_keys" "TransactionLog demo_replica = Map.empty"
  "PrePrepares demo_replica = Map.empty" "Live demo_replica" "\<not> ViewChanging demo_replica"
  "RequestLog demo_replica = Map.empty" "DB demo_replica = demo_db" "\<not> Byzantine demo_replica"
  by (simp_all add: demo_replica_def demo_node_tables)

lemma demo_leader: "getViewLeader demo_replica = Some ''S1''"
proof -
  have "leader_name (parse_ignoring_error ''1'') 1 = ''S1''"
  proof -
    have "FormatInt 1 = ''1''" "leader_name 1 1 = ''S1''" by code_simp+
    then show ?thesis using parse_format [of 1] by (simp add: in64_def min64_def max64_def)
  qed
  then show ?thesis by (simp add: getViewLeader_def slice_from_def demo_replica_def demo_node_tables)
qed

lemma demo_acceptable: "acceptable demo_env demo_replica demo_preprepare (the (ppr_PrePrepare demo_preprepare)) (demo_request_of demo_tx)"
proof -
  have keys: "demo_keys ''client'' = Some (PublicKey 0 65537)" "demo_keys ''S1'' = Some (PublicKey 1 65537)"
    by (simp_all add: demo_keys_def)
  obtain r where r: "scr_ClientRequest (demo_request_of demo_tx) = Some r"
    and sg: "scr_Signature (demo_request_of demo_tx) = signature_or_nil demo_env (demo_key 0) (wire_ClientRequest r)"
    by (simp add: demo_request_of_def Let_def)
  show ?thesis
    using demo_verified [of 1] demo_verified [of 0]
    by (simp add: acceptable_def demo_preprepare_def Let_def demo_leader demo_MD5
        demo_replica_sel keys r sg)
qed

lemma demo_replica_accepts: "\<exists>n'. rpc_PrePrepare demo_env [] demo_replica demo_preprepare = Return n' None"
proof -
  obtain pp where pp: "ppr_PrePrepare demo_preprepare = Some pp" by (simp add: demo_preprepare_def Let_def)
  have acc: "acceptable demo_env demo_replica demo_preprepare pp (demo_request_of demo_tx)"
    using demo_acceptable by (simp add: pp)
  have "pp_Status pp = []" using pp by (auto simp: demo_preprepare_def Let_def)
  have cr: "ppr_ClientReq demo_preprepare = Some (demo_request_of demo_tx)" by (simp add: demo_preprepare_def Let_def)
  have "\<exists>n'. preprepare_accept demo_env [] demo_replica demo_preprepare pp ''S1'' = Return n' None"
    using \<open>pp_Status pp = []\<close>
    by (simp add: preprepare_accept_def Let_def cr with_seconds_eq with_tx_eq demo_request_parts lock_loop.simps CheckAndGetLocks_cases
        emit_def put_request_def demo_replica_sel held_def locked_def demo_db_buckets demo_simps demo_get_def)
  then show ?thesis
    by (auto simp: rpc_PrePrepare_def demo_replica_sel pp acceptable_passes [OF acc] demo_leader)
qed

section \<open>Properties of acceptance\<close>

text \<open>
  C14. Soundness and effect of acceptance: when a live replica that is not changing views
  answers a pre-prepare without an error, every condition held (same view, the previous
  number pre-prepared, no other digest logged for this view and number, the digest is the
  request's, the client signed the request and the leader the pre-prepare); the request is
  then logged as pre-prepared under that digest, the pre-prepare is saved, and the prepare is
  what the node does next.
\<close>

theorem preprepare_accepted_only_if:
  assumes "rpc_PrePrepare E rely n req = Return n' None" "Live n" "\<not> ViewChanging n"
  shows "\<exists>pp cr t ts leader. acceptable E n req pp cr \<and> tx_of cr = Some t \<and> seconds_of cr = Some ts \<and>
     getViewLeader n = Some leader \<and> PrePrepares n' (pp_Sequence pp) = Some req \<and>
     (\<exists>v. TransactionLog n' (pp_Sequence pp) = Some \<lparr>tl_Transaction = Some t, tl_View = v, tl_State = 1,
         tl_Digest = pp_Digest pp, tl_Timestamp = ts, tl_ClientSeq = t_ClientSeq t\<rparr>) \<and>
     last (effects n') = GoSendPrepareReq (pp_Sequence pp) req leader (pp_Status pp)"
proof -
  obtain pp cr leader where acc: "acceptable E n req pp cr" "getViewLeader n = Some leader"
    and run: "preprepare_accept E rely n req pp leader = Return n' None"
    using rpc_PrePrepare_accepts [OF assms] by blast
  have cr: "ppr_ClientReq req = Some cr" using acc(1) by (simp add: acceptable_def)
  obtain t ts m where w: "tx_of cr = Some t" "seconds_of cr = Some ts"
    "n' = emit (GoSendPrepareReq (pp_Sequence pp) req leader (pp_Status pp))
       (savePrePrepare (writeLog m (pp_Sequence pp) t (View m) (pp_Digest pp) ts) (pp_Sequence pp) req)"
    using preprepare_accept_writes [OF run cr] by blast
  show ?thesis
    by (rule exI [of _ pp], rule exI [of _ cr], rule exI [of _ t], rule exI [of _ ts], rule exI [of _ leader])
      (simp add: acc w(1,2), simp add: w(3) emit_def savePrePrepare_def writeLog_def States_def)
qed

theorem preprepare_accepted_only_if_witness:
  "\<exists>n' pp. rpc_PrePrepare demo_env [] demo_replica demo_preprepare = Return n' None \<and>
     ppr_PrePrepare demo_preprepare = Some pp \<and> PrePrepares n' (pp_Sequence pp) = Some demo_preprepare"
proof -
  obtain pp where pp: "ppr_PrePrepare demo_preprepare = Some pp" by (simp add: demo_preprepare_def Let_def)
  obtain n' where run: "rpc_PrePrepare demo_env [] demo_replica demo_preprepare = Return n' None"
    using demo_replica_accepts by blast
  with preprepare_accepted_only_if [OF run] pp show ?thesis
    by (auto simp: demo_replica_sel acceptable_def)
qed

text \<open>
  A refusal is free of effects: an error answer leaves the node exactly as it was, and it
  is given only when the replica is live, not changing views, and the message does not meet
  the conditions of acceptance.
\<close>

theorem preprepare_refusal_changes_nothing:
  assumes "rpc_PrePrepare E rely n req = Return n' (Some e)"
  shows "n' = n \<and> Live n \<and> \<not> ViewChanging n \<and> (\<forall>pp cr. \<not> acceptable E n req pp cr)"
proof -
  have never: "preprepare_accept E rely m req pp leader \<noteq> Return n' (Some e)" for m pp leader
    by (auto simp: preprepare_accept_def Let_def outcome_simps split: if_splits)
  from assms have live: "Live n" "\<not> ViewChanging n"
    by (auto simp: rpc_PrePrepare_def split: if_splits)
  with assms obtain pp n1 err where pp: "ppr_PrePrepare req = Some pp"
    and chk: "preprepare_checks E n req pp = Return n1 err"
    and rest: "(case err of Some e \<Rightarrow> Return n1 (Some e)
       | None \<Rightarrow> deref (getViewLeader n1) (\<lambda>leader. preprepare_accept E rely n1 req pp leader)) = Return n' (Some e)"
    by (auto simp: rpc_PrePrepare_def outcome_simps)
  have "n1 = n" by (rule preprepare_checks_state [OF chk])
  with rest never have "err = Some e" "n' = n" by (auto simp: outcome_simps split: option.splits)
  moreover have "\<not> acceptable E n req pp' cr" for pp' cr
  proof
    assume a: "acceptable E n req pp' cr"
    then have "pp' = pp" using pp by (simp add: acceptable_def)
    with acceptable_passes [OF a] chk \<open>err = Some e\<close> show False by simp
  qed
  ultimately show ?thesis using live by blast
qed

theorem preprepare_refusal_changes_nothing_witness:
  "rpc_PrePrepare demo_env [] (demo_replica\<lparr>View := 2\<rparr>) demo_preprepare =
     Return (demo_replica\<lparr>View := 2\<rparr>) (Some ViewMismatch) \<and>
   (\<forall>pp cr. \<not> acceptable demo_env (demo_replica\<lparr>View := 2\<rparr>) demo_preprepare pp cr)"
proof -
  have run: "rpc_PrePrepare demo_env [] (demo_replica\<lparr>View := 2\<rparr>) demo_preprepare =
      Return (demo_replica\<lparr>View := 2\<rparr>) (Some ViewMismatch)"
    by (simp add: rpc_PrePrepare_def demo_replica_sel demo_preprepare_def Let_def preprepare_checks_def)
  with preprepare_refusal_changes_nothing [OF run] show ?thesis by blast
qed

text \<open>
  No second digest: if a replica had logged a digest for the sequence number in its current
  view when a pre-prepare arrived, accepting that pre-prepare logs the same digest again,
  whatever the other goroutines did while it waited for locks.
\<close>

theorem no_second_digest_in_a_view:
  assumes "rpc_PrePrepare E rely n req = Return n' None" "Live n" "\<not> ViewChanging n"
    and "ppr_PrePrepare req = Some pp" "TransactionLog n (pp_Sequence pp) = Some l" "tl_View l = View n"
  shows "\<exists>l'. TransactionLog n' (pp_Sequence pp) = Some l' \<and> tl_Digest l' = tl_Digest l"
proof -
  obtain qq cr leader where acc: "acceptable E n req qq cr"
    and run: "preprepare_accept E rely n req qq leader = Return n' None"
    using rpc_PrePrepare_accepts [OF assms(1-3)] by blast
  then have "qq = pp" and cr: "ppr_ClientReq req = Some cr" and dig: "tl_Digest l = pp_Digest pp"
    using assms(4-6) by (auto simp: acceptable_def)
  with preprepare_accept_writes [OF run cr] show ?thesis
    by (auto simp: emit_def savePrePrepare_def writeLog_def)
qed

theorem no_second_digest_in_a_view_witness:
  "\<exists>n' l'. rpc_PrePrepare demo_env [] (demo_replica\<lparr>TransactionLog := [1 \<mapsto> demo_log 1 (demo_digest demo_tx)]\<rparr>)
       demo_preprepare = Return n' None \<and>
     TransactionLog n' 1 = Some l' \<and> tl_Digest l' = (demo_digest demo_tx)"
proof -
  let ?n = "demo_replica\<lparr>TransactionLog := [1 \<mapsto> demo_log 1 (demo_digest demo_tx)]\<rparr>"
  obtain pp where pp: "ppr_PrePrepare demo_preprepare = Some pp" "pp_Sequence pp = 1" "pp_Status pp = []"
    "pp_Digest pp = (demo_digest demo_tx)"
    by (simp add: demo_preprepare_def Let_def)
  have lead: "getViewLeader (demo_replica\<lparr>TransactionLog := f\<rparr>) = Some ''S1''" for f
    using demo_leader by (simp add: getViewLeader_def)
  have acc: "acceptable demo_env ?n demo_preprepare pp (demo_request_of demo_tx)"
    using demo_acceptable by (simp add: acceptable_def pp lead demo_leader demo_log_def)
  have cr: "ppr_ClientReq demo_preprepare = Some (demo_request_of demo_tx)" by (simp add: demo_preprepare_def Let_def)
  obtain n' where run: "rpc_PrePrepare demo_env [] ?n demo_preprepare = Return n' None"
  proof -
    have "\<exists>n'. preprepare_accept demo_env [] ?n demo_preprepare pp ''S1'' = Return n' None"
      by (simp add: preprepare_accept_def Let_def cr pp with_seconds_eq with_tx_eq demo_request_parts
          lock_loop.simps CheckAndGetLocks_cases emit_def put_request_def demo_replica_sel held_def
          locked_def demo_db_buckets demo_simps demo_get_def)
    then show ?thesis
      using that by (auto simp: rpc_PrePrepare_def demo_replica_sel pp acceptable_passes [OF acc] lead)
  qed
  with no_second_digest_in_a_view [OF run _ _ pp(1), of "demo_log 1 (demo_digest demo_tx)"] pp show ?thesis
    by (auto simp: demo_replica_sel demo_log_def)
qed

text \<open>
  Isolation: a pre-prepare of a new or prepared transaction is not acted upon while one of
  its clients is locked. As long as the others keep that lock, the handler does not log it,
  save it or answer it: it is still waiting, and the lock is still held.
\<close>

theorem locked_client_delays_preprepare:
  assumes "acceptable E n req pp cr" "Live n" "\<not> ViewChanging n"
    and "pp_Status pp = [] \<or> pp_Status pp = ''P''" "tx_of cr = Some t" "seconds_of cr = Some ts"
    and "c \<in> {t_From t, t_To t}" "c \<in> held E (DB n)"
    and "\<And>r m. r \<in> set rely \<Longrightarrow> c \<in> held E (DB m) \<Longrightarrow> c \<in> held E (DB (r m))"
  shows "\<exists>m. rpc_PrePrepare E rely n req = Blocked m \<and> c \<in> held E (DB m)"
proof -
  have pp: "ppr_PrePrepare req = Some pp" "ppr_ClientReq req = Some cr" using assms(1) by (simp_all add: acceptable_def)
  obtain leader where leader: "getViewLeader n = Some leader" using assms(1) by (auto simp: acceptable_def)
  let ?n0 = "emit GoTimerStartIfNotRunning n"
  let ?n = "if RequestLog ?n0 ts = None then put_request ?n0 ts (pp_Sequence pp) else ?n0"
  have "DB ?n = DB n" by (simp add: emit_def put_request_def)
  then have "\<exists>m. lock_loop E (tx_clients t) Byzantine rely ?n = Blocked m \<and> c \<in> held E (DB m)"
    using assms(7-9) by (intro lock_loop_waits [of c]) (auto simp: tx_clients_def)
  then obtain m where m: "lock_loop E (tx_clients t) Byzantine rely ?n = Blocked m" "c \<in> held E (DB m)" by blast
  have "preprepare_accept E rely n req pp leader = Blocked m"
    unfolding preprepare_accept_def Let_def using m(1) assms(4-6) pp
    by (simp add: with_seconds_eq with_tx_eq)
  then show ?thesis
    using assms(2,3) m(2) by (simp add: rpc_PrePrepare_def pp acceptable_passes [OF assms(1)] leader)
qed

theorem locked_client_delays_preprepare_witness:
  "\<exists>m. rpc_PrePrepare demo_env [id, id] (demo_replica\<lparr>DB := GetLocksDB demo_env demo_db [''2'']\<rparr>) demo_preprepare
     = Blocked m \<and> ''2'' \<in> held demo_env (DB m)"
proof -
  let ?n = "demo_replica\<lparr>DB := GetLocksDB demo_env demo_db [''2'']\<rparr>"
  obtain pp where pp: "ppr_PrePrepare demo_preprepare = Some pp" "pp_Status pp = []"
    by (simp add: demo_preprepare_def Let_def)
  have lead: "getViewLeader ?n = getViewLeader demo_replica" by (simp add: getViewLeader_def)
  have acc: "acceptable demo_env ?n demo_preprepare pp (demo_request_of demo_tx)"
    using demo_acceptable by (simp add: acceptable_def pp lead)
  show ?thesis
    by (rule locked_client_delays_preprepare [OF acc _ _ _ demo_request_parts, of "''2''"])
      (auto simp: demo_replica_sel pp demo_tx_def held_GetLocksDB [OF demo_bolt_ok] valid_key_def)
qed

end
