(* ===== verification/Invariants.thy ===== *)
theory Invariants
  imports WellFormed
begin

text \<open>
  What makes a predicate an invariant of a node: locales whose laws say that the few operations
  on the core tables keep it, and whose lemmas derive that every handler and goroutine keeps
  it, at every point where one stops or waits, provided that what the others do meanwhile
  keeps it too. \<open>quiet_invariant\<close> is about the handlers that log no new entry, \<open>node_invariant\<close>
  about all of them, \<open>executed_quietly\<close> and \<open>executed_invariant\<close> about the executor as well. The
  interpretations are well-formedness, the balances, which the handlers never touch, the
  identity of the node, the domains of the log, the datastore and the request log, which only
  grow, and the mutex of the checkpoints, which stays taken.
\<close>

section \<open>Interference\<close>

text \<open>A family of interferences that keeps a predicate.\<close>

definition all_keep :: "('b Node \<Rightarrow> bool) \<Rightarrow> ('b Node \<Rightarrow> 'b Node) list \<Rightarrow> bool" where
  "all_keep I fs \<longleftrightarrow> (\<forall>f\<in>set fs. \<forall>n. I n \<longrightarrow> I (f n))"

lemma all_keep_simps [simp]:
  "all_keep I []" "all_keep I (f # fs) \<longleftrightarrow> (\<forall>n. I n \<longrightarrow> I (f n)) \<and> all_keep I fs"
  "all_keep I (fs @ gs) \<longleftrightarrow> all_keep I fs \<and> all_keep I gs"
  by (auto simp: all_keep_def)

lemma all_keepI: "(\<And>f m. f \<in> set fs \<Longrightarrow> I m \<Longrightarrow> I (f m)) \<Longrightarrow> all_keep I fs"
  by (auto simp: all_keep_def)

definition io_fns :: "'b pbft_io \<Rightarrow> ('b Node \<Rightarrow> 'b Node) list" where
  "io_fns io = prepare_rely io # commit_rely io # lock_rely io"

definition cross_fns :: "'b cross_io \<Rightarrow> ('b Node \<Rightarrow> 'b Node) list" where
  "cross_fns io = ack_rely io # io_fns (prepare_run io) @ io_fns (decide_run io) @
     map fst (commit_attempts io)"

section \<open>The interface\<close>

text \<open>The fields an invariant may look at.\<close>

definition core :: "'b Node \<Rightarrow> _" where
  "core n = (TransactionLog n, MaxSeq n, Datastore n, DatastoreMax n, RequestLog n, PrePrepares n, DB n,
     CheckpointCertsLock n, ClusterId n, node_Id n, NodeMap n, ClientMap n, node_PrivateKey n, LeaderMap n)"

text \<open>
  First the handlers that write no new entry into the log: it is enough that the state of an
  entry, a commit, locks, the mutex of the checkpoints and forgotten pre-prepares do not matter.
\<close>

locale quiet_invariant =
  fixes E :: "'b env" and inv :: "'b Node \<Rightarrow> bool"
  assumes frame: "inv n \<Longrightarrow> core n' = core n \<Longrightarrow> inv n'"
    and inv_updateLog [wf_rules]: "inv n \<Longrightarrow> inv (updateLog n seq s)"
    and inv_commit_entry: "inv n \<Longrightarrow> TransactionLog n seq = Some l \<Longrightarrow> inv (commit_entry E n seq s k (Some t))"
    and inv_stores: "inv n \<Longrightarrow> balancesBucket db = balancesBucket (DB n) \<Longrightarrow> walBucket db = walBucket (DB n) \<Longrightarrow>
          inv (n\<lparr>DB := db\<rparr>)"
    and inv_EraseWal: "inv n \<Longrightarrow> inv (n\<lparr>DB := EraseWal E (DB n) k\<rparr>)"
    and inv_forget: "inv n \<Longrightarrow> inv (n\<lparr>PrePrepares := (\<lambda>i. if i \<in> A then None else PrePrepares n i)\<rparr>)"
    and inv_take [wf_rules]: "inv n \<Longrightarrow> inv (n\<lparr>CheckpointCertsLock := True\<rparr>)"
begin

lemma frame_iff: "core n' = core n \<Longrightarrow> inv n' = inv n"
  using frame by metis

lemma inv_frame [wf_simps]:
  "inv (emit e n) = inv n" "inv (emits es n) = inv n"
  "inv (n\<lparr>PrepareCerts := pc\<rparr>) = inv n"
  "inv (n\<lparr>CommitCerts := cc\<rparr>) = inv n"
  "inv (n\<lparr>PrepareCertChans := ch\<rparr>) = inv n"
  "inv (n\<lparr>CommitCertChans := ch\<rparr>) = inv n"
  "inv (n\<lparr>PCCommitsMap := pm\<rparr>) = inv n"
  "inv (n\<lparr>Seq := i\<rparr>) = inv n"
  "inv (n\<lparr>View := i\<rparr>) = inv n"
  "inv (n\<lparr>ExecutorSeq := i\<rparr>) = inv n"
  "inv (n\<lparr>ExecutionCount := i\<rparr>) = inv n"
  "inv (n\<lparr>LastStable := i\<rparr>) = inv n"
  "inv (n\<lparr>LastStableBalances := m\<rparr>) = inv n"
  "inv (n\<lparr>LowWater := i\<rparr>) = inv n"
  "inv (n\<lparr>HighWater := i\<rparr>) = inv n"
  "inv (n\<lparr>CheckpointCerts := cp\<rparr>) = inv n"
  "inv (n\<lparr>ViewChanging := b\<rparr>) = inv n"
  "inv (n\<lparr>NewViewNum := i\<rparr>) = inv n"
  "inv (n\<lparr>NewViewCerts := nvs\<rparr>) = inv n"
  "inv (n\<lparr>NewViewsSent := s\<rparr>) = inv n"
  "inv (n\<lparr>ViewChangeCerts := vcs\<rparr>) = inv n"
  "inv (n\<lparr>Tmr := t\<rparr>) = inv n"
  "inv (n\<lparr>Live := b\<rparr>) = inv n"
  "inv (n\<lparr>Byzantine := b\<rparr>) = inv n"
  "inv (n\<lparr>PublicKeyMap := pk\<rparr>) = inv n"
  by (rule frame_iff, simp add: core_def emit_def emits_def)+

lemma inv_release_of [wf_rules]: "inv n \<Longrightarrow> inv (release_of E n t)"
  by (simp add: release_of_def inv_stores)

section \<open>Certificates and locks\<close>

lemma keeps_validatePrepares [wf_rules]:
  "inv n \<Longrightarrow> keeps inv (validatePrepares E n seq rs)"
  by (simp add: validatePrepares_cases prepared_state_def Let_def keeps_def wf_simps inv_updateLog)

lemma keeps_validateCommits [wf_rules]:
  assumes "inv n"
  shows "keeps inv (validateCommits E n seq rs s k (Some t))"
proof (cases "2 * F + 1 \<le> length (filter (commit_valid E n seq) rs)")
  case True
  then obtain l where "TransactionLog n seq = Some l" using enough_commits_logged by blast
  then have "inv (committed_state E n seq cs s k (Some t))" for cs
    using assms by (simp add: committed_state_def Let_def wf_simps inv_commit_entry)
  with True show ?thesis by (auto simp: validateCommits_cases intro!: keeps_rules)
next
  case False
  with assms show ?thesis by (simp add: validateCommits_cases keeps_def)
qed

lemma keeps_lock_loop [wf_rules]:
  "all_keep inv rely \<Longrightarrow> inv n \<Longrightarrow> keeps inv (lock_loop E cs byz rely n)"
proof (induction rely arbitrary: n)
  case Nil
  then show ?case
    by (subst lock_loop.simps)
      (auto intro!: inv_stores keeps_rules dest: CheckAndGetLocks_frame split: prod.splits option.splits)
next
  case (Cons r rs)
  then show ?case
    by (subst lock_loop.simps)
      (auto intro!: inv_stores keeps_rules dest: CheckAndGetLocks_frame split: prod.splits option.splits)
qed

section \<open>Votes\<close>

lemma keeps_rpc_Prepare [wf_rules]:
  "inv n \<Longrightarrow> keeps inv (rpc_Prepare E reads polls n req)"
  unfolding rpc_Prepare_def Let_def
  by (intro keeps_rules wf_rules) (simp_all add: wf_simps)

lemma keeps_rpc_Commit [wf_rules]:
  "inv n \<Longrightarrow> keeps inv (rpc_Commit E reads polls n req)"
  unfolding rpc_Commit_def Let_def
  by (intro keeps_rules wf_rules) (simp_all add: wf_simps)

lemma keeps_sendCommitReq [wf_rules]:
  "all_keep inv [rely] \<Longrightarrow> inv n \<Longrightarrow>
     keeps inv (sendCommitReq E rely reply n seq s k (Some t))"
  unfolding sendCommitReq_def Let_def
  by (intro keeps_rules wf_rules) (simp_all add: wf_simps)

lemma keeps_sendPrepareReq [wf_rules]:
  "all_keep inv [rely1, rely2] \<Longrightarrow> inv n \<Longrightarrow>
     keeps inv (sendPrepareReq E rely1 reply1 rely2 reply2 n seq req leader status)"
  unfolding sendPrepareReq_def Let_def with_request_tx_def with_tx_def
  by (intro keeps_rules wf_rules) (simp_all add: wf_simps)

lemma keeps_collectPrepares [wf_rules]:
  "all_keep inv [rely] \<Longrightarrow> inv n \<Longrightarrow> keeps inv (collectPrepares rely events n seq)"
  unfolding collectPrepares_def Let_def by (intro keeps_rules) (simp_all add: wf_simps)

lemma keeps_collectCommits [wf_rules]:
  "all_keep inv [rely] \<Longrightarrow> inv n \<Longrightarrow>
     keeps inv (collectCommits E rely events n seq s k (Some t))"
  unfolding collectCommits_def Let_def by (intro keeps_rules wf_rules) (simp_all add: wf_simps)

lemma keeps_secure_locks [wf_rules]:
  "all_keep inv rely \<Longrightarrow> inv n \<Longrightarrow> keeps inv (secure_locks E rely n r)"
  unfolding secure_locks_def with_tx_def by (intro keeps_rules wf_rules) (simp_all add: wf_simps)

lemma keeps_give_up [wf_rules]: "inv n \<Longrightarrow> keeps inv (give_up E n r req e)"
  unfolding give_up_def with_tx_def by (intro keeps_rules wf_rules) assumption

lemma keeps_sendCommitToSelf [wf_rules]:
  "all_keep inv [rely] \<Longrightarrow> inv n \<Longrightarrow> keeps inv (sendCommitToSelf E rely reads polls n seq)"
  unfolding sendCommitToSelf_def Let_def by (intro wf_rules) simp

lemma inv_replyToClient [wf_simps]: "inv (replyToClient E n ts res k) = inv n"
  by (simp add: replyToClient_def Let_def wf_simps split: option.splits)

lemma keeps_send_commit [wf_rules]:
  "all_keep inv (map fst tries) \<Longrightarrow> inv n \<Longrightarrow>
     keeps inv (send_commit leader req tries n)"
  by (induction leader req tries n rule: send_commit.induct)
    (auto simp: wf_simps Let_def intro!: keeps_rules)

section \<open>Checkpoints and view changes\<close>

lemma inv_record_checkpoint [wf_simps]: "inv (record_checkpoint n req cp) = inv n"
  by (simp add: record_checkpoint_def stabilise_def Let_def wf_simps split: option.splits)

lemma keeps_rpc_Checkpoint [wf_rules]:
  "inv n \<Longrightarrow> keeps inv (rpc_Checkpoint E n req)"
  unfolding rpc_Checkpoint_def validateCheckpoint_def
  by (intro keeps_rules) (simp_all add: wf_simps)

lemma keeps_validateCheckpointCerts [wf_rules]:
  "inv n \<Longrightarrow> keeps inv (validateCheckpointCerts E n seq rs m)"
  unfolding validateCheckpointCerts_def Let_def
  by (intro keeps_rules wf_rules) (simp_all add: wf_simps inv_take)

lemma keeps_sendViewChange [wf_rules]:
  "inv n \<Longrightarrow> keeps inv (sendViewChange E n view)"
  unfolding sendViewChange_def Let_def by (intro keeps_rules) (simp_all add: wf_simps)

lemma keeps_sendNewView [wf_rules]:
  "inv n \<Longrightarrow> keeps inv (sendNewView E n view certs)"
  unfolding sendNewView_def enter_view_def Let_def by (intro keeps_rules) (simp_all add: wf_simps)

lemma keeps_rpc_ViewChange [wf_rules]:
  "inv n \<Longrightarrow> keeps inv (rpc_ViewChange E n req)"
  unfolding rpc_ViewChange_def Let_def by (intro keeps_rules wf_rules) (simp_all add: wf_simps)

lemma keeps_view_change_certs_loop [wf_rules]:
  "inv n \<Longrightarrow> keeps inv (view_change_certs_loop E n cs valid)"
  by (induction cs arbitrary: n valid) (auto intro!: keeps_rules wf_rules)

lemma keeps_validateViewChangeCerts [wf_rules]:
  "inv n \<Longrightarrow> keeps inv (validateViewChangeCerts E n cs)"
  unfolding validateViewChangeCerts_def by (intro keeps_rules wf_rules)

lemma keeps_raise_seq [wf_rules]: "inv n \<Longrightarrow> keeps inv (raise_seq ps n)"
  by (induction ps arbitrary: n) (auto simp: wf_simps intro!: keeps_rules)

lemma keeps_adopt_view [wf_rules]: "inv n \<Longrightarrow> keeps inv (adopt_view n nv)"
  unfolding adopt_view_def Let_def by (intro keeps_rules wf_rules) (simp_all add: wf_simps)

lemma keeps_rpc_NewView [wf_rules]:
  "inv n \<Longrightarrow> keeps inv (rpc_NewView E n req)"
  unfolding rpc_NewView_def Let_def by (intro keeps_rules wf_rules) (simp_all add: wf_simps)

lemma inv_monitor_round [wf_simps]: "inv (monitor_round n) = inv n"
  by (simp add: monitor_round_def wf_simps)

section \<open>Housekeeping goroutines\<close>

lemma keeps_collectGarbage [wf_rules]: "inv n \<Longrightarrow> keeps inv (collectGarbage n seq)"
proof -
  assume "inv n"
  then have "inv (n\<lparr>PrepareCerts := p, CommitCerts := c, PrePrepares := (\<lambda>i. if i \<in> A then None else PrePrepares n i)\<rparr>)"
    for p c A
    using inv_forget [of "n\<lparr>PrepareCerts := p, CommitCerts := c\<rparr>" A] by (simp add: wf_simps cong: if_cong)
  with \<open>inv n\<close> show ?thesis
    unfolding collectGarbage_def by (intro keeps_rules) (simp_all add: wf_simps)
qed

lemma keeps_saveTransaction [wf_rules]: "inv n \<Longrightarrow> keeps inv (saveTransaction E n seq s)"
  unfolding saveTransaction_def Let_def
  by (intro keeps_rules) (auto intro!: inv_stores dest: SaveTransactionToDB_frame)

lemma inv_readPublicKeyIntoMap [wf_simps]: "inv (readPublicKeyIntoMap pem n path) = inv n"
  by (simp add: readPublicKeyIntoMap_def wf_simps split: option.splits)

end

section \<open>Handlers that log\<close>

text \<open>A new entry, its pre-prepare and its request do not matter either.\<close>

locale node_invariant = quiet_invariant E inv for E :: "'b env" and inv :: "'b Node \<Rightarrow> bool" +
  assumes inv_writeLog [wf_rules]: "inv n \<Longrightarrow> inv (writeLog n seq t v d ts)"
    and inv_savePrePrepare: "inv n \<Longrightarrow> ppr_PrePrepare req = Some pp \<Longrightarrow> pp_Sequence pp = seq \<Longrightarrow>
          ppr_ClientReq req \<noteq> None \<Longrightarrow> inv (savePrePrepare n seq req)"
    and inv_put_request [wf_rules]: "inv n \<Longrightarrow> inv (put_request n ts seq)"
begin

lemma keeps_preprepare_accept [wf_rules]:
  "all_keep inv rely \<Longrightarrow> inv n \<Longrightarrow> ppr_PrePrepare req = Some pp \<Longrightarrow>
     keeps inv (preprepare_accept E rely n req pp leader)"
  unfolding preprepare_accept_def Let_def with_tx_def with_seconds_def
  by (intro keeps_rules wf_rules)
    (auto simp: wf_simps intro!: inv_savePrePrepare inv_writeLog inv_put_request)

lemma keeps_rpc_PrePrepare [wf_rules]:
  "all_keep inv rely \<Longrightarrow> inv n \<Longrightarrow> keeps inv (rpc_PrePrepare E rely n req)"
  unfolding rpc_PrePrepare_def
  by (intro keeps_rules wf_rules) (simp_all add: wf_simps)

lemma keeps_assign_seq [wf_rules]:
  "inv n \<Longrightarrow> keeps inv (assign_seq E n r oldSeq status digest)"
  unfolding assign_seq_def Let_def by (intro keeps_rules) (simp_all add: wf_simps)

lemma keeps_announce [wf_rules]:
  "inv n \<Longrightarrow> ppr_PrePrepare req = Some pp \<Longrightarrow> keeps inv (announce n r req pp)"
  unfolding announce_def Let_def logClientRequest_def with_seconds_def
  by (intro keeps_rules) (auto simp: wf_simps intro!: inv_savePrePrepare inv_writeLog inv_put_request)

lemma keeps_runPBFT [wf_rules]:
  "all_keep inv (io_fns io) \<Longrightarrow> inv n \<Longrightarrow>
     keeps inv (runPBFT E io n r oldSeq status)"
  unfolding runPBFT_def with_tx_def
  by (intro keeps_rules wf_rules) (auto simp: wf_simps io_fns_def dest: assign_seq_request)

section \<open>Client requests and two-phase commit\<close>

lemma keeps_cross_decide [wf_rules]:
  "all_keep inv (cross_fns io) \<Longrightarrow> inv n \<Longrightarrow>
     keeps inv (cross_decide E io n r t seq)"
  unfolding cross_decide_def Let_def with_seconds_def
  by (intro keeps_rules wf_rules) (simp_all add: wf_simps cross_fns_def)

lemma keeps_runCrossShard [wf_rules]:
  "all_keep inv (cross_fns io) \<Longrightarrow> inv n \<Longrightarrow>
     keeps inv (runCrossShard E io n r oldSeq)"
  unfolding runCrossShard_def
  by (intro keeps_rules wf_rules) (simp_all add: cross_fns_def)

lemma keeps_runIntrashard [wf_rules]:
  "all_keep inv (io_fns io) \<Longrightarrow> inv n \<Longrightarrow>
     keeps inv (runIntrashard E io n r oldSeq)"
  unfolding runIntrashard_def by (intro keeps_rules wf_rules)

lemma keeps_rpc_ExecuteTransaction [wf_rules]:
  "all_keep inv (cross_fns io) \<Longrightarrow> inv n \<Longrightarrow>
     keeps inv (rpc_ExecuteTransaction E io n r)"
  unfolding rpc_ExecuteTransaction_def Let_def with_seconds_def with_tx_def
  by (intro keeps_rules wf_rules) (simp_all add: wf_simps cross_fns_def)

lemma keeps_rpc_PCPrepare [wf_rules]:
  "all_keep inv (io_fns io) \<Longrightarrow> inv n \<Longrightarrow>
     keeps inv (rpc_PCPrepare E io n req)"
  unfolding rpc_PCPrepare_def with_tx_def
  by (intro keeps_rules wf_rules) (simp_all add: wf_simps)

lemma keeps_waitForPCCommit [wf_rules]:
  "all_keep inv (rely # io_fns io) \<Longrightarrow> inv n \<Longrightarrow>
     keeps inv (waitForPCCommit E rely io n r)"
  unfolding waitForPCCommit_def with_tx_def Let_def
  by (intro keeps_rules wf_rules) simp_all

lemma keeps_rpc_PCCommit [wf_rules]:
  "all_keep inv (io_fns io) \<Longrightarrow> inv n \<Longrightarrow>
     keeps inv (rpc_PCCommit E io n req)"
  unfolding rpc_PCCommit_def with_tx_def Let_def
  by (intro keeps_rules wf_rules) (simp_all add: wf_simps)

end

section \<open>Runs of a node\<close>

text \<open>
  What a node can do, in any order and with any messages, keys, timer events and answers;
  where a handler waits, runs of the node are its interference. The flag says whether the
  executor's rounds are among the steps.
\<close>

inductive node_runs :: "'b env \<Rightarrow> bool \<Rightarrow> 'b Node \<Rightarrow> 'b Node \<Rightarrow> bool" for E x where
  idle: "node_runs E x n n"
| next_run: "node_runs E x n m \<Longrightarrow> node_runs E x m n' \<Longrightarrow> node_runs E x n n'"
| client: "(\<And>f m. f \<in> set (cross_fns io) \<Longrightarrow> node_runs E x m (f m)) \<Longrightarrow>
    state_after (rpc_ExecuteTransaction E io n r) = Some n' \<Longrightarrow> node_runs E x n n'"
| preprepare: "(\<And>f m. f \<in> set rely \<Longrightarrow> node_runs E x m (f m)) \<Longrightarrow>
    state_after (rpc_PrePrepare E rely n req) = Some n' \<Longrightarrow> node_runs E x n n'"
| prepare: "state_after (rpc_Prepare E reads polls n preq) = Some n' \<Longrightarrow> node_runs E x n n'"
| commit: "state_after (rpc_Commit E reads cpolls n creq) = Some n' \<Longrightarrow> node_runs E x n n'"
| checkpoint: "state_after (rpc_Checkpoint E n cp) = Some n' \<Longrightarrow> node_runs E x n n'"
| view_change: "state_after (rpc_ViewChange E n vc) = Some n' \<Longrightarrow> node_runs E x n n'"
| new_view: "state_after (rpc_NewView E n nv) = Some n' \<Longrightarrow> node_runs E x n n'"
| pc_prepare: "(\<And>f m. f \<in> set (io_fns pio) \<Longrightarrow> node_runs E x m (f m)) \<Longrightarrow>
    state_after (rpc_PCPrepare E pio n pc) = Some n' \<Longrightarrow> node_runs E x n n'"
| pc_commit: "(\<And>f m. f \<in> set (io_fns pio) \<Longrightarrow> node_runs E x m (f m)) \<Longrightarrow>
    state_after (rpc_PCCommit E pio n pc) = Some n' \<Longrightarrow> node_runs E x n n'"
| go_wait: "(\<And>f m. f \<in> set (wait # io_fns pio) \<Longrightarrow> node_runs E x m (f m)) \<Longrightarrow>
    state_after (waitForPCCommit E wait pio n r) = Some n' \<Longrightarrow> node_runs E x n n'"
| go_prepare: "(\<And>f m. f \<in> set [rely1, rely2] \<Longrightarrow> node_runs E x m (f m)) \<Longrightarrow>
    state_after (sendPrepareReq E rely1 reply1 rely2 reply2 n seq req leader status) = Some n' \<Longrightarrow>
    node_runs E x n n'"
| go_commit_self: "(\<And>m. node_runs E x m (wait m)) \<Longrightarrow>
    state_after (sendCommitToSelf E wait reads cpolls n seq) = Some n' \<Longrightarrow> node_runs E x n n'"
| go_view_change: "state_after (sendViewChange E n view) = Some n' \<Longrightarrow> node_runs E x n n'"
| go_new_view: "state_after (sendNewView E n view vcs) = Some n' \<Longrightarrow> node_runs E x n n'"
| go_update: "node_runs E x n (updateLog n seq status)"
| go_save: "state_after (saveTransaction E n seq status) = Some n' \<Longrightarrow> node_runs E x n n'"
| go_garbage: "state_after (collectGarbage n seq) = Some n' \<Longrightarrow> node_runs E x n n'"
| go_erase: "node_runs E x n (n\<lparr>DB := EraseWal E (DB n) k\<rparr>)"
| go_reply: "node_runs E x n (replyToClient E n ts res k)"
| execute: "x \<Longrightarrow> state_after (executor_round E n) = Some n' \<Longrightarrow> node_runs E x n n'"
| monitor: "node_runs E x n (monitor_round n)"
| expire: "node_runs E x n (n\<lparr>Tmr := timer_expires (Tmr n)\<rparr>)"
| start_timer: "node_runs E x n (n\<lparr>Tmr := StartIfNotRunning (Tmr n)\<rparr>)"
| read_key: "node_runs E x n (readPublicKeyIntoMap pem n path)"
| set_status: "node_runs E x n (rpc_SetStatus n b)"
| set_byzantine: "node_runs E x n (rpc_SetByzantine n b)"

context node_invariant
begin

lemma runs_keep:
  assumes "node_runs E x n n'" and "\<And>m m'. x \<Longrightarrow> inv m \<Longrightarrow> state_after (executor_round E m) = Some m' \<Longrightarrow> inv m'"
    and "inv n"
  shows "inv n'"
  using assms(1,3)
proof (induction rule: node_runs.induct)
  case (client io n r n')
  have "all_keep inv (cross_fns io)" using client by (intro all_keepI) blast
  from keepsD [OF keeps_rpc_ExecuteTransaction [OF this client.prems] client.hyps(2)]
  show ?case .
next
  case (preprepare rely n req n')
  have "all_keep inv rely" using preprepare by (intro all_keepI) blast
  from keepsD [OF keeps_rpc_PrePrepare [OF this preprepare.prems] preprepare.hyps(2)] show ?case .
next
  case (pc_prepare pio n pc n')
  have "all_keep inv (io_fns pio)" using pc_prepare by (intro all_keepI) blast
  from keepsD [OF keeps_rpc_PCPrepare [OF this pc_prepare.prems] pc_prepare.hyps(2)]
  show ?case .
next
  case (pc_commit pio n pc n')
  have "all_keep inv (io_fns pio)" using pc_commit by (intro all_keepI) blast
  from keepsD [OF keeps_rpc_PCCommit [OF this pc_commit.prems] pc_commit.hyps(2)]
  show ?case .
next
  case (go_wait wait pio n r n')
  have "all_keep inv (wait # io_fns pio)" using go_wait by (intro all_keepI) blast
  from keepsD [OF keeps_waitForPCCommit [OF this go_wait.prems] go_wait.hyps(2)]
  show ?case .
next
  case (go_prepare rely1 rely2 reply1 reply2 n seq req leader status n')
  have "all_keep inv [rely1, rely2]" using go_prepare by (intro all_keepI) blast
  from keepsD [OF keeps_sendPrepareReq [OF this go_prepare.prems] go_prepare.hyps(2)]
  show ?case .
next
  case (go_commit_self wait reads cpolls n seq n')
  have "all_keep inv [wait]" using go_commit_self by simp
  from keepsD [OF keeps_sendCommitToSelf [OF this go_commit_self.prems] go_commit_self.hyps(2)]
  show ?case .
next
  case (prepare reads polls n preq n')
  show ?case by (rule keepsD [OF keeps_rpc_Prepare [OF prepare.prems] prepare.hyps])
next
  case (commit reads cpolls n creq n')
  show ?case by (rule keepsD [OF keeps_rpc_Commit [OF commit.prems] commit.hyps])
next
  case (checkpoint n cp n')
  show ?case by (rule keepsD [OF keeps_rpc_Checkpoint [OF checkpoint.prems] checkpoint.hyps])
next
  case (view_change n vc n')
  show ?case by (rule keepsD [OF keeps_rpc_ViewChange [OF view_change.prems] view_change.hyps])
next
  case (new_view n nv n')
  show ?case by (rule keepsD [OF keeps_rpc_NewView [OF new_view.prems] new_view.hyps])
next
  case (go_view_change n view n')
  show ?case by (rule keepsD [OF keeps_sendViewChange [OF go_view_change.prems] go_view_change.hyps])
next
  case (go_new_view n view vcs n')
  show ?case by (rule keepsD [OF keeps_sendNewView [OF go_new_view.prems] go_new_view.hyps])
next
  case (go_save n seq status n')
  show ?case by (rule keepsD [OF keeps_saveTransaction [OF go_save.prems] go_save.hyps])
next
  case (go_garbage n seq n')
  show ?case by (rule keepsD [OF keeps_collectGarbage [OF go_garbage.prems] go_garbage.hyps])
next
  case (execute n n')
  then show ?case using assms(2) by blast
next
  case (go_update n seq status)
  then show ?case by (rule inv_updateLog)
next
  case (go_erase n k)
  then show ?case by (rule inv_EraseWal)
qed (simp_all add: wf_simps rpc_SetStatus_def rpc_SetByzantine_def)

end

section \<open>Invariants that hold under the executor too\<close>

locale executed_quietly = quiet_invariant E inv for E :: "'b env" and inv :: "'b Node \<Rightarrow> bool" +
  assumes inv_execute: "inv n \<Longrightarrow> walBucket db = walBucket (DB n) \<Longrightarrow> inv (n\<lparr>DB := db\<rparr>)"
begin

lemma keeps_undo_logs [wf_rules]: "inv n \<Longrightarrow> keeps inv (undo_logs E ls n)"
  by (induction ls arbitrary: n) (auto simp: inv_execute intro!: keeps_rules)

lemma keeps_executeDatastoreLog [wf_rules]:
  "inv n \<Longrightarrow> keeps inv (executeDatastoreLog E n u)"
  unfolding executeDatastoreLog_def undoWAL_def
  by (intro keeps_rules wf_rules) (simp_all add: wf_simps inv_execute)

lemma keeps_executor_round [wf_rules]: "inv n \<Longrightarrow> keeps inv (executor_round E n)"
  unfolding executor_round_def
  by (intro keeps_rules wf_rules) (simp_all add: wf_simps)

end

locale executed_invariant = node_invariant E inv + executed_quietly E inv
  for E :: "'b env" and inv :: "'b Node \<Rightarrow> bool"
begin

lemma all_runs_keep: "node_runs E x n n' \<Longrightarrow> inv n \<Longrightarrow> inv n'"
  by (rule runs_keep) (blast intro: keepsD [OF keeps_executor_round])+

end

section \<open>The invariants\<close>

text \<open>Well-formed tables, over a store and a JSON decoder that keep their promises.\<close>

interpretation tables: executed_invariant E "\<lambda>n. bolt_ok E \<and> json_pointers_ok E \<longrightarrow> node_wf E n" for E
proof unfold_locales
  fix n n' :: "'a Node"
  assume "bolt_ok E \<and> json_pointers_ok E \<longrightarrow> node_wf E n" "core n' = core n"
  then show "bolt_ok E \<and> json_pointers_ok E \<longrightarrow> node_wf E n'" by (simp add: node_wf_def core_def)
next
  fix n :: "'a Node" and A
  assume "bolt_ok E \<and> json_pointers_ok E \<longrightarrow> node_wf E n"
  then show "bolt_ok E \<and> json_pointers_ok E \<longrightarrow>
      node_wf E (n\<lparr>PrePrepares := (\<lambda>i. if i \<in> A then None else PrePrepares n i)\<rparr>)"
    by (auto simp: node_wf_def preprepares_wf_def)
qed (auto intro: wf_writeLog wf_updateLog wf_savePrePrepare wf_put_request wf_commit_entry wf_EraseWal simp: wf_DB wf_simps)

text \<open>Nothing but the executor and the start touches the balances.\<close>

interpretation books: node_invariant E "\<lambda>n. balancesBucket (DB n) = b" for E b
  by unfold_locales
    (auto simp: core_def writeLog_def updateLog_def savePrePrepare_def put_request_def commit_entry_def
      saveTransactionToDatastore_def AppendToWALEntry_def EraseWal_def Let_def split: option.splits)

text \<open>Who a node is, whom it talks to, and who leads a view.\<close>

interpretation identity: executed_invariant E
  "\<lambda>n. (ClusterId n, node_Id n, NodeMap n, ClientMap n, node_PrivateKey n, LeaderMap n) = who" for E who
  by unfold_locales
    (auto simp: core_def writeLog_def updateLog_def savePrePrepare_def put_request_def commit_entry_def
      saveTransactionToDatastore_def Let_def split: option.splits)

text \<open>What is logged stays logged, and what is committed stays in the datastore.\<close>

interpretation history: executed_invariant E
  "\<lambda>n. L \<subseteq> dom (TransactionLog n) \<and> C \<subseteq> dom (Datastore n) \<and> R \<subseteq> dom (RequestLog n) \<and> hi \<le> MaxSeq n" for E L C R hi
  by unfold_locales
    (auto simp: core_def writeLog_def updateLog_def savePrePrepare_def put_request_def commit_entry_def
      saveTransactionToDatastore_def Let_def split: option.splits)

text \<open>Once the mutex of the checkpoints is taken, it stays taken.\<close>

interpretation mutex: executed_invariant E "\<lambda>n. b \<longrightarrow> CheckpointCertsLock n" for E b
  by unfold_locales
    (auto simp: core_def writeLog_def updateLog_def savePrePrepare_def put_request_def commit_entry_def
      saveTransactionToDatastore_def Let_def split: option.splits)

end
