(* ===== verification/Runs.thy ===== *)
theory Runs
  imports Agreement Invariants
begin

text \<open>
  What a run of the protocol at the leader promises, within a shard and across shards: a
  successful run has committed, a failed one has given its locks back, an overdraft is refused
  before anything is announced, a participant asks for a quorum of the other shard, and a
  coordinator does not tell a participant to commit that did not acknowledge.
\<close>

section \<open>The end of a run\<close>

lemma ensures_give_up:
  "bolt_ok E \<Longrightarrow> tx_of r = Some t \<Longrightarrow> (\<And>m. held E (DB m) \<inter> {t_From t, t_To t} = {} \<Longrightarrow> Q m (req, Some e)) \<Longrightarrow>
     ensures Q (give_up E n r req e)"
  by (simp add: give_up_def ensures_def with_tx_eq release_of_def held_ReleaseLocksDB tx_clients_def)

lemma secure_locks_error:
  assumes "bolt_ok E" "tx_of r = Some t" "secure_locks E rely n r = Return m (Some e)"
  shows "held E (DB m) \<inter> {t_From t, t_To t} = {}"
  using assms(3)
  by (auto simp: secure_locks_def outcome_simps assms(2) release_of_def held_ReleaseLocksDB [OF assms(1)]
      tx_clients_def split: if_splits sum.splits)

definition run_result ::
  "'b env \<Rightarrow> Transaction \<Rightarrow> string \<Rightarrow> 'b Node \<Rightarrow> PrePrepareRequest option \<times> error option \<Rightarrow> bool" where
  "run_result E t status m res \<longleftrightarrow>
     (case res of
        (req, Some e) \<Rightarrow> e = DigestFailed \<or> held E (DB m) \<inter> {t_From t, t_To t} = {}
      | (req, None) \<Rightarrow> \<exists>p pp m' cs. req = Some p \<and> ppr_PrePrepare p = Some pp \<and>
          validateCommits E m' (pp_Sequence pp) cs status (t_ClientSeq t) (Some t) = Return m True)"

lemma run_result_error: "held E (DB m) \<inter> {t_From t, t_To t} = {} \<Longrightarrow> run_result E t status m (req, Some e)"
  by (simp add: run_result_def)

lemma run_result_success:
  "ppr_PrePrepare p = Some pp \<Longrightarrow>
     validateCommits E m' (pp_Sequence pp) cs status (t_ClientSeq t) (Some t) = Return m True \<Longrightarrow>
     run_result E t status m (Some p, None)"
  by (auto simp: run_result_def)

lemma collectCommits_validates:
  "collectCommits E rely events n seq s k t = Return m x \<Longrightarrow>
     \<exists>m' cs. validateCommits E m' seq cs s k t = Return m x"
  by (auto simp: collectCommits_def Let_def split: option.splits)

lemma collectPrepares_no_error: "collectPrepares rely events n seq = Return m e \<Longrightarrow> e = None"
  by (auto simp: collectPrepares_def Let_def split: option.splits)

lemma runPBFT_result:
  assumes "bolt_ok E" "tx_of r = Some t"
  shows "ensures (run_result E t status) (runPBFT E io n r oldSeq status)"
proof -
  have locks: "run_result E t status m (Some empty_request, Some e)"
    if "(if status = ''P'' \<or> status = [] then secure_locks E (lock_rely io) n r else Return n None) = Return m (Some e)" for m e
    using that secure_locks_error [OF assms] by (auto intro: run_result_error split: if_splits)
  show ?thesis
    unfolding runPBFT_def with_tx_eq
    by (intro ensures_rules ensures_give_up [OF assms])
      (use assms(2) locks in \<open>auto simp: run_result_def dest: assign_seq_request collectCommits_validates\<close>)
qed

lemma validateCommits_outcome:
  assumes "validateCommits E m seq cs s k t = Return n' True"
  shows "CommitCerts n' seq = filter (commit_valid E m seq) cs \<and> 2 * F + 1 \<le> length (CommitCerts n' seq) \<and>
     (\<not> Byzantine n' \<longrightarrow> (\<exists>u. Datastore n' seq = Some u \<and> u_Seq u = seq \<and> u_Status u = s \<and> u_ClientSeq u = k) \<and>
        3 \<le> tl_State (log_at n' seq))"
proof -
  note enough = validateCommits_True(1) [OF assms] and n' = validateCommits_True(2) [OF assms]
  obtain l where l: "TransactionLog m seq = Some l" using valid_commit_logged [OF enough] by blast
  have "Byzantine n' = Byzantine m"
    by (simp add: n' committed_state_def Let_def emit_def commit_entry_def saveTransactionToDatastore_def)
  with enough show ?thesis
    by (simp add: n' committed_state_def Let_def emit_def commit_entry_tables [OF l] log_at_def
        getTransactionLog_def)
qed

section \<open>Refusing an overdraft\<close>

lemma GetBalance_cong: "balancesBucket d = balancesBucket d' \<Longrightarrow> GetBalance E d c = GetBalance E d' c"
  by (simp add: GetBalance_def)

lemma release_restores_held:
  assumes "bolt_ok E" "set cs \<inter> held E d = {}"
  shows "held E (ReleaseLocksDB E (GetLocksDB E d cs) cs) = held E d"
proof -
  have "map_option (Pair E) (try_locks E d cs) = Some (E, GetLocksDB E d cs)"
    using assms(2) by (simp add: try_locks_eq)
  then show ?thesis
    using lt.release_restores [of "(E, d)" cs "(E, GetLocksDB E d cs)"] assms(1) by simp
qed

lemma secure_locks_overdraft:
  assumes "tx_of r = Some t" "t_ClusterFrom t = ClusterId n" "{t_From t, t_To t} \<inter> held E (DB n) = {}"
    and "GetBalance E (DB n) (t_From t) = Inr b" "b < t_Amount t"
  shows "secure_locks E rely n r =
     Return (n\<lparr>DB := ReleaseLocksDB E (GetLocksDB E (DB n) (tx_clients t)) (tx_clients t)\<rparr>) (Some InsufficientBalance)"
proof -
  have free: "set (tx_clients t) \<inter> held E (DB n) = {}" using assms(3) by (simp add: tx_clients_def)
  have bal: "GetBalance E (GetLocksDB E (DB n) (tx_clients t)) (t_From t) = Inr b"
    using assms(4) GetBalance_cong [of "GetLocksDB E (DB n) (tx_clients t)" "DB n"] by simp
  show ?thesis
    using assms(1,2,5) free bal
    by (simp add: secure_locks_def with_tx_eq lock_loop.simps CheckAndGetLocks_cases release_of_def)
qed

section \<open>Effects that a run may cause\<close>

text \<open>Every effect so far satisfies a predicate.\<close>

definition quiet :: "(effect \<Rightarrow> bool) \<Rightarrow> 'b Node \<Rightarrow> bool" where
  "quiet P n \<longleftrightarrow> list_all P (effects n)"

definition all_quiet :: "(effect \<Rightarrow> bool) \<Rightarrow> ('b Node \<Rightarrow> 'b Node) list \<Rightarrow> bool" where
  "all_quiet P fs \<longleftrightarrow> (\<forall>f\<in>set fs. \<forall>n. quiet P n \<longrightarrow> quiet P (f n))"

lemma all_quiet_simps [simp]:
  "all_quiet P []" "all_quiet P (f # fs) \<longleftrightarrow> (\<forall>n. quiet P n \<longrightarrow> quiet P (f n)) \<and> all_quiet P fs"
  "all_quiet P (fs @ gs) \<longleftrightarrow> all_quiet P fs \<and> all_quiet P gs"
  by (auto simp: all_quiet_def)

named_theorems quiet_rules \<open>segments that only cause the effects of a run\<close>
named_theorems quiet_simps \<open>operations and the effects they add\<close>

lemma quiet_ops [quiet_simps]:
  "quiet P (emit e n) \<longleftrightarrow> quiet P n \<and> P e" "quiet P (emits es n) \<longleftrightarrow> quiet P n \<and> list_all P es"
  "quiet P (writeLog n i t v dig ts) = quiet P n" "quiet P (savePrePrepare n i p) = quiet P n"
  "quiet P (put_request n ts i) = quiet P n" "quiet P (updateLog n i s) = quiet P n"
  "quiet P (release_of E n t) = quiet P n" "quiet P (n\<lparr>DB := d\<rparr>) = quiet P n"
  "quiet P (n\<lparr>PrepareCerts := pc\<rparr>) = quiet P n" "quiet P (n\<lparr>CommitCerts := cc\<rparr>) = quiet P n"
  "quiet P (n\<lparr>Seq := i\<rparr>) = quiet P n"
  "quiet P (n\<lparr>PrepareCertChans := pch, CommitCertChans := cch\<rparr>) = quiet P n"
  by (simp_all add: quiet_def emit_def emits_def writeLog_def savePrePrepare_def put_request_def
      release_of_def)

definition run_effects :: "(effect \<Rightarrow> bool) \<Rightarrow> bool" where
  "run_effects P \<longleftrightarrow> (\<forall>i req. P (RpcPrePrepare i req)) \<and> (\<forall>i. P (GoSendCommitToSelf i)) \<and>
     (\<forall>i s. P (GoSaveTransaction i s))"

lemma quiet_lock_loop [quiet_rules]:
  "all_quiet P rely \<Longrightarrow> quiet P n \<Longrightarrow> keeps (quiet P) (lock_loop E cs byz rely n)"
proof (induction rely arbitrary: n)
  case Nil
  then show ?case
    by (subst lock_loop.simps) (auto simp: quiet_simps CheckAndGetLocks_cases intro!: keeps_rules)
next
  case (Cons r rs)
  then show ?case
    by (subst lock_loop.simps) (auto simp: quiet_simps CheckAndGetLocks_cases intro!: keeps_rules)
qed

lemma quiet_validatePrepares [quiet_rules]:
  "quiet P n \<Longrightarrow> keeps (quiet P) (validatePrepares E n seq rs)"
  by (simp add: validatePrepares_cases prepared_state_def Let_def keeps_def quiet_simps)

lemma quiet_validateCommits [quiet_rules]:
  "run_effects P \<Longrightarrow> quiet P n \<Longrightarrow> keeps (quiet P) (validateCommits E n seq rs s k t)"
  by (simp add: validateCommits_cases committed_state_def commit_entry_def saveTransactionToDatastore_def
      Let_def keeps_def quiet_def emit_def run_effects_def)

lemma quiet_runPBFT [quiet_rules]:
  assumes "run_effects P" "all_quiet P (io_fns io)" "quiet P n"
  shows "keeps (quiet P) (runPBFT E io n r oldSeq status)"
  unfolding runPBFT_def secure_locks_def assign_seq_def announce_def logClientRequest_def
    collectPrepares_def collectCommits_def give_up_def with_tx_eq with_seconds_eq Let_def
  by (intro keeps_rules quiet_rules)
    (use assms in \<open>simp_all add: quiet_simps io_fns_def run_effects_def list_all_iff\<close>)

lemma announce_logs:
  assumes "ppr_ClientReq req = Some cr" "tx_of cr = Some t" "seconds_of cr = Some ts" "seconds_of r = Some ts'"
  shows "\<exists>n'. announce n r req pp = Return n' () \<and>
     TransactionLog n' = (TransactionLog n)(pp_Sequence pp \<mapsto> \<lparr>tl_Transaction = Some t, tl_View = View n,
       tl_State = 1, tl_Digest = pp_Digest pp, tl_Timestamp = ts, tl_ClientSeq = t_ClientSeq t\<rparr>) \<and>
     PublicKeyMap n' = PublicKeyMap n \<and> Byzantine n' = Byzantine n"
proof -
  obtain cq where "scr_ClientRequest cr = Some cq" "cr_Transaction cq = Some t"
    using assms(2) by (auto simp: tx_of_def bind_eq_Some_conv)
  with assms show ?thesis
    by (simp add: announce_def Let_def logClientRequest_def with_seconds_eq)
      (simp add: writeLog_def savePrePrepare_def put_request_def emits_def States_def)
qed

section \<open>A run at the demonstration leader\<close>

definition demo_prepare_cert :: "int \<Rightarrow> string \<Rightarrow> int64 \<Rightarrow> string \<Rightarrow> PrepareRequest" where
  "demo_prepare_cert i name seq dig =
     (let p = \<lparr>p_View = 1, p_Sequence = seq, p_Digest = dig, p_NodeId = name\<rparr> in
      \<lparr>pr_Prepare = Some p, pr_Signature = signature_or_nil demo_env (demo_key i) (wire_Prepare p)\<rparr>)"

definition demo_io :: "string \<Rightarrow> demo_bucket pbft_io" where
  "demo_io dg = \<lparr>lock_rely = [], prepare_rely = id,
     prepare_events = [Receive (demo_prepare_cert 2 ''S2'' 1 dg),
       Receive (demo_prepare_cert 3 ''S3'' 1 dg), AfterMajorityFires],
     commit_rely = id,
     commit_events = [Receive (demo_commit_cert 1 ''S1'' 1 dg),
       Receive (demo_commit_cert 2 ''S2'' 1 dg),
       Receive (demo_commit_cert 3 ''S3'' 1 dg), AfterMajorityFires]\<rparr>"

lemma demo_prepares_valid:
  assumes "TransactionLog n 1 = Some l" "tl_Digest l = dg" "PublicKeyMap n = demo_keys"
  shows "prepare_valid demo_env n 1 (demo_prepare_cert 2 ''S2'' 1 dg)"
    and "prepare_valid demo_env n 1 (demo_prepare_cert 3 ''S3'' 1 dg)"
  using assms demo_verified [of 2] demo_verified [of 3]
  by (simp_all add: prepare_valid_def demo_prepare_cert_def Let_def demo_keys_def)

lemma demo_commits_valid:
  assumes "TransactionLog n 1 = Some l" "tl_Digest l = dg" "2 \<le> tl_State l" "PublicKeyMap n = demo_keys"
  shows "commit_valid demo_env n 1 (demo_commit_cert 1 ''S1'' 1 dg)"
    and "commit_valid demo_env n 1 (demo_commit_cert 2 ''S2'' 1 dg)"
    and "commit_valid demo_env n 1 (demo_commit_cert 3 ''S3'' 1 dg)"
  using assms demo_verified [of 1] demo_verified [of 2] demo_verified [of 3]
  by (simp_all add: commit_valid_def demo_commit_cert_def Let_def demo_keys_def)

lemma demo_cert_parts [simp]:
  "\<exists>p. pr_Prepare (demo_prepare_cert i name seq dig) = Some p"
  "\<exists>c. cmr_Commit (demo_commit_cert i name seq dig) = Some c"
  by (simp_all add: demo_prepare_cert_def demo_commit_cert_def Let_def)

lemma demo_collect:
  "collect (2 * F) (prepare_events (demo_io dg)) [] =
     Some [demo_prepare_cert 2 ''S2'' 1 dg, demo_prepare_cert 3 ''S3'' 1 dg]"
  "collect (2 * F + 1) (commit_events (demo_io dg)) [] =
     Some [demo_commit_cert 1 ''S1'' 1 dg, demo_commit_cert 2 ''S2'' 1 dg,
       demo_commit_cert 3 ''S3'' 1 dg]"
  by (simp_all add: demo_io_def F_def)

lemma demo_validates_prepares:
  assumes "TransactionLog n 1 = Some l" "tl_Digest l = dg" "PublicKeyMap n = demo_keys"
  shows "validatePrepares demo_env n 1
       [demo_prepare_cert 2 ''S2'' 1 dg, demo_prepare_cert 3 ''S3'' 1 dg] =
     Return (prepared_state n 1
       [demo_prepare_cert 2 ''S2'' 1 dg, demo_prepare_cert 3 ''S3'' 1 dg]) True"
  by (simp add: validatePrepares_cases demo_prepares_valid [OF assms] F_def)

lemma demo_validates_commits:
  assumes "TransactionLog n 1 = Some l" "tl_Digest l = dg" "2 \<le> tl_State l" "PublicKeyMap n = demo_keys"
  shows "\<exists>n'. validateCommits demo_env n 1
       [demo_commit_cert 1 ''S1'' 1 dg, demo_commit_cert 2 ''S2'' 1 dg,
        demo_commit_cert 3 ''S3'' 1 dg] s k t = Return n' True"
  by (simp add: validateCommits_cases demo_commits_valid [OF assms] F_def)

definition demo_pp :: "string \<Rightarrow> string \<Rightarrow> PrePrepare" where
  "demo_pp dg status = \<lparr>pp_View = 1, pp_Sequence = 1, pp_Digest = dg, pp_Status = status, pp_Wal = [], pp_Locks = []\<rparr>"

definition demo_ppr :: "Transaction \<Rightarrow> string \<Rightarrow> PrePrepareRequest" where
  "demo_ppr t status = \<lparr>ppr_PrePrepare = Some (demo_pp (demo_digest t) status),
     ppr_Signature = signature_or_nil demo_env (demo_key 1) (wire_PrePrepare (demo_pp (demo_digest t) status)),
     ppr_ClientReq = Some (demo_request_of t)\<rparr>"

text \<open>
  A run at a node of that name in view 1 with free locks, whatever else it has done, once it is
  given the demonstration pre-prepare: as a new one or as the one saved before.
\<close>

lemma demo_run_from:
  assumes "t_From t = ''1''" "t_ClusterFrom t = ''C1''" "t_Amount t \<le> 10"
    and n: "DB n = demo_db" "View n = 1" "PublicKeyMap n = demo_keys" "\<not> Byzantine n" "ClusterId n = ''C1''"
    and s2: "assign_seq demo_env (if status = ''P'' \<or> status = [] then n\<lparr>DB := GetLocksDB demo_env demo_db (tx_clients t)\<rparr> else n)
      (demo_request_of t) oldSeq status (demo_digest t) = Return na (demo_ppr t status, demo_pp (demo_digest t) status)"
    and na: "View na = 1" "PublicKeyMap na = demo_keys" "\<not> Byzantine na"
  shows "\<exists>n'. runPBFT demo_env (demo_io (demo_digest t)) n (demo_request_of t) oldSeq status =
     Return n' (Some (demo_ppr t status), None)"
proof -
  let ?dg = "demo_digest t" and ?r = "demo_request_of t"
  let ?l = "\<lparr>tl_Transaction = Some t, tl_View = 1, tl_State = 1, tl_Digest = ?dg, tl_Timestamp = 100,
      tl_ClientSeq = t_ClientSeq t\<rparr>"
  define n1 where "n1 = (if status = ''P'' \<or> status = [] then n\<lparr>DB := GetLocksDB demo_env demo_db (tx_clients t)\<rparr> else n)"
  note s2 = s2 [folded n1_def]
  have "GetBalance demo_env (GetLocksDB demo_env demo_db (tx_clients t)) ''1'' = Inr 10"
    using demo_has_ten GetBalance_cong [of "GetLocksDB demo_env demo_db (tx_clients t)" demo_db] by simp
  then have s1: "(if status = ''P'' \<or> status = [] then secure_locks demo_env (lock_rely (demo_io ?dg)) n ?r
      else Return n None) = Return n1 None"
    using assms by (simp add: secure_locks_def with_tx_eq demo_request_parts lock_loop.simps
        CheckAndGetLocks_cases demo_no_locks n1_def)
  have pp: "pp_Sequence (demo_pp ?dg status) = 1" "pp_Digest (demo_pp ?dg status) = ?dg" by (simp_all add: demo_pp_def)
  have "ppr_ClientReq (demo_ppr t status) = Some ?r" by (simp add: demo_ppr_def)
  from announce_logs [where n = na and pp = "demo_pp ?dg status" and r = ?r,
      OF this demo_request_parts demo_request_parts(2)]
  obtain n2 where s3: "announce na ?r (demo_ppr t status) (demo_pp ?dg status) = Return n2 ()"
    and n2: "TransactionLog n2 1 = Some ?l" "PublicKeyMap n2 = demo_keys" "\<not> Byzantine n2"
    by (auto simp: pp na)
  let ?ps = "[demo_prepare_cert 2 ''S2'' 1 ?dg, demo_prepare_cert 3 ''S3'' 1 ?dg]"
  define n3 where "n3 = n2\<lparr>PrepareCerts := (PrepareCerts n2)(1 := ?ps)\<rparr>"
  have s4: "collectPrepares (prepare_rely (demo_io ?dg)) (prepare_events (demo_io ?dg)) n2 1 = Return n3 None"
    unfolding collectPrepares_def Let_def demo_collect by (simp add: demo_io_def n3_def)
  have s5: "validatePrepares demo_env n3 1 (PrepareCerts n3 1) = Return (prepared_state n3 1 ?ps) True"
  proof -
    have "PrepareCerts n3 1 = ?ps" by (simp add: n3_def)
    then show ?thesis using demo_validates_prepares [of n3 ?l] n2 by (simp add: n3_def)
  qed
  let ?n4 = "emit (GoSendCommitToSelf 1) (prepared_state n3 1 ?ps)"
  let ?cs = "[demo_commit_cert 1 ''S1'' 1 ?dg, demo_commit_cert 2 ''S2'' 1 ?dg, demo_commit_cert 3 ''S3'' 1 ?dg]"
  have "TransactionLog (?n4\<lparr>CommitCerts := (CommitCerts ?n4)(1 := ?cs)\<rparr>) 1 = Some (?l\<lparr>tl_State := 2\<rparr>)"
    "PublicKeyMap (?n4\<lparr>CommitCerts := (CommitCerts ?n4)(1 := ?cs)\<rparr>) = demo_keys"
    using n2 updateLog_Some [of n3 1 ?l "''prepared''"]
    by (simp_all add: emit_def prepared_state_def Let_def n3_def States_def)
  from demo_validates_commits [OF this(1) _ _ this(2), where s = status and k = "t_ClientSeq t" and t = "Some t"] obtain n5 where
    "validateCommits demo_env (?n4\<lparr>CommitCerts := (CommitCerts ?n4)(1 := ?cs)\<rparr>) 1 ?cs status (t_ClientSeq t) (Some t) = Return n5 True"
    by auto
  then have s6: "collectCommits demo_env (commit_rely (demo_io ?dg)) (commit_events (demo_io ?dg)) ?n4 1 status
      (t_ClientSeq t) (Some t) = Return n5 True"
    unfolding collectCommits_def Let_def demo_collect by (simp add: demo_io_def)
  show ?thesis
    unfolding runPBFT_def s1 by (simp add: demo_MD5 s1 s2 s3 pp s4 s5 s6 with_tx_eq demo_request_parts)
qed

lemma demo_run_succeeds:
  assumes "t_From t = ''1''" "t_ClusterFrom t = ''C1''" "t_Amount t \<le> 10"
  shows "\<exists>n'. runPBFT demo_env (demo_io (demo_digest t)) demo_node (demo_request_of t) 0 status =
     Return n' (Some (demo_ppr t status), None)"
proof -
  define n1 where "n1 = (if status = ''P'' \<or> status = []
      then demo_node\<lparr>DB := GetLocksDB demo_env demo_db (tx_clients t)\<rparr> else demo_node)"
  have "assign_seq demo_env n1 (demo_request_of t) 0 status (demo_digest t) =
      Return (n1\<lparr>Seq := 2\<rparr>) (demo_ppr t status, demo_pp (demo_digest t) status)"
    by (simp add: assign_seq_def n1_def demo_node_tables demo_pp_def demo_ppr_def Let_def add64_def
        in64_def min64_def max64_def)
  from demo_run_from [OF assms _ _ _ _ _ this [unfolded n1_def]] show ?thesis by (simp add: demo_node_tables n1_def)
qed

section \<open>Properties of a run\<close>

text \<open>
  A successful run has committed: it returns a pre-prepare, at least \<open>2 * F + 1\<close> commit
  certificates that pass every check are kept under its sequence number, and (unless the node
  was Byzantine by then) the datastore holds the entry for the executor, with the status and
  the client's number of this run, and the log entry is committed.
\<close>

theorem successful_run_has_committed:
  assumes "bolt_ok E" "tx_of r = Some t" "runPBFT E io n r oldSeq status = Return n' (req, None)"
  shows "\<exists>p pp. req = Some p \<and> ppr_PrePrepare p = Some pp \<and>
     2 * F + 1 \<le> length (CommitCerts n' (pp_Sequence pp)) \<and>
     (\<exists>m. list_all (commit_valid E m (pp_Sequence pp)) (CommitCerts n' (pp_Sequence pp))) \<and>
     (\<not> Byzantine n' \<longrightarrow> 3 \<le> tl_State (log_at n' (pp_Sequence pp)) \<and>
        (\<exists>u. Datastore n' (pp_Sequence pp) = Some u \<and> u_Seq u = pp_Sequence pp \<and> u_Status u = status \<and>
           u_ClientSeq u = t_ClientSeq t))"
proof -
  from ensuresD [OF runPBFT_result [OF assms(1,2)] assms(3)] obtain p pp m cs where
    req: "req = Some p" "ppr_PrePrepare p = Some pp"
    and run: "validateCommits E m (pp_Sequence pp) cs status (t_ClientSeq t) (Some t) = Return n' True"
    by (auto simp: run_result_def)
  have "list_all (commit_valid E m (pp_Sequence pp)) (CommitCerts n' (pp_Sequence pp))"
    using validateCommits_outcome [OF run] by (simp add: list_all_iff)
  then show ?thesis using req validateCommits_outcome [OF run] by blast
qed

theorem successful_run_has_committed_witness:
  "\<exists>n'. runPBFT demo_env (demo_io (demo_digest demo_tx)) demo_node (demo_request_of demo_tx) 0 [] = Return n' (Some (demo_ppr demo_tx []), None) \<and>
     3 \<le> length (CommitCerts n' 1)"
proof -
  obtain n' where run: "runPBFT demo_env (demo_io (demo_digest demo_tx)) demo_node (demo_request_of demo_tx) 0 [] = Return n' (Some (demo_ppr demo_tx []), None)"
    using demo_run_succeeds [of demo_tx] by (auto simp: demo_tx_def)
  from successful_run_has_committed [OF demo_bolt_ok demo_request_parts(1) run] run show ?thesis
    by (auto simp: demo_ppr_def demo_pp_def F_def)
qed

text \<open>
  C26. A failed run leaves no locks: whatever made a run fail (a client that is not in the
  shard, an overdraft, too few prepares, too few commits) its two clients are unlocked when
  it returns; only a request whose digest cannot be computed fails before any lock is asked
  for.
\<close>

theorem failed_run_frees_its_locks:
  assumes "bolt_ok E" "tx_of r = Some t" "runPBFT E io n r oldSeq status = Return n' (req, Some e)"
    and "e \<noteq> DigestFailed"
  shows "t_From t \<notin> held E (DB n') \<and> t_To t \<notin> held E (DB n')"
  using ensuresD [OF runPBFT_result [OF assms(1,2)] assms(3)] assms(4) by (simp add: run_result_def)

theorem failed_run_frees_its_locks_witness:
  "\<exists>n'. runPBFT demo_env (demo_io (demo_digest demo_tx)) (demo_node\<lparr>DB := createBuckets demo_env\<rparr>) (demo_request_of demo_tx) 0 [] =
       Return n' (Some empty_request, Some (Database_error (NotInShard ''1''))) \<and>
     ''1'' \<notin> held demo_env (DB n') \<and> ''2'' \<notin> held demo_env (DB n')"
proof -
  have free: "held demo_env (createBuckets demo_env) = {}"
    by (simp add: held_def locked_def createBuckets_def bolt_get_empty [OF demo_bolt_ok])
  have none: "GetBalance demo_env (GetLocksDB demo_env (createBuckets demo_env) cs) ''1'' = Inl (NotInShard ''1'')" for cs
    by (simp add: GetBalance_def createBuckets_def bolt_get_empty [OF demo_bolt_ok])
  obtain n' where run: "runPBFT demo_env (demo_io (demo_digest demo_tx)) (demo_node\<lparr>DB := createBuckets demo_env\<rparr>) (demo_request_of demo_tx) 0 [] =
      Return n' (Some empty_request, Some (Database_error (NotInShard ''1'')))"
    by (simp add: runPBFT_def demo_MD5 secure_locks_def with_tx_eq demo_request_parts lock_loop.simps
        CheckAndGetLocks_cases free none demo_node_tables demo_tx_def)
  with failed_run_frees_its_locks [OF demo_bolt_ok demo_request_parts(1) run] show ?thesis
    by (simp add: demo_tx_def)
qed

text \<open>
  No overdraft: at the sender's shard, a new or preparing transfer of more than the
  sender's balance is refused at once; nothing is announced or logged, no sequence number is
  used, the balances are untouched, and exactly the locks of before are held.
\<close>

theorem overdraft_is_refused:
  assumes "bolt_ok E" "tx_of r = Some t" "t_ClusterFrom t = ClusterId n" "status = [] \<or> status = ''P''"
    and "{t_From t, t_To t} \<inter> held E (DB n) = {}" "MD5Hash E (JClientReq (Some r)) \<noteq> None"
    and "GetBalance E (DB n) (t_From t) = Inr b" "b < t_Amount t"
  shows "\<exists>d. runPBFT E io n r oldSeq status = Return (n\<lparr>DB := d\<rparr>) (Some empty_request, Some InsufficientBalance) \<and>
     balance_view E d = balance_view E (DB n) \<and> held E d = held E (DB n)"
proof -
  let ?d = "ReleaseLocksDB E (GetLocksDB E (DB n) (tx_clients t)) (tx_clients t)"
  have "held E ?d = held E (DB n)"
    using assms(5) by (intro release_restores_held [OF assms(1)]) (simp add: tx_clients_def)
  moreover have "balance_view E ?d = balance_view E (DB n)" by simp
  moreover have "runPBFT E io n r oldSeq status = Return (n\<lparr>DB := ?d\<rparr>) (Some empty_request, Some InsufficientBalance)"
    using assms(4,6) secure_locks_overdraft [OF assms(2,3,5,7,8)] by (auto simp: runPBFT_def)
  ultimately show ?thesis by blast
qed

theorem overdraft_is_refused_witness:
  "\<exists>d. runPBFT demo_env (demo_io (demo_digest demo_tx)) (demo_node\<lparr>DB := fst (PutBalance demo_env demo_db ''1'' 2)\<rparr>) (demo_request_of demo_tx) 0 [] =
     Return (demo_node\<lparr>DB := d\<rparr>) (Some empty_request, Some InsufficientBalance) \<and> held demo_env d = {}"
proof -
  let ?d = "fst (PutBalance demo_env demo_db ''1'' 2)"
  have "''1'' \<in> dom (balance_view demo_env demo_db)"
    using demo_has_ten by (simp add: balance_view_Some domIff balance_view_def)
  from PutBalance_view(1) [OF demo_bolt_ok this, of 2] have bal: "GetBalance demo_env ?d ''1'' = Inr 2"
    by (simp add: in64_def min64_def max64_def balance_view_Some [symmetric])
  have free: "held demo_env ?d = {}"
    using held_cong [of ?d demo_db demo_env] demo_no_locks by simp
  show ?thesis
    using overdraft_is_refused [OF demo_bolt_ok demo_request_parts(1), of demo_tx "demo_node\<lparr>DB := ?d\<rparr>" "[]" 2 "demo_io (demo_digest demo_tx)" 0]
    by (auto simp: demo_node_tables demo_tx_def free demo_MD5 bal)
qed

section \<open>The participant\<close>

text \<open>The commits of the other shard that count for a request's digest.\<close>

definition matching_commit :: "'b env \<Rightarrow> 'b Node \<Rightarrow> string \<Rightarrow> CommitRequest \<Rightarrow> bool" where
  "matching_commit E n digest r \<longleftrightarrow>
     (\<exists>c pk. cmr_Commit r = Some c \<and> c_Digest c = digest \<and> PublicKeyMap n (c_NodeId c) = Some pk \<and>
        verified E pk (wire_Commit c) (cmr_Signature r))"

lemma count_commits_eq:
  "count_commits E n digest rs k =
     (if list_all has_commit rs then Return n (k + length (filter (matching_commit E n digest) rs)) else Panic)"
proof (induction rs arbitrary: k)
  case Nil
  then show ?case by simp
next
  case (Cons r rs)
  show ?case
  proof (cases "cmr_Commit r")
    case None
    then show ?thesis by simp
  next
    case (Some c)
    then have "matching_commit E n digest r \<longleftrightarrow> digest = c_Digest c \<and>
        (case getPublicKey n (c_NodeId c) of None \<Rightarrow> False | Some pk \<Rightarrow> verified E pk (wire_Commit c) (cmr_Signature r))"
      by (auto simp: matching_commit_def getPublicKey_def split: option.splits)
    with Some show ?thesis by (auto simp: Cons.IH split: option.splits)
  qed
qed

lemma validatePCPCommits_pass:
  assumes "validatePCPCommits E n req = Return m None"
  shows "m = n \<and> (\<exists>r pk digest. pcr_SignedClientReq req = Some r \<and> PublicKeyMap n ''client'' = Some pk \<and>
     verified E pk (top_fields wire_ClientRequest (scr_ClientRequest r)) (scr_Signature r) \<and>
     MD5Hash E (JClientReq (Some r)) = Some digest \<and>
     2 * F + 1 \<le> length (filter (matching_commit E n digest) (pcr_Commits req)))"
  using assms
  by (auto simp: validatePCPCommits_def getPublicKey_def outcome_simps count_commits_eq
      split: option.splits if_splits)

lemma validatePCPCommits_state: "validatePCPCommits E n req = Return m e \<Longrightarrow> m = n"
  by (auto simp: validatePCPCommits_def outcome_simps count_commits_eq split: option.splits if_splits)

text \<open>
  C9. The participant's vote: \<open>PCPrepare\<close> acknowledges only when the client signed the
  request, at least \<open>2 * F + 1\<close> of the presented commits verify for the request's digest, and
  the participant's own shard has committed the prepare: its certificates are kept under some
  sequence number whose datastore entry (if the node is not Byzantine) has status \<open>P\<close>.
\<close>

theorem participant_votes_after_commit:
  assumes "bolt_ok E" "rpc_PCPrepare E io n req = Return n' (Inr reply)"
  shows "\<exists>r t digest seq. pcr_SignedClientReq req = Some r \<and> tx_of r = Some t \<and>
     MD5Hash E (JClientReq (Some r)) = Some digest \<and>
     (\<exists>pk. PublicKeyMap n ''client'' = Some pk \<and>
        verified E pk (top_fields wire_ClientRequest (scr_ClientRequest r)) (scr_Signature r)) \<and>
     2 * F + 1 \<le> length (filter (matching_commit E n digest) (pcr_Commits req)) \<and>
     2 * F + 1 \<le> length (CommitCerts n' seq) \<and>
     (\<not> Byzantine n' \<longrightarrow> (\<exists>u. Datastore n' seq = Some u \<and> u_Status u = ''P'' \<and> u_ClientSeq u = t_ClientSeq t)) \<and>
     pcy_Success reply \<and> pcy_Cluster reply = ClusterId n'"
proof -
  from assms(2) obtain r t m err m2 res where r: "pcr_SignedClientReq req = Some r" "tx_of r = Some t"
    and chk: "validatePCPCommits E n req = Return m err" and err: "err = None"
    and run: "runPBFT E io m r 0 ''P'' = Return m2 res" "snd res = None" "n' = m2" "reply = pc_success m2"
    by (auto simp: rpc_PCPrepare_def outcome_simps split: option.splits)
  obtain p where "res = (p, None)" using run(2) by (cases res) simp
  with ensuresD [OF runPBFT_result [OF assms(1) r(2)] run(1)] run(3)
  have "\<exists>seq m' cs. validateCommits E m' seq cs ''P'' (t_ClientSeq t) (Some t) = Return n' True"
    by (auto simp: run_result_def)
  then obtain seq m' cs where "validateCommits E m' seq cs ''P'' (t_ClientSeq t) (Some t) = Return n' True" by blast
  from validateCommits_outcome [OF this] validatePCPCommits_pass [of E n req m] chk err r run(3,4) show ?thesis
    by (auto simp: pc_success_def)
qed

definition demo_pc :: PCPrepareReq where
  "demo_pc = \<lparr>pcr_SignedClientReq = Some (demo_request_of demo_tx),
     pcr_Commits = [demo_commit_cert 1 ''S1'' 1 (demo_digest demo_tx), demo_commit_cert 2 ''S2'' 1 (demo_digest demo_tx),
       demo_commit_cert 3 ''S3'' 1 (demo_digest demo_tx)], pcr_NodeId = ''S1''\<rparr>"

lemma demo_matching:
  "matching_commit demo_env demo_node (demo_digest demo_tx) (demo_commit_cert 1 ''S1'' 1 (demo_digest demo_tx))"
  "matching_commit demo_env demo_node (demo_digest demo_tx) (demo_commit_cert 2 ''S2'' 1 (demo_digest demo_tx))"
  "matching_commit demo_env demo_node (demo_digest demo_tx) (demo_commit_cert 3 ''S3'' 1 (demo_digest demo_tx))"
  using demo_verified [of 1] demo_verified [of 2] demo_verified [of 3]
  by (simp_all add: matching_commit_def demo_commit_cert_def Let_def demo_node_tables demo_keys_def)

lemma demo_validates: "validatePCPCommits demo_env demo_node demo_pc = Return demo_node None"
proof -
  have key: "getPublicKey demo_node ''client'' = Some (PublicKey 0 65537)"
    by (simp add: getPublicKey_def demo_node_tables demo_keys_def)
  obtain r where r: "scr_ClientRequest (demo_request_of demo_tx) = Some r"
    and sg: "scr_Signature (demo_request_of demo_tx) = signature_or_nil demo_env (demo_key 0) (wire_ClientRequest r)"
    by (simp add: demo_request_of_def Let_def)
  show ?thesis
    using demo_verified [of 0]
    by (simp add: validatePCPCommits_def demo_pc_def key r sg demo_MD5 count_commits_eq demo_matching F_def)
qed

theorem participant_votes_after_commit_witness:
  "\<exists>n' reply seq. rpc_PCPrepare demo_env (demo_io (demo_digest demo_tx)) demo_node demo_pc = Return n' (Inr reply) \<and>
     pcy_Success reply \<and> 3 \<le> length (CommitCerts n' seq)"
proof -
  obtain n' where "runPBFT demo_env (demo_io (demo_digest demo_tx)) demo_node (demo_request_of demo_tx) 0 ''P'' = Return n' (Some (demo_ppr demo_tx ''P''), None)"
    using demo_run_succeeds [of demo_tx] by (auto simp: demo_tx_def)
  then have run: "rpc_PCPrepare demo_env (demo_io (demo_digest demo_tx)) demo_node demo_pc = Return n' (Inr (pc_success n'))"
    by (simp add: rpc_PCPrepare_def demo_pc_def with_tx_eq demo_request_parts demo_validates [unfolded demo_pc_def])
  from participant_votes_after_commit [OF demo_bolt_ok run] run show ?thesis by (auto simp: F_def)
qed

section \<open>The coordinator\<close>

definition not_commit_call :: "effect \<Rightarrow> bool" where
  "not_commit_call e \<longleftrightarrow> (\<forall>i req. e \<noteq> RpcPCCommit i req)"

lemma run_effects_not_commit_call: "run_effects not_commit_call"
  by (simp add: run_effects_def not_commit_call_def)

text \<open>
  C8. Atomic commitment: if, after a cross-shard run in which only this goroutine could send
  it, a \<open>PCCommit\<close> call has gone out, then the participant had acknowledged the prepare and
  the coordinator's shard had committed both its prepare and its commit.
\<close>

theorem commit_call_needs_acknowledgement:
  assumes "state_after (runCrossShard E io n r oldSeq) = Some n'" "\<not> quiet not_commit_call n'"
    and "quiet not_commit_call n" "all_quiet not_commit_call (cross_fns io)"
  shows "ack io \<and>
     (\<exists>m req. runPBFT E (prepare_run io) n r oldSeq ''P'' = Return m (Some req, None)) \<and>
     (\<exists>m m' req. runPBFT E (decide_run io) m r 0 ''C'' = Return m' (req, None))"
proof (rule ccontr)
  assume no: "\<not> (ack io \<and>
     (\<exists>m req. runPBFT E (prepare_run io) n r oldSeq ''P'' = Return m (Some req, None)) \<and>
     (\<exists>m m' req. runPBFT E (decide_run io) m r 0 ''C'' = Return m' (req, None)))"
  have "keeps (quiet not_commit_call) (runCrossShard E io n r oldSeq)"
    unfolding runCrossShard_def cross_decide_def with_seconds_eq with_client_def Let_def
    by (intro keeps_rules quiet_runPBFT run_effects_not_commit_call)
      (use assms(3,4) no in \<open>auto simp: cross_fns_def quiet_simps not_commit_call_def\<close>)
  with assms(1,2) show False by (simp add: keepsD)
qed

text \<open>A run leaves the leaders and the connections alone.\<close>

definition routes :: "'b Node \<Rightarrow> (string \<rightharpoonup> string) \<times> (string \<times> string list) list" where
  "routes n = (LeaderMap n, ClientMap n)"

lemma routes_ops [quiet_simps]:
  "routes (emit e n) = routes n" "routes (emits es n) = routes n"
  "routes (writeLog n i t v dig ts) = routes n" "routes (savePrePrepare n i p) = routes n"
  "routes (put_request n ts i) = routes n" "routes (updateLog n i s) = routes n"
  "routes (release_of E n t) = routes n" "routes (n\<lparr>DB := d\<rparr>) = routes n"
  "routes (n\<lparr>PrepareCerts := pc\<rparr>) = routes n" "routes (n\<lparr>CommitCerts := cc\<rparr>) = routes n"
  "routes (n\<lparr>Seq := j\<rparr>) = routes n"
  "routes (n\<lparr>PrepareCertChans := pch, CommitCertChans := cch\<rparr>) = routes n"
  by (simp_all add: routes_def emit_def emits_def writeLog_def savePrePrepare_def put_request_def
      release_of_def updateLog_def split: option.splits)

lemma routes_validateCommits:
  "routes n = R \<Longrightarrow> keeps (\<lambda>m. routes m = R) (validateCommits E n seq rs s k t)"
  by (simp add: validateCommits_cases committed_state_def commit_entry_def saveTransactionToDatastore_def
      Let_def keeps_def routes_def emit_def updateLog_def split: option.splits)

lemma routes_validatePrepares:
  "routes n = R \<Longrightarrow> keeps (\<lambda>m. routes m = R) (validatePrepares E n seq rs)"
  by (simp add: validatePrepares_cases prepared_state_def Let_def keeps_def quiet_simps)

lemma routes_lock_loop:
  "routes n = R \<Longrightarrow> keeps (\<lambda>m. routes m = R) (lock_loop E cs byz [] n)"
  by (subst lock_loop.simps) (auto simp: quiet_simps CheckAndGetLocks_cases intro!: keeps_rules)

lemma routes_demo_run:
  assumes "routes n = R"
  shows "keeps (\<lambda>m. routes m = R) (runPBFT demo_env (demo_io dg) n r i status)"
  unfolding runPBFT_def secure_locks_def assign_seq_def announce_def logClientRequest_def
    collectPrepares_def collectCommits_def give_up_def with_tx_eq with_seconds_eq Let_def
  by (intro keeps_rules routes_validateCommits routes_validatePrepares)
    (use assms in \<open>simp_all add: demo_io_def quiet_simps routes_lock_loop\<close>)

definition demo_cross_io :: "demo_bucket cross_io" where
  "demo_cross_io = (let io = demo_io (demo_digest demo_cross_tx) in
     \<lparr>prepare_run = io, ack_rely = (\<lambda>_. demo_node), ack = True, decide_run = io,
      commit_attempts = [(id, False), (id, True)]\<rparr>)"

lemma demo_cross_run:
  "\<exists>n'. state_after (runCrossShard demo_env demo_cross_io demo_node (demo_request_of demo_cross_tx) 0) = Some n' \<and>
     \<not> quiet not_commit_call n'"
proof -
  let ?r = "demo_request_of demo_cross_tx" and ?io = "demo_io (demo_digest demo_cross_tx)"
  have tx: "t_From demo_cross_tx = ''1''" "t_ClusterFrom demo_cross_tx = ''C1''" "t_Amount demo_cross_tx \<le> 10"
    "t_ClusterTo demo_cross_tx = ''C2''" by (simp_all add: demo_cross_tx_def)
  obtain n1 where n1: "runPBFT demo_env ?io demo_node ?r 0 ''P'' = Return n1 (Some (demo_ppr demo_cross_tx ''P''), None)"
    using demo_run_succeeds [OF tx(1-3)] by blast
  obtain n2 where n2: "runPBFT demo_env ?io demo_node ?r 0 ''C'' = Return n2 (Some (demo_ppr demo_cross_tx ''C''), None)"
    using demo_run_succeeds [OF tx(1-3)] by blast
  have "routes n1 = routes demo_node"
    using keepsD [OF routes_demo_run [OF refl]] n1 by (metis state_after.simps(1))
  then have route: "LeaderMap n1 ''C2'' = Some ''S5''" "peers n1 ''C2'' = [''S5'']"
    by (simp_all add: routes_def demo_node_def establishConns_def NewNode_def peers_def demo_clusters_def)
  obtain cq where cq: "scr_ClientRequest ?r = Some cq" "cr_Transaction cq = Some demo_cross_tx"
    by (simp add: demo_request_of_def Let_def)
  show ?thesis
    by (simp add: runCrossShard_def cq demo_cross_io_def Let_def n1 demo_ppr_def cross_decide_def tx(4) route
        with_client_def n2 with_seconds_eq demo_request_parts)
      (simp add: quiet_def emit_def emits_def not_commit_call_def)
qed

theorem commit_call_needs_acknowledgement_witness:
  "\<exists>n' m req. state_after (runCrossShard demo_env demo_cross_io demo_node (demo_request_of demo_cross_tx) 0) = Some n' \<and>
     \<not> quiet not_commit_call n' \<and> ack demo_cross_io \<and>
     runPBFT demo_env (prepare_run demo_cross_io) demo_node (demo_request_of demo_cross_tx) 0 ''P'' = Return m (Some req, None)"
proof -
  obtain n' where n': "state_after (runCrossShard demo_env demo_cross_io demo_node (demo_request_of demo_cross_tx) 0) = Some n'"
    "\<not> quiet not_commit_call n'" using demo_cross_run by blast
  have quiet: "quiet not_commit_call demo_node" by (simp add: quiet_def demo_node_tables)
  moreover have "all_quiet not_commit_call (cross_fns demo_cross_io)"
    using quiet by (simp add: cross_fns_def io_fns_def demo_cross_io_def demo_io_def Let_def)
  ultimately show ?thesis
    using commit_call_needs_acknowledgement [OF n'] n' by blast
qed

end
