(* ===== verification/Reachable.thy ===== *)
theory Reachable
  imports Execution Acceptance Invariants
begin

text \<open>
  The states a node can get into: it starts over an empty store, and then its handlers and
  goroutines run in any order and with any messages, keys, timer events and answers. Where
  one of them waits, the others run: the interference a handler takes as an argument is
  itself made of runs of the node. Well-formedness holds in every reachable state, so the
  executor never panics and never gets stuck there.
\<close>

section \<open>Reachable states\<close>

definition started :: "'b env \<Rightarrow> 'b Node \<Rightarrow> bool" where
  "started E n \<longleftrightarrow> (\<exists>sk keys cluster i clusters startId endId.
     Start E (NewNode sk keys (createBuckets E) cluster i clusters startId endId) = Return n ())"

lemma startedI:
  "Start E (NewNode sk keys (createBuckets E) cluster i clusters startId endId) = Return n () \<Longrightarrow> started E n"
  unfolding started_def by (intro exI)

definition reachable :: "'b env \<Rightarrow> 'b Node \<Rightarrow> bool" where
  "reachable E n \<longleftrightarrow> (\<exists>n0. started E n0 \<and> node_runs E True n0 n)"

lemma started_wf:
  assumes "bolt_ok E" "started E n"
  shows "node_wf E n"
proof -
  obtain sk keys cluster i clusters startId endId where
    run: "Start E (NewNode sk keys (createBuckets E) cluster i clusters startId endId) = Return n ()"
    using assms(2) by (auto simp: started_def)
  have "state_after (Start E (NewNode sk keys (createBuckets E) cluster i clusters startId endId)) = Some n"
    by (simp add: run)
  from keepsD [OF keeps_Start [OF wf_NewNode [OF assms(1)]] this] show ?thesis .
qed

lemma runs_wf: "bolt_ok E \<Longrightarrow> json_pointers_ok E \<Longrightarrow> node_runs E x n n' \<Longrightarrow> node_wf E n \<Longrightarrow> node_wf E n'"
  using tables.all_runs_keep [of E x n n'] by blast

lemma reachable_wf: "bolt_ok E \<Longrightarrow> json_pointers_ok E \<Longrightarrow> reachable E n \<Longrightarrow> node_wf E n"
  using runs_wf started_wf unfolding reachable_def by blast

section \<open>The start\<close>

lemma put_initial_runs:
  assumes "bolt_ok E"
  shows "(\<forall>i \<in> set is. in64 i) \<Longrightarrow> \<exists>b'. put_initial E is b = Some b' \<and>
     bkt_get E b' = (\<lambda>c. if c \<in> FormatInt ` set is then Some (FormatInt InitialBalance) else bkt_get E b c)"
proof (induction "is" arbitrary: b)
  case (Cons i "is")
  have "in64 InitialBalance" by (simp add: InitialBalance_def in64_def min64_def max64_def)
  from length_FormatInt [OF this] have len: "length (FormatInt InitialBalance) \<le> 2147483646" by simp
  have "in64 i" using Cons.prems by simp
  then obtain b1 where b1: "bkt_put E b (FormatInt i) (FormatInt InitialBalance) = Some b1"
    using bolt_put_ok [OF assms valid_key_FormatInt len] by blast
  from Cons.IH [of b1] Cons.prems b1 bolt_get_put [OF assms b1] show ?case
    by (auto simp: fun_eq_iff)
qed simp

lemma InitiateBalances_runs:
  assumes "bolt_ok E" "parse_ignoring_error s = lo" "parse_ignoring_error e = hi" "in64 lo" "hi < max64"
  shows "\<exists>b'. InitiateBalances E d s e = Return (d\<lparr>balancesBucket := b'\<rparr>) None \<and>
     bkt_get E b' = (\<lambda>c. if c \<in> FormatInt ` {lo..hi} then Some (FormatInt InitialBalance)
                         else bkt_get E (balancesBucket d) c)"
proof -
  have "\<forall>i \<in> set [lo..hi]. in64 i" using assms(4,5) by (auto simp: in64_def)
  from put_initial_runs [OF assms(1) this, of "balancesBucket d"] show ?thesis
    by (auto simp: InitiateBalances_def assms(2,3) for_range_ends [OF assms(5)])
qed

lemma Start_runs:
  assumes "bolt_ok E" "in64 lo" "in64 hi" "hi < max64"
  shows "\<exists>b. Start E (NewNode sk keys (createBuckets E) cluster i clusters (FormatInt lo) (FormatInt hi)) =
       Return ((establishConns (NewNode sk keys (createBuckets E) cluster i clusters (FormatInt lo) (FormatInt hi)))
         \<lparr>DB := (createBuckets E)\<lparr>balancesBucket := b\<rparr>, Tmr := NewTimer 2500000000000\<rparr>) () \<and>
     bkt_get E b = (\<lambda>c. if c \<in> FormatInt ` {lo..hi} then Some (FormatInt InitialBalance) else None)"
proof -
  let ?n = "establishConns (NewNode sk keys (createBuckets E) cluster i clusters (FormatInt lo) (FormatInt hi))"
  have ends: "parse_ignoring_error (FormatInt lo) = lo" "parse_ignoring_error (FormatInt hi) = hi"
    using assms by simp_all
  have n: "DB ?n = createBuckets E" "StartId ?n = FormatInt lo" "EndId ?n = FormatInt hi"
    by (simp_all add: establishConns_def NewNode_def)
  have empty: "bkt_get E (balancesBucket (createBuckets E)) = (\<lambda>c. None)"
    by (simp add: fun_eq_iff createBuckets_def bolt_get_empty [OF assms(1)])
  obtain b1 where b1: "InitiateBalances E (createBuckets E) (FormatInt lo) (FormatInt hi) =
      Return ((createBuckets E)\<lparr>balancesBucket := b1\<rparr>) None"
    "bkt_get E b1 = (\<lambda>c. if c \<in> FormatInt ` {lo..hi} then Some (FormatInt InitialBalance) else None)"
    using InitiateBalances_runs [OF assms(1) ends assms(2,4), of "createBuckets E"] unfolding empty by blast
  have bb: "balancesBucket ((createBuckets E)\<lparr>balancesBucket := b1\<rparr>) = b1"
    "(createBuckets E)\<lparr>balancesBucket := b1, balancesBucket := b\<rparr> = (createBuckets E)\<lparr>balancesBucket := b\<rparr>" for b
    by simp_all
  obtain b2 where b2: "InitiateBalances E ((createBuckets E)\<lparr>balancesBucket := b1\<rparr>) (FormatInt lo) (FormatInt hi) =
      Return ((createBuckets E)\<lparr>balancesBucket := b2\<rparr>) None"
    "bkt_get E b2 = (\<lambda>c. if c \<in> FormatInt ` {lo..hi} then Some (FormatInt InitialBalance) else None)"
    using InitiateBalances_runs [OF assms(1) ends assms(2,4), of "(createBuckets E)\<lparr>balancesBucket := b1\<rparr>"]
    unfolding bb b1(2) by (metis (no_types, lifting))
  show ?thesis
    by (rule exI [of _ b2]) (simp add: Start_def resetBalances_def n b1(1) b2)
qed

text \<open>
  Start: over an empty store a node's start returns, every account from the first to the
  last client of the shard holds the initial balance, there is no other account, and no
  client is locked.
\<close>

theorem start_opens_accounts:
  assumes "bolt_ok E" "in64 lo" "in64 hi" "hi < max64"
  shows "\<exists>n. Start E (NewNode sk keys (createBuckets E) cluster i clusters (FormatInt lo) (FormatInt hi)) = Return n ()
     \<and> (\<forall>c. GetBalance E (DB n) c =
          (if c \<in> FormatInt ` {lo..hi} then Inr InitialBalance else Inl (NotInShard c)))
     \<and> held E (DB n) = {} \<and> node_wf E n"
proof -
  obtain b where b: "bkt_get E b = (\<lambda>c. if c \<in> FormatInt ` {lo..hi} then Some (FormatInt InitialBalance) else None)"
    and run: "Start E (NewNode sk keys (createBuckets E) cluster i clusters (FormatInt lo) (FormatInt hi)) =
       Return ((establishConns (NewNode sk keys (createBuckets E) cluster i clusters (FormatInt lo) (FormatInt hi)))
         \<lparr>DB := (createBuckets E)\<lparr>balancesBucket := b\<rparr>, Tmr := NewTimer 2500000000000\<rparr>) ()" (is "_ = Return ?n ()")
    using Start_runs [OF assms] by blast
  have "in64 InitialBalance" by (simp add: InitialBalance_def in64_def min64_def max64_def)
  then have "GetBalance E (DB ?n) c =
      (if c \<in> FormatInt ` {lo..hi} then Inr InitialBalance else Inl (NotInShard c))" for c
    by (simp add: GetBalance_def b)
  moreover have "held E (DB ?n) = {}"
    by (simp add: held_def locked_def createBuckets_def bolt_get_empty [OF assms(1)])
  moreover have "node_wf E ?n"
    by (rule started_wf [OF assms(1) startedI [OF run]])
  ultimately show ?thesis using run by blast
qed

theorem start_opens_accounts_witness:
  "\<exists>n. Start demo_env (NewNode (demo_key 1) demo_keys (createBuckets demo_env) ''C1'' ''S1'' demo_clusters
        (FormatInt 1) (FormatInt 1000)) = Return n ()
     \<and> (\<forall>c. GetBalance demo_env (DB n) c =
          (if c \<in> FormatInt ` {1..1000} then Inr InitialBalance else Inl (NotInShard c)))
     \<and> held demo_env (DB n) = {} \<and> node_wf demo_env n"
  by (rule start_opens_accounts [OF demo_bolt_ok]) (simp_all add: in64_def min64_def max64_def)

section \<open>What runs cannot change\<close>

text \<open>
  C23. Only the executor moves money: in any run of the handlers and goroutines without a round
  of the executor, whatever is received and however it interleaves, every balance stays.
\<close>

theorem only_executor_moves_money:
  assumes "node_runs E False n n'"
  shows "GetBalance E (DB n') c = GetBalance E (DB n) c"
proof -
  have "balancesBucket (DB n') = balancesBucket (DB n)"
    using books.runs_keep [OF assms, of "balancesBucket (DB n)"] by blast
  then show ?thesis by (simp add: GetBalance_def)
qed

theorem only_executor_moves_money_witness:
  "\<exists>n'. rpc_PrePrepare demo_env [] demo_replica demo_preprepare = Return n' None \<and>
     GetBalance demo_env (DB (replyToClient demo_env n' 100 True 7)) ''1'' = Inr 10"
proof -
  obtain n' where n': "rpc_PrePrepare demo_env [] demo_replica demo_preprepare = Return n' None"
    using demo_replica_accepts by blast
  have "node_runs demo_env False demo_replica n'"
    by (rule preprepare [where rely = "[]" and req = demo_preprepare]) (simp_all add: n')
  then have "node_runs demo_env False demo_replica (replyToClient demo_env n' 100 True 7)"
    by (rule next_run [OF _ go_reply])
  from only_executor_moves_money [OF this] n' show ?thesis by (simp add: demo_replica_sel demo_has_ten)
qed

text \<open>
  A node's identity is fixed: no run changes its name, its cluster, its peers or its key,
  so that it takes the same node for the leader whenever it is in the same view.
\<close>

theorem runs_keep_identity:
  assumes "node_runs E x n n'"
  shows "node_Id n' = node_Id n \<and> ClusterId n' = ClusterId n \<and> node_PrivateKey n' = node_PrivateKey n \<and>
     peers n' c = peers n c \<and> (View n' = View n \<longrightarrow> getViewLeader n' = getViewLeader n)"
proof -
  have "(ClusterId n', node_Id n', NodeMap n', ClientMap n', node_PrivateKey n', LeaderMap n') =
     (ClusterId n, node_Id n, NodeMap n, ClientMap n, node_PrivateKey n, LeaderMap n)"
    by (rule identity.all_runs_keep [OF assms]) simp
  then show ?thesis by (simp add: peers_def getViewLeader_def)
qed

theorem runs_keep_identity_witness:
  "\<exists>n'. rpc_PrePrepare demo_env [] demo_replica demo_preprepare = Return n' None \<and>
     node_Id n' = node_Id demo_replica \<and> peers n' ''C2'' = [''S5'']"
proof -
  obtain n' where n': "rpc_PrePrepare demo_env [] demo_replica demo_preprepare = Return n' None"
    using demo_replica_accepts by blast
  have "node_runs demo_env True demo_replica n'"
    by (rule preprepare [where rely = "[]" and req = demo_preprepare]) (simp_all add: n')
  from runs_keep_identity [OF this] n' demo_node_peers show ?thesis by (simp add: demo_replica_def peers_def)
qed

text \<open>
  C31. Nothing logged or committed is forgotten: no run, garbage collection and view changes
  included, removes an entry of the log, of the datastore or of the request log, and the
  largest logged sequence number never falls.
\<close>

theorem runs_forget_nothing:
  assumes "node_runs E x n n'"
  shows "dom (TransactionLog n) \<subseteq> dom (TransactionLog n') \<and> dom (Datastore n) \<subseteq> dom (Datastore n') \<and>
     dom (RequestLog n) \<subseteq> dom (RequestLog n') \<and> MaxSeq n \<le> MaxSeq n'"
  by (rule history.all_runs_keep [OF assms]) simp

theorem runs_forget_nothing_witness:
  "\<exists>n'. collectGarbage (demo_committed [[], ''C'']) 2 = Return n' () \<and> {1, 2} \<subseteq> dom (Datastore n')"
proof -
  obtain n' where n': "collectGarbage (demo_committed [[], ''C'']) 2 = Return n' ()"
    by (simp add: collectGarbage_def for_range_def max64_def)
  have "node_runs demo_env True (demo_committed [[], ''C'']) n'"
    by (rule go_garbage [of _ 2]) (simp add: n')
  moreover have "{1, 2} \<subseteq> dom (Datastore (demo_committed [[], ''C'']))"
    by (auto simp: demo_committed_def)
  ultimately have "{1, 2} \<subseteq> dom (Datastore n')" using runs_forget_nothing [of demo_env True] by (meson subset_trans)
  with n' show ?thesis by (intro exI conjI)
qed

lemma executor_rounds_run: "executor_rounds E k n = Return n' () \<Longrightarrow> node_runs E True n n'"
proof (induction k arbitrary: n)
  case 0
  then show ?case by (simp add: idle)
next
  case (Suc k)
  then obtain m where m: "executor_round E n = Return m ()" "executor_rounds E k m = Return n' ()"
    by (auto simp: outcome_simps)
  have "node_runs E True n m" by (rule execute) (simp_all add: m(1))
  with Suc.IH [OF m(2)] show ?case by (blast intro: next_run)
qed

section \<open>Safety of the executor\<close>

text \<open>
  C19. No reachable state stops the executor: whatever messages, keys, timer events and
  answers a started node has met and however its goroutines interleaved, its tables are
  well formed, and any number of rounds of the executor's loop returns, without a nil
  pointer or a wait, in a well-formed state again.
\<close>

theorem reachable_executor_returns:
  assumes "bolt_ok E" "json_pointers_ok E" "reachable E n"
  shows "node_wf E n \<and> (\<exists>n'. executor_rounds E k n = Return n' () \<and> reachable E n' \<and> node_wf E n')"
proof -
  have wf: "node_wf E n" by (rule reachable_wf [OF assms])
  then obtain n' where n': "executor_rounds E k n = Return n' ()" "node_wf E n'"
    using executor_rounds_refine [OF assms(1), of n k] by blast
  with assms(3) executor_rounds_run [OF n'(1)] wf show ?thesis
    by (auto simp: reachable_def intro: next_run)
qed

theorem reachable_executor_returns_witness:
  "\<exists>n. reachable demo_env n \<and> effects n = [GoSendViewChange 2] \<and> node_wf demo_env n \<and>
     (\<exists>n'. executor_rounds demo_env 5 n = Return n' () \<and> reachable demo_env n' \<and> node_wf demo_env n')"
proof -
  have ends: "in64 1" "in64 1000" "(1000::int) < max64" by (simp_all add: in64_def min64_def max64_def)
  obtain n0 where n0: "started demo_env n0" "Tmr n0 = NewTimer 2500000000000" "View n0 = 1" "\<not> ViewChanging n0"
    "effects n0 = []"
  proof -
    obtain b where "Start demo_env (NewNode (demo_key 1) demo_keys (createBuckets demo_env) ''C1'' ''S1'' demo_clusters
         (FormatInt 1) (FormatInt 1000)) =
       Return ((establishConns (NewNode (demo_key 1) demo_keys (createBuckets demo_env) ''C1'' ''S1'' demo_clusters
           (FormatInt 1) (FormatInt 1000)))
         \<lparr>DB := (createBuckets demo_env)\<lparr>balancesBucket := b\<rparr>, Tmr := NewTimer 2500000000000\<rparr>) ()"
      using Start_runs [OF demo_bolt_ok ends] by blast
    from that [OF startedI [OF this]] show thesis by (simp add: establishConns_def NewNode_def)
  qed
  let ?n1 = "n0\<lparr>Tmr := StartIfNotRunning (Tmr n0)\<rparr>"
  let ?n2 = "?n1\<lparr>Tmr := timer_expires (Tmr ?n1)\<rparr>"
  have "node_runs demo_env True n0 (monitor_round ?n2)"
    by (rule next_run [OF next_run [OF start_timer expire] monitor])
  then have "reachable demo_env (monitor_round ?n2)" using n0(1) by (auto simp: reachable_def)
  moreover have "effects (monitor_round ?n2) = [GoSendViewChange 2]"
    by (simp add: monitor_round_def tick_ready_def timer_expires_def StartIfNotRunning_def n0 NewTimer_def emit_def add64_in in64_def min64_def max64_def)
  ultimately show ?thesis
    using reachable_executor_returns [OF demo_bolt_ok demo_json_pointers_ok] by blast
qed

end
