(* ===== verification/Views.thy ===== *)
theory Views
  imports Execution Acceptance
begin

text \<open>
  View changes: who joins one, who announces the new view, what makes a node adopt it, and
  what adopting it does to the executor.
\<close>

lemma keeps_ReturnD: "keeps I m \<Longrightarrow> m = Return s x \<Longrightarrow> I s"
  by (simp add: keeps_def)

section \<open>Checking a new view\<close>

text \<open>Nothing but the timer and the table of checkpoints changes while a new view is checked.\<close>

definition checked_from :: "'b Node \<Rightarrow> 'b Node \<Rightarrow> bool" where
  "checked_from n m \<longleftrightarrow> (\<exists>t cps lock. m = n\<lparr>Tmr := t, CheckpointCerts := cps, CheckpointCertsLock := lock\<rparr>)"

lemma checked_from_steps [simp]:
  "checked_from n n"
  "checked_from n m \<Longrightarrow> checked_from n (m\<lparr>Tmr := t\<rparr>)"
  "checked_from n m \<Longrightarrow> checked_from n (m\<lparr>CheckpointCertsLock := b, CheckpointCerts := cps\<rparr>)"
proof -
  have "n = n\<lparr>Tmr := Tmr n, CheckpointCerts := CheckpointCerts n, CheckpointCertsLock := CheckpointCertsLock n\<rparr>"
    by simp
  then show "checked_from n n" unfolding checked_from_def by blast
  assume "checked_from n m"
  then obtain t' cps' lock' where m: "m = n\<lparr>Tmr := t', CheckpointCerts := cps', CheckpointCertsLock := lock'\<rparr>"
    by (auto simp only: checked_from_def)
  have "m\<lparr>Tmr := t\<rparr> = n\<lparr>Tmr := t, CheckpointCerts := cps', CheckpointCertsLock := lock'\<rparr>" by (simp add: m)
  then show "checked_from n (m\<lparr>Tmr := t\<rparr>)" unfolding checked_from_def by blast
  have "m\<lparr>CheckpointCertsLock := b, CheckpointCerts := cps\<rparr> =
      n\<lparr>Tmr := t', CheckpointCerts := cps, CheckpointCertsLock := b\<rparr>" by (simp add: m)
  then show "checked_from n (m\<lparr>CheckpointCertsLock := b, CheckpointCerts := cps\<rparr>)"
    unfolding checked_from_def by blast
qed

lemma checked_from_sel:
  assumes "checked_from n m"
  shows "View m = View n" "NewViewCerts m = NewViewCerts n" "PublicKeyMap m = PublicKeyMap n"
    "Datastore m = Datastore n" "DB m = DB n" "effects m = effects n" "getViewLeader m = getViewLeader n"
    "ExecutorSeq m = ExecutorSeq n" "TransactionLog m = TransactionLog n"
  using assms by (auto simp: checked_from_def getViewLeader_def)

lemma checked_from_certs: "checked_from n m \<Longrightarrow> keeps (checked_from n) (checkpoint_certs_loop E m digest cs rs)"
  by (rule keeps_checkpoint_certs_loop)

lemma checked_from_checkpoint:
  "checked_from n m \<Longrightarrow> keeps (checked_from n) (validateCheckpointCerts E m seq rs state)"
  unfolding validateCheckpointCerts_def Let_def
  by (intro keeps_rules checked_from_certs) simp_all

lemma checked_from_loop:
  "checked_from n m \<Longrightarrow> keeps (checked_from n) (view_change_certs_loop E m cs valid)"
  by (induction cs arbitrary: m valid) (auto intro!: keeps_rules checked_from_checkpoint)

lemma checked_from_validate:
  "checked_from n m \<Longrightarrow> keeps (checked_from n) (validateViewChangeCerts E m cs)"
  unfolding validateViewChangeCerts_def by (intro keeps_rules checked_from_loop)

text \<open>The certificates that count: those whose signature verifies.\<close>

definition view_change_valid :: "'b env \<Rightarrow> 'b Node \<Rightarrow> SignedViewChangeRequest \<Rightarrow> bool" where
  "view_change_valid E n c \<longleftrightarrow>
     (\<exists>vc pk. svc_ViewChangeRequest c = Some vc \<and> PublicKeyMap n (vc_NodeId vc) = Some pk \<and>
        verified E pk (wire_ViewChangeRequest vc) (svc_Signature c))"

lemma view_change_valid_cong:
  "PublicKeyMap m = PublicKeyMap n \<Longrightarrow> view_change_valid E m = view_change_valid E n"
  by (rule ext) (simp add: view_change_valid_def)

lemma view_change_valid_iff:
  assumes "svc_ViewChangeRequest c = Some vc"
    and "VerifySignature E (getPublicKey m (vc_NodeId vc)) (wire_ViewChangeRequest vc) (svc_Signature c) = Some ok"
  shows "view_change_valid E m c = ok"
  using assms by (cases "PublicKeyMap m (vc_NodeId vc)")
    (auto simp: view_change_valid_def getPublicKey_def VerifySignature_nil_key split: if_splits)

lemma view_change_certs_loop_counts:
  "view_change_certs_loop E m cs valid = Return m' (Inr cnt) \<Longrightarrow>
     cnt = valid + length (filter (view_change_valid E m) cs)"
proof (induction cs arbitrary: m valid)
  case (Cons c cs)
  then obtain vc ok where c: "svc_ViewChangeRequest c = Some vc"
    "VerifySignature E (getPublicKey m (vc_NodeId vc)) (wire_ViewChangeRequest vc) (svc_Signature c) = Some ok"
    by (auto simp: outcome_simps)
  note valid = view_change_valid_iff [OF c]
  show ?case
  proof (cases "ok \<and> 0 < vc_LastStableCheckpoint vc")
    case True
    with Cons.prems c obtain state m1 where m1:
      "validateCheckpointCerts E m (vc_LastStableCheckpoint vc) (vc_CheckpointCerts vc) state = Return m1 None"
      "view_change_certs_loop E m1 cs (valid + 1) = Return m' (Inr cnt)"
      by (auto simp: outcome_simps split: option.splits)
    have "checked_from m m1"
      by (rule keeps_ReturnD [OF checked_from_checkpoint m1(1)]) simp
    with Cons.IH [OF m1(2)] valid True show ?thesis
      by (simp add: view_change_valid_cong [OF checked_from_sel(3)])
  next
    case False
    have rest: "view_change_certs_loop E m cs (if ok then valid + 1 else valid) = Return m' (Inr cnt)"
      using Cons.prems c False by (auto split: if_splits)
    show ?thesis using Cons.IH [OF rest] valid by (simp split: if_splits)
  qed
qed simp

lemma validateViewChangeCerts_passes:
  assumes "validateViewChangeCerts E n cs = Return m None"
  shows "\<exists>cnt. view_change_certs_loop E n cs 0 = Return m (Inr cnt) \<and> 2 * F + 1 \<le> cnt"
proof -
  obtain s res where r: "view_change_certs_loop E n cs 0 = Return s res"
    and fin: "(case res of Inl e \<Rightarrow> Return s (Some e)
      | Inr cnt \<Rightarrow> if 2 * F + 1 \<le> cnt then Return s None else Return s (Some CertsInvalid)) = Return m None"
    using assms unfolding validateViewChangeCerts_def andThen_Return_iff by blast
  from fin r show ?thesis by (cases res) (auto split: if_splits)
qed

text \<open>The way through \<open>NewView\<close> that ends in a new view.\<close>

lemma rpc_NewView_steps:
  assumes "rpc_NewView E n req = Return n' None" "NewViewCerts n' \<noteq> NewViewCerts n"
  shows "\<exists>nv st leader pk cnt m1 m2. snv_NewView req = Some nv \<and> getViewLeader n = Some leader \<and>
     PublicKeyMap n leader = Some pk \<and> verified E pk (wire_NewViewRequest nv) (snv_Signature req) \<and>
     view_change_certs_loop E (n\<lparr>Tmr := Stop (Tmr n)\<rparr>) (nv_ViewChangeCerts nv) 0 = Return m1 (Inr cnt) \<and>
     2 * F + 1 \<le> cnt \<and>
     validateCheckpointCerts E m1 (nv_LatestStableCheckpoint nv) (nv_CheckpointCerts nv) st = Return m2 None \<and>
     checked_from n m2 \<and> adopt_view m2 nv = Return n' None"
proof -
  let ?n = "n\<lparr>Tmr := Stop (Tmr n)\<rparr>"
  have cf: "checked_from n ?n" by simp
  have lead: "getViewLeader ?n = getViewLeader n" by (simp add: getViewLeader_def)
  from assms(1) obtain nv st leader where nv: "snv_NewView req = Some nv" "getViewLeader n = Some leader"
    and rest: "(case getPublicKey ?n leader of
       None \<Rightarrow> Return ?n (Some (NoPublicKey leader))
     | Some pk \<Rightarrow>
         if \<not> verified E pk (wire_NewViewRequest nv) (snv_Signature req)
         then Return ?n (Some BadSignature)
         else andThen (validateViewChangeCerts E ?n (nv_ViewChangeCerts nv)) (\<lambda>n err.
           case err of
             Some e \<Rightarrow> Return n (Some e)
           | None \<Rightarrow>
               andThen (validateCheckpointCerts E n (nv_LatestStableCheckpoint nv)
                          (nv_CheckpointCerts nv) st) (\<lambda>n err.
                 case err of
                   Some e \<Rightarrow> Return n None
                 | None \<Rightarrow> adopt_view n nv))) = Return n' None"
    by (auto simp: rpc_NewView_def Let_def lead outcome_simps)
  then obtain pk m1 m2 err where pk: "PublicKeyMap n leader = Some pk"
      "verified E pk (wire_NewViewRequest nv) (snv_Signature req)"
    and m1: "validateViewChangeCerts E ?n (nv_ViewChangeCerts nv) = Return m1 None"
    and m2: "validateCheckpointCerts E m1 (nv_LatestStableCheckpoint nv) (nv_CheckpointCerts nv) st = Return m2 err"
    and fin: "(case err of Some e \<Rightarrow> Return m2 None | None \<Rightarrow> adopt_view m2 nv) = Return n' None"
    by (auto simp: getPublicKey_def outcome_simps split: option.splits if_splits)
  have "checked_from n m1" by (rule keeps_ReturnD [OF checked_from_validate [OF cf] m1])
  then have m2f: "checked_from n m2" by (rule keeps_ReturnD [OF checked_from_checkpoint m2])
  then have ok: "err = None" using fin assms(2) checked_from_sel(2) by (auto split: option.splits)
  obtain cnt where cnt: "view_change_certs_loop E ?n (nv_ViewChangeCerts nv) 0 = Return m1 (Inr cnt)" "2 * F + 1 \<le> cnt"
    using validateViewChangeCerts_passes [OF m1] by blast
  have "adopt_view m2 nv = Return n' None" using fin ok by simp
  with m2 ok nv pk cnt m2f show ?thesis by blast
qed

lemma rpc_NewView_adopts:
  assumes "rpc_NewView E n req = Return n' None" "NewViewCerts n' \<noteq> NewViewCerts n"
  shows "\<exists>nv leader pk m. snv_NewView req = Some nv \<and> getViewLeader n = Some leader \<and>
     PublicKeyMap n leader = Some pk \<and> verified E pk (wire_NewViewRequest nv) (snv_Signature req) \<and>
     2 * F + 1 \<le> length (filter (view_change_valid E n) (nv_ViewChangeCerts nv)) \<and>
     checked_from n m \<and> adopt_view m nv = Return n' None"
proof -
  let ?n = "n\<lparr>Tmr := Stop (Tmr n)\<rparr>"
  obtain nv leader pk cnt m1 m where *: "snv_NewView req = Some nv" "getViewLeader n = Some leader"
    "PublicKeyMap n leader = Some pk" "verified E pk (wire_NewViewRequest nv) (snv_Signature req)"
    "view_change_certs_loop E ?n (nv_ViewChangeCerts nv) 0 = Return m1 (Inr cnt)" "2 * F + 1 \<le> cnt"
    "checked_from n m" "adopt_view m nv = Return n' None"
    using rpc_NewView_steps [OF assms] by blast
  have "view_change_valid E ?n = view_change_valid E n" by (rule view_change_valid_cong) simp
  with * view_change_certs_loop_counts [OF *(5)] show ?thesis by auto
qed

section \<open>Adopting it\<close>

lemma raise_seq_result: "raise_seq ps n = Return n' x \<Longrightarrow> \<exists>s. n' = n\<lparr>Seq := s\<rparr>"
proof (induction ps arbitrary: n)
  case Nil
  then have "n' = n\<lparr>Seq := Seq n\<rparr>" by simp
  then show ?case by blast
next
  case (Cons p ps)
  then obtain pp :: PrePrepare where "raise_seq ps (n\<lparr>Seq := max (Seq n) (add64 (pp_Sequence pp) 1)\<rparr>) = Return n' x"
    by (auto simp: outcome_simps)
  from Cons.IH [OF this] show ?case by simp
qed

lemma adopt_view_result:
  assumes "adopt_view n nv = Return n' err"
  shows "\<exists>s. n' = n\<lparr>ViewChanging := False, View := nv_View nv, NewViewCerts := NewViewCerts n @ [nv],
     LastStable := nv_LatestStableCheckpoint nv, Seq := s,
     ExecutorSeq := add64 (nv_LatestStableCheckpoint nv) 1\<rparr>"
proof -
  obtain m where m: "raise_seq (nv_Prepared nv) (n\<lparr>ViewChanging := False, View := nv_View nv\<rparr>) = Return m ()"
    using assms by (auto simp: adopt_view_def outcome_simps)
  then obtain s0 where s0: "m = (n\<lparr>ViewChanging := False, View := nv_View nv\<rparr>)\<lparr>Seq := s0\<rparr>"
    using raise_seq_result by blast
  from assms m obtain s where "n' = (m\<lparr>NewViewCerts := NewViewCerts m @ [nv],
      LastStable := nv_LatestStableCheckpoint nv\<rparr>)\<lparr>Seq := s, ExecutorSeq := add64 (nv_LatestStableCheckpoint nv) 1\<rparr>"
    by (auto simp: adopt_view_def Let_def outcome_simps split: if_splits)
  then show ?thesis by (intro exI [of _ s]) (simp add: s0)
qed

lemma adopted_tables:
  assumes "checked_from n m" "adopt_view m nv = Return n' err"
  shows "DB n' = DB n" "Datastore n' = Datastore n" "effects n' = effects n"
    "ExecutorSeq n' = add64 (nv_LatestStableCheckpoint nv) 1" "View n' = nv_View nv" "\<not> ViewChanging n'"
    "LastStable n' = nv_LatestStableCheckpoint nv" "NewViewCerts n' = NewViewCerts n @ [nv]"
    "node_wf E n' = node_wf E n"
  using assms(1) adopt_view_result [OF assms(2)] by (auto simp: checked_from_def wf_simps)

lemma stretch_balances:
  assumes "bolt_ok E" "node_wf E n" "entries_from (Datastore n) (ExecutorSeq n) us"
    and "Datastore n (ExecutorSeq n + int (length us)) = None" "length us \<le> k"
  shows "\<exists>n'. executor_rounds E k n = Return n' () \<and>
     balance_view E (DB n') = fold transfer (concat (map (unit_transfers (wal_view E (DB n))) us)) (balance_view E (DB n))"
proof -
  obtain n' where run: "executor_rounds E k n = Return n' ()"
    and abs: "abs_exec E n' = fold (exec_unit (wal_view E (DB n))) us (abs_exec E n)"
    using executor_stretch [OF assms] by blast
  from fold_exec_unit [of "wal_view E (DB n)" us "abs_exec E n", folded abs] run show ?thesis
    by (simp add: abs_exec_def)
qed

text \<open>The executor changes neither the view nor the keys.\<close>

definition view_of :: "'b Node \<Rightarrow> int64 \<times> string \<times> (string \<rightharpoonup> PublicKey)" where
  "view_of n = (View n, ClusterId n, PublicKeyMap n)"

lemma view_of_undo: "view_of n = v \<Longrightarrow> keeps (\<lambda>m. view_of m = v) (undo_logs E ls n)"
  by (induction ls arbitrary: n) (auto simp: view_of_def intro!: keeps_rules)

lemma view_of_execute: "view_of n = v \<Longrightarrow> keeps (\<lambda>m. view_of m = v) (executeDatastoreLog E n u)"
  unfolding executeDatastoreLog_def undoWAL_def
  by (intro keeps_rules view_of_undo) (simp_all add: view_of_def)

lemma view_of_round: "view_of n = v \<Longrightarrow> keeps (\<lambda>m. view_of m = v) (executor_round E n)"
  unfolding executor_round_def
  by (intro keeps_rules view_of_execute) (simp_all add: view_of_def emits_def)

lemma view_of_rounds: "view_of n = v \<Longrightarrow> keeps (\<lambda>m. view_of m = v) (executor_rounds E k n)"
  by (induction k arbitrary: n) (auto intro!: keeps_rules view_of_round)

section \<open>Asking for a view\<close>

lemma emits_view [simp]:
  "View (emits es n) = View n" "ClusterId (emits es n) = ClusterId n" "node_Id (emits es n) = node_Id n"
  "ViewChanging (emits es n) = ViewChanging n" "NewViewNum (emits es n) = NewViewNum n"
  "ViewChangeCerts (emits es n) = ViewChangeCerts n"
  by (simp_all add: emits_def)

definition stays_put :: "'b Node \<Rightarrow> 'b Node \<Rightarrow> bool" where
  "stays_put n m \<longleftrightarrow> View m = View n \<and> ClusterId m = ClusterId n \<and> node_Id m = node_Id n \<and>
     (\<forall>v cs. GoSendNewView v cs \<in> set (effects m) \<longrightarrow> GoSendNewView v cs \<in> set (effects n))"

lemma stays_put_leader: "stays_put n m \<Longrightarrow> getViewLeader m = getViewLeader n"
  by (simp add: stays_put_def getViewLeader_def)

lemma sendViewChange_stays_put: "keeps (stays_put n) (sendViewChange E n view)"
  unfolding sendViewChange_def Let_def stays_put_def by (intro keeps_rules) auto

lemma sendViewChange_runs:
  assumes "Live n" "View n < v" "\<not> (ViewChanging n \<and> v \<le> NewViewNum n)" "MaxSeq n < max64"
  shows "\<exists>n' own ownReq. sendViewChange E n v = Return n' () \<and> ViewChanging n' \<and> NewViewNum n' = v \<and>
     svc_ViewChangeRequest own = Some ownReq \<and> vc_View ownReq = v \<and> vc_NodeId ownReq = node_Id n \<and>
     effects n' = effects n @ map (\<lambda>i. RpcViewChange i own) (peers n (ClusterId n)) \<and>
     ViewChangeCerts n' = (ViewChangeCerts n)(v := ViewChangeCerts n v @ [own]) \<and> View n' = View n"
proof -
  let ?n = "n\<lparr>Tmr := Stop (Tmr n), ViewChanging := True, NewViewNum := v\<rparr>"
  let ?req = "\<lparr>vc_View = v, vc_LastStableCheckpoint = LastStable ?n,
      vc_CheckpointCerts = cd_Certs (checkpoint_at ?n (LastStable ?n)),
      vc_Prepared = prepared_messages ?n [add64 (LastStable ?n) 1..MaxSeq ?n], vc_NodeId = node_Id ?n,
      vc_State = Some (convertBalancesToProto (cd_Balances (checkpoint_at ?n (LastStable ?n))))\<rparr>"
  let ?own = "\<lparr>svc_ViewChangeRequest = Some ?req,
      svc_Signature = signature_or_nil E (node_PrivateKey ?n) (wire_ViewChangeRequest ?req)\<rparr>"
  let ?m = "emits (map (\<lambda>i. RpcViewChange i ?own) (peers ?n (ClusterId ?n))) ?n"
  let ?n' = "?m\<lparr>ViewChangeCerts := (ViewChangeCerts ?m)(v := ViewChangeCerts ?m v @ [?own])\<rparr>"
  have "sendViewChange E n v = Return ?n' ()"
    using assms by (auto simp: sendViewChange_def Let_def for_range_ends)
  moreover have "ViewChanging ?n'" "NewViewNum ?n' = v" "View ?n' = View n"
    "ViewChangeCerts ?n' = (ViewChangeCerts n)(v := ViewChangeCerts n v @ [?own])"
    by (simp_all add: emits_def)
  moreover have "effects ?n' = effects n @ map (\<lambda>i. RpcViewChange i ?own) (peers n (ClusterId n))"
    by (simp add: peers_def)
  ultimately show ?thesis
    by (intro exI [of _ ?n'] exI [of _ ?own] exI [of _ ?req]) simp
qed

section \<open>A view change of the example cluster\<close>

definition demo_view_change :: "string \<Rightarrow> int \<Rightarrow> SignedViewChangeRequest" where
  "demo_view_change name i =
     (let vc = \<lparr>vc_View = 2, vc_LastStableCheckpoint = 0, vc_CheckpointCerts = [], vc_Prepared = [],
            vc_NodeId = name, vc_State = Some (convertBalancesToProto [])\<rparr>
      in \<lparr>svc_ViewChangeRequest = Some vc,
          svc_Signature = signature_or_nil demo_env (demo_key i) (wire_ViewChangeRequest vc)\<rparr>)"

definition demo_new_view_body :: NewViewRequest where
  "demo_new_view_body = \<lparr>nv_View = 2,
     nv_ViewChangeCerts = [demo_view_change ''S2'' 2, demo_view_change ''S3'' 3, demo_view_change ''S4'' 4],
     nv_Prepared = [], nv_State = Some (convertBalancesToProto []), nv_LatestStableCheckpoint = 0,
     nv_CheckpointCerts = []\<rparr>"

definition demo_new_view :: SignedNewViewRequest where
  "demo_new_view = \<lparr>snv_NewView = Some demo_new_view_body,
     snv_Signature = signature_or_nil demo_env (demo_key 1) (wire_NewViewRequest demo_new_view_body)\<rparr>"

lemma demo_new_view_sel:
  "snv_NewView demo_new_view = Some demo_new_view_body" "nv_View demo_new_view_body = 2"
  "nv_LatestStableCheckpoint demo_new_view_body = 0"
  by (simp_all add: demo_new_view_def demo_new_view_body_def)

lemma demo_new_view_adopted:
  assumes "view_of n = view_of demo_node"
  shows "\<exists>n'. rpc_NewView demo_env n demo_new_view = Return n' None \<and> NewViewCerts n' \<noteq> NewViewCerts n"
proof -
  let ?n = "n\<lparr>Tmr := Stop (Tmr n)\<rparr>"
  have view: "getViewLeader ?n = Some ''S1''" "PublicKeyMap ?n = demo_keys"
    using assms demo_leader by (simp_all add: view_of_def getViewLeader_def demo_replica_def demo_node_tables)
  have keys: "demo_keys ''S1'' = Some (PublicKey 1 65537)" "demo_keys ''S2'' = Some (PublicKey 2 65537)"
    "demo_keys ''S3'' = Some (PublicKey 3 65537)" "demo_keys ''S4'' = Some (PublicKey 4 65537)"
    by (simp_all add: demo_keys_def)
  have certs: "validateViewChangeCerts demo_env ?n (nv_ViewChangeCerts demo_new_view_body) = Return ?n None"
    using view(2) demo_verified
    by (simp add: validateViewChangeCerts_def demo_new_view_body_def demo_view_change_def Let_def keys getPublicKey_def F_def)
  have "\<exists>st. convertProtoBalancesToMap (nv_State demo_new_view_body) = Some st"
    by (simp add: demo_new_view_body_def convertProtoBalancesToMap_def)
  then have "rpc_NewView demo_env n demo_new_view = adopt_view ?n demo_new_view_body"
    using view demo_verified [of 1] certs
    by (auto simp: rpc_NewView_def Let_def demo_new_view_def getPublicKey_def keys
        validateCheckpointCerts_def demo_new_view_body_def)
  then show ?thesis
    by (simp add: adopt_view_def demo_new_view_body_def Let_def)
qed

section \<open>Properties of view changes\<close>

text \<open>
  C22. Soundness of a new view: a node adopts a new view only on a message signed by the leader
  of the view it is in that carries at least \<open>2F + 1\<close> requests with good signatures; it then
  is in the announced view, has stopped changing views, and takes over the announced
  checkpoint number.
\<close>

theorem new_view_adopted_only_if:
  assumes "rpc_NewView E n req = Return n' None" "NewViewCerts n' \<noteq> NewViewCerts n"
  shows "\<exists>nv leader pk. snv_NewView req = Some nv \<and> getViewLeader n = Some leader \<and>
     PublicKeyMap n leader = Some pk \<and> verified E pk (wire_NewViewRequest nv) (snv_Signature req) \<and>
     2 * F + 1 \<le> length (filter (view_change_valid E n) (nv_ViewChangeCerts nv)) \<and>
     NewViewCerts n' = NewViewCerts n @ [nv] \<and> View n' = nv_View nv \<and> \<not> ViewChanging n' \<and>
     LastStable n' = nv_LatestStableCheckpoint nv"
proof -
  obtain nv leader pk m where *: "snv_NewView req = Some nv" "getViewLeader n = Some leader"
     "PublicKeyMap n leader = Some pk" "verified E pk (wire_NewViewRequest nv) (snv_Signature req)"
     "2 * F + 1 \<le> length (filter (view_change_valid E n) (nv_ViewChangeCerts nv))"
     "checked_from n m" "adopt_view m nv = Return n' None"
    using rpc_NewView_adopts [OF assms] by blast
  show ?thesis using * adopted_tables [OF *(6,7)] by auto
qed

theorem new_view_adopted_only_if_witness:
  "\<exists>n'. rpc_NewView demo_env demo_node demo_new_view = Return n' None \<and> View n' = 2 \<and>
     2 * F + 1 \<le> length (filter (view_change_valid demo_env demo_node) (nv_ViewChangeCerts demo_new_view_body))"
proof -
  obtain n' where "rpc_NewView demo_env demo_node demo_new_view = Return n' None" "NewViewCerts n' \<noteq> NewViewCerts demo_node"
    using demo_new_view_adopted [OF refl] by blast
  with new_view_adopted_only_if [OF this] show ?thesis
    by (auto simp only: demo_new_view_sel option.inject)
qed

text \<open>
  C20. A view change replays the executor: when a node has executed the entries after its last
  stable checkpoint and then adopts a new view with that checkpoint, the next rounds of the
  executor apply all these entries a second time: the balances are the fold of their
  transfers twice over.
\<close>

theorem new_view_replays_entries:
  assumes "bolt_ok E" "node_wf E n" "entries_from (Datastore n) (ExecutorSeq n) us"
    and "Datastore n (ExecutorSeq n + int (length us)) = None" "length us \<le> k"
    and "executor_rounds E k n = Return n1 ()"
    and "rpc_NewView E n1 req = Return n2 None" "NewViewCerts n2 \<noteq> NewViewCerts n1"
    and "snv_NewView req = Some nv" "nv_LatestStableCheckpoint nv + 1 = ExecutorSeq n"
  shows "\<exists>n3. executor_rounds E k n2 = Return n3 () \<and>
     (let ts = concat (map (unit_transfers (wal_view E (DB n))) us)
      in balance_view E (DB n3) = fold transfer (ts @ ts) (balance_view E (DB n)))"
proof -
  let ?ts = "concat (map (unit_transfers (wal_view E (DB n))) us)"
  have run1: "node_wf E n1" "Datastore n1 = Datastore n" "wal_view E (DB n1) = wal_view E (DB n)"
    using executor_rounds_refine [OF assms(1,2), of k] assms(6) by auto
  have once: "balance_view E (DB n1) = fold transfer ?ts (balance_view E (DB n))"
    using stretch_balances [OF assms(1-5)] assms(6) by auto
  obtain m where m: "checked_from n1 m" "adopt_view m nv = Return n2 None"
    using rpc_NewView_adopts [OF assms(7,8)] assms(9) by auto
  note adopted = adopted_tables [OF m]
  have "in64 (ExecutorSeq n)" using assms(3) by (simp add: entries_from_def)
  then have pos: "ExecutorSeq n2 = ExecutorSeq n" using adopted(4) assms(10) by (simp add: add64_in)
  have "entries_from (Datastore n2) (ExecutorSeq n2) us" "node_wf E n2"
    "Datastore n2 (ExecutorSeq n2 + int (length us)) = None"
    using assms(3,4) run1 pos adopted by simp_all
  from stretch_balances [OF assms(1) this(2,1,3) assms(5)] obtain n3 where
    "executor_rounds E k n2 = Return n3 ()"
    "balance_view E (DB n3) = fold transfer ?ts (balance_view E (DB n1))"
    using run1(3) adopted(1) by auto
  with once show ?thesis by (auto simp: Let_def)
qed


theorem new_view_replays_entries_witness:
  "\<exists>n1 n2 n3. executor_rounds demo_env 1 (demo_committed [[]]) = Return n1 () \<and>
     rpc_NewView demo_env n1 demo_new_view = Return n2 None \<and>
     executor_rounds demo_env 1 n2 = Return n3 () \<and>
     balance_view demo_env (DB n3) =
       transfer demo_tx (transfer demo_tx (balance_view demo_env (DB (demo_committed [[]]))))"
proof -
  let ?n = "demo_committed [[]]"
  obtain n1 where n1: "executor_rounds demo_env 1 ?n = Return n1 ()"
    using executor_rounds_refine [OF demo_bolt_ok demo_committed_wf] by blast
  have "view_of n1 = view_of demo_node"
    by (rule keeps_ReturnD [OF view_of_rounds n1]) (simp add: view_of_def demo_committed_def)
  then obtain n2 where n2: "rpc_NewView demo_env n1 demo_new_view = Return n2 None" "NewViewCerts n2 \<noteq> NewViewCerts n1"
    using demo_new_view_adopted by blast
  have ts: "unit_transfers (wal_view demo_env (DB ?n)) (demo_unit [] 1) = [demo_tx]"
    by (simp add: unit_transfers_def demo_unit_def)
  have es: "entries_from (Datastore ?n) (ExecutorSeq ?n) [demo_unit [] 1]"
     "Datastore ?n (ExecutorSeq ?n + int (length [demo_unit [] 1])) = None"
    using demo_committed_entries [of "[[]]"] by (auto simp: in64_def min64_def max64_def)
  have nv: "snv_NewView demo_new_view = Some demo_new_view_body" "nv_LatestStableCheckpoint demo_new_view_body + 1 = ExecutorSeq ?n"
    by (simp_all add: demo_new_view_sel demo_committed_def demo_node_tables)
  from new_view_replays_entries [OF demo_bolt_ok demo_committed_wf es _ n1 n2 nv] n1 n2(1) show ?thesis
    by (auto simp: Let_def ts)
qed


text \<open>
  C21. Only the current leader announces: a node that does not lead the view it is in never
  starts to send a new view, however many requests it receives, and its view stays. When
  the leader of that view is down, no node announces a next one.
\<close>

theorem only_current_leader_announces:
  assumes "rpc_ViewChange E n req = Return n' x" "getViewLeader n \<noteq> Some (node_Id n)"
  shows "View n' = View n \<and>
     (\<forall>v cs. GoSendNewView v cs \<in> set (effects n') \<longrightarrow> GoSendNewView v cs \<in> set (effects n))"
proof -
  obtain vc where vc: "svc_ViewChangeRequest req = Some vc"
    using assms(1) by (auto simp: rpc_ViewChange_def outcome_simps)
  let ?certs = "ViewChangeCerts n (vc_View vc) @ [req]"
  let ?n = "n\<lparr>ViewChangeCerts := (ViewChangeCerts n)(vc_View vc := ?certs)\<rparr>"
  have same: "stays_put ?n = stays_put n" by (rule ext) (simp add: stays_put_def)
  have joined: "keeps (stays_put n) (if View ?n < vc_View vc \<and> length ?certs = F + 1
      then sendViewChange E ?n (vc_View vc) else Return ?n ())"
    using sendViewChange_stays_put [of ?n E "vc_View vc", unfolded same]
    by (intro keeps_if keeps_Return) (simp_all add: stays_put_def)
  obtain ok where ok: "VerifySignature E (getPublicKey n (vc_NodeId vc)) (wire_ViewChangeRequest vc) (svc_Signature req) = Some ok"
    using assms(1) vc by (auto simp: rpc_ViewChange_def outcome_simps)
  show ?thesis
  proof (cases ok)
    case False
    with assms(1) vc ok have "n' = n" by (simp add: rpc_ViewChange_def)
    then show ?thesis by simp
  next
    case True
    with assms(1) vc ok have "andThen (if View ?n < vc_View vc \<and> length ?certs = F + 1
        then sendViewChange E ?n (vc_View vc) else Return ?n ())
      (\<lambda>n _. if View n < vc_View vc \<and> 2 * F + 1 \<le> length ?certs then
               deref (getViewLeader n) (\<lambda>leader.
                 Return (if leader = node_Id n then emit (GoSendNewView (vc_View vc) ?certs) n else n) None)
             else Return n None) = Return n' x"
      by (simp only: rpc_ViewChange_def Let_def deref.simps simp_thms if_False)
    then obtain m u where m: "(if View ?n < vc_View vc \<and> length ?certs = F + 1
        then sendViewChange E ?n (vc_View vc) else Return ?n ()) = Return m u"
      and rest: "(if View m < vc_View vc \<and> 2 * F + 1 \<le> length ?certs then
               deref (getViewLeader m) (\<lambda>leader.
                 Return (if leader = node_Id m then emit (GoSendNewView (vc_View vc) ?certs) m else m) None)
             else Return m None) = Return n' x"
      unfolding andThen_Return_iff by blast
    have put: "stays_put n m" by (rule keeps_ReturnD [OF joined m])
    then have "getViewLeader m \<noteq> Some (node_Id m)"
      using assms(2) stays_put_leader [OF put] by (simp add: stays_put_def)
    with rest have "n' = m" by (auto simp: deref_Return_iff split: if_splits)
    with put show ?thesis by (simp add: stays_put_def)
  qed
qed

theorem only_current_leader_announces_witness:
  "\<exists>n'. rpc_ViewChange demo_env
       (demo_replica\<lparr>ViewChangeCerts := (\<lambda>_. [demo_view_change ''S3'' 3, demo_view_change ''S4'' 4])\<rparr>)
       (demo_view_change ''S1'' 1) = Return n' None \<and>
     length (ViewChangeCerts n' 2) = 2 * F + 1 \<and> View n' = 1 \<and> (\<forall>v cs. GoSendNewView v cs \<notin> set (effects n'))"
proof -
  let ?n = "demo_replica\<lparr>ViewChangeCerts := (\<lambda>_. [demo_view_change ''S3'' 3, demo_view_change ''S4'' 4])\<rparr>"
  let ?req = "demo_view_change ''S1'' 1"
  let ?n' = "?n\<lparr>ViewChangeCerts := (ViewChangeCerts ?n)(2 := ViewChangeCerts ?n 2 @ [?req])\<rparr>"
  obtain vc where vc: "svc_ViewChangeRequest ?req = Some vc" "vc_View vc = 2" "vc_NodeId vc = ''S1''"
    "svc_Signature ?req = signature_or_nil demo_env (demo_key 1) (wire_ViewChangeRequest vc)"
    by (simp add: demo_view_change_def Let_def)
  have key: "getPublicKey ?n ''S1'' = Some (PublicKey 1 65537)"
    by (simp add: getPublicKey_def demo_replica_sel demo_keys_def)
  have lead: "getViewLeader m = Some ''S1''" if "view_of m = view_of ?n" for m :: "demo_bucket Node"
    using that demo_leader by (simp add: view_of_def getViewLeader_def)
  have id: "node_Id ?n = ''S2''" "View ?n = 1" "effects ?n = []"
    by (simp_all add: demo_replica_def demo_node_tables)
  have len: "length (ViewChangeCerts ?n 2 @ [?req]) = 3" "length (ViewChangeCerts ?n' 2) = 2 * F + 1"
    by (simp_all add: F_def)
  have run: "rpc_ViewChange demo_env ?n ?req = Return ?n' None"
    unfolding rpc_ViewChange_def Let_def vc deref.simps key demo_verified
    using id lead [of ?n'] len(1) by (simp add: view_of_def F_def)
  have "getViewLeader ?n \<noteq> Some (node_Id ?n)" using lead [OF refl] id by simp
  from only_current_leader_announces [OF run this] run len(2) id show ?thesis
    by (intro exI [of _ ?n']) simp
qed

text \<open>
  Joining a view change: with \<open>F\<close> requests for a later view on record, one more verified
  request makes a live node that is not already asking for that view or a later one ask for
  it too: it stops accepting pre-prepares, tells every peer of its cluster with one and the
  same request, and counts its own request after the received one.
\<close>

theorem view_change_joined:
  assumes "svc_ViewChangeRequest req = Some vc" "PublicKeyMap n (vc_NodeId vc) = Some pk"
    and "verified E pk (wire_ViewChangeRequest vc) (svc_Signature req)"
    and "View n < vc_View vc" "length (ViewChangeCerts n (vc_View vc)) = F"
    and "Live n" "\<not> (ViewChanging n \<and> vc_View vc \<le> NewViewNum n)" "MaxSeq n < max64"
  shows "\<exists>n' own ownReq. rpc_ViewChange E n req = Return n' None \<and> ViewChanging n' \<and> NewViewNum n' = vc_View vc \<and>
     svc_ViewChangeRequest own = Some ownReq \<and> vc_View ownReq = vc_View vc \<and> vc_NodeId ownReq = node_Id n \<and>
     effects n' = effects n @ map (\<lambda>i. RpcViewChange i own) (peers n (ClusterId n)) \<and>
     ViewChangeCerts n' (vc_View vc) = ViewChangeCerts n (vc_View vc) @ [req, own]"
proof -
  let ?n = "n\<lparr>ViewChangeCerts := (ViewChangeCerts n)(vc_View vc := ViewChangeCerts n (vc_View vc) @ [req])\<rparr>"
  have n: "peers ?n (ClusterId ?n) = peers n (ClusterId n)" "effects ?n = effects n" "node_Id ?n = node_Id n"
    by (simp_all add: peers_def)
  obtain n' own ownReq where sent: "sendViewChange E ?n (vc_View vc) = Return n' ()"
    and res: "ViewChanging n'" "NewViewNum n' = vc_View vc"
     "svc_ViewChangeRequest own = Some ownReq" "vc_View ownReq = vc_View vc" "vc_NodeId ownReq = node_Id n"
     "effects n' = effects n @ map (\<lambda>i. RpcViewChange i own) (peers n (ClusterId n))"
     "ViewChangeCerts n' = (ViewChangeCerts ?n)(vc_View vc := ViewChangeCerts ?n (vc_View vc) @ [own])"
    using sendViewChange_runs [of ?n "vc_View vc" E] assms(4,6-8) n by auto
  have "rpc_ViewChange E n req = Return n' None"
    using assms(1-5) sent by (simp add: rpc_ViewChange_def getPublicKey_def Let_def F_def)
  then show ?thesis using res by auto
qed


theorem view_change_joined_witness:
  "\<exists>n' own. rpc_ViewChange demo_env (demo_node\<lparr>ViewChangeCerts := (\<lambda>_. [demo_view_change ''S3'' 3])\<rparr>)
       (demo_view_change ''S2'' 2) = Return n' None \<and> ViewChanging n' \<and>
     effects n' = [RpcViewChange ''S2'' own, RpcViewChange ''S3'' own, RpcViewChange ''S4'' own]"
proof -
  let ?n = "demo_node\<lparr>ViewChangeCerts := (\<lambda>_. [demo_view_change ''S3'' 3])\<rparr>"
  obtain vc where vc: "svc_ViewChangeRequest (demo_view_change ''S2'' 2) = Some vc" "vc_View vc = 2" "vc_NodeId vc = ''S2''"
    "svc_Signature (demo_view_change ''S2'' 2) = signature_or_nil demo_env (demo_key 2) (wire_ViewChangeRequest vc)"
    by (simp add: demo_view_change_def Let_def)
  have key: "PublicKeyMap ?n (vc_NodeId vc) = Some (PublicKey 2 65537)"
    by (simp add: vc demo_node_tables demo_keys_def)
  have peers: "peers ?n (ClusterId ?n) = [''S2'', ''S3'', ''S4'']"
    using demo_node_peers by (simp add: peers_def demo_node_tables)
  have sig: "verified demo_env (PublicKey 2 65537) (wire_ViewChangeRequest vc) (svc_Signature (demo_view_change ''S2'' 2))"
    by (simp only: vc demo_verified)
  from view_change_joined [OF vc(1) key sig] peers show ?thesis
    by (fastforce simp: vc demo_node_tables F_def max64_def)
qed

end
