(* ===== verification/GwState.thy ===== *)
theory GwState
  imports Certs
begin

text \<open>
  The gateway, which is the client of the system: its state (\<open>Gateway\<close> of
  \<open>gateway/gateway.go\<close>), the set-up of its tables, its keys, and how it routes a client to a
  cluster and a cluster to a node (\<open>gateway/helpers.go\<close>, \<open>gateway/utils.go\<close>). A Go map that
  the code ranges over is an association list, in whatever order the iteration takes.
\<close>

section \<open>State\<close>

record ReplyResult =
  rr_Timestamp :: int64
  rr_Result :: bool
  rr_Server :: string
  rr_View :: int64
  rr_ClientSeq :: int64

record resultStruct =
  rs_transaction :: Transaction
  rs_latency :: int64
  rs_success :: bool

text \<open>Calls to nodes, goroutines to be run, and what is handed to \<open>ResultsChan\<close>.\<close>

datatype gw_effect =
    CallSetStatus string bool
  | CallSetByzantine string bool
  | CallExecuteTransaction string SignedClientRequest
  | GoSendTransaction SignedClientRequest
  | GoStoreLatency int64 int64 bool
  | ChanResult ReplyResult

record Gateway =
  gw_NodeMap :: "(string \<times> (string \<times> string) list) list"
  gRPCClients :: "string list"
  ClusterNodeMap :: "(string \<times> string list) list"
  SetTransactionsMap :: "int64 \<Rightarrow> Transaction list"
  LiveServersMap :: "int64 \<Rightarrow> string list"
  ByzantineServersMap :: "int64 \<Rightarrow> string list"
  ClusterLiveServersMap :: "int64 \<Rightarrow> string \<Rightarrow> string list"
  TransactionCountMap :: "int64 \<Rightarrow> int64"
  MaxSetNum :: int64
  MaxExecutedSet :: int64
  currentSet :: int64
  highestSeq :: int64
  LatencyMap :: "int64 \<rightharpoonup> int64"
  SeqTransactionMap :: "int64 \<rightharpoonup> Transaction"
  TimestampSeqMap :: "int64 \<rightharpoonup> int64"
  startTimeMap :: "int64 \<rightharpoonup> int64"
  transactionLatency :: "int64 \<rightharpoonup> resultStruct"
  gw_PublicKeyMap :: "string \<rightharpoonup> PublicKey"
  gw_PrivateKey :: PrivateKey
  ViewMap :: "string \<rightharpoonup> int64"
  ReplyMap :: "int64 \<Rightarrow> ReplyResult list"
  ResCountMap :: "int64 \<rightharpoonup> (bool \<Rightarrow> int64)"
  gw_effects :: "gw_effect list"

definition new_gateway :: "PrivateKey \<Rightarrow> Gateway" where
  "new_gateway sk = \<lparr>
     gw_NodeMap = [], gRPCClients = [], ClusterNodeMap = [], SetTransactionsMap = (\<lambda>_. []),
     LiveServersMap = (\<lambda>_. []), ByzantineServersMap = (\<lambda>_. []), ClusterLiveServersMap = (\<lambda>_ _. []),
     TransactionCountMap = (\<lambda>_. 0), MaxSetNum = 0, MaxExecutedSet = 0, currentSet = 0, highestSeq = 0,
     LatencyMap = Map.empty, SeqTransactionMap = Map.empty, TimestampSeqMap = Map.empty,
     startTimeMap = Map.empty, transactionLatency = Map.empty, gw_PublicKeyMap = Map.empty,
     gw_PrivateKey = sk, ViewMap = Map.empty, ReplyMap = (\<lambda>_. []), ResCountMap = Map.empty,
     gw_effects = []\<rparr>"

definition gw_emit :: "gw_effect \<Rightarrow> Gateway \<Rightarrow> Gateway" where
  "gw_emit e gw = gw\<lparr>gw_effects := gw_effects gw @ [e]\<rparr>"

section \<open>Set-up\<close>

text \<open>\<open>readJson\<close>, once the file has been decoded; a cluster without nodes gets no list.\<close>

definition gateway_readJson :: "(string \<times> ClusterStruct) list \<Rightarrow> Gateway \<Rightarrow> Gateway" where
  "gateway_readJson clusters gw = gw\<lparr>
     gw_NodeMap := map (\<lambda>(c, data). (c, fold (\<lambda>(i, p). AList.update i p) (cs_Nodes data) [])) clusters,
     ClusterNodeMap := filter (\<lambda>(c, ns). ns \<noteq> []) (map (\<lambda>(c, data). (c, map fst (cs_Nodes data))) clusters)\<rparr>"

text \<open>\<open>establishConns\<close>: every cluster is taken to be in view 1, every node gets a client.\<close>

definition gateway_establishConns :: "Gateway \<Rightarrow> Gateway" where
  "gateway_establishConns gw = gw\<lparr>
     ViewMap := fold (\<lambda>(c, ns) m. m(c \<mapsto> 1)) (gw_NodeMap gw) (ViewMap gw),
     gRPCClients := remdups (concat (map (\<lambda>(c, ns). map fst ns) (gw_NodeMap gw)))\<rparr>"

section \<open>Keys and requests\<close>

definition gateway_getPublicKey :: "Gateway \<Rightarrow> string \<Rightarrow> PublicKey option" where
  "gateway_getPublicKey gw i = gw_PublicKeyMap gw i"

definition gateway_readPublicKeyIntoMap :: "(string \<rightharpoonup> PublicKey) \<Rightarrow> Gateway \<Rightarrow> string \<Rightarrow> Gateway" where
  "gateway_readPublicKeyIntoMap read gw path =
     (case read path of
        None \<Rightarrow> gw
      | Some pubKey \<Rightarrow>
          gw\<lparr>gw_PublicKeyMap :=
            (gw_PublicKeyMap gw)(hd (split_on CHR ''_'' (last (split_on CHR ''/'' path))) \<mapsto> pubKey)\<rparr>)"

definition getSignedClientReq :: "'b env \<Rightarrow> Gateway \<Rightarrow> Transaction \<Rightarrow> int64 \<Rightarrow> SignedClientRequest" where
  "getSignedClientReq E gw t timestamp =
     (let clientReq = \<lparr>cr_Transaction = Some t,
            cr_Timestamp = Some \<lparr>ts_Seconds = timestamp, ts_Nanos = 0\<rparr>, cr_Signature = []\<rparr>
      in \<lparr>scr_ClientRequest = Some clientReq,
          scr_Signature = signature_or_nil E (gw_PrivateKey gw) (wire_ClientRequest clientReq)\<rparr>)"

section \<open>Routing\<close>

text \<open>The cluster of an account, by its number divided by 1000 (a name that is no number is 0).\<close>

definition getClusterOfClient :: "string \<Rightarrow> string" where
  "getClusterOfClient client =
     CHR ''C'' # FormatInt (add64 (quot64 (parse_ignoring_error client) 1000) 1)"

text \<open>The leader of the view the gateway believes in; an unknown cluster or an empty name panics.\<close>

definition gateway_getViewLeader :: "Gateway \<Rightarrow> string \<Rightarrow> string option" where
  "gateway_getViewLeader gw cluster =
     Option.bind (ViewMap gw cluster) (\<lambda>clusterView.
       map_option (\<lambda>digits.
         CHR ''S'' # FormatInt (add64 (mul64 (sub64 (parse_ignoring_error digits) 1) 4)
           (add64 (rem64 (sub64 clusterView 1) 4) 1)))
       (slice_from 1 cluster))"

end
