(* ===== verification/GwScript.thy ===== *)
theory GwScript
  imports GwState
begin

text \<open>
  The transaction script of the gateway (\<open>readCsv\<close> of \<open>gateway/helpers.go\<close>): rows of text
  fields, as \<open>encoding/csv\<close> returns them, become sets of transactions with their live and
  Byzantine servers. Indexing a row or a transaction past its end panics.
\<close>

section \<open>The string functions it uses\<close>

text \<open>
  The UTF-8 encodings of the characters \<open>strings.TrimSpace\<close> removes: the white space of
  ASCII, U+0085, U+00A0, U+1680, U+2000 to U+200A, U+2028, U+2029, U+202F, U+205F, U+3000.
\<close>

definition spaces :: "string list" where
  "spaces = [
     [CHR 0x09], [CHR 0x0A], [CHR 0x0B], [CHR 0x0C], [CHR 0x0D], [CHR 0x20], [CHR 0xC2, CHR 0x85],
     [CHR 0xC2, CHR 0xA0], [CHR 0xE1, CHR 0x9A, CHR 0x80], [CHR 0xE2, CHR 0x80, CHR 0x80],
     [CHR 0xE2, CHR 0x80, CHR 0x81], [CHR 0xE2, CHR 0x80, CHR 0x82],
     [CHR 0xE2, CHR 0x80, CHR 0x83], [CHR 0xE2, CHR 0x80, CHR 0x84],
     [CHR 0xE2, CHR 0x80, CHR 0x85], [CHR 0xE2, CHR 0x80, CHR 0x86],
     [CHR 0xE2, CHR 0x80, CHR 0x87], [CHR 0xE2, CHR 0x80, CHR 0x88],
     [CHR 0xE2, CHR 0x80, CHR 0x89], [CHR 0xE2, CHR 0x80, CHR 0x8A],
     [CHR 0xE2, CHR 0x80, CHR 0xA8], [CHR 0xE2, CHR 0x80, CHR 0xA9],
     [CHR 0xE2, CHR 0x80, CHR 0xAF], [CHR 0xE2, CHR 0x81, CHR 0x9F], [CHR 0xE3, CHR 0x80, CHR 0x80]]"

lemma spaces_nonempty: "w \<in> set spaces \<Longrightarrow> w \<noteq> []"
  by (auto simp: spaces_def)

text \<open>Dropping words of a table from the front for as long as one of them is a prefix.\<close>

function drop_words :: "string list \<Rightarrow> string \<Rightarrow> string" where
  "drop_words ws s =
     (case find (\<lambda>w. w \<noteq> [] \<and> take (length w) s = w) ws of
        None \<Rightarrow> s
      | Some w \<Rightarrow> drop_words ws (drop (length w) s))"
  by pat_completeness auto
termination
  by (relation "measure (\<lambda>(ws, s). length s)")
    (auto simp: find_Some_iff, metis diff_less length_greater_0_conv take_eq_Nil)

declare drop_words.simps [simp del]

definition TrimSpace :: "string \<Rightarrow> string" where
  "TrimSpace s = rev (drop_words (map rev spaces) (rev (drop_words spaces s)))"

text \<open>\<open>strings.Trim\<close> for a set of ASCII characters.\<close>

definition Trim :: "char set \<Rightarrow> string \<Rightarrow> string" where
  "Trim cutset s = rev (dropWhile (\<lambda>c. c \<in> cutset) (rev (dropWhile (\<lambda>c. c \<in> cutset) s)))"

section \<open>One row\<close>

text \<open>The local variables of \<open>readCsv\<close>.\<close>

record csv_maps =
  cv_max :: int64
  cv_count :: "int64 \<Rightarrow> int64"
  cv_transactions :: "int64 \<Rightarrow> Transaction list"
  cv_live :: "int64 \<Rightarrow> string list"
  cv_cluster_live :: "int64 \<Rightarrow> string \<Rightarrow> string list"
  cv_byzantine :: "int64 \<Rightarrow> string list"

definition csv_field :: "string list \<Rightarrow> nat \<Rightarrow> string option" where
  "csv_field row i = (if i < length row then Some (row ! i) else None)"

definition server_list :: "string \<Rightarrow> string list" where
  "server_list s = map TrimSpace (split_on CHR '','' (Trim {CHR ''['', CHR '']''} s))"

text \<open>Each live server goes under the first cluster of the iteration that has it.\<close>

definition add_live :: "(string \<times> string list) list \<Rightarrow> string \<Rightarrow> (string \<Rightarrow> string list) \<Rightarrow> string \<Rightarrow> string list" where
  "add_live clusterNodes server m =
     (case find (\<lambda>(c, ns). server \<in> set ns) clusterNodes of
        None \<Rightarrow> m
      | Some (c, ns) \<Rightarrow> m(c := m c @ [server]))"

text \<open>A row whose first field is a number opens a set.\<close>

definition open_set :: "(string \<times> string list) list \<Rightarrow> string list \<Rightarrow> int64 \<Rightarrow> csv_maps \<Rightarrow> csv_maps option" where
  "open_set clusterNodes row setNum c =
     (case (csv_field row 2, csv_field row 4, csv_field row 3) of
        (Some live, Some byz, Some contact) \<Rightarrow>
          Some (c\<lparr>cv_max := max setNum (cv_max c),
                  cv_live := (cv_live c)(setNum := server_list live),
                  cv_cluster_live := (cv_cluster_live c)
                    (setNum := fold (add_live clusterNodes) (server_list live) (\<lambda>_. [])),
                  cv_byzantine := (cv_byzantine c)(setNum := server_list byz)\<rparr>)
      | _ \<Rightarrow> None)"

text \<open>The transaction in the second field; an amount that is no number is 0 (or a bound).\<close>

definition row_transaction :: "string list \<Rightarrow> Transaction option" where
  "row_transaction row =
     Option.bind (csv_field row 1) (\<lambda>f.
       (case split_on CHR '','' (Trim {CHR ''('', CHR '')''} f) of
          from # to # amount # _ \<Rightarrow>
            Some \<lparr>t_From = TrimSpace from, t_To = TrimSpace to,
                  t_Amount = parse_ignoring_error (TrimSpace amount),
                  t_ClusterFrom = [], t_ClusterTo = [], t_ClientSeq = 0\<rparr>
        | _ \<Rightarrow> None))"

definition read_row ::
  "(string \<times> string list) list \<Rightarrow> string list \<Rightarrow> csv_maps \<Rightarrow> csv_maps option" where
  "read_row clusterNodes row c =
     Option.bind (csv_field row 0) (\<lambda>f.
     Option.bind
       (case ParseInt (TrimSpace f) of
          (setNum, None) \<Rightarrow> open_set clusterNodes row setNum c
        | (_, Some e) \<Rightarrow> Some c)
     (\<lambda>c. map_option (\<lambda>t.
        c\<lparr>cv_count := (cv_count c)(cv_max c := add64 (cv_count c (cv_max c)) 1),
          cv_transactions := (cv_transactions c)(cv_max c := cv_transactions c (cv_max c) @ [t])\<rparr>)
       (row_transaction row)))"

section \<open>The whole script\<close>

fun read_rows :: "(string \<times> string list) list \<Rightarrow> string list list \<Rightarrow> csv_maps \<Rightarrow> csv_maps option" where
  "read_rows clusterNodes [] c = Some c"
| "read_rows clusterNodes (row # rows) c =
     Option.bind (read_row clusterNodes row c) (read_rows clusterNodes rows)"

definition no_csv :: csv_maps where
  "no_csv = \<lparr>cv_max = 0, cv_count = (\<lambda>_. 0), cv_transactions = (\<lambda>_. []), cv_live = (\<lambda>_. []),
     cv_cluster_live = (\<lambda>_ _. []), cv_byzantine = (\<lambda>_. [])\<rparr>"

text \<open>A panic leaves no gateway.\<close>

definition readCsv :: "string list list \<Rightarrow> Gateway \<Rightarrow> (Gateway, unit) outcome" where
  "readCsv records gw =
     (case read_rows (ClusterNodeMap gw) records no_csv of
        None \<Rightarrow> Panic
      | Some c \<Rightarrow> Return (gw\<lparr>TransactionCountMap := cv_count c, SetTransactionsMap := cv_transactions c,
          LiveServersMap := cv_live c, MaxSetNum := cv_max c, ClusterLiveServersMap := cv_cluster_live c,
          ByzantineServersMap := cv_byzantine c\<rparr>) ())"

end
