(* ===== verification/GwClient.thy ===== *)
theory GwClient
  imports GwScript
begin

text \<open>
  What the gateway does (\<open>gateway/operations.go\<close>, \<open>gateway/rpc.go\<close>, the reports of
  \<open>gateway/helpers.go\<close> and the menu of \<open>gateway/gateway.go\<close>): setting servers up for a set,
  sending its transactions, collecting the replies, and measuring latencies. A call on a
  node without a client is a call on a nil interface and panics. The clock, the order in
  which goroutines get to run and the moments a timer fires are arguments.
\<close>

section \<open>Setting the servers up\<close>

fun call_nodes :: "(string \<Rightarrow> gw_effect) \<Rightarrow> string list \<Rightarrow> Gateway \<Rightarrow> (Gateway, unit) outcome" where
  "call_nodes call [] gw = Return gw ()"
| "call_nodes call (node # nodes) gw =
     (if node \<in> set (gRPCClients gw) then call_nodes call nodes (gw_emit (call node) gw) else Panic)"

definition all_nodes :: "Gateway \<Rightarrow> string list" where
  "all_nodes gw = concat (map (\<lambda>(c, ns). map fst ns) (gw_NodeMap gw))"

definition setLiveServers :: "Gateway \<Rightarrow> string list \<Rightarrow> (Gateway, bool) outcome" where
  "setLiveServers gw liveNodes =
     (let deadNodes = filter (\<lambda>i. i \<notin> set liveNodes) (all_nodes gw);
          aliveNodes = filter (\<lambda>i. i \<in> set liveNodes) (all_nodes gw)
      in andThen (call_nodes (\<lambda>i. CallSetStatus i False) deadNodes gw) (\<lambda>gw _.
         andThen (call_nodes (\<lambda>i. CallSetStatus i True) aliveNodes gw) (\<lambda>gw _. Return gw True)))"

text \<open>Empty names, as an empty list of servers leaves one, are skipped.\<close>

definition setByzantineServers :: "Gateway \<Rightarrow> string list \<Rightarrow> (Gateway, bool) outcome" where
  "setByzantineServers gw byzantineNodes =
     (let goodNodes = filter (\<lambda>i. i \<notin> set byzantineNodes) (all_nodes gw)
      in andThen (call_nodes (\<lambda>i. CallSetByzantine i False) goodNodes gw) (\<lambda>gw _.
         andThen (call_nodes (\<lambda>i. CallSetByzantine i True) (filter (\<lambda>i. i \<noteq> []) byzantineNodes) gw)
           (\<lambda>gw _. Return gw True)))"

section \<open>Sending transactions\<close>

text \<open>
  \<open>executeTransactions\<close>: \<open>clock\<close> is the reading of the clock for a client sequence number. The
  transactions are pointers: the numbers and clusters written here are seen through the
  gateway's tables as well, so the changed transactions are returned.
\<close>

fun executeTransactions ::
  "'b env \<Rightarrow> (int64 \<Rightarrow> int64) \<Rightarrow> Transaction list \<Rightarrow> Gateway \<Rightarrow> Gateway \<times> Transaction list" where
  "executeTransactions E clock [] gw = (gw, [])"
| "executeTransactions E clock (t # ts) gw =
     (let seq = add64 (highestSeq gw) 1;
          t' = t\<lparr>t_ClientSeq := seq, t_ClusterFrom := getClusterOfClient (t_From t),
                 t_ClusterTo := getClusterOfClient (t_To t)\<rparr>;
          timestamp = clock seq;
          gw' = gw_emit (GoSendTransaction (getSignedClientReq E gw t' timestamp))
            (gw\<lparr>highestSeq := seq, SeqTransactionMap := (SeqTransactionMap gw)(seq \<mapsto> t'),
               TimestampSeqMap := (TimestampSeqMap gw)(timestamp \<mapsto> seq)\<rparr>);
          rest = executeTransactions E clock ts gw'
      in (fst rest, t' # snd rest))"

text \<open>
  One attempt of \<open>sendTransaction\<close>: the replies and counts kept so far are thrown away, the
  request goes to the leader the gateway believes in.
\<close>

definition begin_attempt :: "Gateway \<Rightarrow> SignedClientRequest \<Rightarrow> int64 \<Rightarrow> (Gateway, unit) outcome" where
  "begin_attempt gw req now =
     with_tx req (\<lambda>t.
     deref (gateway_getViewLeader gw (t_ClusterFrom t)) (\<lambda>targetServer.
     with_seconds req (\<lambda>timestamp.
       let gw = gw\<lparr>ReplyMap := (ReplyMap gw)(t_ClientSeq t := []),
                   ResCountMap := (ResCountMap gw)(timestamp \<mapsto> (\<lambda>_. 0)),
                   startTimeMap := (startTimeMap gw)(t_ClientSeq t \<mapsto> now)\<rparr>
       in if targetServer \<in> set (gRPCClients gw)
          then Return (gw_emit (CallExecuteTransaction targetServer req) gw) () else Panic)))"

text \<open>\<open>ResCountMap[ts][result]\<close>: 0 where there is no map.\<close>

definition res_count :: "Gateway \<Rightarrow> int64 \<Rightarrow> bool \<Rightarrow> int64" where
  "res_count gw timestamp result = (case ResCountMap gw timestamp of None \<Rightarrow> 0 | Some m \<Rightarrow> m result)"

text \<open>
  The inner loop: the timer ends it, and asks for a retry; otherwise the counts are read,
  after whatever the other goroutines have done since. The value is \<open>retry\<close>.
\<close>

datatype wait_event = TimeUp | Look "Gateway \<Rightarrow> Gateway" int64

fun await_replies :: "wait_event list \<Rightarrow> int64 \<Rightarrow> int64 \<Rightarrow> Gateway \<Rightarrow> (Gateway, bool) outcome" where
  "await_replies [] clientSeq timestamp gw = Blocked gw"
| "await_replies (TimeUp # es) clientSeq timestamp gw = Return gw True"
| "await_replies (Look others now # es) clientSeq timestamp gw =
     (let gw = others gw in
      if int F + 1 \<le> res_count gw timestamp True
      then Return (gw_emit (GoStoreLatency clientSeq now True) gw) False
      else if int F + 1 \<le> res_count gw timestamp False
      then Return (gw_emit (GoStoreLatency clientSeq now False) gw) False
      else await_replies es clientSeq timestamp gw)"

record attempt =
  at_start :: int64
  at_call :: "Gateway \<Rightarrow> Gateway"
  at_events :: "wait_event list"

text \<open>
  The outer loop. An attempt starts at a time, the call to the node returns after the others
  have acted, and then the replies are awaited; without another attempt it still goes on.
\<close>

fun sendTransaction :: "attempt list \<Rightarrow> SignedClientRequest \<Rightarrow> Gateway \<Rightarrow> (Gateway, unit) outcome" where
  "sendTransaction [] req gw = Blocked gw"
| "sendTransaction (a # as) req gw =
     andThen (begin_attempt gw req (at_start a)) (\<lambda>gw _.
     with_tx req (\<lambda>t. with_seconds req (\<lambda>timestamp.
       andThen (await_replies (at_events a) (t_ClientSeq t) timestamp (at_call a gw)) (\<lambda>gw retry.
         if retry then sendTransaction as req gw else Return gw ()))))"

section \<open>Replies\<close>

text \<open>
  \<open>Reply\<close>: a reply whose signature verifies is handed to the reader. The message printed
  when it does not verify reads the timestamp.
\<close>

definition gateway_Reply :: "'b env \<Rightarrow> Gateway \<Rightarrow> SignedReply \<Rightarrow> (Gateway, error option) outcome" where
  "gateway_Reply E gw reply =
     deref (sr_Reply reply) (\<lambda>r.
     case gateway_getPublicKey gw (r_Server r) of
       None \<Rightarrow> Return gw (Some (NoPublicKey (r_Server r)))
     | Some pubKey \<Rightarrow>
         deref (r_Timestamp r) (\<lambda>ts.
           if \<not> verified E pubKey (wire_Reply r) (sr_Signature reply)
           then Return gw (Some BadSignature)
           else Return (gw_emit (ChanResult \<lparr>rr_Timestamp = ts_Seconds ts, rr_Result = r_Result r,
                  rr_Server = r_Server r, rr_View = r_View r, rr_ClientSeq = r_Clientseq r\<rparr>) gw) None))"

text \<open>
  \<open>readReplies\<close> takes one result: it is filed under its timestamp and counted. Counting under
  a timestamp nobody has registered assigns to a nil map and panics.
\<close>

definition read_reply :: "Gateway \<Rightarrow> ReplyResult \<Rightarrow> (Gateway, unit) outcome" where
  "read_reply gw reply =
     (let ts = rr_Timestamp reply;
          gw = gw\<lparr>ReplyMap := (ReplyMap gw)(ts := ReplyMap gw ts @ [reply])\<rparr>
      in deref (ResCountMap gw ts) (\<lambda>m. Return
           (gw\<lparr>ResCountMap := (ResCountMap gw)(ts \<mapsto> m(rr_Result reply := add64 (m (rr_Result reply)) 1))\<rparr>) ()))"

fun readReplies :: "ReplyResult list \<Rightarrow> Gateway \<Rightarrow> (Gateway, unit) outcome" where
  "readReplies [] gw = Return gw ()"
| "readReplies (r # rs) gw = andThen (read_reply gw r) (\<lambda>gw _. readReplies rs gw)"

section \<open>Latencies\<close>

text \<open>\<open>time.Sub\<close> saturates. Only the first result of a transaction is kept.\<close>

definition time_sub :: "int64 \<Rightarrow> int64 \<Rightarrow> int64" where
  "time_sub t u = max min64 (min max64 (t - u))"

definition storeLatency :: "Gateway \<Rightarrow> int64 \<Rightarrow> int64 \<Rightarrow> bool \<Rightarrow> Gateway" where
  "storeLatency gw clientSeq endTime result =
     (case (SeqTransactionMap gw clientSeq, startTimeMap gw clientSeq) of
        (Some transaction, Some startTime) \<Rightarrow>
          (if transactionLatency gw clientSeq = None
           then gw\<lparr>transactionLatency := (transactionLatency gw)(clientSeq \<mapsto>
                 \<lparr>rs_transaction = transaction, rs_latency = time_sub endTime startTime, rs_success = result\<rparr>)\<rparr>
           else gw)
      | _ \<Rightarrow> gw)"

definition latency_at :: "Gateway \<Rightarrow> int64 \<Rightarrow> int64" where
  "latency_at gw seq = (case transactionLatency gw seq of None \<Rightarrow> 0 | Some d \<Rightarrow> rs_latency d)"

text \<open>What \<open>printAllLatencies\<close> prints for a sequence number: nothing yet, or the result.\<close>

definition printAllLatencies :: "Gateway \<Rightarrow> (int64 \<times> resultStruct option) list option" where
  "printAllLatencies gw =
     map_option (map (\<lambda>i. (i, transactionLatency gw i))) (for_range 1 (highestSeq gw))"

text \<open>The durations of \<open>count\<close> transactions after \<open>lastSeq\<close>, added to \<open>dur\<close>.\<close>

definition add_durations :: "Gateway \<Rightarrow> int64 \<Rightarrow> int64 \<Rightarrow> int64 \<Rightarrow> int64 option" where
  "add_durations gw lastSeq cnt dur =
     map_option (\<lambda>js. fold (\<lambda>j d. add64 d (latency_at gw j)) js dur)
       (for_range (add64 lastSeq 1) (add64 lastSeq cnt))"

text \<open>
  The average that is printed, with the sum it is taken of, unless that is 0; dividing by 0
  panics, which is no result here (\<open>None\<close>), as is a loop that never ends.
\<close>

definition average :: "int64 \<Rightarrow> int64 \<Rightarrow> (int64 \<times> int64) option option" where
  "average dur cnt =
     (if dur = 0 then Some None else if cnt = 0 then None else Some (Some (quot64 dur cnt, dur)))"

fun set_wise :: "Gateway \<Rightarrow> int64 \<Rightarrow> int64 list \<Rightarrow> (int64 \<times> int64 \<times> (int64 \<times> int64) option) list option" where
  "set_wise gw lastSeq [] = Some []"
| "set_wise gw lastSeq (i # is) =
     (let cnt = TransactionCountMap gw i in
      Option.bind (add_durations gw lastSeq cnt 0) (\<lambda>dur.
      Option.bind (average dur cnt) (\<lambda>avg.
      map_option (\<lambda>rest. (i, cnt, avg) # rest) (set_wise gw (add64 lastSeq cnt) is))))"

definition printSetWiseLatency :: "Gateway \<Rightarrow> (int64 \<times> int64 \<times> (int64 \<times> int64) option) list option" where
  "printSetWiseLatency gw = Option.bind (for_range 1 (MaxExecutedSet gw)) (set_wise gw 0)"

fun overall :: "Gateway \<Rightarrow> int64 \<Rightarrow> int64 \<Rightarrow> int64 \<Rightarrow> int64 list \<Rightarrow> (int64 \<times> int64) option" where
  "overall gw lastSeq totalCount dur [] = Some (totalCount, dur)"
| "overall gw lastSeq totalCount dur (i # is) =
     (let cnt = TransactionCountMap gw i in
      Option.bind (add_durations gw lastSeq cnt dur) (\<lambda>dur.
        overall gw (add64 lastSeq cnt) (add64 totalCount cnt) dur is))"

definition printOverallLatency :: "Gateway \<Rightarrow> (int64 \<times> (int64 \<times> int64) option) option" where
  "printOverallLatency gw =
     Option.bind (for_range 1 (MaxExecutedSet gw)) (\<lambda>is.
     Option.bind (overall gw 0 0 0 is) (\<lambda>(totalCount, dur).
       map_option (\<lambda>avg. (totalCount, avg)) (average dur totalCount)))"

section \<open>The menu\<close>

text \<open>Option 1: the next set, if there is one; the value is the number of the set after it.\<close>

definition menu_execute :: "'b env \<Rightarrow> (int64 \<Rightarrow> int64) \<Rightarrow> int64 \<Rightarrow> Gateway \<Rightarrow> (Gateway, int64) outcome" where
  "menu_execute E clock setNum gw =
     (if setNum \<le> MaxSetNum gw then
        (let gw = gw\<lparr>currentSet := setNum, LatencyMap := (LatencyMap gw)(setNum \<mapsto> 0)\<rparr> in
         andThen (setLiveServers gw (LiveServersMap gw setNum)) (\<lambda>gw _.
         andThen (setByzantineServers gw (ByzantineServersMap gw setNum)) (\<lambda>gw _.
           let (gw, ts) = executeTransactions E clock (SetTransactionsMap gw setNum) gw
           in Return (gw\<lparr>SetTransactionsMap := (SetTransactionsMap gw)(setNum := ts),
                        MaxExecutedSet := setNum\<rparr>) (add64 setNum 1))))
      else Return gw setNum)"

text \<open>Option 2: the nodes that are asked for a balance.\<close>

definition menu_balance_nodes :: "Gateway \<Rightarrow> string \<Rightarrow> string list" where
  "menu_balance_nodes gw client =
     (case map_of (ClusterNodeMap gw) (getClusterOfClient client) of None \<Rightarrow> [] | Some ns \<Rightarrow> ns)"

text \<open>
  Option 3: all nodes in the order of their numbers. An empty name cannot be sliced, and a
  name that is not ''S'' and a plain number is looked up under another name and not found.
\<close>

definition menu_datastore_nodes :: "Gateway \<Rightarrow> string list option" where
  "menu_datastore_nodes gw =
     (if [] \<in> set (gRPCClients gw) then None
      else let names = map (\<lambda>n. CHR ''S'' # FormatInt n)
             (sort (map (\<lambda>i. parse_ignoring_error (tl i)) (gRPCClients gw)))
        in if list_all (\<lambda>i. i \<in> set (gRPCClients gw)) names then Some names else None)"

end
