(* ===== verification/Client.thy ===== *)
theory Client
  imports GwClient Acceptance
begin

text \<open>
  Properties of the gateway and of its dealings with the nodes: routing, numbering and
  signing of transactions, the replies it needs before it takes a result, what a single
  server can do to it, and its script and reports.
\<close>

section \<open>Routing\<close>

lemma quot64_pos: "0 \<le> a \<Longrightarrow> 0 < b \<Longrightarrow> in64 a \<Longrightarrow> quot64 a b = a div b"
proof -
  assume a: "0 \<le> a" "0 < b" "in64 a"
  have "a div b \<le> a" using zdiv_mono2 [of a 1 b] a by simp
  moreover have "0 \<le> a div b" using a by (simp add: pos_imp_zdiv_nonneg_iff)
  ultimately have "in64 (a div b)" using a by (simp add: in64_def min64_def)
  then show ?thesis using a by (cases "a = 0") (simp_all add: quot64_def sgn_if)
qed

text \<open>
  C39. Routing by thousands: the gateway sends an account to the cluster of its thousand, which
  is the cluster whose range (\<open>1\<close> to \<open>1000\<close>, \<open>1001\<close> to \<open>2000\<close> and so on) holds it, except for the
  last account of a range, which it sends to the next cluster.
\<close>

theorem routing_by_thousands:
  assumes "1 \<le> i" "in64 i"
  shows "getClusterOfClient (FormatInt i) =
     CHR ''C'' # FormatInt ((i - 1) div 1000 + 1 + (if 1000 dvd i then 1 else 0))"
proof -
  have step: "i div 1000 = (i - 1) div 1000 + (if 1000 dvd i then 1 else 0)"
  proof (cases "1000 dvd i")
    case True
    then obtain k where "i = 1000 * k" by (auto simp: dvd_def)
    then show ?thesis by simp
  next
    case False
    define q r where "q = i div 1000" "r = i mod 1000"
    have "i = r + q * 1000" "0 \<le> r" "r < 1000" "r \<noteq> 0"
      using False by (simp_all add: q_r_def dvd_eq_mod_eq_0)
    then have "i - 1 = (r - 1) + q * 1000" "0 \<le> r - 1" "r - 1 < 1000" by simp_all
    then have "(i - 1) div 1000 = q" by simp
    with False show ?thesis by (simp add: q_r_def)
  qed
  have "0 \<le> i div 1000" "i div 1000 \<le> 9223372036854775807 div 1000"
    using assms zdiv_mono1 [of i 9223372036854775807 1000] by (simp_all add: in64_def max64_def)
  then have "in64 (i div 1000 + 1)" by (simp add: in64_def min64_def max64_def)
  then have "getClusterOfClient (FormatInt i) = CHR ''C'' # FormatInt (i div 1000 + 1)"
    using assms by (simp add: getClusterOfClient_def quot64_pos add64_in)
  with step show ?thesis by (simp add: algebra_simps)
qed

theorem routing_by_thousands_witness:
  "getClusterOfClient (FormatInt 999) = ''C1'' \<and> getClusterOfClient (FormatInt 1000) = ''C2''"
proof -
  have f: "FormatInt 1 = ''1''" "FormatInt 2 = ''2''" by code_simp+
  show ?thesis
    using routing_by_thousands [of 999] routing_by_thousands [of 1000]
    by (simp add: in64_def min64_def max64_def f)
qed

text \<open>
  C28. The gateway and the nodes agree on leaders: in an attempt that starts, the request goes to
  exactly the node that every node of the sender's cluster in the same view takes for its
  leader, the counts for the request's timestamp start at zero, and no earlier reply to the
  transaction is left.
\<close>

theorem attempt_goes_to_leader:
  assumes "begin_attempt gw req now = Return gw' ()" "tx_of req = Some t" "seconds_of req = Some ts"
    and "ViewMap gw (t_ClusterFrom t) = Some (View n)" "ClusterId n = t_ClusterFrom t"
  shows "\<exists>leader. getViewLeader n = Some leader \<and> leader \<in> set (gRPCClients gw) \<and>
     gw_effects gw' = gw_effects gw @ [CallExecuteTransaction leader req] \<and>
     (\<forall>b. res_count gw' ts b = 0) \<and> ReplyMap gw' (t_ClientSeq t) = []"
proof -
  have "gateway_getViewLeader gw (t_ClusterFrom t) = getViewLeader n"
    using assms(4,5) by (simp add: gateway_getViewLeader_def getViewLeader_def leader_name_def)
  with assms(1-3) show ?thesis
    by (auto simp: begin_attempt_def with_tx_eq with_seconds_eq Let_def gw_emit_def res_count_def
        outcome_simps split: if_splits)
qed

section \<open>Replies\<close>

text \<open>
  What the other goroutines do to the counts of a timestamp while a request waits: they count
  the results \<open>rs\<close> handed in meanwhile, each as often as it was handed in, and nothing else.
  An attempt reads a list of results while the call to the node runs, and one more list
  before each time the loop looks at the counts.
\<close>

definition tally :: "int64 \<Rightarrow> bool \<Rightarrow> ReplyResult list \<Rightarrow> nat" where
  "tally ts b rs = length (filter (\<lambda>r. rr_Timestamp r = ts \<and> rr_Result r = b) rs)"

definition counts_exactly :: "int64 \<Rightarrow> (Gateway \<Rightarrow> Gateway) \<Rightarrow> ReplyResult list \<Rightarrow> bool" where
  "counts_exactly ts f rs \<longleftrightarrow>
     (\<forall>gw m. ResCountMap gw ts = Some m \<and> (\<forall>b. in64 (m b)) \<longrightarrow>
        ResCountMap (f gw) ts = Some (\<lambda>b. wrap64 (m b + int (tally ts b rs))))"

definition counted :: "int64 \<Rightarrow> Gateway \<Rightarrow> ReplyResult list \<Rightarrow> bool" where
  "counted ts gw rs \<longleftrightarrow> ResCountMap gw ts = Some (\<lambda>b. int (tally ts b rs))"

definition event_reads :: "int64 \<Rightarrow> wait_event \<Rightarrow> ReplyResult list \<Rightarrow> bool" where
  "event_reads ts e rs = (case e of TimeUp \<Rightarrow> True | Look f now \<Rightarrow> counts_exactly ts f rs)"

definition attempt_reads :: "int64 \<Rightarrow> attempt \<Rightarrow> ReplyResult list \<times> ReplyResult list list \<Rightarrow> bool" where
  "attempt_reads ts a h \<longleftrightarrow>
     counts_exactly ts (at_call a) (fst h) \<and> list_all2 (event_reads ts) (at_events a) (snd h)"

text \<open>What an attempt has been handed by the time it looks for the \<open>k\<close>-th time, from 0.\<close>

definition handed_in :: "ReplyResult list \<times> ReplyResult list list \<Rightarrow> nat \<Rightarrow> ReplyResult list" where
  "handed_in h k = fst h @ concat (take (Suc k) (snd h))"

text \<open>The look at which a result is taken: the first at which one has been handed in \<open>F + 1\<close> times.\<close>

definition taken_at :: "int64 \<Rightarrow> ReplyResult list \<times> ReplyResult list list \<Rightarrow> nat \<Rightarrow> bool \<Rightarrow> bool" where
  "taken_at ts h k b \<longleftrightarrow>
     F + 1 \<le> tally ts b (handed_in h k) \<and> (\<forall>j<k. \<forall>c. tally ts c (handed_in h j) \<le> F)"

lemma tally_append: "tally ts b (rs @ rs') = tally ts b rs + tally ts b rs'"
  by (simp add: tally_def)

lemma handed_in_simps:
  "handed_in (rs, r # rss) 0 = rs @ r" "handed_in (rs, r # rss) (Suc k) = handed_in (rs @ r, rss) k"
  by (simp_all add: handed_in_def)

lemma taken_at_0: "F + 1 \<le> tally ts b (rs @ r) \<Longrightarrow> taken_at ts (rs, r # rss) 0 b"
  by (simp add: taken_at_def handed_in_simps)

lemma taken_at_Suc:
  "taken_at ts (rs @ r, rss) k b \<Longrightarrow> \<forall>c. tally ts c (rs @ r) \<le> F \<Longrightarrow> taken_at ts (rs, r # rss) (Suc k) b"
  by (auto simp: taken_at_def handed_in_simps less_Suc_eq_0_disj)

lemma counted_res_count: "counted ts gw rs \<Longrightarrow> res_count gw ts b = int (tally ts b rs)"
  by (simp add: counted_def res_count_def)

lemma counted_step:
  assumes "counts_exactly ts f ss" "counted ts gw rs" "int (length (rs @ ss)) \<le> max64"
  shows "counted ts (f gw) (rs @ ss)"
proof -
  have small: "int (tally ts c (rs @ ss)) \<le> max64" for c
    using assms(3) length_filter_le [of "\<lambda>r. rr_Timestamp r = ts \<and> rr_Result r = c" "rs @ ss"]
    unfolding tally_def by linarith
  then have "in64 (int (tally ts c rs))" for c
    using small [of c] unfolding tally_append in64_def min64_def by linarith
  then have "ResCountMap (f gw) ts = Some (\<lambda>b. wrap64 (int (tally ts b rs) + int (tally ts b ss)))"
    using assms(1,2) by (simp add: counts_exactly_def counted_def)
  moreover have "wrap64 (int (tally ts c rs) + int (tally ts c ss)) = int (tally ts c (rs @ ss))" for c
    using small [of c] by (simp add: tally_append wrap64_id in64_def min64_def)
  ultimately show ?thesis by (simp add: counted_def)
qed

lemma await_replies_decides:
  "await_replies es cs ts gw = Return gw' retry \<Longrightarrow> \<not> retry \<Longrightarrow> list_all2 (event_reads ts) es rss \<Longrightarrow>
     counted ts gw rs \<Longrightarrow> int (length (rs @ concat rss)) \<le> max64 \<Longrightarrow>
     \<exists>k f now b. k < length es \<and> es ! k = Look f now \<and> taken_at ts (rs, rss) k b \<and>
       last (gw_effects gw') = GoStoreLatency cs now b"
proof (induction es arbitrary: gw rs rss)
  case (Cons e es)
  then obtain r rss' where rss: "rss = r # rss'" and r: "event_reads ts e r"
    and rest: "list_all2 (event_reads ts) es rss'" by (auto simp: list_all2_Cons1)
  show ?case
  proof (cases e)
    case TimeUp
    with Cons.prems show ?thesis by simp
  next
    case (Look f now)
    with r have "counts_exactly ts f r" by (simp add: event_reads_def)
    from counted_step [OF this Cons.prems(4)] Cons.prems(5)
    have counted: "counted ts (f gw) (rs @ r)" by (simp add: rss)
    have count: "int F + 1 \<le> res_count (f gw) ts b \<longleftrightarrow> F + 1 \<le> tally ts b (rs @ r)" for b
      unfolding counted_res_count [OF counted] by linarith
    show ?thesis
    proof (cases "\<exists>b. F + 1 \<le> tally ts b (rs @ r)")
      case True
      then obtain b where b: "F + 1 \<le> tally ts b (rs @ r)" "last (gw_effects gw') = GoStoreLatency cs now b"
      proof (cases "F + 1 \<le> tally ts True (rs @ r)")
        case True
        then have "gw' = gw_emit (GoStoreLatency cs now True) (f gw)"
          using Cons.prems(1) by (simp add: Look Let_def count)
        then show ?thesis using that [of True] True by (simp add: gw_emit_def)
      next
        case False
        then have "F + 1 \<le> tally ts False (rs @ r)" using True by (metis (full_types))
        moreover from this have "gw' = gw_emit (GoStoreLatency cs now False) (f gw)"
          using Cons.prems(1) False by (simp add: Look Let_def count)
        ultimately show ?thesis using that [of False] by (simp add: gw_emit_def)
      qed
      then show ?thesis using taken_at_0 [OF b(1)] Look by (intro exI [of _ 0]) (simp add: rss)
    next
      case False
      then have few: "\<forall>c. tally ts c (rs @ r) \<le> F" by (simp add: not_le less_Suc_eq_le)
      then have "\<not> F + 1 \<le> tally ts True (rs @ r)" "\<not> F + 1 \<le> tally ts False (rs @ r)"
        by (simp_all add: not_le less_Suc_eq_le)
      then have "await_replies es cs ts (f gw) = Return gw' retry"
        using Cons.prems(1) by (simp add: Look Let_def count)
      from Cons.IH [OF this Cons.prems(2) rest counted] Cons.prems(5)
      obtain k f' now' b where "k < length es" "es ! k = Look f' now'" "taken_at ts (rs @ r, rss') k b"
        "last (gw_effects gw') = GoStoreLatency cs now' b" by (auto simp: rss)
      then show ?thesis using taken_at_Suc [OF _ few] by (intro exI [of _ "Suc k"]) (auto simp: rss)
    qed
  qed
qed simp

text \<open>
  C36. A result needs replies: let \<open>hs\<close> be the replies that the reader is handed under the
  request's timestamp during each attempt, fewer than \<open>2 ^ 63\<close> in an attempt, and let the other
  goroutines touch the counts of that timestamp in no other way. When \<open>sendTransaction\<close>
  returns, it does so in the first look of an attempt at which \<open>F + 1\<close> equal results for the
  request have been handed in since that attempt began, and what it records last is that
  result, with the time of that look; at the attempt's earlier looks neither result had more
  than \<open>F\<close>.
\<close>

theorem result_needs_replies:
  assumes "sendTransaction as req gw = Return gw' ()" "tx_of req = Some t" "seconds_of req = Some ts"
    and "list_all2 (attempt_reads ts) as hs"
    and "\<And>h. h \<in> set hs \<Longrightarrow> int (length (fst h @ concat (snd h))) \<le> max64"
  shows "\<exists>i k f now b. i < length as \<and> k < length (at_events (as ! i)) \<and> at_events (as ! i) ! k = Look f now \<and>
     taken_at ts (hs ! i) k b \<and> last (gw_effects gw') = GoStoreLatency (t_ClientSeq t) now b"
  using assms(1,4,5)
proof (induction "as" arbitrary: gw hs)
  case (Cons a "as")
  obtain h hs' where hs: "hs = h # hs'" and h: "attempt_reads ts a h"
    and hs': "list_all2 (attempt_reads ts) as hs'" using Cons.prems(2) by (auto simp: list_all2_Cons1)
  obtain gw1 gw2 retry where gw1: "begin_attempt gw req (at_start a) = Return gw1 ()"
    and gw2: "await_replies (at_events a) (t_ClientSeq t) ts (at_call a gw1) = Return gw2 retry"
    and rest: "(if retry then sendTransaction as req gw2 else Return gw2 ()) = Return gw' ()"
    using Cons.prems(1) by (auto simp: with_tx_eq with_seconds_eq assms(2,3) outcome_simps)
  show ?case
  proof (cases retry)
    case True
    with rest have "sendTransaction as req gw2 = Return gw' ()" by simp
    note IH = Cons.IH [OF this hs']
    have "\<exists>i k f now b. i < length as \<and> k < length (at_events (as ! i)) \<and> at_events (as ! i) ! k = Look f now \<and>
        taken_at ts (hs' ! i) k b \<and> last (gw_effects gw') = GoStoreLatency (t_ClientSeq t) now b"
      by (rule IH) (rule Cons.prems(3), simp add: hs)
    then obtain i where "i < length as \<and> (\<exists>k f now b. k < length (at_events (as ! i)) \<and>
        at_events (as ! i) ! k = Look f now \<and> taken_at ts (hs' ! i) k b \<and>
        last (gw_effects gw') = GoStoreLatency (t_ClientSeq t) now b)" by blast
    then show ?thesis by - (rule exI [of _ "Suc i"], simp add: hs)
  next
    case False
    have "counted ts gw1 []"
      using gw1 by (auto simp: begin_attempt_def with_tx_eq with_seconds_eq assms(2,3) Let_def gw_emit_def
          counted_def tally_def outcome_simps split: if_splits)
    from counted_step [OF _ this] h Cons.prems(3) [of h]
    have called: "counted ts (at_call a gw1) (fst h)"
      by (simp add: attempt_reads_def hs)
    from await_replies_decides [OF gw2 False _ called, of "snd h"] h Cons.prems(3) [of h] False rest
    show ?thesis by - (rule exI [of _ 0], simp add: attempt_reads_def hs)
  qed
qed simp


text \<open>The reader counts exactly what it is handed.\<close>

definition reads :: "ReplyResult list \<Rightarrow> Gateway \<Rightarrow> Gateway" where
  "reads rs gw = (case readReplies rs gw of Return gw' u \<Rightarrow> gw' | _ \<Rightarrow> gw)"

lemma reads_counts_exactly: "\<forall>r\<in>set rs. rr_Timestamp r = ts \<Longrightarrow> counts_exactly ts (reads rs) rs"
proof -
  assume "\<forall>r\<in>set rs. rr_Timestamp r = ts"
  then have "\<exists>gw'. readReplies rs gw = Return gw' () \<and>
      ResCountMap gw' ts = Some (\<lambda>b. wrap64 (m b + int (tally ts b rs)))"
    if "ResCountMap gw ts = Some m" "\<forall>b. in64 (m b)" for gw m
    using that
  proof (induction rs arbitrary: gw m)
    case (Cons r rs)
    define m' where "m' = m(rr_Result r := add64 (m (rr_Result r)) 1)"
    obtain gw1 where gw1: "read_reply gw r = Return gw1 ()" "ResCountMap gw1 ts = Some m'"
      using Cons.prems by (auto simp: read_reply_def Let_def m'_def)
    have "\<forall>b. in64 (m' b)" using Cons.prems(3) by (simp add: m'_def add64_def)
    from Cons.IH [OF _ gw1(2) this] Cons.prems(1) obtain gw2 where
      gw2: "readReplies rs gw1 = Return gw2 ()" "ResCountMap gw2 ts = Some (\<lambda>b. wrap64 (m' b + int (tally ts b rs)))"
      by auto
    have "(\<lambda>b. wrap64 (m' b + int (tally ts b rs))) = (\<lambda>b. wrap64 (m b + int (tally ts b (r # rs))))"
      using Cons.prems(1) by (auto simp: m'_def tally_def add64_def add.assoc)
    with gw1(1) gw2 show ?case by (simp add: outcome_simps)
  qed (simp add: tally_def)
  then show ?thesis by (fastforce simp: counts_exactly_def reads_def)
qed

section \<open>An example gateway\<close>

definition demo_gateway :: Gateway where
  "demo_gateway = (gateway_establishConns (gateway_readJson demo_clusters (new_gateway (demo_key 0))))
     \<lparr>gw_PublicKeyMap := demo_keys\<rparr>"

definition demo_client_req :: SignedClientRequest where
  "demo_client_req = getSignedClientReq demo_env demo_gateway demo_tx 100"

definition demo_result :: "string \<Rightarrow> ReplyResult" where
  "demo_result server = \<lparr>rr_Timestamp = 100, rr_Result = True, rr_Server = server, rr_View = 1, rr_ClientSeq = 7\<rparr>"

lemma demo_gateway_sel:
  "ViewMap demo_gateway ''C1'' = Some 1" "gRPCClients demo_gateway = [''S1'', ''S2'', ''S3'', ''S4'', ''S5'']"
  "ResCountMap demo_gateway = Map.empty" "gw_effects demo_gateway = []" "gw_PublicKeyMap demo_gateway = demo_keys"
  "ReplyMap demo_gateway = (\<lambda>_. [])" "highestSeq demo_gateway = 0"
  by (simp_all add: demo_gateway_def gateway_establishConns_def gateway_readJson_def new_gateway_def demo_clusters_def)

lemma demo_client_req_parts: "tx_of demo_client_req = Some demo_tx" "seconds_of demo_client_req = Some 100"
  by (simp_all add: demo_client_req_def getSignedClientReq_def tx_of_def seconds_of_def Let_def)

lemma demo_gateway_leader: "gateway_getViewLeader demo_gateway ''C1'' = Some ''S1''"
  using demo_leader
  by (simp add: gateway_getViewLeader_def demo_gateway_sel getViewLeader_def leader_name_def demo_replica_def demo_node_tables)

definition demo_reply :: SignedReply where
  "demo_reply = (let r = \<lparr>r_View = 1, r_Timestamp = Some \<lparr>ts_Seconds = 100, ts_Nanos = 0\<rparr>,
      r_Server = ''S1'', r_Result = True, r_Clientseq = 7\<rparr>
    in \<lparr>sr_Reply = Some r, sr_Signature = signature_or_nil demo_env (demo_key 1) (wire_Reply r)\<rparr>)"

lemma demo_reply_accepted:
  "gw_PublicKeyMap gw = demo_keys \<Longrightarrow> \<exists>gw1. gateway_Reply demo_env gw demo_reply = Return gw1 None"
  by (simp add: demo_reply_def Let_def gateway_Reply_def gateway_getPublicKey_def demo_keys_def demo_verified)

lemma demo_begin:
  assumes "ViewMap gw ''C1'' = Some 1" "''S1'' \<in> set (gRPCClients gw)"
  shows "\<exists>gw'. begin_attempt gw demo_client_req now = Return gw' () \<and> ViewMap gw' = ViewMap gw \<and>
     gRPCClients gw' = gRPCClients gw \<and> ResCountMap gw' 100 = Some (\<lambda>_. 0)"
proof -
  have t: "t_ClusterFrom demo_tx = ''C1''" "t_ClientSeq demo_tx = 7" by (simp_all add: demo_tx_def)
  have "gateway_getViewLeader gw ''C1'' = Some ''S1''"
    using demo_gateway_leader assms(1) by (simp add: gateway_getViewLeader_def demo_gateway_sel)
  then show ?thesis using assms
    by (simp add: begin_attempt_def with_tx_eq with_seconds_eq demo_client_req_parts t Let_def gw_emit_def)
qed

lemma demo_read:
  assumes "ResCountMap gw 100 = Some m"
  shows "res_count (reads [demo_result s] gw) 100 b = (if b then add64 (m True) 1 else m False)"
    "ResCountMap (reads [demo_result s] gw) 100 = Some (m(True := add64 (m True) 1))"
  using assms by (simp_all add: reads_def read_reply_def demo_result_def Let_def res_count_def)

section \<open>Properties of replies\<close>

theorem attempt_goes_to_leader_witness:
  "\<exists>gw'. begin_attempt demo_gateway demo_client_req 5 = Return gw' () \<and> getViewLeader demo_node = Some ''S1'' \<and>
     gw_effects gw' = [CallExecuteTransaction ''S1'' demo_client_req]"
proof -
  have t: "t_ClusterFrom demo_tx = ''C1''" by (simp add: demo_tx_def)
  have lead: "getViewLeader demo_node = Some ''S1''"
    using demo_leader by (simp add: demo_replica_def getViewLeader_def)
  obtain gw' where gw': "begin_attempt demo_gateway demo_client_req 5 = Return gw' ()"
    using demo_begin [of demo_gateway] by (auto simp: demo_gateway_sel)
  from attempt_goes_to_leader [OF this demo_client_req_parts, of demo_node] gw' lead show ?thesis
    by (simp add: t demo_gateway_sel demo_node_tables)
qed

lemma demo_send:
  "\<exists>gw'. sendTransaction
     [\<lparr>at_start = 0, at_call = reads [], at_events = [TimeUp]\<rparr>,
      \<lparr>at_start = 1, at_call = reads [demo_result ''S1''], at_events = [Look (reads []) 3, Look (reads [demo_result ''S2'']) 5]\<rparr>]
     demo_client_req demo_gateway = Return gw' ()"
proof -
  have in1: "add64 0 1 = 1" "add64 1 1 = 2" by (simp_all add: add64_in in64_def min64_def max64_def)
  have idle: "reads [] gw = gw" for gw by (simp add: reads_def)
  have known: "ViewMap demo_gateway ''C1'' = Some 1" "''S1'' \<in> set (gRPCClients demo_gateway)"
    by (simp_all add: demo_gateway_sel)
  obtain g1 where g1: "begin_attempt demo_gateway demo_client_req 0 = Return g1 ()"
    "ViewMap g1 = ViewMap demo_gateway" "gRPCClients g1 = gRPCClients demo_gateway"
    using demo_begin [OF known] by blast
  obtain g2 where g2: "begin_attempt g1 demo_client_req 1 = Return g2 ()" "ResCountMap g2 100 = Some (\<lambda>_. 0)"
    using demo_begin [of g1] known g1(2,3) by auto
  let ?g3 = "reads [demo_result ''S1''] g2"
  have g3: "ResCountMap ?g3 100 = Some ((\<lambda>_. 0)(True := 1))" "res_count ?g3 100 True = 1" "res_count ?g3 100 False = 0"
    using demo_read [OF g2(2), of "''S1''"] by (simp_all add: in1)
  have g4: "res_count (reads [demo_result ''S2''] ?g3) 100 True = 2"
    using demo_read(1) [OF g3(1), of "''S2''"] by (simp add: in1)
  show ?thesis
    by (simp add: with_tx_eq with_seconds_eq demo_client_req_parts g1(1) g2(1) idle Let_def g3 g4 F_def)
qed

theorem result_needs_replies_witness:
  "\<exists>gw' h k now b. sendTransaction
     [\<lparr>at_start = 0, at_call = reads [], at_events = [TimeUp]\<rparr>,
      \<lparr>at_start = 1, at_call = reads [demo_result ''S1''], at_events = [Look (reads []) 3, Look (reads [demo_result ''S2'']) 5]\<rparr>]
     demo_client_req demo_gateway = Return gw' () \<and>
     h \<in> {([], [[]]), ([demo_result ''S1''], [[], [demo_result ''S2'']])} \<and> taken_at 100 h k b \<and>
     last (gw_effects gw') = GoStoreLatency 7 now b"
proof -
  let ?a1 = "\<lparr>at_start = 0, at_call = reads [], at_events = [TimeUp]\<rparr>"
  let ?a2 = "\<lparr>at_start = 1, at_call = reads [demo_result ''S1''],
       at_events = [Look (reads []) 3, Look (reads [demo_result ''S2'']) 5]\<rparr>"
  let ?h = "([demo_result ''S1''], [[], [demo_result ''S2'']])"
  obtain gw' where gw': "sendTransaction [?a1, ?a2] demo_client_req demo_gateway = Return gw' ()"
    using demo_send by blast
  have res: "rr_Timestamp (demo_result s) = 100" "rr_Result (demo_result s)" for s by (simp_all add: demo_result_def)
  have reads: "attempt_reads 100 ?a1 ([], [[]])" "attempt_reads 100 ?a2 ?h"
    by (simp_all add: attempt_reads_def event_reads_def reads_counts_exactly res)
  have "\<exists>i k f now b. i < length [?a1, ?a2] \<and> k < length (at_events ([?a1, ?a2] ! i)) \<and>
      at_events ([?a1, ?a2] ! i) ! k = Look f now \<and> taken_at 100 ([([], [[]]), ?h] ! i) k b \<and>
      last (gw_effects gw') = GoStoreLatency (t_ClientSeq demo_tx) now b"
    by (rule result_needs_replies [OF gw' demo_client_req_parts]) (use reads in \<open>auto simp: max64_def\<close>)
  then obtain i k now b where i: "i < length [?a1, ?a2]" "taken_at 100 ([([], [[]]), ?h] ! i) k b"
    "last (gw_effects gw') = GoStoreLatency (t_ClientSeq demo_tx) now b" by blast
  moreover have "([([], [[]]), ?h] ! i) \<in> {([], [[]]), ?h}" using i(1) by (auto simp: less_Suc_eq)
  moreover have "t_ClientSeq demo_tx = 7" by (simp add: demo_tx_def)
  ultimately show ?thesis using gw' i(2,3) by (intro exI conjI) auto
qed

text \<open>
  C37. One server decides: the gateway does not ask who sent the replies it counts. A reply of
  one server that passes the check passes it again when it is sent a second time, and the
  two copies are enough for its result to be taken.
\<close>

theorem one_server_decides:
  assumes "gateway_Reply E gw sr = Return gw1 None" "sr_Reply sr = Some r" "r_Timestamp r = Some ts"
    and "ResCountMap gw (ts_Seconds ts) = Some (\<lambda>_. 0)"
  shows "\<exists>gw2 res gw3. gateway_Reply E gw1 sr = Return gw2 None \<and>
     gw_effects gw2 = gw_effects gw @ [ChanResult res, ChanResult res] \<and>
     rr_Server res = r_Server r \<and> rr_Result res = r_Result r \<and>
     await_replies (Look (reads [res, res]) now # es) cs (ts_Seconds ts) gw = Return gw3 False \<and>
     last (gw_effects gw3) = GoStoreLatency cs now (r_Result r)"
proof -
  define res where "res = \<lparr>rr_Timestamp = ts_Seconds ts, rr_Result = r_Result r, rr_Server = r_Server r,
      rr_View = r_View r, rr_ClientSeq = r_Clientseq r\<rparr>"
  have sel: "rr_Timestamp res = ts_Seconds ts" "rr_Result res = r_Result r" "rr_Server res = r_Server r"
    by (simp_all add: res_def)
  obtain pk where pk: "gw_PublicKeyMap gw (r_Server r) = Some pk" "verified E pk (wire_Reply r) (sr_Signature sr)"
    and gw1: "gw1 = gw_emit (ChanResult res) gw"
    using assms(1-3) by (auto simp: gateway_Reply_def gateway_getPublicKey_def res_def split: option.splits if_splits)
  have again: "gateway_Reply E gw1 sr = Return (gw_emit (ChanResult res) gw1) None"
    using pk assms(2,3) by (simp add: gateway_Reply_def gateway_getPublicKey_def gw1 gw_emit_def res_def)
  have in1: "add64 0 1 = 1" "add64 1 1 = 2" by (simp_all add: add64_in in64_def min64_def max64_def)
  have counts: "res_count (reads [res, res] gw) (ts_Seconds ts) b = (if b = r_Result r then 2 else 0)" for b
    using assms(4) by (simp add: reads_def read_reply_def Let_def res_count_def in1 sel)
  have "await_replies (Look (reads [res, res]) now # es) cs (ts_Seconds ts) gw =
      Return (gw_emit (GoStoreLatency cs now (r_Result r)) (reads [res, res] gw)) False"
    by (cases "r_Result r") (simp_all add: Let_def counts F_def)
  with again sel show ?thesis
    by (intro exI [of _ "gw_emit (ChanResult res) gw1"] exI [of _ res]
        exI [of _ "gw_emit (GoStoreLatency cs now (r_Result r)) (reads [res, res] gw)"])
      (simp add: gw1 gw_emit_def)
qed

theorem one_server_decides_witness:
  "\<exists>gw1 gw3 res. gateway_Reply demo_env (demo_gateway\<lparr>ResCountMap := [100 \<mapsto> (\<lambda>_. 0)]\<rparr>) demo_reply = Return gw1 None \<and>
     rr_Server res = ''S1'' \<and>
     await_replies [Look (reads [res, res]) 5] 7 100 (demo_gateway\<lparr>ResCountMap := [100 \<mapsto> (\<lambda>_. 0)]\<rparr>) = Return gw3 False \<and>
     last (gw_effects gw3) = GoStoreLatency 7 5 True"
proof -
  let ?gw = "demo_gateway\<lparr>ResCountMap := [100 \<mapsto> (\<lambda>_. 0)]\<rparr>"
  obtain gw1 where gw1: "gateway_Reply demo_env ?gw demo_reply = Return gw1 None"
    using demo_reply_accepted [of ?gw] by (auto simp: demo_gateway_sel)
  obtain r ts where r: "sr_Reply demo_reply = Some r" "r_Timestamp r = Some ts" "ts_Seconds ts = 100"
    "r_Server r = ''S1''" "r_Result r"
    by (simp add: demo_reply_def Let_def)
  from one_server_decides [OF gw1 r(1,2), of 5 "[]" 7] r(3-5) gw1 show ?thesis by auto
qed

text \<open>
  A reply nobody waits for is fatal: when a server's reply passes the check but its timestamp
  is not one the gateway has sent a request under, counting it is an assignment to a nil
  map, and the gateway dies.
\<close>

theorem unexpected_reply_panics:
  assumes "gateway_Reply E gw sr = Return gw1 None" "sr_Reply sr = Some r" "r_Timestamp r = Some ts"
    and "ResCountMap gw (ts_Seconds ts) = None"
  shows "\<exists>res. gw_effects gw1 = gw_effects gw @ [ChanResult res] \<and> rr_Server res = r_Server r \<and>
     read_reply gw1 res = Panic"
  using assms
  by (auto simp: gateway_Reply_def gateway_getPublicKey_def read_reply_def Let_def gw_emit_def
      split: option.splits if_splits)

theorem unexpected_reply_panics_witness:
  "\<exists>gw1 res. gateway_Reply demo_env demo_gateway demo_reply = Return gw1 None \<and>
     gw_effects gw1 = [ChanResult res] \<and> read_reply gw1 res = Panic"
proof -
  obtain gw1 where gw1: "gateway_Reply demo_env demo_gateway demo_reply = Return gw1 None"
    using demo_reply_accepted [of demo_gateway] by (auto simp: demo_gateway_sel)
  obtain r ts where r: "sr_Reply demo_reply = Some r" "r_Timestamp r = Some ts"
    by (simp add: demo_reply_def Let_def)
  from unexpected_reply_panics [OF gw1 r] gw1 show ?thesis by (auto simp: demo_gateway_sel)
qed

text \<open>
  A node's reply reaches its client: what \<open>replyToClient\<close> signs and sends is accepted by a
  gateway that has the node's public key, and hands on the node's name, the timestamp of the
  request and the result of the execution unchanged.
\<close>

theorem node_reply_reaches_client:
  assumes "crypto_ok E" "replyToClient E n timestamp result clientSeq \<noteq> n"
    and "gw_PublicKeyMap gw (node_Id n) = Some (sk_Public (node_PrivateKey n))"
  shows "\<exists>sr gw'. effects (replyToClient E n timestamp result clientSeq) = effects n @ [RpcReply sr] \<and>
     gateway_Reply E gw sr = Return gw' None \<and>
     gw_effects gw' = gw_effects gw @ [ChanResult \<lparr>rr_Timestamp = timestamp, rr_Result = result,
        rr_Server = node_Id n, rr_View = View n, rr_ClientSeq = clientSeq\<rparr>]"
proof -
  let ?r = "\<lparr>r_View = View n, r_Timestamp = Some \<lparr>ts_Seconds = timestamp, ts_Nanos = 0\<rparr>,
      r_Server = node_Id n, r_Result = result, r_Clientseq = clientSeq\<rparr>"
  obtain sg where sg: "SignMessage E (node_PrivateKey n) (wire_Reply ?r) = Some sg"
    using assms(2) by (auto simp: replyToClient_def Let_def split: option.splits)
  then have "verified E (sk_Public (node_PrivateKey n)) (wire_Reply ?r) sg"
    using SignMessage_verified [OF assms(1)] by blast
  then show ?thesis
    using assms(3) by (simp add: replyToClient_def Let_def sg emit_def gateway_Reply_def
        gateway_getPublicKey_def gw_emit_def)
qed


theorem node_reply_reaches_client_witness:
  "\<exists>sr gw'. effects (replyToClient demo_env demo_node 100 True 7) = [RpcReply sr] \<and>
     gateway_Reply demo_env demo_gateway sr = Return gw' None \<and>
     gw_effects gw' = [ChanResult (demo_result ''S1'')]"
proof -
  have "effects (replyToClient demo_env demo_node 100 True 7) \<noteq> effects demo_node"
    by (simp add: replyToClient_def Let_def SignMessage_def demo_simps demo_marshal_def demo_sign_def
        demo_node_tables emit_def)
  then have sent: "replyToClient demo_env demo_node 100 True 7 \<noteq> demo_node" by auto
  have key: "gw_PublicKeyMap demo_gateway (node_Id demo_node) = Some (sk_Public (node_PrivateKey demo_node))"
    by (simp add: demo_gateway_sel demo_node_tables demo_keys_def demo_key_def)
  from node_reply_reaches_client [OF demo_crypto_ok sent key] show ?thesis
    by (simp add: demo_node_tables demo_gateway_sel demo_result_def)
qed

section \<open>Numbering\<close>

lemma getSignedClientReq_cong:
  "gw_PrivateKey gw = gw_PrivateKey gw' \<Longrightarrow> getSignedClientReq E gw = getSignedClientReq E gw'"
  by (intro ext) (simp add: getSignedClientReq_def)

definition numbered :: "int64 \<Rightarrow> Transaction \<Rightarrow> Transaction" where
  "numbered seq t = t\<lparr>t_ClientSeq := seq, t_ClusterFrom := getClusterOfClient (t_From t),
     t_ClusterTo := getClusterOfClient (t_To t)\<rparr>"

lemma executeTransactions_numbered:
  assumes "executeTransactions E clock ts gw = (gw', ts')" "in64 (highestSeq gw)"
    and "highestSeq gw + int (length ts) \<le> max64"
  shows "highestSeq gw' = highestSeq gw + int (length ts) \<and> length ts' = length ts \<and>
     (\<forall>i<length ts. ts' ! i = numbered (highestSeq gw + 1 + int i) (ts ! i) \<and>
        SeqTransactionMap gw' (highestSeq gw + 1 + int i) = Some (ts' ! i)) \<and>
     (\<forall>s \<le> highestSeq gw. SeqTransactionMap gw' s = SeqTransactionMap gw s) \<and>
     gw_effects gw' = gw_effects gw @
       map (\<lambda>t. GoSendTransaction (getSignedClientReq E gw t (clock (t_ClientSeq t)))) ts'"
  using assms
proof (induction ts arbitrary: gw gw' ts')
  case (Cons t ts)
  let ?s = "highestSeq gw + 1"
  have s: "add64 (highestSeq gw) 1 = ?s" "in64 ?s" using Cons.prems(2,3) by (simp_all add: add64_in in64_def)
  define gw1 where "gw1 = gw_emit (GoSendTransaction (getSignedClientReq E gw (numbered ?s t) (clock ?s)))
    (gw\<lparr>highestSeq := ?s, SeqTransactionMap := (SeqTransactionMap gw)(?s \<mapsto> numbered ?s t),
        TimestampSeqMap := (TimestampSeqMap gw)(clock ?s \<mapsto> ?s)\<rparr>)"
  have gw1: "highestSeq gw1 = ?s" "SeqTransactionMap gw1 = (SeqTransactionMap gw)(?s \<mapsto> numbered ?s t)"
    "gw_effects gw1 = gw_effects gw @ [GoSendTransaction (getSignedClientReq E gw (numbered ?s t) (clock ?s))]"
    by (simp_all add: gw1_def gw_emit_def)
  have req: "getSignedClientReq E gw1 = getSignedClientReq E gw"
    by (rule getSignedClientReq_cong) (simp add: gw1_def gw_emit_def)
  obtain us where us: "executeTransactions E clock ts gw1 = (gw', us)" "ts' = numbered ?s t # us"
  proof -
    have "executeTransactions E clock (t # ts) gw =
        (fst (executeTransactions E clock ts gw1), numbered ?s t # snd (executeTransactions E clock ts gw1))"
      by (simp add: Let_def s(1) gw1_def numbered_def)
    with Cons.prems(1) that show thesis by (cases "executeTransactions E clock ts gw1") simp
  qed
  have len: "highestSeq gw1 + int (length ts) \<le> max64" using Cons.prems(3) by (simp add: gw1)
  note IH = Cons.IH [OF us(1) _ len]
  have ih: "highestSeq gw' = ?s + int (length ts)" "length us = length ts"
    "\<And>i. i < length ts \<Longrightarrow> us ! i = numbered (?s + 1 + int i) (ts ! i) \<and> SeqTransactionMap gw' (?s + 1 + int i) = Some (us ! i)"
    "\<And>s. s \<le> ?s \<Longrightarrow> SeqTransactionMap gw' s = SeqTransactionMap gw1 s"
    "gw_effects gw' = gw_effects gw1 @ map (\<lambda>t. GoSendTransaction (getSignedClientReq E gw t (clock (t_ClientSeq t)))) us"
    using IH s(2) by (simp_all add: gw1(1) req)
  have "ts' ! i = numbered (?s + int i) ((t # ts) ! i) \<and> SeqTransactionMap gw' (?s + int i) = Some (ts' ! i)"
    if "i < length (t # ts)" for i
    using that ih(3) [of "i - 1"] ih(4) [of ?s] by (cases i) (simp_all add: us(2) gw1(2) algebra_simps)
  moreover have "t_ClientSeq (numbered ?s t) = ?s" by (simp add: numbered_def)
  ultimately show ?case using ih(1,2,5) ih(4) by (simp add: us(2) gw1)
qed simp

text \<open>
  Transactions are numbered without gaps: executing a set gives its transactions the next
  client sequence numbers in their order, routes both ends, records each under its number,
  and starts one sender per transaction, in that order, with a request that carries it.
\<close>

theorem transactions_numbered:
  assumes "executeTransactions E clock ts gw = (gw', ts')" "in64 (highestSeq gw)"
    and "highestSeq gw + int (length ts) \<le> max64"
  shows "highestSeq gw' = highestSeq gw + int (length ts) \<and> length ts' = length ts \<and>
     (\<forall>i<length ts. t_ClientSeq (ts' ! i) = highestSeq gw + 1 + int i \<and>
        t_ClusterFrom (ts' ! i) = getClusterOfClient (t_From (ts ! i)) \<and>
        t_ClusterTo (ts' ! i) = getClusterOfClient (t_To (ts ! i)) \<and>
        SeqTransactionMap gw' (highestSeq gw + 1 + int i) = Some (ts' ! i)) \<and>
     gw_effects gw' = gw_effects gw @
       map (\<lambda>t. GoSendTransaction (getSignedClientReq E gw t (clock (t_ClientSeq t)))) ts'"
  using executeTransactions_numbered [OF assms] by (simp add: numbered_def)

theorem transactions_numbered_witness:
  "\<exists>gw' ts'. executeTransactions demo_env (\<lambda>seq. 1000 + 50 * seq) [demo_tx, demo_cross_tx] demo_gateway = (gw', ts') \<and>
     highestSeq gw' = 2 \<and> t_ClientSeq (ts' ! 0) = 1 \<and> t_ClientSeq (ts' ! 1) = 2 \<and>
     SeqTransactionMap gw' 2 = Some (ts' ! 1) \<and> length (gw_effects gw') = 2"
proof -
  let ?r = "executeTransactions demo_env (\<lambda>seq. 1000 + 50 * seq) [demo_tx, demo_cross_tx] demo_gateway"
  obtain gw' ts' where r: "?r = (gw', ts')" by (cases ?r)
  from transactions_numbered [OF r] have all: "highestSeq gw' = 2"
    "\<forall>i<2. t_ClientSeq (ts' ! i) = 1 + int i \<and> SeqTransactionMap gw' (1 + int i) = Some (ts' ! i)"
    "length (gw_effects gw') = 2"
    by (simp_all add: demo_gateway_sel in64_def min64_def max64_def)
  have "t_ClientSeq (ts' ! 0) = 1" "t_ClientSeq (ts' ! 1) = 2" "SeqTransactionMap gw' 2 = Some (ts' ! 1)"
    using all(2) [rule_format, of 0] all(2) [rule_format, of 1] by simp_all
  with all(1,3) r show ?thesis by (intro exI [of _ gw'] exI [of _ ts']) simp
qed

end
