(* ===== verification/Scripts.thy ===== *)
theory Scripts
  imports GwClient DemoNode
begin

text \<open>
  Properties of the gateway's script reader and of its reports.
\<close>

section \<open>The script\<close>

text \<open>The number that opens a set, and the set each row belongs to: the largest opened so far.\<close>

definition row_set :: "string list \<Rightarrow> int64 option" where
  "row_set row = (case ParseInt (TrimSpace (hd row)) of (n, None) \<Rightarrow> Some n | (_, Some e) \<Rightarrow> None)"

fun running_sets :: "int64 \<Rightarrow> string list list \<Rightarrow> int64 list" where
  "running_sets m [] = []"
| "running_sets m (row # rows) =
     (let m' = (case row_set row of None \<Rightarrow> m | Some n \<Rightarrow> max n m) in m' # running_sets m' rows)"

lemma running_sets_sorted: "sorted (m # running_sets m rows)"
proof (induction rows arbitrary: m)
  case (Cons row rows)
  let ?m = "case row_set row of None \<Rightarrow> m | Some n \<Rightarrow> max n m"
  have "m \<le> ?m" by (cases "row_set row") simp_all
  with Cons.IH [of ?m] show ?case by (auto simp: Let_def)
qed simp

lemma length_running_sets [simp]: "length (running_sets m rows) = length rows"
  by (induction rows arbitrary: m) (simp_all add: Let_def)

lemma open_set_result:
  "open_set cn row n c = Some c0 \<Longrightarrow>
     cv_max c0 = max n (cv_max c) \<and> cv_transactions c0 = cv_transactions c \<and> cv_count c0 = cv_count c"
  by (auto simp: open_set_def split: option.splits)

lemma read_row_result:
  assumes "read_row cn row c = Some c'"
  shows "\<exists>t. row_transaction row = Some t \<and>
     cv_max c' = (case row_set row of None \<Rightarrow> cv_max c | Some n \<Rightarrow> max n (cv_max c)) \<and>
     cv_transactions c' = (cv_transactions c)(cv_max c' := cv_transactions c (cv_max c') @ [t]) \<and>
     cv_count c' = (cv_count c)(cv_max c' := add64 (cv_count c (cv_max c')) 1)"
proof -
  from assms obtain f c0 t where f: "csv_field row 0 = Some f"
    and c0: "(case ParseInt (TrimSpace f) of
        (n, None) \<Rightarrow> open_set cn row n c | (_, Some e) \<Rightarrow> Some c) = Some c0"
    and t: "row_transaction row = Some t"
    and c': "c' = c0\<lparr>cv_count := (cv_count c0)(cv_max c0 := add64 (cv_count c0 (cv_max c0)) 1),
          cv_transactions := (cv_transactions c0)(cv_max c0 := cv_transactions c0 (cv_max c0) @ [t])\<rparr>"
    by (auto simp: read_row_def bind_eq_Some_conv)
  have "f = hd row" using f by (cases row) (simp_all add: csv_field_def)
  with c0 have "cv_max c0 = (case row_set row of None \<Rightarrow> cv_max c | Some n \<Rightarrow> max n (cv_max c)) \<and>
      cv_transactions c0 = cv_transactions c \<and> cv_count c0 = cv_count c"
    by (auto simp: row_set_def dest: open_set_result split: prod.splits option.splits)
  with t show ?thesis by (simp add: c')
qed

definition rows_of_set :: "int64 list \<Rightarrow> Transaction list \<Rightarrow> int64 \<Rightarrow> Transaction list" where
  "rows_of_set ks ts s = map snd (filter (\<lambda>(k, t). k = s) (zip ks ts))"

lemma read_rows_result:
  "read_rows cn rows c = Some c' \<Longrightarrow> (\<And>s. in64 (cv_count c s)) \<Longrightarrow>
   \<exists>ts. map row_transaction rows = map Some ts \<and> cv_max c' = last (cv_max c # running_sets (cv_max c) rows) \<and>
     (\<forall>s. cv_transactions c' s = cv_transactions c s @ rows_of_set (running_sets (cv_max c) rows) ts s \<and>
        cv_count c' s = wrap64 (cv_count c s + int (length (rows_of_set (running_sets (cv_max c) rows) ts s))))"
proof (induction rows arbitrary: c)
  case Nil
  then show ?case by (simp add: rows_of_set_def)
next
  case (Cons row rows)
  then obtain c1 where c1: "read_row cn row c = Some c1" "read_rows cn rows c1 = Some c'"
    by (auto simp: bind_eq_Some_conv)
  from read_row_result [OF c1(1)] obtain t where t: "row_transaction row = Some t"
    "cv_max c1 = (case row_set row of None \<Rightarrow> cv_max c | Some n \<Rightarrow> max n (cv_max c))"
    "cv_transactions c1 = (cv_transactions c)(cv_max c1 := cv_transactions c (cv_max c1) @ [t])"
    "cv_count c1 = (cv_count c)(cv_max c1 := add64 (cv_count c (cv_max c1)) 1)" by blast
  have "in64 (cv_count c1 s)" for s using Cons.prems(2) by (simp add: t(4))
  from Cons.IH [OF c1(2) this] obtain ts where ts: "map row_transaction rows = map Some ts"
    "cv_max c' = last (cv_max c1 # running_sets (cv_max c1) rows)"
    "\<And>s. cv_transactions c' s = cv_transactions c1 s @ rows_of_set (running_sets (cv_max c1) rows) ts s"
    "\<And>s. cv_count c' s = wrap64 (cv_count c1 s + int (length (rows_of_set (running_sets (cv_max c1) rows) ts s)))"
    by blast
  have ks: "running_sets (cv_max c) (row # rows) = cv_max c1 # running_sets (cv_max c1) rows"
    by (simp add: Let_def t(2))
  have tx: "cv_transactions c1 s = cv_transactions c s @ (if s = cv_max c1 then [t] else [])" for s
    by (subst t(3)) simp
  have cnt: "cv_count c1 s = wrap64 (cv_count c s + (if s = cv_max c1 then 1 else 0))" for s
    using Cons.prems(2) by (subst t(4)) (simp add: add64_def)
  show ?case
    unfolding ks
    by (rule exI [of _ "t # ts"]) (simp add: t(1) ts rows_of_set_def tx cnt add.assoc add.commute)
qed

text \<open>
  The script loses nothing: reading rows either panics or takes the transaction of every
  row, files it under the largest set number opened up to that row (so that the sets come
  in the order of the rows), in the order of the rows, and counts the transactions of each
  set; the number of sets is the largest number opened.
\<close>

theorem script_keeps_every_transaction:
  assumes "readCsv rows gw = Return gw' ()"
  shows "\<exists>ts. map row_transaction rows = map Some ts \<and> sorted (running_sets 0 rows) \<and>
     MaxSetNum gw' = last (0 # running_sets 0 rows) \<and>
     (\<forall>s. SetTransactionsMap gw' s = rows_of_set (running_sets 0 rows) ts s \<and>
        TransactionCountMap gw' s = wrap64 (int (length (SetTransactionsMap gw' s))))"
proof -
  obtain c where c: "read_rows (ClusterNodeMap gw) rows no_csv = Some c"
    and gw': "SetTransactionsMap gw' = cv_transactions c" "TransactionCountMap gw' = cv_count c" "MaxSetNum gw' = cv_max c"
    using assms by (auto simp: readCsv_def split: option.splits)
  have "in64 (cv_count no_csv s)" for s by (simp add: no_csv_def in64_def min64_def max64_def)
  from read_rows_result [OF c this] running_sets_sorted [of 0 rows] show ?thesis
    by (auto simp: gw' no_csv_def)
qed

definition demo_rows :: "string list list" where
  "demo_rows = [[''1'', ''(100, 501, 8)'', ''[S1, S5]'', ''[S1]'', ''[S5]''], [[], ''(1001, 1650, 2)'', [], [], []]]"

lemma demo_rows_read:
  "row_set (demo_rows ! 0) = Some 1" "row_set (demo_rows ! 1) = None"
  "\<exists>c. read_row cn (demo_rows ! 0) no_csv = Some c \<and> cv_byzantine c 1 = [''S5'']"
  "\<exists>c'. read_row cn (demo_rows ! 1) c = Some c' \<and> cv_byzantine c' = cv_byzantine c"
proof -
  have trim: "TrimSpace ''1'' = ''1''" "TrimSpace [] = []" "TrimSpace ''S5'' = ''S5''"
    by (simp_all add: TrimSpace_def drop_words.simps [of _ "''1''"] drop_words.simps [of _ "[]"]
        drop_words.simps [of _ "''S5''"] drop_words.simps [of _ "''5S''"] spaces_def)
  have one: "ParseInt ''1'' = (1, None)"
  proof -
    have "FormatInt 1 = ''1''" by code_simp
    with ParseInt_FormatInt [of 1] show ?thesis by (simp add: in64_def min64_def max64_def)
  qed
  have none: "ParseInt [] = (0, Some ErrSyntax)" by (simp add: ParseInt_def)
  have split: "split_on CHR '','' (Trim {CHR ''('', CHR '')''} ''(100, 501, 8)'') = [''100'', '' 501'', '' 8'']"
    "split_on CHR '','' (Trim {CHR ''('', CHR '')''} ''(1001, 1650, 2)'') = [''1001'', '' 1650'', '' 2'']"
    by code_simp+
  have "split_on CHR '','' (Trim {CHR ''['', CHR '']''} ''[S5]'') = [''S5'']" by code_simp
  then have byz: "server_list ''[S5]'' = [''S5'']" by (simp add: server_list_def trim)
  show "row_set (demo_rows ! 0) = Some 1" "row_set (demo_rows ! 1) = None"
    by (simp_all add: row_set_def demo_rows_def trim one none)
  show "\<exists>c. read_row cn (demo_rows ! 0) no_csv = Some c \<and> cv_byzantine c 1 = [''S5'']"
    "\<exists>c'. read_row cn (demo_rows ! 1) c = Some c' \<and> cv_byzantine c' = cv_byzantine c"
    by (simp_all add: read_row_def csv_field_def demo_rows_def trim one none open_set_def row_transaction_def split byz)
qed

lemma demo_rows_split: "demo_rows = [demo_rows ! 0, demo_rows ! 1]"
  by (simp add: demo_rows_def)

lemma demo_script: "\<exists>c. read_rows cn demo_rows no_csv = Some c \<and> cv_byzantine c 1 = [''S5'']"
proof -
  obtain c where "read_row cn (demo_rows ! 0) no_csv = Some c" "cv_byzantine c 1 = [''S5'']"
    using demo_rows_read(3) by blast
  moreover obtain c' where "read_row cn (demo_rows ! 1) c = Some c'" "cv_byzantine c' = cv_byzantine c"
    using demo_rows_read(4) by blast
  ultimately have "read_rows cn [demo_rows ! 0, demo_rows ! 1] no_csv = Some c' \<and> cv_byzantine c' 1 = [''S5'']" by simp
  then show ?thesis unfolding demo_rows_split [symmetric] by blast
qed

lemma demo_rows_sets: "running_sets 0 demo_rows = [1, 1]"
proof -
  have "running_sets 0 [demo_rows ! 0, demo_rows ! 1] = [1, 1]" by (simp add: demo_rows_read(1,2) [simplified])
  then show ?thesis unfolding demo_rows_split [symmetric] .
qed

theorem script_keeps_every_transaction_witness:
  "\<exists>gw'. readCsv demo_rows (new_gateway (demo_key 0)) = Return gw' () \<and> MaxSetNum gw' = 1 \<and>
     length (SetTransactionsMap gw' 1) = 2 \<and> TransactionCountMap gw' 1 = 2"
proof -
  obtain gw' where gw': "readCsv demo_rows (new_gateway (demo_key 0)) = Return gw' ()"
    using demo_script [of "[]"] by (auto simp: readCsv_def new_gateway_def)
  from script_keeps_every_transaction [OF gw'] obtain ts where
    ts: "map row_transaction [demo_rows ! 0, demo_rows ! 1] = map Some ts"
    and all: "MaxSetNum gw' = 1" "SetTransactionsMap gw' 1 = rows_of_set [1, 1] ts 1"
      "TransactionCountMap gw' 1 = wrap64 (int (length (SetTransactionsMap gw' 1)))"
    unfolding demo_rows_sets demo_rows_split [symmetric] by auto
  from ts obtain t u where "ts = [t, u]" by (auto simp: Cons_eq_map_conv)
  with all gw' show ?thesis by (auto simp: rows_of_set_def in64_def min64_def max64_def)
qed

section \<open>Reports\<close>

lemma fold_add64: "in64 d \<Longrightarrow> fold (\<lambda>j d. add64 d (f j)) js d = wrap64 (d + sum_list (map f js))"
proof (induction js arbitrary: d)
  case (Cons j js)
  from Cons.IH [of "add64 d (f j)"] show ?case by (simp add: add64_def add.assoc)
qed simp

lemma add_durations_sum:
  assumes "0 \<le> l" "0 \<le> c" "l + c < max64" "in64 d"
  shows "add_durations gw l c d = Some (wrap64 (d + (\<Sum>j\<in>{l + 1..l + c}. latency_at gw j)))"
proof -
  have "in64 (l + 1)" "in64 (l + c)" using assms by (simp_all add: in64_def min64_def)
  then show ?thesis
    using assms fold_add64 [OF assms(4), of "latency_at gw" "[l + 1..l + c]"]
    by (simp add: add_durations_def add64_in for_range_ends interv_sum_list_conv_sum_set_int)
qed

lemma sum_upto_split:
  fixes f :: "int \<Rightarrow> int"
  assumes "a \<le> b" "b \<le> c"
  shows "sum f {a + 1..b} + sum f {b + 1..c} = sum f {a + 1..c}"
proof -
  have "{a + 1..c} = {a + 1..b} \<union> {b + 1..c}" using assms by auto
  then show ?thesis by (simp add: sum.union_disjoint)
qed

lemma overall_sums:
  assumes "\<And>i. i \<in> set is \<Longrightarrow> 0 \<le> TransactionCountMap gw i"
    and "0 \<le> l" "l + sum_list (map (TransactionCountMap gw) is) < max64" "in64 d"
  shows "overall gw l l d is = Some (l + sum_list (map (TransactionCountMap gw) is),
     wrap64 (d + (\<Sum>j\<in>{l + 1..l + sum_list (map (TransactionCountMap gw) is)}. latency_at gw j)))"
  using assms
proof (induction "is" arbitrary: l d)
  case (Cons i "is")
  let ?c = "TransactionCountMap gw i" and ?r = "sum_list (map (TransactionCountMap gw) is)"
  have pos: "0 \<le> ?c" "0 \<le> ?r" using Cons.prems(1) by (auto intro!: sum_list_nonneg)
  have lim: "l + ?c < max64" "in64 (l + ?c)" using Cons.prems(2,3) pos by (simp_all add: in64_def min64_def)
  let ?d = "wrap64 (d + (\<Sum>j\<in>{l + 1..l + ?c}. latency_at gw j))"
  have "overall gw l l d (i # is) = overall gw (l + ?c) (l + ?c) ?d is"
    using add_durations_sum [OF Cons.prems(2) pos(1) lim(1) Cons.prems(4)] lim(2) by (simp add: Let_def add64_in)
  also have "\<dots> = Some (l + ?c + ?r, wrap64 (?d + (\<Sum>j\<in>{l + ?c + 1..l + ?c + ?r}. latency_at gw j)))"
    by (rule Cons.IH) (use Cons.prems pos in simp_all)
  finally show ?case
    using sum_upto_split [of l "l + ?c" "l + ?c + ?r" "latency_at gw"] pos by (simp add: add.assoc)
qed simp

lemma set_wise_total:
  assumes "\<And>i. i \<in> set is \<Longrightarrow> 0 \<le> TransactionCountMap gw i"
    and "0 \<le> l" "l + sum_list (map (TransactionCountMap gw) is) < max64"
  shows "\<exists>rows. set_wise gw l is = Some rows \<and> map fst rows = is \<and>
     map (fst \<circ> snd) rows = map (TransactionCountMap gw) is"
  using assms
proof (induction "is" arbitrary: l)
  case (Cons i "is")
  let ?c = "TransactionCountMap gw i" and ?r = "sum_list (map (TransactionCountMap gw) is)"
  have pos: "0 \<le> ?c" "0 \<le> ?r" using Cons.prems(1) by (auto intro!: sum_list_nonneg)
  have lim: "l + ?c < max64" "in64 (l + ?c)" "in64 0" using Cons.prems(2,3) pos
    by (simp_all add: in64_def min64_def max64_def)
  obtain rows where "set_wise gw (l + ?c) is = Some rows" "map fst rows = is"
    "map (fst \<circ> snd) rows = map (TransactionCountMap gw) is"
    using Cons.IH [of "l + ?c"] Cons.prems pos by auto
  moreover have "average (wrap64 (\<Sum>j\<in>{l + 1..l + ?c}. latency_at gw j)) ?c \<noteq> None"
    using lim(3) by (auto simp: average_def)
  ultimately show ?case
    using add_durations_sum [OF Cons.prems(2) pos(1) lim(1,3)] lim(2) by (auto simp: Let_def add64_in)
qed simp

text \<open>
  The reports do not fail, and agree with the executed sets: with counts that are not negative
  and fewer transactions than \<open>2^63\<close> in all, the report per set has one line for every
  executed set with its count, no average divides by zero, and the overall report is of all
  their transactions: their number, and their summed latencies (modulo \<open>2^64\<close>) divided by it.
\<close>

theorem reports_total:
  assumes "MaxExecutedSet gw < max64" "\<And>i. 1 \<le> i \<Longrightarrow> i \<le> MaxExecutedSet gw \<Longrightarrow> 0 \<le> TransactionCountMap gw i"
    and "N = (\<Sum>i\<in>{1..MaxExecutedSet gw}. TransactionCountMap gw i)" "N < max64"
    and "D = wrap64 (\<Sum>j\<in>{1..N}. latency_at gw j)"
  shows "(\<exists>rows. printSetWiseLatency gw = Some rows \<and>
        map (\<lambda>(i, c, avg). (i, c)) rows = map (\<lambda>i. (i, TransactionCountMap gw i)) [1..MaxExecutedSet gw]) \<and>
     printOverallLatency gw = Some (N, if D = 0 then None else Some (quot64 D N, D))"
proof -
  let ?is = "[1..MaxExecutedSet gw]"
  have N: "sum_list (map (TransactionCountMap gw) ?is) = N"
    by (simp add: assms(3) interv_sum_list_conv_sum_set_int)
  have pos: "\<And>i. i \<in> set ?is \<Longrightarrow> 0 \<le> TransactionCountMap gw i" using assms(2) by simp
  have zero: "in64 0" by (simp add: in64_def min64_def max64_def)
  obtain rows where rows: "set_wise gw 0 ?is = Some rows" "map fst rows = ?is"
    "map (fst \<circ> snd) rows = map (TransactionCountMap gw) ?is"
    using set_wise_total [of ?is gw 0, OF pos] N assms(4) by auto
  have "map (\<lambda>(i, c, avg). (i, c)) rows = zip (map fst rows) (map (fst \<circ> snd) rows)"
    by (induction rows) auto
  also have "\<dots> = map (\<lambda>i. (i, TransactionCountMap gw i)) ?is"
    unfolding rows(2,3) by (simp add: zip_map2 zip_same_conv_map)
  finally have lines: "map (\<lambda>(i, c, avg). (i, c)) rows = map (\<lambda>i. (i, TransactionCountMap gw i)) ?is" .
  have all: "overall gw 0 0 0 ?is = Some (N, D)"
    using overall_sums [of ?is gw 0 0, OF pos] zero N assms(4) by (simp add: assms(5))
  have "N = 0 \<Longrightarrow> D = 0" using zero by (simp add: assms(5))
  with rows(1) lines all show ?thesis
    by (auto simp: printSetWiseLatency_def printOverallLatency_def for_range_ends [OF assms(1)] average_def)
qed


definition demo_measured :: Gateway where
  "demo_measured = (new_gateway (demo_key 0))\<lparr>MaxExecutedSet := 2, TransactionCountMap := (\<lambda>_. 1),
     transactionLatency := [1 \<mapsto> \<lparr>rs_transaction = demo_tx, rs_latency = 30, rs_success = True\<rparr>]\<rparr>"

theorem reports_total_witness:
  "printOverallLatency demo_measured = Some (2, Some (15, 30)) \<and> printSetWiseLatency demo_measured \<noteq> None"
proof -
  have sets: "{1..MaxExecutedSet demo_measured} = {1, 2}" "{1..2::int} = {1, 2}"
    by (auto simp: demo_measured_def)
  have lim: "MaxExecutedSet demo_measured < max64" "(2::int64) < max64" by (simp_all add: demo_measured_def max64_def)
  have pos: "0 \<le> TransactionCountMap demo_measured i" for i by (simp add: demo_measured_def)
  have n: "2 = (\<Sum>i\<in>{1..MaxExecutedSet demo_measured}. TransactionCountMap demo_measured i)"
    unfolding sets(1) by (simp add: demo_measured_def)
  have d: "30 = wrap64 (\<Sum>j\<in>{1..2}. latency_at demo_measured j)"
    unfolding sets(2) by (simp add: demo_measured_def latency_at_def new_gateway_def in64_def min64_def max64_def)
  have q: "quot64 30 2 = 15" by (simp add: quot64_def in64_def min64_def max64_def)
  from reports_total [OF lim(1) pos n lim(2) d] q show ?thesis by (simp, blast)
qed

end
