(* ===== verification/Stores.thy ===== *)
theory Stores
  imports Wal DemoNode
begin

text \<open>
  The stores of a node through several operations: what a sequence of appends to the
  write-ahead log leaves to read, and what saved transactions are read back as.
\<close>

fun append_all :: "'b env \<Rightarrow> 'b Database \<Rightarrow> int64 \<Rightarrow> WALLog list list \<Rightarrow> 'b Database option" where
  "append_all E d n [] = Some d"
| "append_all E d n (l # ls) =
     (case AppendToWALEntry E d n l of
        (d', None) \<Rightarrow> append_all E d' n ls
      | (d', Some e) \<Rightarrow> None)"

lemma ascii_wal_append: "ascii_wal \<lparr>Logs = xs @ ys\<rparr> \<longleftrightarrow> ascii_wal \<lparr>Logs = xs\<rparr> \<and> ascii_wal \<lparr>Logs = ys\<rparr>"
  by (simp add: ascii_wal_def)

lemma append_all_reads:
  assumes "bolt_ok E" "json_ok E"
  shows "wal_readable E d n \<Longrightarrow> ascii_wal \<lparr>Logs = wal_view E d n @ concat ls\<rparr> \<Longrightarrow> in64 n \<Longrightarrow> append_all E d n ls = Some d' \<Longrightarrow>
     wal_readable E d' n \<and> wal_view E d' n = wal_view E d n @ concat ls \<and>
     (\<forall>m. in64 m \<and> m \<noteq> n \<longrightarrow> ReadWALEntry E d' m = ReadWALEntry E d m)"
proof (induction ls arbitrary: d)
  case (Cons l ls)
  then obtain d1 where d1: "AppendToWALEntry E d n l = (d1, None)" "append_all E d1 n ls = Some d'"
    by (auto split: prod.splits option.splits)
  have "ascii_wal \<lparr>Logs = wal_view E d n @ l\<rparr>" using Cons.prems(2) by (simp add: ascii_wal_append)
  from AppendToWALEntry_read [OF assms Cons.prems(1) this d1(1)]
  have read: "ReadWALEntry E d1 n = Inr \<lparr>Logs = wal_view E d n @ l\<rparr>" .
  have view: "wal_view E d1 n = wal_view E d n @ l" "wal_readable E d1 n"
    by (simp_all add: wal_view_def [of E d1] wal_readable_def read)
  have "ReadWALEntry E d1 m = ReadWALEntry E d m" if "in64 m" "m \<noteq> n" for m
    using AppendToWALEntry_other [OF assms(1) d1(1) Cons.prems(3) that] .
  with Cons.IH [OF view(2) _ Cons.prems(3) d1(2)] Cons.prems(2) view show ?case by simp
qed simp

text \<open>
  C33. The write-ahead log reads back: after any number of successful appends under one client
  sequence number, what is read is the old logs followed by all the new ones in order, the
  entries of the other numbers are as they were, and erasing the entry leaves nothing to
  read there.
\<close>

theorem wal_reads_back:
  assumes "bolt_ok E" "json_ok E" "wal_readable E d n" "in64 n" "append_all E d n ls = Some d'"
    and "ascii_wal \<lparr>Logs = wal_view E d n @ concat ls\<rparr>"
  shows "wal_view E d' n = wal_view E d n @ concat ls \<and>
     (\<forall>m. in64 m \<and> m \<noteq> n \<longrightarrow> ReadWALEntry E d' m = ReadWALEntry E d m \<and>
        ReadWALEntry E (EraseWal E d' n) m = ReadWALEntry E d m) \<and>
     ReadWALEntry E (EraseWal E d' n) n = Inl (NoWal n)"
  using append_all_reads [OF assms(1,2,3,6,4,5)] EraseWal_read [OF assms(1)] EraseWal_other [OF assms(1,4)] by simp

definition demo_wal_log :: WALLog where
  "demo_wal_log = \<lparr>wl_Operation = ''set'', wl_Subject = ''1'', wl_Transaction = Some demo_tx\<rparr>"

theorem wal_reads_back_witness:
  "\<exists>d. append_all demo_env demo_db 7 [[demo_wal_log], [demo_wal_log]] = Some d \<and>
     wal_view demo_env d 7 = [demo_wal_log, demo_wal_log]"
proof -
  have append: "\<exists>d'. AppendToWALEntry demo_env d 7 logs = (d', None)" for d logs
    by (cases "bkt_get demo_env (walBucket d) (FormatInt 7)")
      (auto simp: AppendToWALEntry_def demo_simps demo_json_def demo_wal_read_def demo_put_def in64_def
        min64_def max64_def split: option.splits)
  obtain d1 where d1: "AppendToWALEntry demo_env demo_db 7 [demo_wal_log] = (d1, None)" using append by blast
  obtain d where d: "AppendToWALEntry demo_env d1 7 [demo_wal_log] = (d, None)" using append by blast
  have all: "append_all demo_env demo_db 7 [[demo_wal_log], [demo_wal_log]] = Some d" by (simp add: d1 d)
  have none: "wal_view demo_env demo_db 7 = []" "wal_readable demo_env demo_db 7"
    by (simp_all add: wal_view_def wal_readable_def ReadWALEntry_def demo_db_buckets demo_simps demo_get_def)
  have "ascii_wal \<lparr>Logs = [demo_wal_log, demo_wal_log]\<rparr>"
    by (simp add: ascii_wal_def demo_wal_log_def demo_tx_def ascii_tx_opt_def ascii_tx_def ascii_def)
  with wal_reads_back [OF demo_bolt_ok demo_json_ok none(2) _ all] all none(1) show ?thesis
    by (simp add: in64_def min64_def max64_def)
qed

end
