(* ===== verification/Hazards.thy ===== *)
theory Hazards
  imports Views Reachable
begin

text \<open>
  What can hang in a node: the mutex of the checkpoint table, which is taken and never
  released, and the view-change timer, which stays marked as started after it fired until
  somebody stops it.
\<close>

section \<open>The mutex of the checkpoint table\<close>

definition lock_count :: "'b Node \<Rightarrow> nat" where
  "lock_count n = (if CheckpointCertsLock n then 1 else 0)"

lemma lock_count_le: "lock_count n \<le> 1"
  by (simp add: lock_count_def)

text \<open>The requests that name a checkpoint.\<close>

definition carries_checkpoint :: "SignedViewChangeRequest \<Rightarrow> bool" where
  "carries_checkpoint c =
     (case svc_ViewChangeRequest c of None \<Rightarrow> False | Some vc \<Rightarrow> 0 < vc_LastStableCheckpoint vc)"

lemma checkpoint_certs_loop_state: "checkpoint_certs_loop E n digest certs rs = Return n' x \<Longrightarrow> n' = n"
  by (induction rs arbitrary: certs) (auto simp: outcome_simps split: if_splits)

text \<open>Each checkpoint that passes takes the mutex, and one that finds it taken waits for ever.\<close>

lemma validateCheckpointCerts_lock:
  assumes "validateCheckpointCerts E n seq reqs st = Return n' None"
  shows "lock_count n' = lock_count n + (if seq = 0 then 0 else 1)"
proof (cases "seq = 0")
  case True
  with assms show ?thesis by (simp add: validateCheckpointCerts_def)
next
  case False
  with assms show ?thesis
    by (auto simp: validateCheckpointCerts_def Let_def outcome_simps lock_count_def
        dest!: checkpoint_certs_loop_state split: if_splits)
qed

lemma view_change_certs_loop_lock:
  "view_change_certs_loop E m cs valid = Return m' (Inr cnt) \<Longrightarrow>
     lock_count m' = lock_count m + length (filter (\<lambda>c. view_change_valid E m c \<and> carries_checkpoint c) cs)"
proof (induction cs arbitrary: m valid)
  case (Cons c cs)
  then obtain vc ok where c: "svc_ViewChangeRequest c = Some vc"
    "VerifySignature E (getPublicKey m (vc_NodeId vc)) (wire_ViewChangeRequest vc) (svc_Signature c) = Some ok"
    by (auto simp: outcome_simps)
  note valid = view_change_valid_iff [OF c]
  have carries: "carries_checkpoint c = (0 < vc_LastStableCheckpoint vc)" by (simp add: carries_checkpoint_def c)
  show ?case
  proof (cases "ok \<and> 0 < vc_LastStableCheckpoint vc")
    case True
    with Cons.prems c obtain state m1 where m1:
      "validateCheckpointCerts E m (vc_LastStableCheckpoint vc) (vc_CheckpointCerts vc) state = Return m1 None"
      "view_change_certs_loop E m1 cs (valid + 1) = Return m' (Inr cnt)"
      by (auto simp: outcome_simps split: option.splits)
    have "checked_from m m1"
      by (rule keeps_ReturnD [OF checked_from_checkpoint m1(1)]) simp
    then have "view_change_valid E m1 = view_change_valid E m"
      by (intro view_change_valid_cong checked_from_sel(3))
    with Cons.IH [OF m1(2)] validateCheckpointCerts_lock [OF m1(1)] valid carries True show ?thesis by simp
  next
    case False
    have rest: "view_change_certs_loop E m cs (if ok then valid + 1 else valid) = Return m' (Inr cnt)"
      using Cons.prems c False by (auto split: if_splits)
    show ?thesis using Cons.IH [OF rest] valid carries False by auto
  qed
qed simp

lemma adopt_view_lock: "adopt_view m nv = Return n' err \<Longrightarrow> lock_count n' = lock_count m"
  using adopt_view_result [of m nv n' err] by (auto simp: lock_count_def)

text \<open>How many checkpoints a new view carries that are checked before it is adopted.\<close>

definition checkpoints_in :: "'b env \<Rightarrow> 'b Node \<Rightarrow> NewViewRequest \<Rightarrow> nat" where
  "checkpoints_in E n nv =
     length (filter (\<lambda>c. view_change_valid E n c \<and> carries_checkpoint c) (nv_ViewChangeCerts nv)) +
     (if nv_LatestStableCheckpoint nv = 0 then 0 else 1)"

lemma adopted_counts:
  assumes "rpc_NewView E n req = Return n' None" "NewViewCerts n' \<noteq> NewViewCerts n" "snv_NewView req = Some nv"
  shows "lock_count n + checkpoints_in E n nv = lock_count n'"
proof -
  let ?n = "n\<lparr>Tmr := Stop (Tmr n)\<rparr>"
  obtain st cnt m1 m2 where m:
    "view_change_certs_loop E ?n (nv_ViewChangeCerts nv) 0 = Return m1 (Inr cnt)"
    "validateCheckpointCerts E m1 (nv_LatestStableCheckpoint nv) (nv_CheckpointCerts nv) st = Return m2 None"
    "adopt_view m2 nv = Return n' None"
    using rpc_NewView_steps [OF assms(1,2)] assms(3) by auto
  have "view_change_valid E ?n = view_change_valid E n" by (rule view_change_valid_cong) simp
  moreover have "lock_count ?n = lock_count n" by (simp add: lock_count_def)
  ultimately show ?thesis
    using view_change_certs_loop_lock [OF m(1)] validateCheckpointCerts_lock [OF m(2)] adopt_view_lock [OF m(3)]
    by (simp add: checkpoints_in_def)
qed

text \<open>A node whose mutex is taken adopts no further checkpoint, and its handler of checkpoints waits.\<close>

lemma taken_refuses:
  assumes "CheckpointCertsLock m" "snv_NewView req = Some nv" "checkpoints_in E m nv \<noteq> 0"
    and "rpc_NewView E m req = Return m' None"
  shows "NewViewCerts m' = NewViewCerts m"
proof (rule ccontr)
  assume "NewViewCerts m' \<noteq> NewViewCerts m"
  from adopted_counts [OF assms(4) this assms(2)] assms(1,3) lock_count_le [of m'] show False
    by (simp add: lock_count_def)
qed

lemma taken_waits:
  assumes "CheckpointCertsLock m" "Live m" "scp_Checkpoint r = Some cp" "PublicKeyMap m (cp_NodeId cp) = Some pk"
    and "verified E pk (wire_Checkpoint cp) (scp_Signature r)"
  shows "rpc_Checkpoint E m r = Blocked m"
  using assms by (simp add: rpc_Checkpoint_def validateCheckpoint_def getPublicKey_def)

text \<open>
  C25. A node adopts at most one checkpoint in its life. Every checkpoint that passes while a
  new view is checked, in a request or in the message itself, takes the mutex, and a new view
  is adopted only when these and the mutex already taken make at most one. Once taken the
  mutex stays taken in every later state of the node, whatever it receives and however its
  goroutines interleave: from then on no new view that carries a checkpoint is adopted, and a
  checkpoint message with a good signature is never answered, since its handler waits for the
  mutex.
\<close>

theorem one_checkpoint_for_life:
  assumes "rpc_NewView E n req = Return n' None" "NewViewCerts n' \<noteq> NewViewCerts n" "snv_NewView req = Some nv"
    and "node_runs E True n' m"
  shows "lock_count n + checkpoints_in E n nv = lock_count n' \<and> lock_count n' \<le> 1 \<and>
     (lock_count n' = 1 \<longrightarrow>
        CheckpointCertsLock m \<and>
        (\<forall>r nv' m'. snv_NewView r = Some nv' \<and> checkpoints_in E m nv' \<noteq> 0 \<and> rpc_NewView E m r = Return m' None \<longrightarrow>
           NewViewCerts m' = NewViewCerts m) \<and>
        (\<forall>r cp pk. Live m \<and> scp_Checkpoint r = Some cp \<and> PublicKeyMap m (cp_NodeId cp) = Some pk \<and>
             verified E pk (wire_Checkpoint cp) (scp_Signature r) \<longrightarrow>
           rpc_Checkpoint E m r = Blocked m))"
proof -
  have "CheckpointCertsLock m" if "lock_count n' = 1"
    using mutex.all_runs_keep [OF assms(4), of True] that by (simp add: lock_count_def split: if_splits)
  then show ?thesis
    using adopted_counts [OF assms(1-3)] lock_count_le [of n'] taken_refuses taken_waits by blast
qed

text \<open>A new view with a checkpoint that three nodes have signed, and an empty state.\<close>

definition demo_checkpoint_body :: "string \<Rightarrow> Checkpoint" where
  "demo_checkpoint_body name = \<lparr>cp_Sequence = 100,
     cp_Digest = (case MD5Hash demo_env (balances_doc []) of None \<Rightarrow> [] | Some d \<Rightarrow> d), cp_NodeId = name\<rparr>"

definition demo_checkpoint :: "string \<Rightarrow> int \<Rightarrow> SignedCheckpointRequest" where
  "demo_checkpoint name i = \<lparr>scp_Checkpoint = Some (demo_checkpoint_body name),
     scp_Signature = signature_or_nil demo_env (demo_key i) (wire_Checkpoint (demo_checkpoint_body name))\<rparr>"

definition demo_checkpoint_view_body :: NewViewRequest where
  "demo_checkpoint_view_body = demo_new_view_body\<lparr>nv_LatestStableCheckpoint := 100,
     nv_CheckpointCerts := [demo_checkpoint ''S2'' 2, demo_checkpoint ''S3'' 3, demo_checkpoint ''S4'' 4]\<rparr>"

definition demo_checkpoint_view :: SignedNewViewRequest where
  "demo_checkpoint_view = \<lparr>snv_NewView = Some demo_checkpoint_view_body,
     snv_Signature = signature_or_nil demo_env (demo_key 1) (wire_NewViewRequest demo_checkpoint_view_body)\<rparr>"

lemma demo_names_known:
  "demo_keys ''S1'' = Some (PublicKey 1 65537)" "demo_keys ''S2'' = Some (PublicKey 2 65537)"
  "demo_keys ''S3'' = Some (PublicKey 3 65537)" "demo_keys ''S4'' = Some (PublicKey 4 65537)"
  by (simp_all add: demo_keys_def)

lemma demo_checkpoint_checked:
  assumes "PublicKeyMap m = demo_keys" "\<not> CheckpointCertsLock m"
  shows "\<exists>cps. validateCheckpointCerts demo_env m 100 (nv_CheckpointCerts demo_checkpoint_view_body) [] =
     Return (m\<lparr>CheckpointCertsLock := True, CheckpointCerts := cps\<rparr>) None"
  using assms demo_verified
  by (simp add: validateCheckpointCerts_def demo_checkpoint_view_body_def demo_checkpoint_def demo_checkpoint_body_def
      getPublicKey_def demo_names_known F_def Let_def) (rule exI, rule refl)

lemma demo_checkpoint_view_adopted:
  "\<exists>n'. rpc_NewView demo_env demo_node demo_checkpoint_view = Return n' None \<and> PublicKeyMap n' = demo_keys \<and>
     NewViewCerts n' \<noteq> NewViewCerts demo_node"
proof -
  let ?n = "demo_node\<lparr>Tmr := Stop (Tmr demo_node)\<rparr>"
  have view: "getViewLeader ?n = Some ''S1''" "PublicKeyMap ?n = demo_keys" "\<not> CheckpointCertsLock ?n"
    using demo_leader by (simp_all add: getViewLeader_def demo_replica_def demo_node_tables)
  obtain cps where cps: "validateCheckpointCerts demo_env ?n 100 (nv_CheckpointCerts demo_checkpoint_view_body) [] =
      Return (?n\<lparr>CheckpointCertsLock := True, CheckpointCerts := cps\<rparr>) None"
    using demo_checkpoint_checked [OF view(2,3)] by blast
  have certs: "validateViewChangeCerts demo_env ?n (nv_ViewChangeCerts demo_new_view_body) = Return ?n None"
    using view(2) demo_verified
    by (simp add: validateViewChangeCerts_def demo_new_view_body_def demo_view_change_def Let_def demo_names_known
        getPublicKey_def F_def)
  have body: "nv_ViewChangeCerts demo_checkpoint_view_body = nv_ViewChangeCerts demo_new_view_body"
    "nv_LatestStableCheckpoint demo_checkpoint_view_body = 100" "nv_Prepared demo_checkpoint_view_body = []"
    "convertProtoBalancesToMap (nv_State demo_checkpoint_view_body) = Some []"
    by (simp_all add: demo_checkpoint_view_body_def demo_new_view_body_def convertProtoBalancesToMap_def
        convertBalancesToProto_def)
  have "rpc_NewView demo_env demo_node demo_checkpoint_view =
      adopt_view (?n\<lparr>CheckpointCertsLock := True, CheckpointCerts := cps\<rparr>) demo_checkpoint_view_body"
    using view demo_verified [of 1] certs cps
    by (simp add: rpc_NewView_def Let_def demo_checkpoint_view_def body getPublicKey_def demo_names_known)
  then show ?thesis using view(2) by (simp add: adopt_view_def body Let_def)
qed

theorem one_checkpoint_for_life_witness:
  "\<exists>n'. rpc_NewView demo_env demo_node demo_checkpoint_view = Return n' None \<and> lock_count n' = 1 \<and>
     rpc_Checkpoint demo_env (rpc_SetStatus n' True) (demo_checkpoint ''S2'' 2) = Blocked (rpc_SetStatus n' True)"
proof -
  obtain n' where n': "rpc_NewView demo_env demo_node demo_checkpoint_view = Return n' None" "PublicKeyMap n' = demo_keys"
    "NewViewCerts n' \<noteq> NewViewCerts demo_node" using demo_checkpoint_view_adopted by blast
  have nv: "snv_NewView demo_checkpoint_view = Some demo_checkpoint_view_body"
    "0 < checkpoints_in demo_env demo_node demo_checkpoint_view_body"
    by (simp_all add: demo_checkpoint_view_def checkpoints_in_def demo_checkpoint_view_body_def)
  have up: "Live (rpc_SetStatus n' True)" "PublicKeyMap (rpc_SetStatus n' True) = demo_keys"
    using n'(2) by (simp_all add: rpc_SetStatus_def)
  have "scp_Checkpoint (demo_checkpoint ''S2'' 2) = Some (demo_checkpoint_body ''S2'')"
    "demo_keys (cp_NodeId (demo_checkpoint_body ''S2'')) = Some (PublicKey 2 65537)"
    "verified demo_env (PublicKey 2 65537) (wire_Checkpoint (demo_checkpoint_body ''S2''))
       (scp_Signature (demo_checkpoint ''S2'' 2))"
    using demo_verified [of 2] demo_names_known by (simp_all add: demo_checkpoint_def demo_checkpoint_body_def)
  with one_checkpoint_for_life [OF n'(1,3) nv(1) set_status [of demo_env True n' True]] nv(2) up n'(1) show ?thesis
    by (intro exI [of _ n']) auto
qed

section \<open>Checkpoints with an empty digest\<close>

text \<open>A node that takes a checkpoint message, and that it can still take the next.\<close>

definition takes_checkpoint :: "'b env \<Rightarrow> SignedCheckpointRequest \<Rightarrow> Checkpoint \<Rightarrow> 'b Node \<Rightarrow> bool" where
  "takes_checkpoint E req cp n \<longleftrightarrow> scp_Checkpoint req = Some cp \<and> Live n \<and> \<not> CheckpointCertsLock n \<and>
     (\<exists>pk. PublicKeyMap n (cp_NodeId cp) = Some pk \<and> verified E pk (wire_Checkpoint cp) (scp_Signature req))"

lemma takes_checkpoint_returns:
  "takes_checkpoint E req cp n \<Longrightarrow> rpc_Checkpoint E n req = Return (record_checkpoint n req cp) None"
  by (auto simp: takes_checkpoint_def rpc_Checkpoint_def validateCheckpoint_def getPublicKey_def)

lemma takes_checkpoint_again: "takes_checkpoint E req cp n \<Longrightarrow> takes_checkpoint E req cp (record_checkpoint n req cp)"
  by (simp add: takes_checkpoint_def record_checkpoint_def stabilise_def emit_def Let_def split: option.splits)

lemma record_first:
  "CheckpointCerts n (cp_Sequence cp) = None \<Longrightarrow>
     record_checkpoint n req cp = n\<lparr>CheckpointCerts := (CheckpointCerts n)(cp_Sequence cp \<mapsto> empty_checkpoint [req])\<rparr>"
  by (simp add: record_checkpoint_def)

lemma record_more:
  "CheckpointCerts n (cp_Sequence cp) = Some data \<Longrightarrow> cd_Digest data = cp_Digest cp \<Longrightarrow>
     length (cd_Certs data) \<noteq> 2 * F \<Longrightarrow>
     record_checkpoint n req cp = n\<lparr>CheckpointCerts := (CheckpointCerts n)(cp_Sequence cp \<mapsto>
       data\<lparr>cd_Certs := cd_Certs data @ [req]\<rparr>)\<rparr>"
  by (simp add: record_checkpoint_def Let_def)

lemma record_last:
  assumes "CheckpointCerts n (cp_Sequence cp) = Some data" "cd_Digest data = cp_Digest cp"
    "length (cd_Certs data) = 2 * F" "LastStable n < cp_Sequence cp"
  shows "LastStable (record_checkpoint n req cp) = cp_Sequence cp \<and>
     LastStableBalances (record_checkpoint n req cp) = cd_Balances data \<and>
     Seq (record_checkpoint n req cp) = max (Seq n) (add64 (cp_Sequence cp) 1) \<and>
     cd_Stable (checkpoint_at (record_checkpoint n req cp) (cp_Sequence cp))"
  using assms by (simp add: record_checkpoint_def stabilise_def emit_def Let_def checkpoint_at_def)

text \<open>
  C24. One node can forge a checkpoint: a node that has no checkpoint of its own for a number
  compares digests with the empty one, so that four copies of one signed message with an
  empty digest, from a single node, make that number its last stable checkpoint, with no
  balances at all, and push its next sequence number past it.
\<close>

theorem one_node_forges_checkpoint:
  assumes "takes_checkpoint E req cp n" "cp_Digest cp = []"
    and "CheckpointCerts n (cp_Sequence cp) = None" "LastStable n < cp_Sequence cp"
  shows "\<exists>n1 n2 n3 n4. rpc_Checkpoint E n req = Return n1 None \<and> rpc_Checkpoint E n1 req = Return n2 None \<and>
     rpc_Checkpoint E n2 req = Return n3 None \<and> rpc_Checkpoint E n3 req = Return n4 None \<and>
     LastStable n4 = cp_Sequence cp \<and> LastStableBalances n4 = [] \<and>
     Seq n4 = max (Seq n) (add64 (cp_Sequence cp) 1) \<and> cd_Stable (checkpoint_at n4 (cp_Sequence cp))"
proof -
  let ?r = "\<lambda>m. record_checkpoint m req cp"
  have takes: "takes_checkpoint E req cp (?r n)" "takes_checkpoint E req cp (?r (?r n))"
    "takes_checkpoint E req cp (?r (?r (?r n)))"
    using takes_checkpoint_again assms(1) by blast+
  let ?at = "\<lambda>data. n\<lparr>CheckpointCerts := (CheckpointCerts n)(cp_Sequence cp \<mapsto> data)\<rparr>"
  let ?d = "empty_checkpoint [req]"
  have d: "cd_Digest ?d = []" "cd_Certs ?d = []" "cd_Balances ?d = []" by (simp_all add: empty_checkpoint_def)
  have 1: "?r n = ?at ?d" by (rule record_first [OF assms(3)])
  have 2: "?r (?r n) = ?at (?d\<lparr>cd_Certs := [req]\<rparr>)"
    using record_more [of "?at ?d" cp ?d req] d assms(2) by (simp add: 1 F_def)
  have 3: "?r (?r (?r n)) = ?at (?d\<lparr>cd_Certs := [req, req]\<rparr>)"
    using record_more [of "?at (?d\<lparr>cd_Certs := [req]\<rparr>)" cp "?d\<lparr>cd_Certs := [req]\<rparr>" req] d assms(2)
    by (simp add: 2 F_def)
  have 4: "LastStable (?r (?r (?r (?r n)))) = cp_Sequence cp \<and> LastStableBalances (?r (?r (?r (?r n)))) = [] \<and>
      Seq (?r (?r (?r (?r n)))) = max (Seq n) (add64 (cp_Sequence cp) 1) \<and>
      cd_Stable (checkpoint_at (?r (?r (?r (?r n)))) (cp_Sequence cp))"
    using record_last [of "?at (?d\<lparr>cd_Certs := [req, req]\<rparr>)" cp "?d\<lparr>cd_Certs := [req, req]\<rparr>" req] d assms(2,4)
    unfolding 3 by (simp add: F_def)
  show ?thesis
    using takes_checkpoint_returns [OF assms(1)] takes_checkpoint_returns [OF takes(1)]
      takes_checkpoint_returns [OF takes(2)] takes_checkpoint_returns [OF takes(3)] 4 by blast
qed

definition demo_forged_body :: Checkpoint where
  "demo_forged_body = \<lparr>cp_Sequence = 100, cp_Digest = [], cp_NodeId = ''S4''\<rparr>"

definition demo_forged :: SignedCheckpointRequest where
  "demo_forged = \<lparr>scp_Checkpoint = Some demo_forged_body,
     scp_Signature = signature_or_nil demo_env (demo_key 4) (wire_Checkpoint demo_forged_body)\<rparr>"

theorem one_node_forges_checkpoint_witness:
  "\<exists>n1 n2 n3 n4. rpc_Checkpoint demo_env demo_node demo_forged = Return n1 None \<and>
     rpc_Checkpoint demo_env n1 demo_forged = Return n2 None \<and> rpc_Checkpoint demo_env n2 demo_forged = Return n3 None \<and>
     rpc_Checkpoint demo_env n3 demo_forged = Return n4 None \<and> LastStable n4 = 100 \<and> Seq n4 = 101"
proof -
  have "demo_keys ''S4'' = Some (PublicKey 4 65537)" by (rule demo_names_known)
  then have "takes_checkpoint demo_env demo_forged demo_forged_body demo_node"
    using demo_verified [of 4]
    by (simp add: takes_checkpoint_def demo_forged_def demo_node_tables demo_forged_body_def)
  moreover have "add64 100 1 = 101" by (simp add: add64_def wrap64_def)
  ultimately show ?thesis
    using one_node_forges_checkpoint [of demo_env demo_forged demo_forged_body demo_node]
    by (simp add: demo_node_tables) (auto simp: demo_forged_body_def)
qed

section \<open>The timer\<close>

text \<open>
  What happens to the timer: it is armed, its time passes and the monitor looks, or others run
  that leave it alone, which is everything but asking for, announcing or receiving a view.
\<close>

datatype 'b timer_move = Arm | Elapse | Others "'b Node \<Rightarrow> 'b Node"

fun timer_moves :: "'b timer_move \<Rightarrow> 'b Node \<Rightarrow> 'b Node" where
  "timer_moves Arm n = n\<lparr>Tmr := StartIfNotRunning (Tmr n)\<rparr>"
| "timer_moves Elapse n = monitor_round (n\<lparr>Tmr := timer_expires (Tmr n)\<rparr>)"
| "timer_moves (Others f) n = f n"

definition leaves_timer :: "'b timer_move \<Rightarrow> bool" where
  "leaves_timer m \<longleftrightarrow> (\<forall>f n. m = Others f \<longrightarrow> Tmr (f n) = Tmr n)"

definition of_others :: "'b timer_move list \<Rightarrow> 'b timer_move list" where
  "of_others ms = filter (\<lambda>m. m \<noteq> Arm \<and> m \<noteq> Elapse) ms"

definition spent :: "Timer \<Rightarrow> bool" where
  "spent t \<longleftrightarrow> timerStarted t \<and> timer t = Some Idle"

lemma monitor_round_spends: "tick_ready (Tmr n) \<Longrightarrow> spent (Tmr (monitor_round n))"
  by (simp add: monitor_round_def spent_def take_tick_def tick_ready_def emit_def)

lemma spent_idle: "spent (Tmr n) \<Longrightarrow> timer_moves Arm n = n \<and> timer_moves Elapse n = n"
  by (simp add: spent_def StartIfNotRunning_def timer_expires_def monitor_round_def tick_ready_def)

lemma spent_move: "spent (Tmr n) \<Longrightarrow> leaves_timer m \<Longrightarrow> spent (Tmr (timer_moves m n))"
  using spent_idle [of n] by (cases m) (auto simp only: leaves_timer_def timer_moves.simps(3))

lemma spent_runs: "spent (Tmr n) \<Longrightarrow> list_all leaves_timer ms \<Longrightarrow> spent (Tmr (fold timer_moves ms n))"
  by (induction ms arbitrary: n) (simp_all add: spent_move)

lemma spent_others:
  "spent (Tmr n) \<Longrightarrow> list_all leaves_timer ms \<Longrightarrow> fold timer_moves ms n = fold timer_moves (of_others ms) n"
proof (induction ms arbitrary: n)
  case (Cons m ms)
  have "fold timer_moves ms (timer_moves m n) = fold timer_moves (of_others ms) (timer_moves m n)"
    using Cons.prems by (intro Cons.IH spent_move) simp_all
  moreover have "m = Arm \<or> m = Elapse \<Longrightarrow> timer_moves m n = n" using spent_idle [OF Cons.prems(1)] by auto
  ultimately show ?case by (auto simp: of_others_def simp del: timer_moves.simps)
qed (simp add: of_others_def)

lemma stopped_fires:
  "timer_moves Elapse (timer_moves Arm (n\<lparr>Tmr := Stop (Tmr n)\<rparr>)) =
     emit (GoSendViewChange (add64 (if \<not> ViewChanging n then View n else NewViewNum n) 1))
       (n\<lparr>Tmr := (Tmr n)\<lparr>timer := Some Idle, timerStarted := True\<rparr>\<rparr>)"
  by (simp add: StartIfNotRunning_def timer_expires_def monitor_round_def tick_ready_def take_tick_def emit_def Stop_def
    split: option.splits)

text \<open>
  C32. A timer that fires while the node is down is lost until somebody calls \<open>Stop\<close>. Its tick makes
  the monitor ask for a view, and the request does nothing because the node is down. From then
  on, also once the node is back, whatever others do that leaves the timer alone, arming it and
  the passing of time change nothing and the monitor does not act. Only a call of \<open>Stop\<close>, which
  comes with receiving a new view or joining a view change, repairs it: then arming it and
  letting its time pass makes the monitor ask for the next view.
\<close>

theorem tick_lost_while_down:
  assumes "tick_ready (Tmr n)" "\<not> Live n" "list_all leaves_timer ms"
    and "m = fold timer_moves ms (rpc_SetStatus (monitor_round n) True)"
  shows "sendViewChange E (monitor_round n) v = Return (monitor_round n) () \<and>
     m = fold timer_moves (of_others ms) (rpc_SetStatus (monitor_round n) True) \<and>
     timer_moves Arm m = m \<and> timer_moves Elapse m = m \<and>
     effects (timer_moves Elapse (timer_moves Arm (m\<lparr>Tmr := Stop (Tmr m)\<rparr>))) =
       effects m @ [GoSendViewChange (add64 (if \<not> ViewChanging m then View m else NewViewNum m) 1)]"
proof -
  have "\<not> Live (monitor_round n)" using assms(2) by (simp add: monitor_round_def emit_def)
  then have "sendViewChange E (monitor_round n) v = Return (monitor_round n) ()" by (simp add: sendViewChange_def)
  moreover have start: "spent (Tmr (rpc_SetStatus (monitor_round n) True))"
    using monitor_round_spends [OF assms(1)] by (simp add: rpc_SetStatus_def)
  have m: "m = fold timer_moves (of_others ms) (rpc_SetStatus (monitor_round n) True)"
    unfolding assms(4) by (rule spent_others [OF start assms(3)])
  have "spent (Tmr m)" unfolding assms(4) by (rule spent_runs [OF start assms(3)])
  then have "timer_moves Arm m = m \<and> timer_moves Elapse m = m" by (rule spent_idle)
  moreover have "effects (timer_moves Elapse (timer_moves Arm (m\<lparr>Tmr := Stop (Tmr m)\<rparr>))) =
      effects m @ [GoSendViewChange (add64 (if \<not> ViewChanging m then View m else NewViewNum m) 1)]"
    unfolding stopped_fires by (simp add: emit_def)
  ultimately show ?thesis using m by blast
qed

theorem tick_lost_while_down_witness:
  "\<exists>n m. n = demo_node\<lparr>Live := False, Tmr := timer_expires (StartIfNotRunning (Tmr demo_node))\<rparr> \<and>
     effects (monitor_round n) = [GoSendViewChange 2] \<and>
     m = fold timer_moves [Arm, Others (\<lambda>m. replyToClient demo_env m 100 True 7), Elapse, Elapse]
           (rpc_SetStatus (monitor_round n) True) \<and>
     timer_moves Elapse (timer_moves Arm m) = m \<and>
     effects (timer_moves Elapse (timer_moves Arm (m\<lparr>Tmr := Stop (Tmr m)\<rparr>))) =
       effects m @ [GoSendViewChange 2]"
proof -
  let ?n = "demo_node\<lparr>Live := False, Tmr := timer_expires (StartIfNotRunning (Tmr demo_node))\<rparr>"
  let ?ms = "[Arm, Others (\<lambda>m. replyToClient demo_env m 100 True 7), Elapse, Elapse]"
  have ready: "tick_ready (Tmr ?n)"
    by (simp add: demo_node_def establishConns_def NewNode_def NewTimer_def tick_ready_def timer_expires_def
        StartIfNotRunning_def)
  have "effects (monitor_round ?n) = [GoSendViewChange 2]"
    using ready by (simp add: monitor_round_def emit_def demo_node_tables add64_def wrap64_def)
  moreover have "list_all leaves_timer ?ms"
    by (simp add: leaves_timer_def replyToClient_def Let_def emit_def split: option.splits)
  define m where "m = fold timer_moves ?ms (rpc_SetStatus (monitor_round ?n) True)"
  have "\<not> Live ?n" by simp
  note lost = tick_lost_while_down [OF ready this \<open>list_all leaves_timer ?ms\<close> m_def, of demo_env 2]
  have idle: "timer_moves Arm m = m" "timer_moves Elapse m = m"
    and stop: "effects (timer_moves Elapse (timer_moves Arm (m\<lparr>Tmr := Stop (Tmr m)\<rparr>))) =
       effects m @ [GoSendViewChange (add64 (if \<not> ViewChanging m then View m else NewViewNum m) 1)]"
    and m: "m = fold timer_moves (of_others ?ms) (rpc_SetStatus (monitor_round ?n) True)" using lost by blast+
  have "View m = 1" "\<not> ViewChanging m"
    unfolding m by (simp_all add: of_others_def replyToClient_def Let_def emit_def rpc_SetStatus_def monitor_round_def
      demo_node_tables split: option.splits)
  then have "effects (timer_moves Elapse (timer_moves Arm (m\<lparr>Tmr := Stop (Tmr m)\<rparr>))) = effects m @ [GoSendViewChange 2]"
    unfolding stop by (simp add: add64_def wrap64_def)
  moreover have "timer_moves Elapse (timer_moves Arm m) = m" by (simp only: idle)
  ultimately show ?thesis using m_def by blast
qed

end
