(* ===== verification/Console.thy ===== *)
theory Console
  imports Hazards
begin

text \<open>
  The reports of a node (\<open>GetTransactionLog\<close> of \<open>node/rpc.go\<close>; \<open>printLog\<close>, \<open>printAllCerts\<close>,
  \<open>printNewViews\<close>, \<open>printCheckpoints\<close> of \<open>node/utils.go\<close>), its menu, and the listings of the
  stores (\<open>db/balances.go\<close>, \<open>db/wal.go\<close>), as the text they produce. \<open>None\<close> is a
  panic on a nil pointer. A Go map is walked in an arbitrary order: the keys in the order of
  the walk are an argument. How \<open>%v\<close> renders a message is the protobuf library's: a parameter.
\<close>

section \<open>Text\<close>

abbreviation newline :: char where "newline \<equiv> CHR 0x0A"

fun texts :: "string option list \<Rightarrow> string option" where
  "texts [] = Some []"
| "texts (None # ts) = None"
| "texts (Some s # ts) = map_option (\<lambda>r. s @ r) (texts ts)"

lemma texts_None: "None \<in> set ts \<Longrightarrow> texts ts = None"
  by (induction ts rule: texts.induct) auto

lemma texts_Some: "None \<notin> set ts \<Longrightarrow> texts ts = Some (concat (map the ts))"
  by (induction ts rule: texts.induct) auto

record rendering =
  show_Transaction :: "Transaction option \<Rightarrow> string"
  show_Checkpoint :: "Checkpoint option \<Rightarrow> string"
  show_Certs :: "SignedCheckpointRequest list \<Rightarrow> string"
  show_PrePrepare :: "PrePrepare option \<Rightarrow> string"
  show_ClientRequest :: "ClientRequest option \<Rightarrow> string"

section \<open>The transaction log\<close>

definition log_line :: "'b Node \<Rightarrow> int64 \<Rightarrow> string option" where
  "log_line n seq =
     (let tLog = log_at n seq in
      map_option (\<lambda>t. ''Seq: '' @ FormatInt seq @ '' ('' @ t_From t @ '', '' @ t_To t @ '', '' @ FormatInt (t_Amount t) @
          '') State: '' @ IntToStates (tl_State tLog) @ '' View: '' @ FormatInt (tl_View tLog) @
          '' Timestamp: '' @ FormatInt (tl_Timestamp tLog) @ [newline])
        (tl_Transaction tLog))"

definition rpc_GetTransactionLog :: "int64 list \<Rightarrow> 'b Node \<Rightarrow> string option" where
  "rpc_GetTransactionLog seqs n = texts (map (log_line n) (sort seqs))"

definition print_line :: "rendering \<Rightarrow> 'b Node \<Rightarrow> int64 \<Rightarrow> string" where
  "print_line R n seq =
     (let tLog = log_at n seq in
      ''Seq: '' @ FormatInt seq @ '' '' @ show_Transaction R (tl_Transaction tLog) @ '' State: '' @
        IntToStates (tl_State tLog) @ '' View: '' @ FormatInt (tl_View tLog) @
        '' Timestamp: '' @ FormatInt (tl_Timestamp tLog) @ [newline])"

definition printLog :: "rendering \<Rightarrow> int64 list \<Rightarrow> 'b Node \<Rightarrow> string" where
  "printLog R seqs n = concat (map (print_line R n) (sort seqs))"

section \<open>Certificates\<close>

definition cert_line :: "int \<Rightarrow> int64 \<Rightarrow> int64 \<Rightarrow> string \<Rightarrow> string \<Rightarrow> string" where
  "cert_line num view seq i digest =
     FormatInt num @ '': View: '' @ FormatInt view @ '' Sequence: '' @ FormatInt seq @ '' From: '' @ i @
       '' Digest: '' @ digest @ [newline]"

fun prepare_lines :: "int \<Rightarrow> PrepareRequest list \<Rightarrow> string option" where
  "prepare_lines num [] = Some []"
| "prepare_lines num (r # rs) =
     texts [map_option (\<lambda>p. cert_line num (p_View p) (p_Sequence p) (p_NodeId p) (p_Digest p)) (pr_Prepare r),
            prepare_lines (num + 1) rs]"

fun commit_lines :: "int \<Rightarrow> CommitRequest list \<Rightarrow> string option" where
  "commit_lines num [] = Some []"
| "commit_lines num (r # rs) =
     texts [map_option (\<lambda>c. cert_line num (c_View c) (c_Sequence c) (c_NodeId c) (c_Digest c)) (cmr_Commit r),
            commit_lines (num + 1) rs]"

definition printPrepareCerts :: "'b Node \<Rightarrow> int64 \<Rightarrow> string option" where
  "printPrepareCerts n seq =
     (if PrepareCerts n seq = [] then Some (''No prepares for '' @ FormatInt seq @ [newline])
      else texts [Some (''Prepares received for sequence number '' @ FormatInt seq @ [newline]),
                  prepare_lines 1 (PrepareCerts n seq), Some [newline]])"

text \<open>
  With prepares of all other nodes the commits are the prepares, after a line for the leader
  with the view, number and digest of the first.
\<close>

definition leader_line :: "'b Node \<Rightarrow> PrepareRequest list \<Rightarrow> string option" where
  "leader_line n certs =
     (case certs of
        [] \<Rightarrow> Some []
      | r # rs \<Rightarrow>
          (case (pr_Prepare r, getViewLeader n) of
             (Some p, Some leader) \<Rightarrow> Some (cert_line 1 (p_View p) (p_Sequence p) leader (p_Digest p))
           | _ \<Rightarrow> None))"

definition printCommitCerts :: "'b Node \<Rightarrow> int64 \<Rightarrow> string option" where
  "printCommitCerts n seq =
     (let title = Some (''Commits received for sequence number: '' @ FormatInt seq @ [newline]) in
      if 3 * F \<le> length (PrepareCerts n seq) then
        texts [title, leader_line n (PrepareCerts n seq), prepare_lines 2 (PrepareCerts n seq), Some [newline]]
      else if CommitCerts n seq = [] then
        texts [title, Some (''No commits for '' @ FormatInt seq @ [newline]), Some [newline]]
      else texts [title, commit_lines 1 (CommitCerts n seq), Some [newline]])"

definition printPrePrepare :: "'b Node \<Rightarrow> int64 \<Rightarrow> string option" where
  "printPrePrepare n seq =
     (case PrePrepares n seq of
        None \<Rightarrow> Some (''No pre-prepare for seq: '' @ FormatInt seq @ [newline])
      | Some preP \<Rightarrow>
          map_option (\<lambda>p. ''Pre-Prepare: Seq: '' @ FormatInt (pp_Sequence p) @ '' View: '' @ FormatInt (pp_View p) @
              '' Digest: '' @ pp_Digest p @ [newline])
            (ppr_PrePrepare preP))"

definition printAllCerts :: "int64 list \<Rightarrow> 'b Node \<Rightarrow> string option" where
  "printAllCerts seqs n =
     texts (concat (map (\<lambda>i. [printPrePrepare n i, printPrepareCerts n i, printCommitCerts n i]) (sort seqs)))"

section \<open>New views and checkpoints\<close>

fun view_change_lines :: "rendering \<Rightarrow> int \<Rightarrow> SignedViewChangeRequest list \<Rightarrow> string option" where
  "view_change_lines R num [] = Some []"
| "view_change_lines R num (c # cs) =
     texts [map_option (\<lambda>vc. FormatInt num @ ''. From: '' @ vc_NodeId vc @ '' Checkpoint certs: '' @
              show_Certs R (vc_CheckpointCerts vc) @ [newline]) (svc_ViewChangeRequest c),
            view_change_lines R (num + 1) cs]"

text \<open>\<open>prep.ClientReq.ClientRequest\<close> dereferences the client's request of the pre-prepare.\<close>

fun prepared_lines :: "rendering \<Rightarrow> int \<Rightarrow> PrePrepareRequest list \<Rightarrow> string option" where
  "prepared_lines R num [] = Some []"
| "prepared_lines R num (p # ps) =
     texts [map_option (\<lambda>r. FormatInt num @ ''. Pre-prepare: '' @ show_PrePrepare R (ppr_PrePrepare p) @ [newline] @
              '' Client message: '' @ show_ClientRequest R (scr_ClientRequest r) @ [newline]) (ppr_ClientReq p),
            prepared_lines R (num + 1) ps]"

definition new_view_text :: "rendering \<Rightarrow> NewViewRequest \<Rightarrow> string option" where
  "new_view_text R nv =
     texts [Some (''New view message for view: '' @ FormatInt (nv_View nv) @ [newline] @ ''View Change certs'' @ [newline]),
            view_change_lines R 1 (nv_ViewChangeCerts nv),
            Some (''Prepared logs'' @ [newline]),
            prepared_lines R 1 (nv_Prepared nv),
            Some (''Latest stable checkpoint: '' @ FormatInt (nv_LatestStableCheckpoint nv) @ [newline])]"

definition printNewViews :: "rendering \<Rightarrow> 'b Node \<Rightarrow> string option" where
  "printNewViews R n = texts (map (new_view_text R) (NewViewCerts n))"

fun checkpoint_lines :: "rendering \<Rightarrow> int \<Rightarrow> SignedCheckpointRequest list \<Rightarrow> string" where
  "checkpoint_lines R num [] = []"
| "checkpoint_lines R num (c # cs) =
     FormatInt num @ ''. '' @ show_Checkpoint R (scp_Checkpoint c) @ [newline] @ checkpoint_lines R (num + 1) cs"

definition checkpoint_text :: "rendering \<Rightarrow> 'b Node \<Rightarrow> int64 \<Rightarrow> string" where
  "checkpoint_text R n seq =
     (if seq = 0 then []
      else let data = checkpoint_at n seq in
        ''Seq: '' @ FormatInt seq @ '', Stable: '' @ (if cd_Stable data then ''true'' else ''false'') @ [newline] @
        ''Checkpoint certificates:'' @ [newline] @ checkpoint_lines R 1 (cd_Certs data))"

text \<open>Checkpoints are printed in the order of the walk.\<close>

definition printCheckpoints :: "rendering \<Rightarrow> int64 list \<Rightarrow> 'b Node \<Rightarrow> string" where
  "printCheckpoints R seqs n = concat (map (checkpoint_text R n) seqs)"

section \<open>The menu and the stores\<close>

definition node_printMenu :: string where
  "node_printMenu =
     [newline] @ ''Menu:'' @ [newline] @ ''2. Print New View messages'' @ [newline] @
     ''3. Print Prepares and Commits'' @ [newline] @ ''4. Print Transaction Log'' @ [newline] @
     ''5. Performance'' @ [newline] @ ''6. Performance transaction wise'' @ [newline] @
     ''7. Print checkpoints'' @ [newline] @ ''0. Exit'' @ [newline] @ ''Choose an option: ''"

text \<open>Both walk a bucket in its order; entries that do not decode are left out of the second.\<close>

definition PrintAllBalances :: "'b env \<Rightarrow> 'b Database \<Rightarrow> string" where
  "PrintAllBalances E d =
     concat (map (\<lambda>(k, v). k @ '': '' @ v @ [newline]) (bkt_list E (balancesBucket d)))"

definition PrintAllWAL :: "(WALEntry \<Rightarrow> string) \<Rightarrow> 'b env \<Rightarrow> 'b Database \<Rightarrow> string" where
  "PrintAllWAL show_entry E d =
     concat (map (\<lambda>(k, v). case wal_unmarshal E v of None \<Rightarrow> [] | Some entry \<Rightarrow> k @ '': '' @ show_entry entry)
       (bkt_list E (walBucket d)))"

end
