(* ===== verification/Reports.thy ===== *)
theory Reports
  imports Console
begin

text \<open>
  Properties of a node's reports: the log can always be reported, and the report is a
  function of the log; the report of new views panics as soon as one carries an entry.
\<close>

section \<open>The log report\<close>

lemma log_lines_total:
  assumes "node_wf E n" "\<forall>i\<in>set seqs. i \<in> dom (TransactionLog n)"
  shows "None \<notin> set (map (log_line n) seqs)"
proof -
  have "log_line n i \<noteq> None" if i: "i \<in> set seqs" for i
  proof -
    obtain l where "TransactionLog n i = Some l" using assms(2) i by blast
    moreover from this assms(1) have "tl_Transaction l \<noteq> None" by (simp add: node_wf_def log_wf_def)
    ultimately show ?thesis by (simp add: log_line_def log_at_def getTransactionLog_def Let_def)
  qed
  then show ?thesis by fastforce
qed

lemma log_line_cong: "TransactionLog n = TransactionLog m \<Longrightarrow> log_line n = log_line m"
  by (rule ext) (simp add: log_line_def log_at_def getTransactionLog_def)

lemma walks_agree:
  "distinct seqs \<Longrightarrow> distinct seqs' \<Longrightarrow> set seqs = set seqs' \<Longrightarrow> sort seqs = sort (seqs' :: int list)"
  by (intro sorted_distinct_set_unique) simp_all

text \<open>
  The log can always be reported: in every state a started node can reach,
  \<open>GetTransactionLog\<close> returns, for every order in which the map may be walked, one line for
  each logged entry in the order of the sequence numbers; two nodes with the same log give
  the same text.
\<close>

theorem log_report_total:
  assumes "bolt_ok E" "json_pointers_ok E" "reachable E n" "TransactionLog m = TransactionLog n"
    and "distinct seqs" "set seqs = dom (TransactionLog n)" "distinct seqs'" "set seqs' = dom (TransactionLog n)"
  shows "rpc_GetTransactionLog seqs' m = rpc_GetTransactionLog seqs n \<and>
     rpc_GetTransactionLog seqs n =
       Some (concat (map (\<lambda>i. the (log_line n i)) (sorted_list_of_set (dom (TransactionLog n)))))"
proof -
  have wf: "node_wf E n" by (rule reachable_wf [OF assms(1-3)])
  have "sort seqs' = sort seqs" using assms(5-8) by (intro walks_agree) simp_all
  moreover have "sort seqs = sorted_list_of_set (dom (TransactionLog n))"
    using assms(5) sorted_list_of_set_sort_remdups [of seqs] by (simp add: assms(6) [symmetric] distinct_remdups_id)
  moreover have "None \<notin> set (map (log_line n) (sort seqs))"
    by (rule log_lines_total [OF wf]) (simp add: assms(6))
  ultimately show ?thesis
    using log_line_cong [OF assms(4)] by (simp add: rpc_GetTransactionLog_def texts_Some comp_def)
qed

text \<open>A node started over an empty store, and the pre-prepare it accepts.\<close>

lemma acceptable_cong:
  "View n = View m \<Longrightarrow> PrePrepares n = PrePrepares m \<Longrightarrow> TransactionLog n = TransactionLog m \<Longrightarrow>
     PublicKeyMap n = PublicKeyMap m \<Longrightarrow> ClusterId n = ClusterId m \<Longrightarrow> acceptable E n = acceptable E m"
  by (intro ext) (simp add: acceptable_def getViewLeader_def)

definition demo_fresh :: "demo_bucket \<Rightarrow> demo_bucket Node" where
  "demo_fresh b = (establishConns (NewNode (demo_key 2) demo_keys (createBuckets demo_env) ''C1'' ''S2''
       demo_clusters (FormatInt 1) (FormatInt 1000)))
     \<lparr>DB := (createBuckets demo_env)\<lparr>balancesBucket := b\<rparr>, Tmr := NewTimer 2500000000000\<rparr>"

lemma demo_fresh_sel:
  "View (demo_fresh b) = 1" "PrePrepares (demo_fresh b) = Map.empty" "TransactionLog (demo_fresh b) = Map.empty"
  "PublicKeyMap (demo_fresh b) = demo_keys" "ClusterId (demo_fresh b) = ''C1''" "Live (demo_fresh b)"
  "\<not> ViewChanging (demo_fresh b)" "RequestLog (demo_fresh b) = Map.empty" "\<not> Byzantine (demo_fresh b)"
  "locksBucket (DB (demo_fresh b)) = ([], 0)"
  by (simp_all add: demo_fresh_def establishConns_def NewNode_def createBuckets_def demo_simps)

lemma demo_fresh_started: "\<exists>b. started demo_env (demo_fresh b)"
proof -
  have ends: "in64 1" "in64 1000" "(1000::int) < max64" by (simp_all add: in64_def min64_def max64_def)
  obtain b where "Start demo_env (NewNode (demo_key 2) demo_keys (createBuckets demo_env) ''C1'' ''S2'' demo_clusters
      (FormatInt 1) (FormatInt 1000)) = Return (demo_fresh b) ()"
    using Start_runs [OF demo_bolt_ok ends] unfolding demo_fresh_def by blast
  then show ?thesis by (blast intro: startedI)
qed

lemma fresh_node_accepts:
  assumes fresh: "View n = 1" "PrePrepares n = Map.empty" "TransactionLog n = Map.empty" "RequestLog n = Map.empty"
      "locksBucket (DB n) = ([], 0)"
    and who: "PublicKeyMap n = demo_keys" "ClusterId n = ''C1''" "Live n" "\<not> ViewChanging n" "\<not> Byzantine n"
  shows "\<exists>n'. rpc_PrePrepare demo_env [] n demo_preprepare = Return n' None \<and> dom (TransactionLog n') = {1} \<and>
     MaxSeq n' = max (MaxSeq n) 1"
proof -
  obtain pp where pp: "ppr_PrePrepare demo_preprepare = Some pp" by (simp add: demo_preprepare_def Let_def)
  have "acceptable demo_env n = acceptable demo_env demo_replica"
    by (rule acceptable_cong) (simp_all add: fresh who demo_replica_sel demo_replica_def demo_node_tables)
  then have acc: "acceptable demo_env n demo_preprepare pp (demo_request_of demo_tx)"
    using demo_acceptable by (simp add: pp)
  have lead: "getViewLeader n = Some ''S1''"
    using demo_leader by (simp add: getViewLeader_def fresh who demo_replica_sel demo_replica_def demo_node_tables)
  have st: "pp_Status pp = []" "pp_Sequence pp = 1" using pp by (auto simp: demo_preprepare_def Let_def)
  have cr: "ppr_ClientReq demo_preprepare = Some (demo_request_of demo_tx)" by (simp add: demo_preprepare_def Let_def)
  have "\<exists>n'. preprepare_accept demo_env [] n demo_preprepare pp ''S1'' = Return n' None \<and>
      dom (TransactionLog n') = {1} \<and> MaxSeq n' = max (MaxSeq n) 1"
    using st
    by (simp add: preprepare_accept_def Let_def cr with_seconds_eq with_tx_eq demo_request_parts lock_loop.simps
        CheckAndGetLocks_cases emit_def put_request_def fresh who held_def locked_def demo_simps demo_get_def
        savePrePrepare_def writeLog_def)
  then show ?thesis
    by (auto simp: rpc_PrePrepare_def fresh who pp acceptable_passes [OF acc] lead)
qed

theorem log_report_total_witness:
  "\<exists>n. reachable demo_env n \<and> dom (TransactionLog n) = {1} \<and>
     rpc_GetTransactionLog [1] n = Some (the (log_line n 1))"
proof -
  obtain b where b: "started demo_env (demo_fresh b)" using demo_fresh_started by blast
  obtain n' where n': "rpc_PrePrepare demo_env [] (demo_fresh b) demo_preprepare = Return n' None"
    "dom (TransactionLog n') = {1}"
    using fresh_node_accepts [of "demo_fresh b"] by (auto simp: demo_fresh_sel)
  have "node_runs demo_env True (demo_fresh b) n'"
    by (rule preprepare [where rely = "[]" and req = demo_preprepare]) (simp_all add: n'(1))
  with b have "reachable demo_env n'" by (auto simp: reachable_def)
  with log_report_total [OF demo_bolt_ok demo_json_pointers_ok this refl, of "[1]" "[1]"] n'(2) show ?thesis
    by (intro exI [of _ n']) simp
qed

section \<open>The report of new views\<close>

lemma prepared_lines_panics:
  "ps \<noteq> [] \<Longrightarrow> \<forall>p\<in>set ps. ppr_ClientReq p = None \<Longrightarrow> prepared_lines R num ps = None"
  by (cases ps) (simp_all add: texts_None)

lemma new_view_text_panics:
  "nv_Prepared nv \<noteq> [] \<Longrightarrow> \<forall>p\<in>set (nv_Prepared nv). ppr_ClientReq p = None \<Longrightarrow> new_view_text R nv = None"
  by (simp add: new_view_text_def prepared_lines_panics texts_None)

text \<open>The entries of a new view are made without the request of the client.\<close>

lemma sent_new_view:
  assumes "sendNewView E n view certs = Return n' ()"
    and "RpcNewView i req \<in> set (effects n')" "RpcNewView i req \<notin> set (effects n)"
  shows "\<exists>nv. snv_NewView req = Some nv \<and> (\<forall>p\<in>set (nv_Prepared nv). ppr_ClientReq p = None)"
  using assms
  by (auto simp: sendNewView_def Let_def enter_view_def emits_def new_view_pre_prepare_def
      split: if_splits option.splits)

text \<open>
  C35. The report of new views panics: once a node has adopted a new view that a leader sent with
  at least one entry to repeat, printing the new views dereferences the client's request that
  the leader leaves out, and the process ends.
\<close>

theorem new_view_report_panics:
  assumes "sendNewView E leader view certs = Return leader' ()"
    and "RpcNewView i req \<in> set (effects leader')" "RpcNewView i req \<notin> set (effects leader)"
    and "rpc_NewView E' n req = Return n' None" "NewViewCerts n' \<noteq> NewViewCerts n"
    and "snv_NewView req = Some nv" "nv_Prepared nv \<noteq> []"
  shows "printNewViews R n' = None"
proof -
  have "\<forall>p\<in>set (nv_Prepared nv). ppr_ClientReq p = None" using sent_new_view [OF assms(1-3)] assms(6) by simp
  then have none: "new_view_text R nv = None" by (rule new_view_text_panics [OF assms(7)])
  obtain m where "checked_from n m" "adopt_view m nv = Return n' None"
    using rpc_NewView_adopts [OF assms(4,5)] assms(6) by auto
  then have "NewViewCerts n' = NewViewCerts n @ [nv]" by (rule adopted_tables(8))
  with none show ?thesis by (simp add: printNewViews_def texts_None)
qed

text \<open>Three requests for the second view that name a prepared entry, and what comes of them.\<close>

definition demo_prepared_change :: "string \<Rightarrow> int \<Rightarrow> SignedViewChangeRequest" where
  "demo_prepared_change name i =
     (let vc = \<lparr>vc_View = 2, vc_LastStableCheckpoint = 0, vc_CheckpointCerts = [],
            vc_Prepared = [\<lparr>pm_PrePrepare = Some demo_preprepare, pm_Certs = []\<rparr>],
            vc_NodeId = name, vc_State = Some (convertBalancesToProto [])\<rparr>
      in \<lparr>svc_ViewChangeRequest = Some vc,
          svc_Signature = signature_or_nil demo_env (demo_key i) (wire_ViewChangeRequest vc)\<rparr>)"

definition demo_changes :: "SignedViewChangeRequest list" where
  "demo_changes = [demo_prepared_change ''S2'' 2, demo_prepared_change ''S3'' 3, demo_prepared_change ''S4'' 4]"

definition demo_entry :: "(int64 \<times> PrePrepare) list" where
  "demo_entry = [(1, the (ppr_PrePrepare demo_preprepare))]"

definition demo_announcement :: NewViewRequest where
  "demo_announcement = \<lparr>nv_View = 2, nv_ViewChangeCerts = demo_changes,
     nv_Prepared = [new_view_pre_prepare demo_env demo_node 2 demo_entry 1],
     nv_State = Some (convertBalancesToProto []), nv_LatestStableCheckpoint = 0, nv_CheckpointCerts = []\<rparr>"

definition demo_signed_announcement :: SignedNewViewRequest where
  "demo_signed_announcement = \<lparr>snv_NewView = Some demo_announcement,
     snv_Signature = signature_or_nil demo_env (demo_key 1) (wire_NewViewRequest demo_announcement)\<rparr>"

lemma demo_announced:
  "\<exists>n'. sendNewView demo_env demo_node 2 demo_changes = Return n' () \<and>
     RpcNewView ''S2'' demo_signed_announcement \<in> set (effects n')"
proof -
  obtain pp where pp: "ppr_PrePrepare demo_preprepare = Some pp" "pp_Sequence pp = 1"
    by (simp add: demo_preprepare_def Let_def)
  have newest: "newest_checkpoint demo_changes (0, Some (convertBalancesToProto []), []) =
      Some (0, Some (convertBalancesToProto []), [])"
    by (simp add: demo_changes_def demo_prepared_change_def Let_def)
  have gather: "gather_all demo_changes [] = Some demo_entry"
    by (simp add: demo_changes_def demo_prepared_change_def demo_entry_def Let_def pp)
  have range: "prep_range (map fst demo_entry) = Some [1]"
    by (simp add: prep_range_def demo_entry_def for_range_ends max64_def)
  have nv: "new_view_pre_prepare demo_env (n\<lparr>View := v, NewViewsSent := s\<rparr>) = new_view_pre_prepare demo_env n"
    for n :: "demo_bucket Node" and v s
    by (intro ext) (simp add: new_view_pre_prepare_def)
  show ?thesis
    by (simp add: sendNewView_def demo_node_tables Let_def newest gather range nv enter_view_def emits_def
        peers_def [symmetric] demo_signed_announcement_def demo_announcement_def)
      (simp add: peers_def demo_node_def establishConns_def NewNode_def demo_clusters_def)
qed

lemma demo_adopted:
  "\<exists>n'. rpc_NewView demo_env demo_replica demo_signed_announcement = Return n' None \<and>
     NewViewCerts n' \<noteq> NewViewCerts demo_replica"
proof -
  let ?n = "demo_replica\<lparr>Tmr := Stop (Tmr demo_replica)\<rparr>"
  have view: "getViewLeader ?n = Some ''S1''" "PublicKeyMap ?n = demo_keys"
    using demo_leader by (simp_all add: getViewLeader_def demo_replica_sel)
  have keys: "demo_keys ''S1'' = Some (PublicKey 1 65537)" "demo_keys ''S2'' = Some (PublicKey 2 65537)"
    "demo_keys ''S3'' = Some (PublicKey 3 65537)" "demo_keys ''S4'' = Some (PublicKey 4 65537)"
    by (simp_all add: demo_keys_def)
  have certs: "validateViewChangeCerts demo_env ?n (nv_ViewChangeCerts demo_announcement) = Return ?n None"
    using view(2) demo_verified
    by (simp add: validateViewChangeCerts_def demo_announcement_def demo_changes_def demo_prepared_change_def Let_def
        keys getPublicKey_def F_def)
  have "\<exists>st. convertProtoBalancesToMap (nv_State demo_announcement) = Some st"
    by (simp add: demo_announcement_def convertProtoBalancesToMap_def)
  then have "rpc_NewView demo_env demo_replica demo_signed_announcement = adopt_view ?n demo_announcement"
    using view demo_verified [of 1] certs
    by (auto simp: rpc_NewView_def Let_def demo_signed_announcement_def getPublicKey_def keys
        validateCheckpointCerts_def demo_announcement_def)
  then show ?thesis
    by (simp add: adopt_view_def demo_announcement_def new_view_pre_prepare_def Let_def)
qed

definition demo_rendering :: rendering where
  "demo_rendering = \<lparr>show_Transaction = (\<lambda>_. []), show_Checkpoint = (\<lambda>_. []), show_Certs = (\<lambda>_. []),
     show_PrePrepare = (\<lambda>_. []), show_ClientRequest = (\<lambda>_. [])\<rparr>"

theorem new_view_report_panics_witness:
  "\<exists>leader' n'. sendNewView demo_env demo_node 2 demo_changes = Return leader' () \<and>
     RpcNewView ''S2'' demo_signed_announcement \<in> set (effects leader') \<and>
     rpc_NewView demo_env demo_replica demo_signed_announcement = Return n' None \<and>
     printNewViews demo_rendering n' = None"
proof -
  obtain leader' where l: "sendNewView demo_env demo_node 2 demo_changes = Return leader' ()"
    "RpcNewView ''S2'' demo_signed_announcement \<in> set (effects leader')"
    using demo_announced by blast
  obtain n' where n': "rpc_NewView demo_env demo_replica demo_signed_announcement = Return n' None"
    "NewViewCerts n' \<noteq> NewViewCerts demo_replica"
    using demo_adopted by blast
  have nv: "snv_NewView demo_signed_announcement = Some demo_announcement" "nv_Prepared demo_announcement \<noteq> []"
    by (simp_all add: demo_signed_announcement_def demo_announcement_def)
  from new_view_report_panics [OF l _ n' nv, of demo_rendering] l n'(1) show ?thesis by (auto simp: demo_node_tables)
qed

end
