(* ===== verification/Keys.thy ===== *)
theory Keys
  imports Client
begin

text \<open>
  Key files (\<open>cryptox/crypto.go\<close>, \<open>initKeys\<close>, \<open>savePublicKey\<close>, \<open>readPublicKeys\<close> of
  \<open>node/utils.go\<close>): keys are written as PEM blocks of DER bytes and read back. The DER and
  PEM codecs of the standard library are parameters; the files are a map from paths to their
  contents.
\<close>

section \<open>The codecs\<close>

text \<open>
  \<open>pkix_parse\<close> also accepts keys that are not RSA keys (\<open>Some None\<close>); \<open>pem_encode\<close> gives nil for
  a block it cannot encode.
\<close>

record key_codec =
  pkix_marshal :: "PublicKey \<Rightarrow> bytes option"
  pkix_parse :: "bytes \<Rightarrow> PublicKey option option"
  pkcs1_marshal :: "PrivateKey \<Rightarrow> bytes"
  pkcs1_parse :: "bytes \<Rightarrow> PrivateKey option"
  pem_encode :: "string \<Rightarrow> bytes \<Rightarrow> bytes option"
  pem_decode :: "bytes \<Rightarrow> (string \<times> bytes) option"

text \<open>What is documented of them: parsing inverts marshalling, decoding inverts encoding.\<close>

definition codec_ok :: "key_codec \<Rightarrow> bool" where
  "codec_ok C \<longleftrightarrow>
     (\<forall>k bs. pkix_marshal C k = Some bs \<longrightarrow> pkix_parse C bs = Some (Some k)) \<and>
     (\<forall>k. pkcs1_parse C (pkcs1_marshal C k) = Some k) \<and>
     (\<forall>t bs p. pem_encode C t bs = Some p \<longrightarrow> pem_decode C p = Some (t, bs))"

datatype key_error = MarshalFailed | WriteFailed | ReadFailed | NotPem | ParseFailed | NotRsa | EncodeFailed

section \<open>Keys in memory and in files\<close>

definition GenerateRSAKeys :: "PrivateKey option \<Rightarrow> PrivateKey option \<times> PublicKey option" where
  "GenerateRSAKeys generated = (generated, map_option sk_Public generated)"

definition SerializeRSAKey :: "key_codec \<Rightarrow> PrivateKey \<Rightarrow> key_error + bytes" where
  "SerializeRSAKey C sk =
     (case pem_encode C ''RSA PRIVATE KEY'' (pkcs1_marshal C sk) of
        None \<Rightarrow> Inl EncodeFailed
      | Some pemKey \<Rightarrow> Inr pemKey)"

definition DeserializeRSAKey :: "key_codec \<Rightarrow> bytes \<Rightarrow> key_error + PrivateKey" where
  "DeserializeRSAKey C pemKey =
     (case pem_decode C pemKey of
        None \<Rightarrow> Inl NotPem
      | Some (t, bs) \<Rightarrow>
          if t \<noteq> ''RSA PRIVATE KEY'' then Inl NotPem
          else (case pkcs1_parse C bs of None \<Rightarrow> Inl ParseFailed | Some sk \<Rightarrow> Inr sk))"

text \<open>\<open>writable\<close> says where the file system lets a file be written.\<close>

definition SaveRSAPublicKeyToFile ::
  "key_codec \<Rightarrow> (string \<Rightarrow> bool) \<Rightarrow> PublicKey \<Rightarrow> string \<Rightarrow> (string \<rightharpoonup> bytes)
     \<Rightarrow> (string \<rightharpoonup> bytes) \<times> key_error option" where
  "SaveRSAPublicKeyToFile C writable pk path files =
     (case pkix_marshal C pk of
        None \<Rightarrow> (files, Some MarshalFailed)
      | Some bs \<Rightarrow>
          if writable path
          then (files(path \<mapsto> (case pem_encode C ''RSA PUBLIC KEY'' bs of None \<Rightarrow> [] | Some p \<Rightarrow> p)), None)
          else (files, Some WriteFailed))"

definition ReadRSAPublicKeyFromFile ::
  "key_codec \<Rightarrow> (string \<rightharpoonup> bytes) \<Rightarrow> string \<Rightarrow> key_error + PublicKey" where
  "ReadRSAPublicKeyFromFile C files path =
     (case files path of
        None \<Rightarrow> Inl ReadFailed
      | Some pem \<Rightarrow>
          (case pem_decode C pem of
             None \<Rightarrow> Inl NotPem
           | Some (t, bs) \<Rightarrow>
               if t \<noteq> ''RSA PUBLIC KEY'' then Inl NotPem
               else (case pkix_parse C bs of
                       None \<Rightarrow> Inl ParseFailed
                     | Some None \<Rightarrow> Inl NotRsa
                     | Some (Some pk) \<Rightarrow> Inr pk)))"

definition key_reader :: "key_codec \<Rightarrow> (string \<rightharpoonup> bytes) \<Rightarrow> string \<rightharpoonup> PublicKey" where
  "key_reader C files path =
     (case ReadRSAPublicKeyFromFile C files path of Inl e \<Rightarrow> None | Inr pk \<Rightarrow> Some pk)"

section \<open>Publishing and collecting keys\<close>

text \<open>
  \<open>savePublicKey\<close>: the process ends (\<open>None\<close>) when the directory cannot be made, and panics on the
  nil key of a failed generation. An error of writing the file is dropped.
\<close>

definition savePublicKey ::
  "key_codec \<Rightarrow> bool \<Rightarrow> (string \<Rightarrow> bool) \<Rightarrow> 'b Node \<Rightarrow> PublicKey option \<Rightarrow> (string \<rightharpoonup> bytes)
     \<Rightarrow> (string \<rightharpoonup> bytes) option" where
  "savePublicKey C made writable n pubKey files =
     (if \<not> made then None
      else map_option (\<lambda>pk. fst (SaveRSAPublicKeyToFile C writable pk (key_path (node_Id n)) files)) pubKey)"

definition initKeys ::
  "key_codec \<Rightarrow> bool \<Rightarrow> (string \<Rightarrow> bool) \<Rightarrow> PrivateKey option \<Rightarrow> 'b Node \<Rightarrow> (string \<rightharpoonup> bytes)
     \<Rightarrow> ('b Node \<times> (string \<rightharpoonup> bytes)) option" where
  "initKeys C made writable generated n files =
     (case GenerateRSAKeys generated of
        (None, _) \<Rightarrow> None
      | (Some privateKey, publicKey) \<Rightarrow>
          (let n = n\<lparr>node_PrivateKey := privateKey\<rparr> in
           map_option (\<lambda>files. (n, files)) (savePublicKey C made writable n publicKey files)))"

text \<open>One walk over the files of the directory, in the order of the walk.\<close>

definition readPublicKeys ::
  "key_codec \<Rightarrow> (string \<rightharpoonup> bytes) \<Rightarrow> string list \<Rightarrow> 'b Node \<Rightarrow> 'b Node" where
  "readPublicKeys C files paths n = fold (\<lambda>path n. readPublicKeyIntoMap (key_reader C files) n path) paths n"

definition gateway_initKeys ::
  "key_codec \<Rightarrow> bool \<Rightarrow> (string \<Rightarrow> bool) \<Rightarrow> PrivateKey option \<Rightarrow> Gateway \<Rightarrow> (string \<rightharpoonup> bytes)
     \<Rightarrow> (Gateway \<times> (string \<rightharpoonup> bytes)) option" where
  "gateway_initKeys C made writable generated gw files =
     (if \<not> made then None
      else (case GenerateRSAKeys generated of
          (Some privateKey, Some publicKey) \<Rightarrow>
            Some (gw\<lparr>gw_PrivateKey := privateKey\<rparr>,
              fst (SaveRSAPublicKeyToFile C writable publicKey ''../keys/client_pub.pem'' files))
        | _ \<Rightarrow> None))"

definition gateway_readPublicKeys ::
  "key_codec \<Rightarrow> (string \<rightharpoonup> bytes) \<Rightarrow> string list \<Rightarrow> Gateway \<Rightarrow> Gateway" where
  "gateway_readPublicKeys C files paths gw =
     fold (\<lambda>path gw. gateway_readPublicKeyIntoMap (key_reader C files) gw path) paths gw"

section \<open>File names\<close>

text \<open>The node a file name stands for.\<close>

definition id_of_path :: "string \<Rightarrow> string" where
  "id_of_path path = hd (split_on CHR ''_'' (last (split_on CHR ''/'' path)))"

lemma split_on_nonempty [simp]: "split_on c s \<noteq> []"
  by (induction s) (auto split: list.splits)

lemma split_on_append: "c \<notin> set s \<Longrightarrow> split_on c (s @ c # r) = s # split_on c r"
  by (induction s) auto

lemma split_on_none: "c \<notin> set s \<Longrightarrow> split_on c s = [s]"
  by (induction s) auto

lemma id_of_key_path: "CHR ''/'' \<notin> set i \<Longrightarrow> CHR ''_'' \<notin> set i \<Longrightarrow> id_of_path (key_path i) = i"
proof -
  assume i: "CHR ''/'' \<notin> set i" "CHR ''_'' \<notin> set i"
  have "split_on CHR ''/'' (''keys'' @ CHR ''/'' # (i @ ''_pub.pem'')) = ''keys'' # split_on CHR ''/'' (i @ ''_pub.pem'')"
    by (rule split_on_append) simp
  moreover have "split_on CHR ''/'' (i @ ''_pub.pem'') = [i @ ''_pub.pem'']"
    by (rule split_on_none) (use i in simp)
  moreover have "split_on CHR ''_'' (i @ CHR ''_'' # ''pub.pem'') = i # split_on CHR ''_'' ''pub.pem''"
    by (rule split_on_append) (rule i)
  ultimately show ?thesis by (simp add: id_of_path_def key_path_def)
qed

lemma saved_key_readable:
  assumes "codec_ok C" "writable path" "pkix_marshal C pk = Some bs" "pem_encode C ''RSA PUBLIC KEY'' bs = Some p"
  shows "key_reader C (fst (SaveRSAPublicKeyToFile C writable pk path files)) path = Some pk"
  using assms by (simp add: key_reader_def ReadRSAPublicKeyFromFile_def SaveRSAPublicKeyToFile_def codec_ok_def)

lemma readPublicKeys_map:
  "PublicKeyMap (readPublicKeys C files paths n) i =
     (case find (\<lambda>p. id_of_path p = i \<and> key_reader C files p \<noteq> None) (rev paths) of
        None \<Rightarrow> PublicKeyMap n i | Some p \<Rightarrow> key_reader C files p)"
proof (induction paths rule: rev_induct)
  case (snoc p ps)
  then show ?case
    by (auto simp: readPublicKeys_def readPublicKeyIntoMap_def id_of_path_def split: option.splits)
qed (simp add: readPublicKeys_def)

lemma find_only:
  assumes "x \<in> set xs" "P x" "\<And>y. y \<in> set xs \<Longrightarrow> P y \<Longrightarrow> y = x"
  shows "find P xs = Some x"
proof (cases "find P xs")
  case None
  then show ?thesis using assms(1,2) by (simp add: find_None_iff)
next
  case (Some y)
  then have "y \<in> set xs" "P y" by (auto simp: find_Some_iff)
  then show ?thesis using Some assms(3) by simp
qed

lemma initKeys_saved:
  assumes "initKeys C made writable generated n files = Some (n', files')"
  obtains sk where "generated = Some sk" "node_Id n' = node_Id n" "node_PrivateKey n' = sk"
    "files' = fst (SaveRSAPublicKeyToFile C writable (sk_Public sk) (key_path (node_Id n)) files)"
  using assms
  by (auto simp: initKeys_def savePublicKey_def GenerateRSAKeys_def Let_def split: option.splits if_splits)

lemma private_key_roundtrip:
  "codec_ok C \<Longrightarrow> SerializeRSAKey C sk = Inr pem \<Longrightarrow> DeserializeRSAKey C pem = Inr sk"
  by (auto simp: codec_ok_def SerializeRSAKey_def DeserializeRSAKey_def split: option.splits)

section \<open>A concrete codec\<close>

text \<open>Keys in unary, and blocks with their type in front of a colon.\<close>

definition demo_codec :: key_codec where
  "demo_codec = \<lparr>
     pkix_marshal = (\<lambda>pk. Some (replicate (to_nat (pk_N pk, pk_E pk)) CHR ''k'')),
     pkix_parse = (\<lambda>bs. Some (Some (case from_nat (length bs) of (n, e) \<Rightarrow> PublicKey n e))),
     pkcs1_marshal = (\<lambda>sk. replicate (to_nat (pk_N (sk_Public sk), pk_E (sk_Public sk), sk_D sk)) CHR ''k''),
     pkcs1_parse = (\<lambda>bs. Some (case from_nat (length bs) of (n, e, d) \<Rightarrow> PrivateKey (PublicKey n e) d)),
     pem_encode = (\<lambda>t bs. if CHR '':'' \<in> set t then None else Some (t @ CHR '':'' # bs)),
     pem_decode = (\<lambda>p. Some (takeWhile (\<lambda>c. c \<noteq> CHR '':'') p, drop 1 (dropWhile (\<lambda>c. c \<noteq> CHR '':'') p)))\<rparr>"

lemma takeWhile_tag: "c \<notin> set t \<Longrightarrow> takeWhile (\<lambda>x. x \<noteq> c) (t @ c # bs) = t"
  by (induction t) auto

lemma dropWhile_tag: "c \<notin> set t \<Longrightarrow> dropWhile (\<lambda>x. x \<noteq> c) (t @ c # bs) = c # bs"
  by (induction t) auto

lemma demo_codec_ok: "codec_ok demo_codec"
  by (auto simp: codec_ok_def demo_codec_def takeWhile_tag dropWhile_tag split: if_splits)

section \<open>Properties\<close>

text \<open>
  C34. Keys find their way: when a node has saved its public key (the file could be written and
  the key encoded), and every file in the directory with its name in front is that file, a
  peer that walks the directory knows exactly that key under the node's name, and what the
  node signs with its private key then verifies at the peer.
\<close>

theorem saved_key_reaches_peers:
  assumes "codec_ok C" "crypto_ok E" "initKeys C made writable generated n files = Some (n', files')"
    and "CHR ''/'' \<notin> set (node_Id n)" "CHR ''_'' \<notin> set (node_Id n)" "writable (key_path (node_Id n))"
    and "pkix_marshal C (sk_Public (node_PrivateKey n')) = Some bs" "pem_encode C ''RSA PUBLIC KEY'' bs = Some pem"
    and "key_path (node_Id n) \<in> set paths"
    and "\<forall>p\<in>set paths. id_of_path p = node_Id n \<longrightarrow> p = key_path (node_Id n)"
    and "SignMessage E (node_PrivateKey n') msg = Some sg"
  shows "\<exists>pk. getPublicKey (readPublicKeys C files' paths peer) (node_Id n') = Some pk \<and> verified E pk msg sg"
proof -
  let ?path = "key_path (node_Id n)" and ?pk = "sk_Public (node_PrivateKey n')"
  let ?P = "\<lambda>p. id_of_path p = node_Id n \<and> key_reader C files' p \<noteq> None"
  have n': "node_Id n' = node_Id n"
    and files': "files' = fst (SaveRSAPublicKeyToFile C writable ?pk ?path files)"
    using initKeys_saved [OF assms(3)] by blast+
  have key: "key_reader C files' ?path = Some ?pk"
    unfolding files' by (rule saved_key_readable [of C writable _ _ bs pem]) (use assms in simp_all)
  have "find ?P (rev paths) = Some ?path"
  proof (rule find_only)
    show "?path \<in> set (rev paths)" using assms(9) by simp
    show "?P ?path" using key id_of_key_path [OF assms(4,5)] by simp
    show "y = ?path" if "y \<in> set (rev paths)" "?P y" for y using that assms(10) by simp
  qed
  then have "PublicKeyMap (readPublicKeys C files' paths peer) (node_Id n) = Some ?pk"
    by (simp add: readPublicKeys_map key)
  moreover have "verified E ?pk msg sg" by (rule SignMessage_verified [OF assms(2,11)])
  ultimately show ?thesis by (simp add: getPublicKey_def n')
qed

theorem saved_key_reaches_peers_witness:
  "\<exists>pk. getPublicKey (readPublicKeys demo_codec
       (snd (the (initKeys demo_codec True (\<lambda>_. True) (Some (demo_key 1)) demo_node Map.empty)))
       [''keys/S1_pub.pem'', ''keys/S2_pub.pem''] demo_node) ''S1'' = Some pk \<and>
     verified demo_env pk [] (signature_or_nil demo_env (demo_key 1) [])"
proof -
  let ?n = "demo_node\<lparr>node_PrivateKey := demo_key 1\<rparr>"
  obtain files where i: "initKeys demo_codec True (\<lambda>_. True) (Some (demo_key 1)) demo_node Map.empty = Some (?n, files)"
    by (simp add: initKeys_def savePublicKey_def GenerateRSAKeys_def)
  obtain bs where bs: "pkix_marshal demo_codec (sk_Public (node_PrivateKey ?n)) = Some bs"
    by (simp add: demo_codec_def)
  obtain pem where pem: "pem_encode demo_codec ''RSA PUBLIC KEY'' bs = Some pem"
    by (simp add: demo_codec_def)
  have paths: "\<forall>p\<in>set [''keys/S1_pub.pem'', ''keys/S2_pub.pem'']. id_of_path p = node_Id demo_node
      \<longrightarrow> p = key_path (node_Id demo_node)"
    by (simp add: demo_node_tables id_of_path_def key_path_def)
  have sg: "SignMessage demo_env (node_PrivateKey ?n) [] = Some (signature_or_nil demo_env (demo_key 1) [])"
    by (simp add: signature_or_nil_def SignMessage_def demo_simps demo_marshal_def demo_sign_def)
  have "node_Id ?n = ''S1''" by (simp add: demo_node_tables)
  then show ?thesis
    using saved_key_reaches_peers [OF demo_codec_ok demo_crypto_ok i _ _ _ bs pem _ paths sg, of demo_node]
    by (simp add: i demo_node_tables key_path_def)
qed

end
