(* ===== verification/Process.thy ===== *)
theory Process
  imports Reports Keys Scripts
begin

text \<open>
  The two processes (\<open>main.go\<close>, \<open>Start\<close> of \<open>node/node.go\<close>, \<open>main\<close> of \<open>gateway/gateway.go\<close>,
  \<open>InitDatabase\<close> of \<open>db/db.go\<close>): how each comes up from its flags, its configuration and its
  files, and the commands of a node's console. What the operating system and the decoders
  answer is an argument.
\<close>

section \<open>A node comes up\<close>

datatype startup_error =
    NoNodeId
  | NoClusterId
  | ConfigUnreadable
  | ConfigNotJson
  | DatabaseNotOpened
  | PortTaken

text \<open>
  What the file of a database holds: it cannot be opened, it is new, or it has the buckets of
  an earlier run, which are kept.
\<close>

datatype 'b db_file = Unopenable | NewFile | Existing "'b Database"

fun InitDatabase :: "'b env \<Rightarrow> 'b db_file \<Rightarrow> 'b Database option" where
  "InitDatabase E Unopenable = None"
| "InitDatabase E NewFile = Some (createBuckets E)"
| "InitDatabase E (Existing d) = Some d"

text \<open>A cluster that is not in the configuration is the zero value.\<close>

definition cluster_data :: "(string \<times> ClusterStruct) list \<Rightarrow> string \<Rightarrow> ClusterStruct" where
  "cluster_data clusters c =
     (case map_of clusters c of None \<Rightarrow> \<lparr>cs_Nodes = [], cs_Start = [], cs_End = []\<rparr> | Some data \<Rightarrow> data)"

definition db_name :: "string \<Rightarrow> string \<Rightarrow> string" where
  "db_name clusterId nodeId = ''./dbs/'' @ clusterId @ ''_'' @ nodeId @ ''.db''"

text \<open>
  \<open>main\<close> of a node: \<open>config\<close> is the configuration file, \<open>None\<close> when it cannot be read and
  \<open>Some None\<close> when it is no JSON; \<open>db_files\<close> are the database files by name, \<open>free\<close> says
  whether the node's port can be listened on.
\<close>

definition node_main ::
  "'b env \<Rightarrow> (string \<times> ClusterStruct) list option option \<Rightarrow> (string \<Rightarrow> 'b db_file) \<Rightarrow> bool
     \<Rightarrow> PrivateKey \<Rightarrow> string \<Rightarrow> string \<Rightarrow> startup_error + 'b Node" where
  "node_main E config db_files free sk nodeId clusterId =
     (if nodeId = [] then Inl NoNodeId
      else if clusterId = [] then Inl NoClusterId
      else (case config of
          None \<Rightarrow> Inl ConfigUnreadable
        | Some None \<Rightarrow> Inl ConfigNotJson
        | Some (Some clusters) \<Rightarrow>
            (case InitDatabase E (db_files (db_name clusterId nodeId)) of
               None \<Rightarrow> Inl DatabaseNotOpened
             | Some d \<Rightarrow>
                 if \<not> free then Inl PortTaken
                 else Inr (NewNode sk Map.empty d clusterId nodeId clusters
                   (cs_Start (cluster_data clusters clusterId)) (cs_End (cluster_data clusters clusterId))))))"

section \<open>The console of a node\<close>

datatype console_answer =
    Shows string
  | Crashes
  | Leaves

definition shown :: "string option \<Rightarrow> console_answer" where
  "shown t = (case t of None \<Rightarrow> Crashes | Some s \<Rightarrow> Shows s)"

text \<open>\<open>pre\<close>, \<open>logged\<close> and \<open>points\<close> are the orders in which the three maps are walked.\<close>

definition console_command ::
  "rendering \<Rightarrow> int64 list \<Rightarrow> int64 list \<Rightarrow> int64 list \<Rightarrow> 'b Node \<Rightarrow> string \<Rightarrow> console_answer" where
  "console_command R pre logged points n input =
     (if input = ''2'' then shown (printNewViews R n)
      else if input = ''3'' then shown (printAllCerts pre n)
      else if input = ''4'' then Shows (printLog R logged n)
      else if input = ''7'' then Shows (printCheckpoints R points n)
      else if input \<in> {''0'', ''exit'', '';''} then Leaves
      else Shows (''Invalid option. Please choose again.'' @ [newline]))"

section \<open>The gateway comes up\<close>

text \<open>
  \<open>main\<close> of the gateway up to its menu; the configuration and the script are as decoded,
  \<open>None\<close> ends the process.
\<close>

definition gateway_main ::
  "key_codec \<Rightarrow> (string \<times> ClusterStruct) list option \<Rightarrow> string list list option \<Rightarrow> bool \<Rightarrow> bool
     \<Rightarrow> (string \<Rightarrow> bool) \<Rightarrow> PrivateKey option \<Rightarrow> (string \<rightharpoonup> bytes) \<Rightarrow> PrivateKey
     \<Rightarrow> (Gateway \<times> (string \<rightharpoonup> bytes)) option" where
  "gateway_main C config script free made writable generated files nil =
     (case (config, script) of
        (Some clusters, Some rows) \<Rightarrow>
          (case readCsv rows (gateway_readJson clusters (new_gateway nil)) of
             Return gw _ \<Rightarrow>
               if \<not> free then None
               else gateway_initKeys C made writable generated (gateway_establishConns gw) files
           | _ \<Rightarrow> None)
      | _ \<Rightarrow> None)"

section \<open>What a process starts with\<close>

text \<open>A node over a new file starts with nothing; the theorems on reachable states start there.\<close>

lemma node_main_fresh:
  assumes "node_main E config db_files free sk i c = Inr n" "db_files (db_name c i) = NewFile"
  shows "\<exists>clusters s e. n = NewNode sk Map.empty (createBuckets E) c i clusters s e"
  using assms by (auto simp: node_main_def split: if_splits option.splits)

lemma node_main_fresh_reachable:
  assumes "node_main E config db_files free sk i c = Inr n" "db_files (db_name c i) = NewFile" "Start E n = Return n' ()"
  shows "reachable E n'"
proof -
  obtain clusters s e where "n = NewNode sk Map.empty (createBuckets E) c i clusters s e"
    using node_main_fresh [OF assms(1,2)] by blast
  with assms(3) have "started E n'" by (auto intro: startedI)
  then show ?thesis by (auto simp: reachable_def intro: idle)
qed

text \<open>
  C27. Type of the tables: a node that came up over a new database and then ran in any way has,
  in its log, only entries with a transaction and one of the five states, under numbers up
  to \<open>MaxSeq\<close>; in its datastore, only entries with a transaction, under their own logged
  number, up to \<open>DatastoreMax\<close>; saved pre-prepares only under their own number and with the
  client's request; and no request marked as executed, so that the branch of
  \<open>ExecuteTransaction\<close> that answers from the request log is never taken.
\<close>

theorem tables_well_typed:
  assumes "bolt_ok E" "json_pointers_ok E" "node_main E config db_files free sk i c = Inr n0"
    and "db_files (db_name c i) = NewFile" "Start E n0 = Return n1 ()" "node_runs E True n1 n"
  shows "(\<forall>seq l. TransactionLog n seq = Some l \<longrightarrow>
       tl_Transaction l \<noteq> None \<and> tl_State l \<in> {1, 2, 3, 4, 5} \<and> seq \<le> MaxSeq n) \<and>
     (\<forall>seq u. Datastore n seq = Some u \<longrightarrow>
       u_Seq u = seq \<and> u_Transaction u \<noteq> None \<and> seq \<in> dom (TransactionLog n) \<and> seq \<le> DatastoreMax n) \<and>
     (\<forall>seq req. PrePrepares n seq = Some req \<longrightarrow>
       (\<exists>pp. ppr_PrePrepare req = Some pp \<and> pp_Sequence pp = seq) \<and> ppr_ClientReq req \<noteq> None) \<and>
     (\<forall>ts rd. RequestLog n ts = Some rd \<longrightarrow> \<not> rd_Executed rd)"
proof -
  obtain clusters s e where "n0 = NewNode sk Map.empty (createBuckets E) c i clusters s e"
    using node_main_fresh [OF assms(3,4)] by blast
  with assms(5) have "started E n1" by (auto intro: startedI)
  then have wf: "node_wf E n" using runs_wf [OF assms(1,2,6)] started_wf [OF assms(1)] by blast
  have states: "1 \<le> st \<and> st \<le> 5 \<longleftrightarrow> st \<in> {1, 2, 3, 4, 5}" for st :: int by auto
  show ?thesis
    using wf unfolding node_wf_def log_wf_def datastore_wf_def preprepares_wf_def requests_wf_def states [symmetric]
    by (intro conjI) blast+
qed

text \<open>A node that has come up, read the keys and accepted a pre-prepare.\<close>

lemma key_walk_run: "node_runs E x n (fold (\<lambda>path n. readPublicKeyIntoMap read n path) paths n)"
  by (induction paths arbitrary: n) (auto intro: next_run read_key idle)

definition demo_config :: "(string \<times> ClusterStruct) list option option" where
  "demo_config = Some (Some [(''C1'', \<lparr>cs_Nodes = [(''S1'', ''8081''), (''S2'', ''8082'')],
     cs_Start = FormatInt 1, cs_End = FormatInt 1000\<rparr>)])"

theorem tables_well_typed_witness:
  "\<exists>n0 n1 n l. node_main demo_env demo_config (\<lambda>_. NewFile) True (demo_key 2) ''S2'' ''C1'' = Inr n0 \<and>
     Start demo_env n0 = Return n1 () \<and> node_runs demo_env True n1 n \<and> TransactionLog n 1 = Some l \<and> tl_State l \<in> {1, 2, 3, 4, 5} \<and> 1 \<le> MaxSeq n"
proof -
  let ?read = "\<lambda>path. demo_keys (id_of_path path)"
  have ends: "in64 1" "in64 1000" "(1000::int) < max64" by (simp_all add: in64_def min64_def max64_def)
  obtain n0 where n0: "node_main demo_env demo_config (\<lambda>_. NewFile) True (demo_key 2) ''S2'' ''C1'' = Inr n0"
      "n0 = NewNode (demo_key 2) Map.empty (createBuckets demo_env) ''C1'' ''S2'' (the (the demo_config))
        (FormatInt 1) (FormatInt 1000)"
    by (simp add: node_main_def demo_config_def cluster_data_def)
  obtain n1 where n1: "Start demo_env n0 = Return n1 ()"
    and sel: "View n1 = 1" "PrePrepares n1 = Map.empty" "TransactionLog n1 = Map.empty" "RequestLog n1 = Map.empty"
      "locksBucket (DB n1) = ([], 0)" "PublicKeyMap n1 = Map.empty" "ClusterId n1 = ''C1''" "Live n1"
      "\<not> ViewChanging n1" "\<not> Byzantine n1"
    using Start_runs [OF demo_bolt_ok ends, of "demo_key 2" Map.empty "''C1''" "''S2''" "the (the demo_config)"]
    unfolding n0(2) by (auto simp: establishConns_def NewNode_def createBuckets_def demo_simps)
  let ?paths = "[''keys/S1_pub.pem'', ''keys/S2_pub.pem'', ''keys/S3_pub.pem'', ''keys/S4_pub.pem'', ''keys/client_pub.pem'']"
  let ?m = "fold (\<lambda>path n. readPublicKeyIntoMap ?read n path) ?paths n1"
  have ids: "id_of_path ''keys/S1_pub.pem'' = ''S1''" "id_of_path ''keys/S2_pub.pem'' = ''S2''"
    "id_of_path ''keys/S3_pub.pem'' = ''S3''" "id_of_path ''keys/S4_pub.pem'' = ''S4''"
    "id_of_path ''keys/client_pub.pem'' = ''client''"
    by (simp_all add: id_of_path_def)
  have step: "readPublicKeyIntoMap ?read n path =
      (case ?read path of None \<Rightarrow> n | Some k \<Rightarrow> n\<lparr>PublicKeyMap := (PublicKeyMap n)(id_of_path path \<mapsto> k)\<rparr>)"
    for n :: "demo_bucket Node" and path
    by (simp add: readPublicKeyIntoMap_def id_of_path_def split: option.splits)
  have keys: "demo_keys ''S1'' = Some (PublicKey 1 65537)" "demo_keys ''S2'' = Some (PublicKey 2 65537)"
    "demo_keys ''S3'' = Some (PublicKey 3 65537)" "demo_keys ''S4'' = Some (PublicKey 4 65537)"
    "demo_keys ''client'' = Some (PublicKey 0 65537)"
    by (simp_all add: demo_keys_def)
  have all: "[''S1'' \<mapsto> PublicKey 1 65537, ''S2'' \<mapsto> PublicKey 2 65537, ''S3'' \<mapsto> PublicKey 3 65537,
      ''S4'' \<mapsto> PublicKey 4 65537, ''client'' \<mapsto> PublicKey 0 65537] = demo_keys"
    by (rule ext) (simp add: demo_keys_def)
  have m: "?m = n1\<lparr>PublicKeyMap := demo_keys\<rparr>"
    by (simp add: step ids keys sel all)
  obtain n where n: "rpc_PrePrepare demo_env [] ?m demo_preprepare = Return n None" "dom (TransactionLog n) = {1}"
    using fresh_node_accepts [of ?m] unfolding m by (auto simp: sel)
  have "node_runs demo_env True ?m n"
    by (rule preprepare [where rely = "[]" and req = demo_preprepare]) (simp, simp only: n(1) state_after.simps)
  then have run: "node_runs demo_env True n1 n" by (rule next_run [OF key_walk_run])
  note typed = tables_well_typed [OF demo_bolt_ok demo_json_pointers_ok n0(1) refl n1 run]
  obtain l where l: "TransactionLog n 1 = Some l" using n(2) by blast
  have "tl_State l \<in> {1, 2, 3, 4, 5}" "1 \<le> MaxSeq n" using typed l by blast+
  with n0(1) n1 run l show ?thesis by (intro exI conjI)
qed

lemma node_main_existing:
  assumes "node_main E config db_files free sk i c = Inr n" "db_files (db_name c i) = Existing d"
  shows "DB n = d \<and> TransactionLog n = Map.empty \<and> Datastore n = Map.empty"
  using assms by (auto simp: node_main_def NewNode_def split: if_splits option.splits)

lemma resetBalances_stores:
  "resetBalances E n = Return n' e \<Longrightarrow> locksBucket (DB n') = locksBucket (DB n) \<and> walBucket (DB n') = walBucket (DB n) \<and>
     TransactionLog n' = TransactionLog n \<and> Datastore n' = Datastore n"
  using InitiateBalances_frame [of E "DB n" "StartId n" "EndId n"] by (auto simp: resetBalances_def split: outcome.splits)

lemma Start_stores:
  assumes "Start E n = Return n' ()"
  shows "locksBucket (DB n') = locksBucket (DB n) \<and> walBucket (DB n') = walBucket (DB n) \<and>
     TransactionLog n' = TransactionLog n \<and> Datastore n' = Datastore n"
proof -
  obtain m e m' e' where "resetBalances E (establishConns n) = Return m e" "resetBalances E m = Return m' e'"
    "n' = m'\<lparr>Tmr := NewTimer 2500000000000\<rparr>"
    using assms by (auto simp: Start_def outcome_simps)
  with resetBalances_stores [of E "establishConns n" m e] resetBalances_stores [of E m m' e'] show ?thesis
    by (simp add: establishConns_def)
qed

text \<open>
  A restarted node has forgotten its log and its datastore, and has its first balances again,
  but it still holds the locks of before: a transaction of a client that was locked waits.
\<close>

theorem restart_keeps_locks:
  assumes "node_main E config db_files free sk i c = Inr n" "db_files (db_name c i) = Existing d"
    and "Start E n = Return n' ()"
  shows "held E (DB n') = held E d \<and> TransactionLog n' = Map.empty \<and> Datastore n' = Map.empty"
  using node_main_existing [OF assms(1,2)] Start_stores [OF assms(3)] held_cong [of "DB n'" d E] by simp

corollary restart_waits_for_old_lock:
  assumes "node_main E config db_files free sk i c = Inr n" "db_files (db_name c i) = Existing d"
    and "Start E n = Return n' ()" "client \<in> held E d" "client \<in> set cs"
    and "\<And>r m. r \<in> set rely \<Longrightarrow> client \<in> held E (DB m) \<Longrightarrow> client \<in> held E (DB (r m))"
  shows "\<exists>m. lock_loop E cs byz rely n' = Blocked m"
  using lock_loop_waits [OF assms(5), of E n' rely byz] assms(4,6) restart_keeps_locks [OF assms(1-3)] by blast

lemma gateway_main_views:
  assumes "gateway_main C config script free made writable generated files nil = Some (gw, files')"
    and "cl \<in> fst ` set (gw_NodeMap gw)"
  shows "ViewMap gw cl = Some 1"
proof -
  have fold_views: "fold (\<lambda>(c, ns) m. m(c \<mapsto> 1)) xs m0 cl = (if cl \<in> fst ` set xs then Some 1 else m0 cl)"
    for xs :: "(string \<times> (string \<times> string) list) list" and m0 :: "string \<rightharpoonup> int64"
    by (induction xs arbitrary: m0) auto
  obtain g where g: "ViewMap gw = ViewMap (gateway_establishConns g)" "gw_NodeMap gw = gw_NodeMap (gateway_establishConns g)"
    using assms(1)
    by (auto simp: gateway_main_def gateway_initKeys_def split: option.splits outcome.splits if_splits prod.splits)
  with assms(2) show ?thesis by (simp add: gateway_establishConns_def fold_views)
qed

end
