(* ===== verification/Steady.thy ===== *)
theory Steady
  imports Reachable Agreement
begin

text \<open>
  What a node signs while its view does not change and no digest it has logged is replaced: the
  leader runs the protocol, a replica accepts pre-prepares, and each does everything else a
  node does except adopting or announcing a view. The invariant says that a digest once
  logged for a number stays, that every prepare and commit the node has sent carries its
  name, its view and the logged digest, and so does every pre-prepare it has offered. Its preservation is shown handler by
  handler; the agreement of a cluster rests on it.
\<close>

section \<open>Votes\<close>

definition digest_at :: "'b Node \<Rightarrow> int64 \<Rightarrow> string option" where
  "digest_at n seq = map_option tl_Digest (TransactionLog n seq)"

text \<open>
  What a node has signed: the commits and prepares it sent (a prepare has the wire form of a
  commit), and the commit the leader has started to send to itself.
\<close>

definition votes :: "'b Node \<Rightarrow> Commit set" where
  "votes n =
     {c. \<exists>i r. RpcCommit i r \<in> set (effects n) \<and> cmr_Commit r = Some c} \<union>
     {c. \<exists>i r p. RpcPrepare i r \<in> set (effects n) \<and> pr_Prepare r = Some p \<and> c = as_commit p} \<union>
     {c. \<exists>seq. GoSendCommitToSelf seq \<in> set (effects n) \<and> c = own_commit n seq (tl_Digest (log_at n seq))}"

definition vote_ok :: "'b Node \<Rightarrow> Commit \<Rightarrow> bool" where
  "vote_ok n c \<longleftrightarrow> c_View c = View n \<and> c_NodeId c = node_Id n \<and> digest_at n (c_Sequence c) = Some (c_Digest c)"

fun effect_ok :: "'b Node \<Rightarrow> effect \<Rightarrow> bool" where
  "effect_ok n (RpcCommit i r) = (\<forall>c. cmr_Commit r = Some c \<longrightarrow> vote_ok n c)"
| "effect_ok n (RpcPrepare i r) = (\<forall>p. pr_Prepare r = Some p \<longrightarrow> vote_ok n (as_commit p))"
| "effect_ok n (GoSendCommitToSelf seq) = (digest_at n seq \<noteq> None)"
| "effect_ok n (GoSendPrepareReq seq req leader status) =
     (\<exists>pp. ppr_PrePrepare req = Some pp \<and> pp_Sequence pp = seq \<and> pp_View pp = View n \<and>
        digest_at n seq = Some (pp_Digest pp))"
| "effect_ok n (RpcPrePrepare i req) =
     (\<exists>pp. ppr_PrePrepare req = Some pp \<and> digest_at n (pp_Sequence pp) = Some (pp_Digest pp))"
| "effect_ok n e = True"

fun votes_nothing :: "effect \<Rightarrow> bool" where
  "votes_nothing (RpcCommit i r) = False"
| "votes_nothing (RpcPrepare i r) = False"
| "votes_nothing (GoSendCommitToSelf seq) = False"
| "votes_nothing (GoSendPrepareReq seq req leader status) = False"
| "votes_nothing (RpcPrePrepare i req) = False"
| "votes_nothing e = True"

lemma votes_nothing_ok: "votes_nothing e \<Longrightarrow> effect_ok n e"
  by (cases e) simp_all

lemma effect_ok_grows:
  assumes "effect_ok n e" "View n' = View n" "node_Id n' = node_Id n"
    and "\<And>seq d. digest_at n seq = Some d \<Longrightarrow> digest_at n' seq = Some d"
  shows "effect_ok n' e"
  using assms by (cases e) (auto simp: vote_ok_def)

section \<open>The invariant\<close>

text \<open>
  As long as the largest \<open>int64\<close> has not been used as a sequence number, where the counter of
  the leader would wrap around.
\<close>

definition sound :: "int64 \<Rightarrow> string \<Rightarrow> bool \<Rightarrow> 'b Node \<Rightarrow> bool" where
  "sound v me lead n \<longleftrightarrow> (MaxSeq n < max64 \<longrightarrow>
     \<not> Byzantine n \<and> View n = v \<and> node_Id n = me \<and> in64 (Seq n) \<and>
     (\<forall>seq l. TransactionLog n seq = Some l \<longrightarrow> tl_View l = v \<and> seq \<le> MaxSeq n) \<and>
     (lead \<longrightarrow> (\<forall>seq\<in>dom (TransactionLog n). seq < Seq n)) \<and>
     (\<forall>seq req. PrePrepares n seq = Some req \<longrightarrow>
        (\<exists>pp. ppr_PrePrepare req = Some pp \<and> digest_at n (pp_Sequence pp) = Some (pp_Digest pp))) \<and>
     (\<forall>e\<in>set (effects n). effect_ok n e))"

definition steady_core :: "'b Node \<Rightarrow> _" where
  "steady_core n = (TransactionLog n, MaxSeq n, PrePrepares n, View n, Seq n, Byzantine n, node_Id n, effects n)"

named_theorems steady_simps \<open>updates that do not touch what the invariant looks at\<close>
named_theorems steady_rules \<open>segments that keep the invariant\<close>

lemma effect_ok_cong: "steady_core n' = steady_core n \<Longrightarrow> effect_ok n' e = effect_ok n e"
  by (cases e) (simp_all add: steady_core_def vote_ok_def digest_at_def)

lemma sound_cong: "steady_core n' = steady_core n \<Longrightarrow> sound v me lead n' = sound v me lead n"
  using effect_ok_cong [of n' n] by (simp add: sound_def steady_core_def digest_at_def)

lemma sound_frame [steady_simps]:
  "sound v me lead (n\<lparr>PrepareCerts := pc\<rparr>) = sound v me lead n"
  "sound v me lead (n\<lparr>CommitCerts := cc\<rparr>) = sound v me lead n"
  "sound v me lead (n\<lparr>PrepareCertChans := ch\<rparr>) = sound v me lead n"
  "sound v me lead (n\<lparr>CommitCertChans := ch\<rparr>) = sound v me lead n"
  "sound v me lead (n\<lparr>PCCommitsMap := pm\<rparr>) = sound v me lead n"
  "sound v me lead (n\<lparr>DB := d\<rparr>) = sound v me lead n"
  "sound v me lead (n\<lparr>Datastore := ds, DatastoreMax := hi\<rparr>) = sound v me lead n"
  "sound v me lead (n\<lparr>RequestLog := rl\<rparr>) = sound v me lead n"
  "sound v me lead (n\<lparr>ExecutorSeq := i\<rparr>) = sound v me lead n"
  "sound v me lead (n\<lparr>ExecutionCount := i\<rparr>) = sound v me lead n"
  "sound v me lead (n\<lparr>LastStable := i\<rparr>) = sound v me lead n"
  "sound v me lead (n\<lparr>LastStableBalances := m\<rparr>) = sound v me lead n"
  "sound v me lead (n\<lparr>LowWater := i\<rparr>) = sound v me lead n"
  "sound v me lead (n\<lparr>HighWater := i\<rparr>) = sound v me lead n"
  "sound v me lead (n\<lparr>CheckpointCerts := cp\<rparr>) = sound v me lead n"
  "sound v me lead (n\<lparr>ViewChanging := b\<rparr>) = sound v me lead n"
  "sound v me lead (n\<lparr>NewViewNum := i\<rparr>) = sound v me lead n"
  "sound v me lead (n\<lparr>ViewChangeCerts := vcs\<rparr>) = sound v me lead n"
  "sound v me lead (n\<lparr>Tmr := t\<rparr>) = sound v me lead n"
  "sound v me lead (n\<lparr>Live := b\<rparr>) = sound v me lead n"
  "sound v me lead (n\<lparr>PublicKeyMap := pk\<rparr>) = sound v me lead n"
  by (rule sound_cong, simp add: steady_core_def)+

lemma sound_emits:
  assumes "sound v me lead n" "\<And>e. e \<in> set es \<Longrightarrow> MaxSeq n < max64 \<Longrightarrow> effect_ok n e"
  shows "sound v me lead (emits es n)"
proof -
  have "effect_ok (emits es n) e = effect_ok n e" for e
    by (cases e) (simp_all add: emits_def vote_ok_def digest_at_def)
  with assms show ?thesis unfolding sound_def by (auto simp: emits_def digest_at_def)
qed

lemma emit_emits: "emit e n = emits [e] n"
  by (simp add: emit_def emits_def)

lemma sound_emit:
  "sound v me lead n \<Longrightarrow> (MaxSeq n < max64 \<Longrightarrow> effect_ok n e) \<Longrightarrow> sound v me lead (emit e n)"
  unfolding emit_emits by (rule sound_emits) simp_all

lemma sound_quiet [steady_rules]:
  "sound v me lead n \<Longrightarrow> votes_nothing e \<Longrightarrow> sound v me lead (emit e n)"
  "sound v me lead n \<Longrightarrow> list_all votes_nothing es \<Longrightarrow> sound v me lead (emits es n)"
  by (auto intro!: sound_emit sound_emits votes_nothing_ok simp: list_all_iff)

text \<open>A logged digest stays, whatever happens to the state of the entry.\<close>

lemma digest_at_updateLog [simp]: "digest_at (updateLog n seq s) = digest_at n"
  by (rule ext) (auto simp: digest_at_def updateLog_def split: option.splits)

lemma sound_updateLog [steady_rules]:
  assumes "sound v me lead n"
  shows "sound v me lead (updateLog n seq s)"
proof -
  have f: "MaxSeq (updateLog n seq s) = MaxSeq n" "Byzantine (updateLog n seq s) = Byzantine n"
    "View (updateLog n seq s) = View n" "node_Id (updateLog n seq s) = node_Id n" "Seq (updateLog n seq s) = Seq n"
    "PrePrepares (updateLog n seq s) = PrePrepares n" "effects (updateLog n seq s) = effects n"
    "dom (TransactionLog (updateLog n seq s)) = dom (TransactionLog n)"
    by (auto simp: updateLog_def split: option.splits)
  have "effect_ok (updateLog n seq s) e = effect_ok n e" for e
    by (cases e) (simp_all add: vote_ok_def f)
  moreover have "\<exists>l'. TransactionLog n i = Some l' \<and> tl_View l' = tl_View l"
    if "TransactionLog (updateLog n seq s) i = Some l" for i l
    using that by (auto simp: updateLog_def split: option.splits if_splits)
  ultimately show ?thesis using assms unfolding sound_def by (simp add: f) metis
qed

text \<open>Writing an entry that is new or has the same digest, and saving its pre-prepare.\<close>

lemma sound_write:
  assumes s: "sound v me lead n" and d: "MaxSeq n < max64 \<Longrightarrow> digest_at n seq \<in> {None, Some d}"
    and l: "lead \<Longrightarrow> MaxSeq n < max64 \<Longrightarrow> seq < Seq n"
    and pp: "ppr_PrePrepare req = Some pp" "pp_Sequence pp = seq" "pp_Digest pp = d"
  shows "sound v me lead (savePrePrepare (writeLog n seq t (View n) d ts) seq req)" (is "sound v me lead ?m")
  unfolding sound_def
proof (rule impI)
  assume "MaxSeq ?m < max64"
  then have small: "MaxSeq n < max64" and le: "seq \<le> MaxSeq ?m" "MaxSeq n \<le> MaxSeq ?m"
    by (simp_all add: savePrePrepare_def writeLog_def)
  have digest: "digest_at ?m = (digest_at n)(seq \<mapsto> d)"
    by (rule ext) (simp add: digest_at_def savePrePrepare_def writeLog_def)
  have grows: "digest_at ?m i = Some x" if "digest_at n i = Some x" for i x
    using that d [OF small] by (auto simp: digest)
  have same: "View ?m = View n" "node_Id ?m = node_Id n" "Byzantine ?m = Byzantine n" "Seq ?m = Seq n"
    "effects ?m = effects n" "PrePrepares ?m = (PrePrepares n)(seq \<mapsto> req)"
    "dom (TransactionLog ?m) = insert seq (dom (TransactionLog n))"
    by (simp_all add: savePrePrepare_def writeLog_def)
  have effs: "effect_ok ?m e" if "effect_ok n e" for e
    by (rule effect_ok_grows [OF that same(1,2) grows])
  have entry: "tl_View e = v \<and> i \<le> MaxSeq ?m" if "TransactionLog ?m i = Some e" for i e
    using that s small unfolding sound_def
    by (cases "i = seq") (auto simp: savePrePrepare_def writeLog_def le_max_iff_disj)
  have saved: "\<exists>pp. ppr_PrePrepare r = Some pp \<and> digest_at ?m (pp_Sequence pp) = Some (pp_Digest pp)"
    if "PrePrepares ?m i = Some r" for i r
  proof (cases "i = seq")
    case True
    with that have "r = req" by (simp add: same)
    with pp show ?thesis by (simp add: digest)
  next
    case False
    with that have "PrePrepares n i = Some r" by (simp add: same)
    with s small obtain p where "ppr_PrePrepare r = Some p" "digest_at n (pp_Sequence p) = Some (pp_Digest p)"
      unfolding sound_def by blast
    with grows show ?thesis by blast
  qed
  have old: "\<not> Byzantine n" "View n = v" "node_Id n = me" "in64 (Seq n)" "\<And>e. e \<in> set (effects n) \<Longrightarrow> effect_ok n e"
    "\<And>i. lead \<Longrightarrow> i \<in> dom (TransactionLog n) \<Longrightarrow> i < Seq n"
    using s small unfolding sound_def by blast+
  have "View ?m = v" "node_Id ?m = me" "\<not> Byzantine ?m" "in64 (Seq ?m)"
    using old(1-4) same(1-4) by (metis same)+
  moreover have "effect_ok ?m e" if "e \<in> set (effects ?m)" for e
    using that effs old(5) unfolding same(5) by blast
  moreover have "i < Seq ?m" if "lead" "i \<in> dom (TransactionLog ?m)" for i
    using that l [OF that(1) small] old(6) unfolding same(4,7) by blast
  ultimately show "\<not> Byzantine ?m \<and> View ?m = v \<and> node_Id ?m = me \<and> in64 (Seq ?m) \<and>
     (\<forall>i e. TransactionLog ?m i = Some e \<longrightarrow> tl_View e = v \<and> i \<le> MaxSeq ?m) \<and>
     (lead \<longrightarrow> (\<forall>i\<in>dom (TransactionLog ?m). i < Seq ?m)) \<and>
     (\<forall>i r. PrePrepares ?m i = Some r \<longrightarrow>
        (\<exists>pp. ppr_PrePrepare r = Some pp \<and> digest_at ?m (pp_Sequence pp) = Some (pp_Digest pp))) \<and>
     (\<forall>e\<in>set (effects ?m). effect_ok ?m e)"
    using entry saved by blast
qed

text \<open>The counter only rises, and pre-prepares may be forgotten.\<close>

lemma sound_raise [steady_rules]:
  "sound v me lead n \<Longrightarrow> in64 x \<Longrightarrow> sound v me lead (n\<lparr>Seq := max (Seq n) x\<rparr>)"
proof -
  have "effect_ok (n\<lparr>Seq := i\<rparr>) e = effect_ok n e" for i e
    by (cases e) (simp_all add: vote_ok_def digest_at_def)
  then show "sound v me lead n \<Longrightarrow> in64 x \<Longrightarrow> sound v me lead (n\<lparr>Seq := max (Seq n) x\<rparr>)"
    by (auto simp: sound_def digest_at_def in64_def less_max_iff_disj)
qed

lemma sound_forget [steady_rules]:
  "sound v me lead n \<Longrightarrow> sound v me lead (n\<lparr>PrePrepares := (\<lambda>i. if i \<in> A then None else PrePrepares n i)\<rparr>)"
proof -
  have "effect_ok (n\<lparr>PrePrepares := f\<rparr>) e = effect_ok n e" for f e
    by (cases e) (simp_all add: vote_ok_def digest_at_def)
  then show "sound v me lead n \<Longrightarrow> sound v me lead (n\<lparr>PrePrepares := (\<lambda>i. if i \<in> A then None else PrePrepares n i)\<rparr>)"
    by (auto simp: sound_def digest_at_def)
qed

section \<open>Certificates\<close>

lemma sound_commit_entry [steady_rules]:
  assumes "sound v me lead n"
  shows "sound v me lead (commit_entry E n seq s k t)"
proof -
  have "steady_core (commit_entry E n seq s k t) = steady_core (updateLog n seq ''committed'')"
    by (simp add: steady_core_def commit_entry_def saveTransactionToDatastore_def Let_def)
  from sound_cong [OF this] sound_updateLog [OF assms] show ?thesis by simp
qed

lemma sound_validatePrepares [steady_rules]:
  "sound v me lead n \<Longrightarrow> keeps (sound v me lead) (validatePrepares E n seq rs)"
  unfolding validatePrepares_cases prepared_state_def Let_def
  by (intro keeps_rules) (simp_all add: steady_simps steady_rules)

lemma sound_validateCommits [steady_rules]:
  "sound v me lead n \<Longrightarrow> keeps (sound v me lead) (validateCommits E n seq rs s k t)"
  unfolding validateCommits_cases committed_state_def Let_def
  by (intro keeps_rules) (simp_all add: steady_simps steady_rules)

lemma prepared_has_digest:
  assumes "validatePrepares E n seq rs = Return n' True"
  shows "digest_at n' seq \<noteq> None"
proof -
  from assms have enough: "2 * F \<le> length (filter (prepare_valid E n seq) rs)"
    and n': "n' = prepared_state n seq (filter (prepare_valid E n seq) rs)"
    by (auto simp: validatePrepares_cases split: if_splits)
  have "filter (prepare_valid E n seq) rs \<noteq> []" using enough by (auto simp: F_def)
  then obtain l where "TransactionLog n seq = Some l" by (auto simp: filter_empty_conv prepare_valid_def)
  moreover have "digest_at n' = digest_at (if Byzantine n then n else updateLog n seq ''prepared'')"
    by (rule ext) (simp add: n' prepared_state_def Let_def digest_at_def)
  ultimately show ?thesis by (auto simp: digest_at_def [of n])
qed

section \<open>Waiting for locks\<close>

text \<open>
  The loop keeps any predicate that the stores do not matter to and the others keep.
\<close>

lemma lock_loop_keeps:
  assumes "\<And>m d. I m \<Longrightarrow> I (m\<lparr>DB := d\<rparr>)"
  shows "all_keep I rely \<Longrightarrow> I n \<Longrightarrow> keeps I (lock_loop E cs byz rely n)"
proof (induction rely arbitrary: n)
  case Nil
  then show ?case
    by (subst lock_loop.simps) (auto simp: assms keeps_Return keeps_Blocked split: prod.split option.split)
next
  case (Cons r rs)
  then show ?case
    by (subst lock_loop.simps) (auto simp: assms keeps_Return split: prod.split option.split)
qed

lemma sound_lock_loop [steady_rules]:
  "all_keep (sound v me lead) rely \<Longrightarrow> sound v me lead n \<Longrightarrow>
     keeps (sound v me lead) (lock_loop E cs byz rely n)"
  by (rule lock_loop_keeps) (simp_all add: steady_simps)

lemma sound_release_of [steady_rules]:
  "sound v me lead n \<Longrightarrow> sound v me lead (release_of E n t)"
  by (simp add: release_of_def steady_simps)

lemma sound_put_request [steady_simps]:
  "sound v me lead (put_request n ts seq) = sound v me lead n"
  by (simp add: put_request_def steady_simps)

section \<open>Accepting a pre-prepare\<close>

lemma keeps_mono: "keeps I m \<Longrightarrow> (\<And>s. I s \<Longrightarrow> J s) \<Longrightarrow> keeps J m"
  by (simp add: keeps_def)

text \<open>
  Between the checks and the write the digest of the number must not change; \<open>holds_place\<close> is
  what the others have to keep meanwhile, besides the invariant.
\<close>

definition holds_place :: "int64 \<Rightarrow> string \<Rightarrow> 'b Node \<Rightarrow> bool" where
  "holds_place seq d n \<longleftrightarrow> (MaxSeq n < max64 \<longrightarrow> digest_at n seq \<in> {None, Some d})"

lemma sound_accept_write:
  assumes "sound v me False m" "holds_place seq d m" "ppr_PrePrepare req = Some pp" "pp_View pp = v"
    and "seq = pp_Sequence pp" "d = pp_Digest pp"
  shows "sound v me False (emit (GoSendPrepareReq seq req leader status)
           (savePrePrepare (writeLog m seq t (View m) d ts) seq req))"
proof (rule sound_emit)
  let ?m = "savePrePrepare (writeLog m seq t (View m) d ts) seq req"
  show s: "sound v me False ?m"
    by (rule sound_write) (use assms in \<open>simp_all add: holds_place_def\<close>)
  assume "MaxSeq ?m < max64"
  with s have "View ?m = v" unfolding sound_def by blast
  moreover have "digest_at ?m seq = Some d" by (simp add: digest_at_def savePrePrepare_def writeLog_def)
  ultimately show "effect_ok ?m (GoSendPrepareReq seq req leader status)"
    using assms(3-6) by simp
qed

lemma sound_preprepare_accept:
  assumes rely: "all_keep (\<lambda>m. sound v me False m \<and> holds_place (pp_Sequence pp) (pp_Digest pp) m) rely"
    and n: "sound v me False n" "holds_place (pp_Sequence pp) (pp_Digest pp) n"
    and req: "ppr_PrePrepare req = Some pp" "pp_View pp = v"
  shows "keeps (sound v me False) (preprepare_accept E rely n req pp leader)"
proof -
  let ?I = "\<lambda>m. sound v me False m \<and> holds_place (pp_Sequence pp) (pp_Digest pp) m"
  have frame: "?I m = ?I m'" if "steady_core m = steady_core m'" for m m' :: "'a Node"
    using sound_cong [OF that] that by (simp add: holds_place_def digest_at_def steady_core_def)
  have db: "?I m \<Longrightarrow> ?I (m\<lparr>DB := d\<rparr>)" for m :: "'a Node" and d
    using frame [of "m\<lparr>DB := d\<rparr>" m] by (simp add: steady_core_def)
  have timer: "?I (emit GoTimerStartIfNotRunning n)"
    using n by (simp add: steady_rules) (simp add: holds_place_def digest_at_def emit_def)
  have req_log: "?I m \<Longrightarrow> ?I (if RequestLog m ts = None then put_request m ts seq else m)" for m :: "'a Node" and ts seq
    using frame [of "put_request m ts seq" m] by (simp add: steady_core_def put_request_def)
  have locks: "?I m \<Longrightarrow> keeps ?I (lock_loop E cs byz rely m)" for m cs byz
    by (rule lock_loop_keeps [OF db rely])
  have written: "?I m \<Longrightarrow> ?I (emit (GoSendPrepareReq (pp_Sequence pp) req leader (pp_Status pp))
      (savePrePrepare (writeLog m (pp_Sequence pp) t (View m) (pp_Digest pp) ts) (pp_Sequence pp) req))"
    for m :: "'a Node" and t ts
    using sound_accept_write [of v me m "pp_Sequence pp" "pp_Digest pp" req pp leader "pp_Status pp" t ts] req
    by (simp add: holds_place_def digest_at_def savePrePrepare_def writeLog_def emit_def)
  have "keeps ?I (preprepare_accept E rely n req pp leader)"
    unfolding preprepare_accept_def Let_def with_tx_def with_seconds_def
    by (intro keeps_rules locks written req_log timer)
  then show ?thesis by (rule keeps_mono) simp
qed

text \<open>
  A pre-prepare for the node's view passes the checks only when its digest is the logged one,
  if one is logged at all.
\<close>

lemma checked_holds_place:
  assumes "preprepare_checks E n req pp = Return n' None" "sound v me lead n"
  shows "holds_place (pp_Sequence pp) (pp_Digest pp) n"
  using assms
  by (auto simp: holds_place_def sound_def digest_at_def preprepare_checks_def Let_def split: if_splits option.splits)

lemma checked_view: "preprepare_checks E n req pp = Return n' None \<Longrightarrow> pp_View pp = View n"
  by (auto simp: preprepare_checks_def Let_def split: if_splits)

lemma sound_big: "max64 \<le> MaxSeq n \<Longrightarrow> sound v me lead n"
  by (simp add: sound_def)

lemma sound_rpc_PrePrepare:
  assumes n: "sound v me False n"
    and rely: "\<And>f m. f \<in> set rely \<Longrightarrow> sound v me False m \<Longrightarrow> sound v me False (f m)"
    and grows: "\<And>f m. f \<in> set rely \<Longrightarrow> MaxSeq m \<le> MaxSeq (f m)"
    and place: "\<And>f m pp. f \<in> set rely \<Longrightarrow> ppr_PrePrepare req = Some pp \<Longrightarrow>
          digest_at m (pp_Sequence pp) \<in> {None, Some (pp_Digest pp)} \<Longrightarrow>
          digest_at (f m) (pp_Sequence pp) \<in> {None, Some (pp_Digest pp)}"
  shows "keeps (sound v me False) (rpc_PrePrepare E rely n req)"
proof (cases "MaxSeq n < max64")
  case True
  have accept: "keeps (sound v me False) (preprepare_accept E rely m req pp leader)"
    if "ppr_PrePrepare req = Some pp" "preprepare_checks E n req pp = Return m None" for m pp leader
  proof (rule sound_preprepare_accept [OF _ _ _ that(1)])
    have m: "m = n" by (rule preprepare_checks_state [OF that(2)])
    show "sound v me False m" "holds_place (pp_Sequence pp) (pp_Digest pp) m"
      using n checked_holds_place [OF that(2) n] by (simp_all add: m)
    show "pp_View pp = v" using checked_view [OF that(2)] n True by (simp add: sound_def)
    show "all_keep (\<lambda>m. sound v me False m \<and> holds_place (pp_Sequence pp) (pp_Digest pp) m) rely"
      using rely order_le_less_trans [OF grows] place [OF _ that(1)]
      by (intro all_keepI) (auto simp: holds_place_def)
  qed
  show ?thesis
    unfolding rpc_PrePrepare_def
    by (intro keeps_rules accept) (use n in \<open>auto simp: steady_rules dest: preprepare_checks_state
      intro: keeps_preprepare_checks\<close>)
next
  case False
  have "keeps (\<lambda>m. max64 \<le> MaxSeq m) (rpc_PrePrepare E rely n req)"
    using history.keeps_rpc_PrePrepare [of "{}" "{}" "{}" max64 rely n E req] False grows
    by (force simp: all_keep_def intro: order_trans)
  then show ?thesis by (rule keeps_mono) (rule sound_big)
qed

section \<open>The other handlers of the three phases\<close>

lemma sound_rpc_Prepare [steady_rules]:
  "sound v me lead n \<Longrightarrow> keeps (sound v me lead) (rpc_Prepare E reads polls n req)"
  unfolding rpc_Prepare_def Let_def
  by (intro keeps_rules wf_rules) (simp_all add: steady_rules)

lemma sound_rpc_Commit [steady_rules]:
  "sound v me lead n \<Longrightarrow> keeps (sound v me lead) (rpc_Commit E reads polls n req)"
  unfolding rpc_Commit_def Let_def
  by (intro keeps_rules wf_rules) (simp_all add: steady_rules)

lemma sound_own_commit:
  assumes "sound v me lead n" "TransactionLog n seq = Some l"
  shows "sound v me lead (emit (RpcCommit leader \<lparr>cmr_Commit = Some (own_commit n seq
     (if \<not> Byzantine n then tl_Digest l else [])), cmr_Signature = sg\<rparr>) n)"
  using assms by (intro sound_emit) (auto simp: sound_def vote_ok_def own_commit_def digest_at_def)

lemma sound_sendCommitReq [steady_rules]:
  assumes "all_keep (sound v me lead) [rely]" "sound v me lead n"
  shows "keeps (sound v me lead) (sendCommitReq E rely reply n seq s k t)"
proof -
  have "getTransactionLog n seq = (l, True) \<Longrightarrow> TransactionLog n seq = Some l" for l
    by (auto simp: getTransactionLog_def split: option.splits)
  with assms show ?thesis
    unfolding sendCommitReq_def Let_def with_client_def
    by (intro keeps_rules steady_rules) (simp_all add: steady_simps sound_own_commit)
qed

text \<open>The prepare a node makes for a pre-prepare it has accepted.\<close>

lemma sound_own_prepare:
  assumes "sound v me lead n" "GoSendPrepareReq seq req leader status \<in> set (effects n)" "ppr_PrePrepare req = Some pp"
  shows "sound v me lead (emit (RpcPrepare i \<lparr>pr_Prepare = Some (own_prepare n pp), pr_Signature = sg\<rparr>) n)"
proof (rule sound_emit [OF assms(1)])
  assume "MaxSeq n < max64"
  with assms(1,2) have "effect_ok n (GoSendPrepareReq seq req leader status)" "\<not> Byzantine n"
    unfolding sound_def by blast+
  with assms(3) show "effect_ok n (RpcPrepare i \<lparr>pr_Prepare = Some (own_prepare n pp), pr_Signature = sg\<rparr>)"
    by (auto simp: vote_ok_def as_commit_def own_prepare_def)
qed

lemma sound_sendPrepareReq:
  assumes "all_keep (sound v me lead) [rely1, rely2]" "sound v me lead n"
    and "GoSendPrepareReq seq req leader status \<in> set (effects n)"
  shows "keeps (sound v me lead) (sendPrepareReq E rely1 reply1 rely2 reply2 n seq req leader status)"
  unfolding sendPrepareReq_def Let_def with_client_def with_request_tx_def with_tx_def
  using assms by (intro keeps_rules steady_rules) (simp_all add: steady_simps sound_own_prepare steady_rules)

section \<open>The leader's runs\<close>

lemma sound_secure_locks [steady_rules]:
  "all_keep (sound v me lead) rely \<Longrightarrow> sound v me lead n \<Longrightarrow> keeps (sound v me lead) (secure_locks E rely n r)"
  unfolding secure_locks_def with_tx_def by (intro keeps_rules steady_rules) (simp_all add: steady_rules)

lemma sound_give_up [steady_rules]:
  "sound v me lead n \<Longrightarrow> keeps (sound v me lead) (give_up E n r req e)"
  unfolding give_up_def with_tx_def by (intro keeps_rules steady_rules) assumption

lemma sound_collectPrepares [steady_rules]:
  "all_keep (sound v me lead) [rely] \<Longrightarrow> sound v me lead n \<Longrightarrow>
     keeps (sound v me lead) (collectPrepares rely events n seq)"
  unfolding collectPrepares_def Let_def by (intro keeps_rules) (simp_all add: steady_simps)

lemma sound_collectCommits [steady_rules]:
  "all_keep (sound v me lead) [rely] \<Longrightarrow> sound v me lead n \<Longrightarrow>
     keeps (sound v me lead) (collectCommits E rely events n seq s k t)"
  unfolding collectCommits_def Let_def by (intro keeps_rules steady_rules) (simp_all add: steady_simps)

text \<open>A new number is above every logged one, and an old one is announced with its own digest.\<close>

lemma sound_new_number:
  assumes "sound v me True n"
  shows "holds_place (Seq n) d (n\<lparr>Seq := add64 (Seq n) 1\<rparr>)"
  using assms by (auto simp: holds_place_def sound_def digest_at_def)

lemma sound_announce:
  assumes a: "assign_seq E n r oldSeq status digest = Return n1 (req, pp)" and b: "announce n1 r req pp = Return n' u"
    and s: "sound v me True n"
  shows "sound v me True n'"
proof -
  obtain t ts ts' es chans chans' where n': "n' = emits es ((savePrePrepare (writeLog (put_request n1 ts' (pp_Sequence pp))
      (pp_Sequence pp) t (View n1) (pp_Digest pp) ts) (pp_Sequence pp) req)\<lparr>PrepareCertChans := chans, CommitCertChans := chans'\<rparr>)"
    and offers: "list_all (\<lambda>e. \<exists>i. e = RpcPrePrepare i req) es"
    using b by (auto simp: announce_def Let_def logClientRequest_def outcome_simps list_all_iff put_request_def)
  let ?w = "savePrePrepare (writeLog (put_request n1 ts' (pp_Sequence pp)) (pp_Sequence pp) t (View n1) (pp_Digest pp) ts)
    (pp_Sequence pp) req"
  have pp: "ppr_PrePrepare req = Some pp" by (rule assign_seq_request [OF a])
  have view: "View n1 = View (put_request n1 ts' (pp_Sequence pp))" by (simp add: put_request_def)
  have big: "max (MaxSeq n) (pp_Sequence pp) \<le> MaxSeq n'" and n1: "n1 = n \<or> n1 = n\<lparr>Seq := add64 (Seq n) 1\<rparr>"
    using a by (auto simp: n' emits_def savePrePrepare_def writeLog_def put_request_def assign_seq_def Let_def
      outcome_simps split: if_splits)
  have "sound v me True ?w"
  proof (cases "max (MaxSeq n) (pp_Sequence pp) < max64")
    case small: True
    have "sound v me True n1 \<and> holds_place (pp_Sequence pp) (pp_Digest pp) n1 \<and> pp_Sequence pp < Seq n1"
    proof (cases "oldSeq = 0")
      case True
      with a have seq: "pp_Sequence pp = Seq n" "n1 = n\<lparr>Seq := add64 (Seq n) 1\<rparr>"
        by (auto simp: assign_seq_def Let_def outcome_simps)
      with small s have "in64 (Seq n + 1)" by (auto simp: sound_def in64_def)
      then have "add64 (Seq n) 1 = max (Seq n) (Seq n + 1)" by (simp add: add64_in)
      with sound_raise [OF s \<open>in64 (Seq n + 1)\<close>] sound_new_number [OF s, of "pp_Digest pp"] seq show ?thesis
        by simp
    next
      case False
      with a have n1: "n1 = n" "PrePrepares n oldSeq = Some req" by (auto simp: assign_seq_def outcome_simps)
      with s small pp have "digest_at n (pp_Sequence pp) = Some (pp_Digest pp)"
        "\<forall>i\<in>dom (TransactionLog n). i < Seq n" unfolding sound_def by force+
      then show ?thesis using s n1(1) by (auto simp: holds_place_def digest_at_def)
    qed
    then show ?thesis unfolding view
      by (intro sound_write) (simp_all add: steady_simps pp, simp_all add: holds_place_def digest_at_def put_request_def)
  next
    case False
    then show ?thesis using n1
      by (intro sound_big) (auto simp: savePrePrepare_def writeLog_def put_request_def)
  qed
  moreover have "digest_at ?w (pp_Sequence pp) = Some (pp_Digest pp)"
    by (simp add: digest_at_def savePrePrepare_def writeLog_def)
  ultimately show ?thesis unfolding n'
    by (intro sound_emits) (use offers in \<open>auto simp: steady_simps pp digest_at_def list_all_iff\<close>)
qed

text \<open>Numbering and announcing are one step: neither waits.\<close>

lemma numbering_returns: "assign_seq E n r oldSeq status digest \<noteq> Blocked m" "announce n r req pp \<noteq> Blocked m"
  by (auto simp: assign_seq_def announce_def logClientRequest_def Let_def outcome_simps split: if_splits)

lemma sound_numbered:
  assumes "sound v me True n" and k: "\<And>m req pp. sound v me True m \<Longrightarrow> keeps (sound v me True) (k m req pp)"
  shows "keeps (sound v me True) (andThen (assign_seq E n r oldSeq status digest) (\<lambda>n (req, pp).
     andThen (announce n r req pp) (\<lambda>n _. k n req pp)))"
proof (cases "assign_seq E n r oldSeq status digest")
  case (Return n1 p)
  obtain req pp where p: "p = (req, pp)" by (cases p)
  show ?thesis
  proof (cases "announce n1 r req pp")
    case ann: (Return n2 u)
    with Return p k [OF sound_announce [of E n r oldSeq status digest n1 req pp n2 u]] assms(1) show ?thesis by simp
  qed (simp_all add: Return p keeps_Panic numbering_returns)
qed (simp_all add: keeps_Panic numbering_returns)

lemma sound_runPBFT [steady_rules]:
  assumes "all_keep (sound v me True) (io_fns io)" "sound v me True n"
  shows "keeps (sound v me True) (runPBFT E io n r oldSeq status)"
proof -
  have self: "sound v me True (emit (GoSendCommitToSelf seq) m)"
    if "validatePrepares E m0 seq rs = Return m True" "sound v me True m" for m0 m seq rs
    using prepared_has_digest [OF that(1)] that(2) by (intro sound_emit) simp_all
  have io: "all_keep (sound v me True) [prepare_rely io]" "all_keep (sound v me True) [commit_rely io]"
    "all_keep (sound v me True) (lock_rely io)" using assms(1) by (simp_all add: io_fns_def)
  define phases where "phases m req pp = andThen (collectPrepares (prepare_rely io) (prepare_events io) m (pp_Sequence pp))
      (\<lambda>n err. case err of
        Some e \<Rightarrow> give_up E n r None e
      | None \<Rightarrow>
          andThen (validatePrepares E n (pp_Sequence pp) (PrepareCerts n (pp_Sequence pp))) (\<lambda>n prepared.
            if prepared then with_tx r (\<lambda>t.
              andThen (collectCommits E (commit_rely io) (commit_events io)
                  (emit (GoSendCommitToSelf (pp_Sequence pp)) n) (pp_Sequence pp) status (t_ClientSeq t) (Some t))
                (\<lambda>n res. if res then Return n (Some req, None) else give_up E n r (Some req) NotCommitted))
            else give_up E n r (Some req) NotPrepared))" for m :: "'a Node" and req and pp :: PrePrepare
  have phases: "keeps (sound v me True) (phases m req pp)" if "sound v me True m" for m req pp
    unfolding phases_def with_tx_def
    by (rule keeps_andThen [OF sound_collectPrepares [OF io(1) that]])
      (intro keeps_rules steady_rules sound_collectCommits [OF io(2)] self, (assumption | simp)+)
  have numbered: "keeps (sound v me True) (case lockErr of
      Some err \<Rightarrow> Return m (Some empty_request, Some err)
    | None \<Rightarrow> andThen (assign_seq E m r oldSeq status digest) (\<lambda>n (req, pp). andThen (announce n r req pp) (\<lambda>n _.
        phases n req pp)))"
    if "sound v me True m" for m lockErr digest
    using sound_numbered [OF that phases] that by (cases lockErr) (simp_all add: keeps_Return)
  show ?thesis
    unfolding runPBFT_def phases_def [symmetric]
    by (rule keeps_option [OF keeps_Return], rule assms(2), rule keeps_andThen [OF _ numbered])
      (use assms(2) in \<open>simp_all add: sound_secure_locks [OF io(3)] keeps_Return\<close>)
qed

lemma sound_sendCommitToSelf [steady_rules]:
  "all_keep (sound v me lead) [rely] \<Longrightarrow> sound v me lead n \<Longrightarrow>
     keeps (sound v me lead) (sendCommitToSelf E rely reads polls n seq)"
  unfolding sendCommitToSelf_def Let_def by (intro steady_rules) simp

lemma sound_replyToClient [steady_rules]:
  "sound v me lead n \<Longrightarrow> sound v me lead (replyToClient E n ts res k)"
  by (simp add: replyToClient_def Let_def steady_rules split: option.splits)

section \<open>Client requests and two-phase commit\<close>

lemma sound_send_commit [steady_rules]:
  "all_keep (sound v me lead) (map fst tries) \<Longrightarrow> sound v me lead n \<Longrightarrow>
     keeps (sound v me lead) (send_commit leader req tries n)"
  by (induction leader req tries n rule: send_commit.induct)
    (auto simp: steady_rules Let_def intro!: keeps_rules)

lemma sound_cross_decide [steady_rules]:
  "all_keep (sound v me True) (cross_fns io) \<Longrightarrow> sound v me True n \<Longrightarrow>
     keeps (sound v me True) (cross_decide E io n r t seq)"
  unfolding cross_decide_def Let_def with_seconds_def
  by (intro keeps_rules wf_rules steady_rules) (simp_all add: steady_rules cross_fns_def)

lemma sound_runCrossShard [steady_rules]:
  "all_keep (sound v me True) (cross_fns io) \<Longrightarrow> sound v me True n \<Longrightarrow>
     keeps (sound v me True) (runCrossShard E io n r oldSeq)"
  unfolding runCrossShard_def
  by (intro keeps_rules steady_rules) (simp_all add: cross_fns_def)

lemma sound_runIntrashard [steady_rules]:
  "all_keep (sound v me True) (io_fns io) \<Longrightarrow> sound v me True n \<Longrightarrow>
     keeps (sound v me True) (runIntrashard E io n r oldSeq)"
  unfolding runIntrashard_def by (intro keeps_rules steady_rules)

text \<open>A request is run by the leader of the view; the others pass it on.\<close>

lemma sound_rpc_ExecuteTransaction:
  assumes "lead \<Longrightarrow> all_keep (sound v me lead) (cross_fns io)" "sound v me lead n"
    and "lead \<or> getViewLeader n \<noteq> Some (node_Id n)"
  shows "keeps (sound v me lead) (rpc_ExecuteTransaction E io n r)"
proof (cases lead)
  case True
  then have io: "all_keep (sound v me True) (cross_fns io)" and n: "sound v me True n" using assms(1,2) by simp_all
  have "all_keep (sound v me True) (io_fns (prepare_run io))" using io by (simp add: cross_fns_def)
  with io n have "keeps (sound v me True) (rpc_ExecuteTransaction E io n r)"
    unfolding rpc_ExecuteTransaction_def Let_def with_seconds_def with_tx_def
    by (intro keeps_rules wf_rules steady_rules) simp_all
  with True show ?thesis by simp
next
  case False
  then have n: "sound v me False n" and other: "getViewLeader n \<noteq> Some (node_Id n)" using assms(2,3) by simp_all
  have "getViewLeader (emit e n) = getViewLeader n" "node_Id (emit e n) = node_Id n" for e
    by (simp_all add: getViewLeader_def emit_def)
  with n other have "keeps (sound v me False) (rpc_ExecuteTransaction E io n r)"
    unfolding rpc_ExecuteTransaction_def Let_def with_seconds_def with_tx_def
    by (intro keeps_rules wf_rules steady_rules) simp_all
  with False show ?thesis by simp
qed

lemma sound_rpc_PCPrepare [steady_rules]:
  "all_keep (sound v me True) (io_fns io) \<Longrightarrow> sound v me True n \<Longrightarrow>
     keeps (sound v me True) (rpc_PCPrepare E io n req)"
  unfolding rpc_PCPrepare_def with_tx_def
  by (intro keeps_rules wf_rules steady_rules) (simp_all add: steady_rules)

lemma sound_waitForPCCommit [steady_rules]:
  "all_keep (sound v me True) (rely # io_fns io) \<Longrightarrow> sound v me True n \<Longrightarrow>
     keeps (sound v me True) (waitForPCCommit E rely io n r)"
  unfolding waitForPCCommit_def with_tx_def Let_def
  by (intro keeps_rules steady_rules) simp_all

lemma sound_rpc_PCCommit [steady_rules]:
  "all_keep (sound v me True) (io_fns io) \<Longrightarrow> sound v me True n \<Longrightarrow>
     keeps (sound v me True) (rpc_PCCommit E io n req)"
  unfolding rpc_PCCommit_def with_tx_def Let_def
  by (intro keeps_rules steady_rules) (simp_all add: steady_simps)

section \<open>Checkpoints, requests for a view, housekeeping\<close>

lemma sound_stabilise [steady_rules]:
  "sound v me lead n \<Longrightarrow> sound v me lead (stabilise n seq data)"
proof -
  assume s: "sound v me lead n"
  have "sound v me lead (n\<lparr>LastStable := i, LastStableBalances := b, Seq := max (Seq n) (add64 seq 1)\<rparr>)" for i b
    using sound_raise [of v me lead "n\<lparr>LastStable := i, LastStableBalances := b\<rparr>" "add64 seq 1"] s
    by (simp add: steady_simps)
  with s show ?thesis by (simp add: stabilise_def Let_def steady_rules steady_simps)
qed

lemma sound_record_checkpoint [steady_rules]:
  "sound v me lead n \<Longrightarrow> sound v me lead (record_checkpoint n req cp)"
  by (simp add: record_checkpoint_def Let_def steady_simps steady_rules split: option.splits)

lemma sound_rpc_Checkpoint [steady_rules]:
  "sound v me lead n \<Longrightarrow> keeps (sound v me lead) (rpc_Checkpoint E n req)"
  unfolding rpc_Checkpoint_def validateCheckpoint_def
  by (intro keeps_rules) (simp_all add: steady_rules)

lemma sound_sendViewChange [steady_rules]:
  "sound v me lead n \<Longrightarrow> keeps (sound v me lead) (sendViewChange E n view)"
  unfolding sendViewChange_def Let_def
  by (intro keeps_rules) (simp_all add: steady_rules steady_simps list_all_iff)

lemma sound_rpc_ViewChange [steady_rules]:
  "sound v me lead n \<Longrightarrow> keeps (sound v me lead) (rpc_ViewChange E n req)"
  unfolding rpc_ViewChange_def Let_def
  by (intro keeps_rules steady_rules) (simp_all add: steady_rules steady_simps)

lemma sound_monitor_round [steady_rules]: "sound v me lead n \<Longrightarrow> sound v me lead (monitor_round n)"
  by (simp add: monitor_round_def steady_simps steady_rules)

lemma sound_collectGarbage [steady_rules]: "sound v me lead n \<Longrightarrow> keeps (sound v me lead) (collectGarbage n seq)"
proof -
  assume s: "sound v me lead n"
  have "sound v me lead (n\<lparr>PrepareCerts := p, CommitCerts := c,
      PrePrepares := (\<lambda>i. if i \<in> A then None else PrePrepares n i)\<rparr>)" for p c A
    using sound_forget [of v me lead "n\<lparr>PrepareCerts := p, CommitCerts := c\<rparr>" A] s
    by (simp add: steady_simps cong: if_cong)
  with s show ?thesis
    unfolding collectGarbage_def by (intro keeps_rules) (simp_all add: steady_simps)
qed

lemma sound_saveTransaction [steady_rules]:
  "sound v me lead n \<Longrightarrow> keeps (sound v me lead) (saveTransaction E n seq s)"
  unfolding saveTransaction_def Let_def by (intro keeps_rules) (simp_all add: steady_simps)

lemma sound_readPublicKeyIntoMap [steady_rules]:
  "sound v me lead n \<Longrightarrow> sound v me lead (readPublicKeyIntoMap pem n path)"
  by (simp add: readPublicKeyIntoMap_def steady_simps split: option.splits)

lemma sound_undo_logs [steady_rules]: "sound v me lead n \<Longrightarrow> keeps (sound v me lead) (undo_logs E ls n)"
  by (induction ls arbitrary: n) (auto simp: steady_simps intro!: keeps_rules)

lemma sound_executor_round [steady_rules]:
  "sound v me lead n \<Longrightarrow> keeps (sound v me lead) (executor_round E n)"
  unfolding executor_round_def executeDatastoreLog_def undoWAL_def
  by (intro keeps_rules steady_rules) (simp_all add: steady_simps steady_rules)

end
