(* ===== verification/OneView.thy ===== *)
theory OneView
  imports Steady Reports
begin

text \<open>
  Agreement of a cluster in its first view, under conditions that the code does not enforce and
  that are therefore part of the statements. A run of a node is orderly (\<open>orderly_runs\<close>, a part of
  \<open>node_runs\<close>) when it leaves out what would break the agreement: that another digest is accepted
  for a number while a pre-prepare of that number waits for its locks (\<open>Races\<close> shows that the
  program does this), that a node which does not lead is asked to take part in a two-phase
  commit (\<open>Races\<close> shows the harm), that the leader accepts pre-prepares of others, that the
  node is set to be Byzantine, and that it adopts or announces a view. Everything else a node
  does is there, in any order and with any interference. In an orderly run a node signs at
  most one digest per sequence number.
\<close>

section \<open>Orderly runs\<close>

text \<open>
  \<open>lead\<close> says whether the node leads the view. The condition of \<open>ov_preprepare\<close> on \<open>rely\<close> says that
  no other digest is accepted for the number while the handler waits for its locks; the same
  digest may be.
\<close>

inductive orderly_runs :: "'b env \<Rightarrow> bool \<Rightarrow> 'b Node \<Rightarrow> 'b Node \<Rightarrow> bool" for E lead where
  ov_idle: "orderly_runs E lead n n"
| ov_next: "orderly_runs E lead n m \<Longrightarrow> orderly_runs E lead m n' \<Longrightarrow> orderly_runs E lead n n'"
| ov_client: "(\<And>f m. f \<in> set (cross_fns io) \<Longrightarrow> orderly_runs E lead m (f m)) \<Longrightarrow>
    lead \<or> getViewLeader n \<noteq> Some (node_Id n) \<Longrightarrow>
    state_after (rpc_ExecuteTransaction E io n r) = Some n' \<Longrightarrow> orderly_runs E lead n n'"
| ov_preprepare: "\<not> lead \<Longrightarrow> (\<And>f m. f \<in> set rely \<Longrightarrow> orderly_runs E lead m (f m)) \<Longrightarrow>
    (\<And>f m pp. f \<in> set rely \<Longrightarrow> ppr_PrePrepare req = Some pp \<Longrightarrow>
       digest_at m (pp_Sequence pp) \<in> {None, Some (pp_Digest pp)} \<Longrightarrow>
       digest_at (f m) (pp_Sequence pp) \<in> {None, Some (pp_Digest pp)}) \<Longrightarrow>
    state_after (rpc_PrePrepare E rely n req) = Some n' \<Longrightarrow> orderly_runs E lead n n'"
| ov_prepare: "state_after (rpc_Prepare E reads polls n preq) = Some n' \<Longrightarrow> orderly_runs E lead n n'"
| ov_commit: "state_after (rpc_Commit E reads cpolls n creq) = Some n' \<Longrightarrow> orderly_runs E lead n n'"
| ov_checkpoint: "state_after (rpc_Checkpoint E n cp) = Some n' \<Longrightarrow> orderly_runs E lead n n'"
| ov_view_change: "state_after (rpc_ViewChange E n vc) = Some n' \<Longrightarrow> orderly_runs E lead n n'"
| ov_pc_prepare: "lead \<Longrightarrow> (\<And>f m. f \<in> set (io_fns pio) \<Longrightarrow> orderly_runs E lead m (f m)) \<Longrightarrow>
    state_after (rpc_PCPrepare E pio n pc) = Some n' \<Longrightarrow> orderly_runs E lead n n'"
| ov_pc_commit: "lead \<Longrightarrow> (\<And>f m. f \<in> set (io_fns pio) \<Longrightarrow> orderly_runs E lead m (f m)) \<Longrightarrow>
    state_after (rpc_PCCommit E pio n pc) = Some n' \<Longrightarrow> orderly_runs E lead n n'"
| ov_go_wait: "lead \<Longrightarrow> (\<And>f m. f \<in> set (wait # io_fns pio) \<Longrightarrow> orderly_runs E lead m (f m)) \<Longrightarrow>
    state_after (waitForPCCommit E wait pio n r) = Some n' \<Longrightarrow> orderly_runs E lead n n'"
| ov_go_prepare: "(\<And>f m. f \<in> set [rely1, rely2] \<Longrightarrow> orderly_runs E lead m (f m)) \<Longrightarrow>
    GoSendPrepareReq seq req leader status \<in> set (effects n) \<Longrightarrow>
    state_after (sendPrepareReq E rely1 reply1 rely2 reply2 n seq req leader status) = Some n' \<Longrightarrow>
    orderly_runs E lead n n'"
| ov_go_commit_self: "(\<And>m. orderly_runs E lead m (wait m)) \<Longrightarrow>
    state_after (sendCommitToSelf E wait reads cpolls n seq) = Some n' \<Longrightarrow> orderly_runs E lead n n'"
| ov_go_view_change: "state_after (sendViewChange E n view) = Some n' \<Longrightarrow> orderly_runs E lead n n'"
| ov_go_update: "orderly_runs E lead n (updateLog n seq status)"
| ov_go_save: "state_after (saveTransaction E n seq status) = Some n' \<Longrightarrow> orderly_runs E lead n n'"
| ov_go_garbage: "state_after (collectGarbage n seq) = Some n' \<Longrightarrow> orderly_runs E lead n n'"
| ov_go_erase: "orderly_runs E lead n (n\<lparr>DB := EraseWal E (DB n) k\<rparr>)"
| ov_go_reply: "orderly_runs E lead n (replyToClient E n ts res k)"
| ov_execute: "state_after (executor_round E n) = Some n' \<Longrightarrow> orderly_runs E lead n n'"
| ov_monitor: "orderly_runs E lead n (monitor_round n)"
| ov_expire: "orderly_runs E lead n (n\<lparr>Tmr := timer_expires (Tmr n)\<rparr>)"
| ov_start_timer: "orderly_runs E lead n (n\<lparr>Tmr := StartIfNotRunning (Tmr n)\<rparr>)"
| ov_read_key: "orderly_runs E lead n (readPublicKeyIntoMap pem n path)"
| ov_set_status: "orderly_runs E lead n (rpc_SetStatus n b)"

lemma orderly_node_runs: "orderly_runs E lead n n' \<Longrightarrow> node_runs E True n n'"
proof (induction rule: orderly_runs.induct)
  case (ov_next n m n') show ?case by (rule next_run [OF ov_next.IH])
next
  case (ov_client io n r n') show ?case by (rule client, erule ov_client.IH, rule ov_client.hyps(3))
next
  case (ov_preprepare rely req n n') show ?case by (rule preprepare, erule ov_preprepare.IH, rule ov_preprepare.hyps(4))
next
  case (ov_pc_prepare pio n pc n') show ?case by (rule pc_prepare, erule ov_pc_prepare.IH, rule ov_pc_prepare.hyps(3))
next
  case (ov_pc_commit pio n pc n') show ?case by (rule pc_commit, erule ov_pc_commit.IH, rule ov_pc_commit.hyps(3))
next
  case (ov_go_wait wait pio n r n') show ?case by (rule go_wait, erule ov_go_wait.IH, rule ov_go_wait.hyps(3))
next
  case (ov_go_prepare rely1 rely2 seq req leader status n reply1 reply2 n')
  show ?case by (rule go_prepare, erule ov_go_prepare.IH, rule ov_go_prepare.hyps(3))
next
  case (ov_go_commit_self wait reads cpolls n seq n')
  show ?case by (rule go_commit_self, rule ov_go_commit_self.IH, rule ov_go_commit_self.hyps(2))
next
  case (ov_execute n n') show ?case by (rule execute [OF TrueI ov_execute.hyps])
qed (rule idle prepare commit checkpoint view_change go_view_change go_update go_save go_garbage go_erase go_reply
    monitor expire start_timer read_key set_status; assumption)+

lemma orderly_grows:
  assumes "orderly_runs E lead n n'"
  shows "MaxSeq n \<le> MaxSeq n'"
proof -
  have "{} \<subseteq> dom (TransactionLog n') \<and> {} \<subseteq> dom (Datastore n') \<and> {} \<subseteq> dom (RequestLog n') \<and> MaxSeq n \<le> MaxSeq n'"
    by (rule history.all_runs_keep [OF orderly_node_runs [OF assms]]) simp
  then show ?thesis by blast
qed

lemma orderly_sound: "orderly_runs E lead n n' \<Longrightarrow> sound v me lead n \<Longrightarrow> sound v me lead n'"
proof (induction rule: orderly_runs.induct)
  case (ov_client io n r n')
  have "lead \<Longrightarrow> all_keep (sound v me lead) (cross_fns io)" using ov_client.IH by (intro all_keepI) blast
  from keepsD [OF sound_rpc_ExecuteTransaction [OF this ov_client.prems ov_client.hyps(2)] ov_client.hyps(3)] show ?case .
next
  case (ov_preprepare rely req n n')
  have n: "sound v me False n" using ov_preprepare.prems ov_preprepare.hyps(1) by simp
  have "keeps (sound v me False) (rpc_PrePrepare E rely n req)"
    by (rule sound_rpc_PrePrepare [OF n])
      (use ov_preprepare.IH ov_preprepare.hyps(1,3) orderly_grows [OF ov_preprepare.hyps(2)] in auto)
  from keepsD [OF this ov_preprepare.hyps(4)] ov_preprepare.hyps(1) show ?case by simp
next
  case (ov_pc_prepare pio n pc n')
  have "all_keep (sound v me True) (io_fns pio)" using ov_pc_prepare.IH ov_pc_prepare.hyps(1) by (intro all_keepI) auto
  from keepsD [OF sound_rpc_PCPrepare [OF this] ov_pc_prepare.hyps(3)] ov_pc_prepare.hyps(1) ov_pc_prepare.prems
  show ?case by simp
next
  case (ov_pc_commit pio n pc n')
  have "all_keep (sound v me True) (io_fns pio)" using ov_pc_commit.IH ov_pc_commit.hyps(1) by (intro all_keepI) auto
  from keepsD [OF sound_rpc_PCCommit [OF this] ov_pc_commit.hyps(3)] ov_pc_commit.hyps(1) ov_pc_commit.prems
  show ?case by simp
next
  case (ov_go_wait wait pio n r n')
  have "all_keep (sound v me True) (wait # io_fns pio)" using ov_go_wait.IH ov_go_wait.hyps(1) by (intro all_keepI) auto
  from keepsD [OF sound_waitForPCCommit [OF this] ov_go_wait.hyps(3)] ov_go_wait.hyps(1) ov_go_wait.prems
  show ?case by simp
next
  case (ov_go_prepare rely1 rely2 seq req leader status n reply1 reply2 n')
  have "all_keep (sound v me lead) [rely1, rely2]" using ov_go_prepare.IH by (intro all_keepI) blast
  from keepsD [OF sound_sendPrepareReq [OF this ov_go_prepare.prems ov_go_prepare.hyps(2)] ov_go_prepare.hyps(3)]
  show ?case .
next
  case (ov_go_commit_self wait reads cpolls n seq n')
  have "all_keep (sound v me lead) [wait]" using ov_go_commit_self.IH by simp
  from keepsD [OF sound_sendCommitToSelf [OF this ov_go_commit_self.prems] ov_go_commit_self.hyps(2)] show ?case .
next
  case (ov_next n m n') then show ?case by blast
qed ((rule keepsD [OF sound_rpc_Prepare] keepsD [OF sound_rpc_Commit] keepsD [OF sound_rpc_Checkpoint]
    keepsD [OF sound_rpc_ViewChange] keepsD [OF sound_sendViewChange] keepsD [OF sound_saveTransaction]
    keepsD [OF sound_collectGarbage] keepsD [OF sound_executor_round] sound_updateLog sound_replyToClient
    sound_monitor_round sound_readPublicKeyIntoMap; assumption) | simp add: steady_simps rpc_SetStatus_def)+

section \<open>The start\<close>

lemma started_fresh:
  assumes "started E n"
  shows "TransactionLog n = Map.empty \<and> PrePrepares n = Map.empty \<and> MaxSeq n = 0 \<and> View n = 1 \<and> Seq n = 1 \<and>
     Datastore n = Map.empty \<and> \<not> Byzantine n \<and> effects n = []"
proof -
  have bal: "resetBalances E m = Return m' e \<Longrightarrow> \<exists>d. m' = m\<lparr>DB := d\<rparr>" for m m' :: "'a Node" and e
    by (auto simp: resetBalances_def split: outcome.splits)
  show ?thesis
    using assms by (auto simp: started_def Start_def outcome_simps establishConns_def NewNode_def dest!: bal)
qed

lemma started_sound: "started E n \<Longrightarrow> sound 1 (node_Id n) lead n"
  using started_fresh [of E n] by (simp add: sound_def in64_def min64_def max64_def)

section \<open>A cluster at work\<close>

text \<open>Nodes of the first cluster after their start, over the demonstration environment.\<close>

definition demo_peer :: "string \<Rightarrow> int \<Rightarrow> demo_bucket \<Rightarrow> demo_bucket Node" where
  "demo_peer name i b = (establishConns (NewNode (demo_key i) demo_keys (createBuckets demo_env) ''C1'' name
       demo_clusters (FormatInt 1) (FormatInt 1000)))
     \<lparr>DB := (createBuckets demo_env)\<lparr>balancesBucket := b\<rparr>, Tmr := NewTimer 2500000000000\<rparr>"

lemma demo_peer_sel:
  "View (demo_peer name i b) = 1" "PrePrepares (demo_peer name i b) = Map.empty"
  "TransactionLog (demo_peer name i b) = Map.empty" "PublicKeyMap (demo_peer name i b) = demo_keys"
  "ClusterId (demo_peer name i b) = ''C1''" "Live (demo_peer name i b)" "\<not> ViewChanging (demo_peer name i b)"
  "RequestLog (demo_peer name i b) = Map.empty" "\<not> Byzantine (demo_peer name i b)" "MaxSeq (demo_peer name i b) = 0"
  "locksBucket (DB (demo_peer name i b)) = ([], 0)" "node_Id (demo_peer name i b) = name"
  by (simp_all add: demo_peer_def establishConns_def NewNode_def createBuckets_def demo_simps)

lemma demo_peer_leader: "name \<noteq> ''S1'' \<Longrightarrow> ''S1'' \<in> set (peers (demo_peer name i b) ''C1'')"
  by (simp add: peers_def demo_peer_def establishConns_def NewNode_def demo_clusters_def)

lemma demo_peer_started: "\<exists>b. started demo_env (demo_peer name i b)"
proof -
  have ends: "in64 1" "in64 1000" "(1000::int) < max64" by (simp_all add: in64_def min64_def max64_def)
  obtain b where "Start demo_env (NewNode (demo_key i) demo_keys (createBuckets demo_env) ''C1'' name demo_clusters
      (FormatInt 1) (FormatInt 1000)) = Return (demo_peer name i b) ()"
    using Start_runs [OF demo_bolt_ok ends] unfolding demo_peer_def by blast
  then show ?thesis by (blast intro: startedI)
qed

definition demo_vote :: "string \<Rightarrow> Commit" where
  "demo_vote name = \<lparr>c_View = 1, c_Sequence = 1, c_Digest = demo_digest demo_tx, c_NodeId = name\<rparr>"

text \<open>A replica that starts, accepts the leader's pre-prepare and sends its prepare.\<close>

lemma demo_peer_votes:
  assumes "name \<noteq> ''S1''"
  shows "\<exists>n0 n. started demo_env n0 \<and> node_Id n0 = name \<and> orderly_runs demo_env False n0 n \<and> MaxSeq n < max64 \<and>
     demo_vote name \<in> votes n"
proof -
  obtain pp where pp: "ppr_PrePrepare demo_preprepare = Some pp" "pp_View pp = 1" "pp_Sequence pp = 1" "pp_Status pp = []"
    "pp_Digest pp = demo_digest demo_tx" "ppr_ClientReq demo_preprepare = Some (demo_request_of demo_tx)"
    by (simp add: demo_preprepare_def Let_def)
  obtain b where b: "started demo_env (demo_peer name 2 b)" using demo_peer_started by blast
  let ?n = "demo_peer name 2 b"
  obtain m where m: "rpc_PrePrepare demo_env [] ?n demo_preprepare = Return m None" "MaxSeq m = 1"
    using fresh_node_accepts [of ?n] by (auto simp: demo_peer_sel)
  have run: "orderly_runs demo_env False ?n m"
    by (rule ov_preprepare [where rely = "[]" and req = demo_preprepare]) (simp_all add: m(1))
  have s: "sound 1 name False m"
    using orderly_sound [OF run started_sound [OF b]] by (simp add: demo_peer_sel)
  then have good: "\<not> Byzantine m" "node_Id m = name"
    using m(2) by (simp_all add: sound_def max64_def)
  have "(ClusterId m, node_Id m, NodeMap m, ClientMap m, node_PrivateKey m, LeaderMap m) =
     (ClusterId ?n, node_Id ?n, NodeMap ?n, ClientMap ?n, node_PrivateKey ?n, LeaderMap ?n)"
    by (rule identity.all_runs_keep [OF orderly_node_runs [OF run]]) simp
  then have reach: "''S1'' \<in> set (peers m (ClusterId m))"
    using demo_peer_leader [OF assms, of 2 b] by (simp add: peers_def demo_peer_sel)
  have "getViewLeader ?n = Some ''S1''"
    using demo_leader by (simp add: getViewLeader_def demo_peer_sel demo_replica_sel demo_replica_def demo_node_tables)
  then have eff: "GoSendPrepareReq 1 demo_preprepare ''S1'' [] \<in> set (effects m)"
  proof -
    assume lead: "getViewLeader ?n = Some ''S1''"
    obtain qq cr leader where a: "acceptable demo_env ?n demo_preprepare qq cr" "getViewLeader ?n = Some leader"
      and w: "preprepare_accept demo_env [] ?n demo_preprepare qq leader = Return m None"
      using rpc_PrePrepare_accepts [OF m(1)] by (auto simp: demo_peer_sel)
    have "qq = pp" "cr = demo_request_of demo_tx" "leader = ''S1''"
      using a lead pp by (simp_all add: acceptable_def)
    with preprepare_accept_writes [OF w pp(6)] pp show ?thesis by (auto simp: emit_def)
  qed
  obtain sg where sg: "SignMessage demo_env (node_PrivateKey m) (wire_Prepare (own_prepare m pp)) = Some sg"
    by (simp add: SignMessage_def demo_simps demo_marshal_def demo_sign_def)
  let ?r = "\<lparr>pr_Prepare = Some (own_prepare m pp), pr_Signature = sg\<rparr>"
  have "sendPrepareReq demo_env id None id None m 1 demo_preprepare ''S1'' [] =
      Return (release_of demo_env (emit (RpcPrepare ''S1'' ?r) m) demo_tx) (Some RpcFailed)"
    using pp reach sg
    by (simp add: sendPrepareReq_def Let_def with_client_def with_request_tx_def with_tx_eq demo_request_parts)
  then have step: "state_after (sendPrepareReq demo_env id None id None m 1 demo_preprepare ''S1'' []) =
      Some (release_of demo_env (emit (RpcPrepare ''S1'' ?r) m) demo_tx)" (is "_ = Some ?m'") by simp
  have "orderly_runs demo_env False m ?m'"
    by (rule ov_go_prepare [OF _ eff step]) (auto intro: ov_idle)
  then have "orderly_runs demo_env False ?n ?m'" by (rule ov_next [OF run])
  moreover have "as_commit (own_prepare m pp) = demo_vote name"
    using good pp by (simp add: as_commit_def own_prepare_def demo_vote_def)
  then have "demo_vote name \<in> votes ?m'"
    unfolding votes_def by (intro UnI1 UnI2 CollectI exI [of _ "''S1''"] exI [of _ ?r] exI [of _ "own_prepare m pp"])
      (simp add: release_of_def emit_def)
  moreover have "MaxSeq ?m' < max64" using m(2) by (simp add: release_of_def emit_def max64_def)
  ultimately show ?thesis using b demo_peer_sel(12) [of name 2 b] by blast
qed

section \<open>One digest per number\<close>

lemma votes_sound:
  assumes "sound v me lead n" "MaxSeq n < max64" "c \<in> votes n"
  shows "c_View c = v \<and> c_NodeId c = me \<and> digest_at n (c_Sequence c) = Some (c_Digest c)"
proof -
  have ok: "effect_ok n e" if "e \<in> set (effects n)" for e using assms(1,2) that unfolding sound_def by blast
  have me: "View n = v" "node_Id n = me" using assms(1,2) unfolding sound_def by blast+
  from assms(3) consider
      (commit) i r where "RpcCommit i r \<in> set (effects n)" "cmr_Commit r = Some c"
    | (prepare) i r p where "RpcPrepare i r \<in> set (effects n)" "pr_Prepare r = Some p" "c = as_commit p"
    | (self) seq where "GoSendCommitToSelf seq \<in> set (effects n)" "c = own_commit n seq (tl_Digest (log_at n seq))"
    unfolding votes_def by blast
  then show ?thesis
  proof cases
    case commit
    then show ?thesis using ok [OF commit(1)] by (simp add: vote_ok_def me)
  next
    case prepare
    then show ?thesis using ok [OF prepare(1)] by (simp add: vote_ok_def me)
  next
    case self
    then show ?thesis using ok [OF self(1)]
      by (auto simp: own_commit_def me digest_at_def log_at_logged)
  qed
qed

text \<open>
  C7. In an orderly run a node signs one digest per number: when a node, from its start, runs
  without being set Byzantine, without accepting another digest for a number while a
  pre-prepare of that number waits for its locks, without taking part in a two-phase commit
  unless it leads, without accepting pre-prepares if it leads, and without adopting or
  announcing a view, then all the prepares and commits it has signed carry its name and the
  first view, and two of them for the same sequence number carry the same digest, which is the
  one it has logged. (The sequence number \<open>2^63 - 1\<close>, where the leader's counter wraps, is
  excluded. Without the first two conditions the program violates this, as \<open>Races\<close> shows.)
\<close>

theorem one_digest_per_number:
  assumes "started E n0" "orderly_runs E lead n0 n" "MaxSeq n < max64"
    and "c \<in> votes n" "d \<in> votes n" "c_Sequence c = c_Sequence d"
  shows "c_Digest c = c_Digest d \<and> c_View c = 1 \<and> c_NodeId c = node_Id n0 \<and>
     tl_Digest (log_at n (c_Sequence c)) = c_Digest c"
proof -
  have s: "sound 1 (node_Id n0) lead n" by (rule orderly_sound [OF assms(2) started_sound [OF assms(1)]])
  from votes_sound [OF s assms(3,4)] votes_sound [OF s assms(3,5)] assms(6)
  show ?thesis by (auto simp: digest_at_def log_at_logged)
qed

theorem one_digest_per_number_witness:
  "\<exists>n :: demo_bucket Node. demo_vote ''S2'' \<in> votes n \<and> tl_Digest (log_at n 1) = demo_digest demo_tx"
proof -
  obtain n0 n where n: "started demo_env n0" "orderly_runs demo_env False n0 n" "MaxSeq n < max64" "demo_vote ''S2'' \<in> votes n"
    using demo_peer_votes [of "''S2''"] by auto
  from one_digest_per_number [OF n n(4) refl] n(4) show ?thesis by (auto simp: demo_vote_def)
qed

section \<open>Agreement of a cluster\<close>

text \<open>A node of the cluster whose run is orderly, from its start to the present state.\<close>

definition works_as :: "'b env \<Rightarrow> string \<Rightarrow> 'b Node \<Rightarrow> bool" where
  "works_as E i n \<longleftrightarrow> (\<exists>n0 lead. started E n0 \<and> node_Id n0 = i \<and> orderly_runs E lead n0 n \<and> MaxSeq n < max64)"

lemma working_votes:
  assumes "works_as E i n" "c \<in> votes n"
  shows "c_View c = 1 \<and> c_NodeId c = i \<and> digest_at n (c_Sequence c) = Some (c_Digest c)"
proof -
  obtain n0 lead where n0: "started E n0" "node_Id n0 = i" "orderly_runs E lead n0 n" "MaxSeq n < max64"
    using assms(1) by (auto simp: works_as_def)
  show ?thesis using votes_sound [OF orderly_sound [OF n0(3) started_sound [OF n0(1)]] n0(4) assms(2)] n0(2) by simp
qed

lemma cluster_signs_once:
  assumes "\<And>i. i \<in> A \<Longrightarrow> works_as E i (node i)"
  shows "signs_once (\<Union>i\<in>A. votes (node i)) bad"
  unfolding signs_once_def
proof (intro ballI impI)
  fix c d
  assume "c \<in> (\<Union>i\<in>A. votes (node i))" "d \<in> (\<Union>i\<in>A. votes (node i))" and same: "c_NodeId c = c_NodeId d \<and>
     c_NodeId c \<noteq> bad \<and> c_View c = c_View d \<and> c_Sequence c = c_Sequence d"
  then obtain i j where i: "i \<in> A" "c \<in> votes (node i)" and j: "j \<in> A" "d \<in> votes (node j)" by blast
  from working_votes [OF assms [OF i(1)] i(2)] working_votes [OF assms [OF j(1)] j(2)] same
  show "c_Digest c = c_Digest d" by auto
qed

text \<open>
  C1. Agreement of a cluster whose nodes but one run orderly, whoever that one is, the leader
  included, and whatever it sends. Let two nodes commit the same sequence number, each on
  certificates that (after the code's own checks) come from distinct nodes of the cluster and
  name the first view and that number, which the code does not check, and let the
  certificates under the names of the orderly nodes be ones these have signed. Then the two
  logged digests are equal. An orderly node starts in the first view under its own name, runs
  by \<open>orderly_runs\<close>, and has used numbers below \<open>2^63 - 1\<close> only (\<open>works_as\<close>); that it votes once
  is not assumed: it is what its run shows.
\<close>

theorem cluster_agrees:
  assumes "\<And>i. i \<in> cluster_nodes c - {bad} \<Longrightarrow> works_as E i (node i)"
    and "validateCommits E n seq rs s k t = Return n' True" "validateCommits E m seq rs' s' k' t' = Return m' True"
    and "certs_for c 1 seq (filter (commit_valid E n seq) rs)" "certs_for c 1 seq (filter (commit_valid E m seq) rs')"
    and "unforged E (PublicKeyMap n) (\<Union>i\<in>cluster_nodes c - {bad}. votes (node i)) bad rs"
    and "unforged E (PublicKeyMap m) (\<Union>i\<in>cluster_nodes c - {bad}. votes (node i)) bad rs'"
  shows "tl_Digest (log_at n seq) = tl_Digest (log_at m seq)"
  by (rule quorum_commits_agree [OF assms(2-7) cluster_signs_once [OF assms(1)]])

definition demo_voted :: "demo_bucket Node" where
  "demo_voted = demo_prepared\<lparr>TransactionLog := [1 \<mapsto> demo_log 2 (demo_digest demo_tx)]\<rparr>"

definition demo_vote_certs :: "CommitRequest list" where
  "demo_vote_certs = [demo_commit_cert 1 ''S1'' 1 (demo_digest demo_tx),
     demo_commit_cert 2 ''S2'' 1 (demo_digest demo_tx), demo_commit_cert 3 ''S3'' 1 (demo_digest demo_tx)]"

lemma demo_voted_valid: "filter (commit_valid demo_env demo_voted 1) demo_vote_certs = demo_vote_certs"
proof -
  have "commit_valid demo_env demo_voted 1 (demo_commit_cert i name 1 (demo_digest demo_tx))"
    if "demo_keys name = Some (PublicKey i 65537)" for i name
    using that demo_signed [of "demo_key i"]
    by (simp add: commit_valid_def demo_commit_cert_def demo_voted_def demo_prepared_sel demo_log_def Let_def demo_key_def)
  moreover have "demo_keys ''S1'' = Some (PublicKey 1 65537)" "demo_keys ''S2'' = Some (PublicKey 2 65537)"
    "demo_keys ''S3'' = Some (PublicKey 3 65537)" by (simp_all add: demo_keys_def)
  ultimately show ?thesis by (simp add: demo_vote_certs_def)
qed

lemma demo_vote_certs_for: "certs_for 1 1 1 demo_vote_certs"
proof -
  have "leader_name 1 1 = ''S1''" "leader_name 1 2 = ''S2''" "leader_name 1 3 = ''S3''" by code_simp+
  then show ?thesis
    by (simp add: certs_for_def commit_signers_def demo_vote_certs_def demo_commit_cert_def Let_def cluster_nodes_def)
qed

lemma demo_voted_commits:
  assumes "commit_valid demo_env m 1 = commit_valid demo_env demo_voted 1"
  shows "\<exists>m'. validateCommits demo_env m 1 demo_vote_certs s k t = Return m' True"
proof -
  have "list_all has_commit demo_vote_certs" "length demo_vote_certs = 3"
    by (simp_all add: demo_vote_certs_def demo_commit_cert_def Let_def)
  then show ?thesis by (simp add: validateCommits_cases assms demo_voted_valid F_def)
qed

theorem cluster_agrees_witness:
  "\<exists>node certs. (\<forall>i\<in>{''S2'', ''S3'', ''S4''}. works_as demo_env i (node i)) \<and>
     (\<exists>n'. validateCommits demo_env demo_voted 1 certs [] 7 (Some demo_tx) = Return n' True) \<and>
     tl_Digest (log_at demo_voted 1) = tl_Digest (log_at (demo_voted\<lparr>node_Id := ''S4''\<rparr>) 1)"
proof -
  let ?m = "demo_voted\<lparr>node_Id := ''S4''\<rparr>"
  have names: "cluster_nodes 1 - {''S1''} = {''S2'', ''S3'', ''S4''}"
  proof -
    have "leader_name 1 1 = ''S1''" "leader_name 1 2 = ''S2''" "leader_name 1 3 = ''S3''" "leader_name 1 4 = ''S4''"
      by code_simp+
    then show ?thesis by (auto simp: cluster_nodes_def)
  qed
  obtain a a' where a: "works_as demo_env ''S2'' a'" "demo_vote ''S2'' \<in> votes a'"
    using demo_peer_votes [of "''S2''"] by (auto simp: works_as_def)
  obtain b b' where b: "works_as demo_env ''S3'' b'" "demo_vote ''S3'' \<in> votes b'"
    using demo_peer_votes [of "''S3''"] by (auto simp: works_as_def)
  obtain d d' where d: "works_as demo_env ''S4'' d'" "demo_vote ''S4'' \<in> votes d'"
    using demo_peer_votes [of "''S4''"] by (auto simp: works_as_def)
  define node where "node i = (if i = ''S2'' then a' else if i = ''S3'' then b' else d')" for i
  have works: "works_as demo_env i (node i)" if "i \<in> cluster_nodes 1 - {''S1''}" for i
    using that a b d unfolding names by (auto simp: node_def)
  let ?certs = "demo_vote_certs" and ?ledger = "\<Union>i\<in>cluster_nodes 1 - {''S1''}. votes (node i)"
  have led: "demo_vote ''S2'' \<in> ?ledger" "demo_vote ''S3'' \<in> ?ledger"
    using a b unfolding names by (auto simp: node_def)
  have unforged: "unforged demo_env keys ?ledger ''S1'' ?certs" for keys
    using led by (auto simp: unforged_def demo_vote_certs_def demo_commit_cert_def Let_def demo_vote_def)
  have same: "commit_valid demo_env ?m 1 = commit_valid demo_env demo_voted 1"
    by (simp add: fun_eq_iff commit_valid_def)
  obtain n' where n': "validateCommits demo_env demo_voted 1 ?certs [] 7 (Some demo_tx) = Return n' True"
    using demo_voted_commits [OF refl] by blast
  obtain m' where m': "validateCommits demo_env ?m 1 ?certs [] 7 (Some demo_tx) = Return m' True"
    using demo_voted_commits [OF same] by blast
  have certs: "certs_for 1 1 1 (filter (commit_valid demo_env demo_voted 1) ?certs)"
    "certs_for 1 1 1 (filter (commit_valid demo_env ?m 1) ?certs)"
    by (simp_all add: same demo_voted_valid demo_vote_certs_for)
  from cluster_agrees [OF works n' m' certs unforged unforged]
  have "tl_Digest (log_at demo_voted 1) = tl_Digest (log_at ?m 1)" .
  moreover have "\<forall>i\<in>{''S2'', ''S3'', ''S4''}. works_as demo_env i (node i)" using works unfolding names by blast
  ultimately show ?thesis using n' by blast
qed

end
