(* ===== verification/Races.thy ===== *)
theory Races
  imports OneView Runs
begin

text \<open>
  Why the orderly runs of \<open>OneView\<close> leave two things out: the check of a pre-prepare and the write of
  its log entry are not one step (the locks are waited for in between), so that a replica can
  come to sign two digests for one number; and \<open>PCCommit\<close> makes any node run the protocol
  under its own counter, over entries it has already committed.
\<close>

section \<open>Accepting, at once and after a wait\<close>

definition arrived :: "int64 \<Rightarrow> int64 \<Rightarrow> 'b Node \<Rightarrow> 'b Node" where
  "arrived ts seq n =
     (let m = emit GoTimerStartIfNotRunning n in if RequestLog m ts = None then put_request m ts seq else m)"

definition logged_on ::
  "'b env \<Rightarrow> PrePrepareRequest \<Rightarrow> PrePrepare \<Rightarrow> Transaction \<Rightarrow> int64 \<Rightarrow> string \<Rightarrow> 'b Node \<Rightarrow> 'b Node" where
  "logged_on E req pp t ts leader m =
     (let m = m\<lparr>DB := GetLocksDB E (DB m) (tx_clients t)\<rparr> in
      emit (GoSendPrepareReq (pp_Sequence pp) req leader (pp_Status pp))
        (savePrePrepare (writeLog m (pp_Sequence pp) t (View m) (pp_Digest pp) ts) (pp_Sequence pp) req))"

text \<open>A pre-prepare of a new transaction that passes the checks of a working replica.\<close>

definition offered ::
  "'b env \<Rightarrow> 'b Node \<Rightarrow> PrePrepareRequest \<Rightarrow> PrePrepare \<Rightarrow> SignedClientRequest \<Rightarrow> Transaction \<Rightarrow> int64 \<Rightarrow> string \<Rightarrow> bool" where
  "offered E n req pp cr t ts leader \<longleftrightarrow> acceptable E n req pp cr \<and> Live n \<and> \<not> ViewChanging n \<and>
     pp_Status pp = [] \<and> tx_of cr = Some t \<and> seconds_of cr = Some ts \<and> getViewLeader n = Some leader"

lemma offered_run:
  assumes "offered E n req pp cr t ts leader"
    and "lock_loop E (tx_clients t) Byzantine rely (arrived ts (pp_Sequence pp) n) = Return (m\<lparr>DB := GetLocksDB E (DB m) (tx_clients t)\<rparr>) ()"
  shows "rpc_PrePrepare E rely n req = Return (logged_on E req pp t ts leader m) None"
proof -
  have acc: "acceptable E n req pp cr" and parts: "ppr_PrePrepare req = Some pp" "ppr_ClientReq req = Some cr"
    using assms(1) unfolding offered_def acceptable_def by blast+
  have "preprepare_accept E rely n req pp leader = Return (logged_on E req pp t ts leader m) None"
    using assms parts
    by (simp add: preprepare_accept_def offered_def with_seconds_eq with_tx_eq arrived_def logged_on_def Let_def)
  then show ?thesis
    using assms(1) parts acceptable_passes [OF acc] by (simp add: rpc_PrePrepare_def offered_def)
qed

lemma accepts_at_once:
  assumes "offered E n req pp cr t ts leader" "\<not> Byzantine n" "set (tx_clients t) \<inter> held E (DB n) = {}"
  shows "rpc_PrePrepare E [] n req = Return (logged_on E req pp t ts leader (arrived ts (pp_Sequence pp) n)) None"
  using assms(2,3)
  by (intro offered_run [OF assms(1)], subst lock_loop.simps)
    (simp add: CheckAndGetLocks_cases arrived_def emit_def put_request_def Let_def)

lemma accepts_after_wait:
  assumes "offered E n req pp cr t ts leader" "set (tx_clients t) \<inter> held E (DB n) \<noteq> {}"
    and "m = r (arrived ts (pp_Sequence pp) n)" "\<not> Byzantine m" "set (tx_clients t) \<inter> held E (DB m) = {}"
  shows "rpc_PrePrepare E [r] n req = Return (logged_on E req pp t ts leader m) None"
proof -
  have "DB (arrived ts (pp_Sequence pp) n) = DB n" by (simp add: arrived_def emit_def put_request_def Let_def)
  with assms(2-5) show ?thesis
    by (intro offered_run [OF assms(1)], subst lock_loop.simps, simp add: CheckAndGetLocks_cases)
      (subst lock_loop.simps, simp add: CheckAndGetLocks_cases)
qed

text \<open>What stays the same of a replica that accepts and answers.\<close>

definition standing :: "'b Node \<Rightarrow> _" where
  "standing n = (View n, PublicKeyMap n, ClusterId n, Live n, ViewChanging n, Byzantine n, ClientMap n, node_Id n, node_PrivateKey n)"

lemma standing_ops [simp]:
  "standing (arrived ts seq n) = standing n" "standing (logged_on E req pp t ts leader n) = standing n"
  "standing (release_of E n t) = standing n" "standing (emit e n) = standing n"
  by (simp_all add: standing_def arrived_def logged_on_def release_of_def emit_def put_request_def savePrePrepare_def
      writeLog_def Let_def)

lemma tables_after:
  "TransactionLog (arrived ts seq n) = TransactionLog n" "PrePrepares (arrived ts seq n) = PrePrepares n"
  "DB (arrived ts seq n) = DB n"
  "TransactionLog (release_of E n t) = TransactionLog n" "PrePrepares (release_of E n t) = PrePrepares n"
  "TransactionLog (emit e n) = TransactionLog n" "PrePrepares (emit e n) = PrePrepares n" "DB (emit e n) = DB n"
  "DB (release_of E n t) = ReleaseLocksDB E (DB n) (tx_clients t)"
  "DB (logged_on E req pp t ts leader n) = GetLocksDB E (DB n) (tx_clients t)"
  "PrePrepares (logged_on E req pp t ts leader n) = (PrePrepares n)(pp_Sequence pp \<mapsto> req)"
  "dom (TransactionLog (logged_on E req pp t ts leader n)) = insert (pp_Sequence pp) (dom (TransactionLog n))"
  "effects (release_of E n t) = effects n" "effects (emit e n) = effects n @ [e]"
  "set (effects (arrived ts seq n)) = insert GoTimerStartIfNotRunning (set (effects n))"
  "set (effects (logged_on E req pp t ts leader n)) =
     insert (GoSendPrepareReq (pp_Sequence pp) req leader (pp_Status pp)) (set (effects n))"
  by (auto simp: arrived_def logged_on_def release_of_def emit_def put_request_def savePrePrepare_def
      writeLog_def Let_def)

text \<open>Sending the prepare, when the leader does not answer: it was sent, and the locks are free again.\<close>

definition prepare_of :: "'b env \<Rightarrow> 'b Node \<Rightarrow> PrePrepare \<Rightarrow> PrepareRequest" where
  "prepare_of E n pp = \<lparr>pr_Prepare = Some (own_prepare n pp),
     pr_Signature = signature_or_nil E (node_PrivateKey n) (wire_Prepare (own_prepare n pp))\<rparr>"

lemma unanswered_prepare:
  assumes "ppr_PrePrepare req = Some pp" "ppr_ClientReq req = Some cr" "tx_of cr = Some t"
    and "leader \<in> set (peers n (ClusterId n))" "SignMessage E (node_PrivateKey n) (wire_Prepare (own_prepare n pp)) \<noteq> None"
  shows "sendPrepareReq E id None id None n (pp_Sequence pp) req leader status =
     Return (release_of E (emit (RpcPrepare leader (prepare_of E n pp)) n) t) (Some RpcFailed)"
  using assms
  by (auto simp: sendPrepareReq_def Let_def with_client_def with_request_tx_def with_tx_eq prepare_of_def signature_or_nil_def)

lemma prepare_is_vote:
  assumes "RpcPrepare leader (prepare_of E m pp) \<in> set (effects n)" "\<not> Byzantine m"
  shows "\<lparr>c_View = pp_View pp, c_Sequence = pp_Sequence pp, c_Digest = pp_Digest pp, c_NodeId = node_Id m\<rparr> \<in> votes n"
  unfolding votes_def
  by (intro UnI1 UnI2 CollectI exI [of _ leader] exI [of _ "prepare_of E m pp"] exI [of _ "own_prepare m pp"])
    (use assms in \<open>simp add: prepare_of_def own_prepare_def as_commit_def\<close>)

section \<open>A replica that signs two digests\<close>

definition demo_transfer :: "string \<Rightarrow> string \<Rightarrow> Transaction" where
  "demo_transfer a b = \<lparr>t_From = a, t_To = b, t_Amount = 1, t_ClusterFrom = ''C1'', t_ClusterTo = ''C1'', t_ClientSeq = 9\<rparr>"

definition demo_offer_pp :: "Transaction \<Rightarrow> int64 \<Rightarrow> PrePrepare" where
  "demo_offer_pp t seq = \<lparr>pp_View = 1, pp_Sequence = seq, pp_Digest = demo_digest t, pp_Status = [], pp_Wal = [], pp_Locks = []\<rparr>"

text \<open>The leader \<open>S1\<close> offers a transaction under a number.\<close>

definition demo_offer :: "Transaction \<Rightarrow> int64 \<Rightarrow> PrePrepareRequest" where
  "demo_offer t seq = \<lparr>ppr_PrePrepare = Some (demo_offer_pp t seq),
     ppr_Signature = signature_or_nil demo_env (demo_key 1) (wire_PrePrepare (demo_offer_pp t seq)),
     ppr_ClientReq = Some (demo_request_of t)\<rparr>"

definition demo_replica_at_work :: "demo_bucket Node \<Rightarrow> bool" where
  "demo_replica_at_work n \<longleftrightarrow> View n = 1 \<and> PublicKeyMap n = demo_keys \<and> ClusterId n = ''C1'' \<and> Live n \<and>
     \<not> ViewChanging n \<and> \<not> Byzantine n \<and> ''S1'' \<in> set (peers n ''C1'') \<and> node_Id n = ''S2''"

lemma at_work_cong: "standing n = standing m \<Longrightarrow> demo_replica_at_work n = demo_replica_at_work m"
  by (simp add: demo_replica_at_work_def standing_def peers_def)

lemma demo_offered:
  assumes "demo_replica_at_work n" "TransactionLog n seq = None"
    and "seq = 1 \<or> PrePrepares n (sub64 seq 1) \<noteq> None"
  shows "offered demo_env n (demo_offer t seq) (demo_offer_pp t seq) (demo_request_of t) t 100 ''S1''"
proof -
  have keys: "demo_keys ''client'' = Some (PublicKey 0 65537)" "demo_keys ''S1'' = Some (PublicKey 1 65537)"
    by (simp_all add: demo_keys_def)
  have lead: "getViewLeader n = Some ''S1''"
    using demo_leader assms(1)
    by (simp add: getViewLeader_def demo_replica_at_work_def demo_replica_sel demo_replica_def demo_node_tables)
  obtain r where r: "scr_ClientRequest (demo_request_of t) = Some r"
    and sg: "scr_Signature (demo_request_of t) = signature_or_nil demo_env (demo_key 0) (wire_ClientRequest r)"
    by (simp add: demo_request_of_def Let_def)
  show ?thesis
    using assms demo_verified [of 1] demo_verified [of 0]
    by (simp add: offered_def acceptable_def demo_offer_def demo_offer_pp_def lead keys r sg demo_MD5
        demo_request_parts demo_replica_at_work_def)
qed

text \<open>The replica after it has accepted an offer, and after it has sent the prepare for one.\<close>

definition demo_logged :: "Transaction \<Rightarrow> int64 \<Rightarrow> demo_bucket Node \<Rightarrow> demo_bucket Node" where
  "demo_logged t seq = logged_on demo_env (demo_offer t seq) (demo_offer_pp t seq) t 100 ''S1''"

definition demo_sent :: "Transaction \<Rightarrow> int64 \<Rightarrow> demo_bucket Node \<Rightarrow> demo_bucket Node" where
  "demo_sent t seq n =
     release_of demo_env (emit (RpcPrepare ''S1'' (prepare_of demo_env n (demo_offer_pp t seq))) n) t"

lemma demo_offer_sequence [simp]: "pp_Sequence (demo_offer_pp t seq) = seq"
  by (simp add: demo_offer_pp_def)

lemma demo_steps [simp]:
  "demo_replica_at_work (arrived 100 seq n) = demo_replica_at_work n"
  "demo_replica_at_work (demo_logged t seq n) = demo_replica_at_work n"
  "demo_replica_at_work (demo_sent t seq n) = demo_replica_at_work n"
  "dom (TransactionLog (arrived 100 seq n)) = dom (TransactionLog n)"
  "dom (TransactionLog (demo_logged t seq n)) = insert seq (dom (TransactionLog n))"
  "PrePrepares (arrived 100 seq n) = PrePrepares n"
  "PrePrepares (demo_logged t seq n) = (PrePrepares n)(seq \<mapsto> demo_offer t seq)"
  "DB (arrived 100 seq n) = DB n"
  "held demo_env (DB (demo_logged t seq n)) = {c \<in> set (tx_clients t). valid_key c} \<union> held demo_env (DB n)"
  "held demo_env (DB (demo_sent t seq n)) = held demo_env (DB n) - set (tx_clients t)"
  by (rule at_work_cong; simp add: demo_logged_def demo_sent_def)+
    (auto simp: demo_logged_def demo_sent_def tables_after held_GetLocksDB [OF demo_bolt_ok] held_ReleaseLocksDB [OF demo_bolt_ok])

lemma demo_accepts:
  assumes "demo_replica_at_work n" "seq \<notin> dom (TransactionLog n)" "seq = 1 \<or> PrePrepares n (sub64 seq 1) \<noteq> None"
    and "set (tx_clients t) \<inter> held demo_env (DB n) = {}"
  shows "rpc_PrePrepare demo_env [] n (demo_offer t seq) = Return (demo_logged t seq (arrived 100 seq n)) None"
  using accepts_at_once [OF demo_offered [OF assms(1) _ assms(3)]] assms
  by (simp add: demo_logged_def demo_replica_at_work_def domIff)

lemma demo_accepts_late:
  assumes "demo_replica_at_work n" "seq \<notin> dom (TransactionLog n)" "seq = 1 \<or> PrePrepares n (sub64 seq 1) \<noteq> None"
    and "set (tx_clients t) \<inter> held demo_env (DB n) \<noteq> {}"
    and "r (arrived 100 seq n) = m" "demo_replica_at_work m" "set (tx_clients t) \<inter> held demo_env (DB m) = {}"
  shows "rpc_PrePrepare demo_env [r] n (demo_offer t seq) = Return (demo_logged t seq m) None"
  using accepts_after_wait [OF demo_offered [OF assms(1) _ assms(3)] assms(4), of m r] assms
  by (simp add: demo_logged_def demo_replica_at_work_def domIff)

lemma demo_answers:
  assumes "demo_replica_at_work n"
  shows "sendPrepareReq demo_env id None id None n seq (demo_offer t seq) ''S1'' status =
     Return (demo_sent t seq n) (Some RpcFailed)"
  using unanswered_prepare [of "demo_offer t seq" "demo_offer_pp t seq" "demo_request_of t" t "''S1''" n demo_env status] assms
  by (simp add: demo_sent_def demo_offer_def demo_request_parts demo_replica_at_work_def SignMessage_def demo_simps
      demo_marshal_def demo_sign_def)

lemma demo_sent_votes:
  defines "vote seq t \<equiv> \<lparr>c_View = 1, c_Sequence = seq, c_Digest = demo_digest t, c_NodeId = ''S2''\<rparr>"
  assumes "demo_replica_at_work n"
  shows "vote seq t \<in> votes (demo_sent t seq n)" "vote seq t \<in> votes (demo_sent u seq' (demo_sent t seq n))"
  using prepare_is_vote [of "''S1''" demo_env n "demo_offer_pp t seq" "demo_sent t seq n"]
    prepare_is_vote [of "''S1''" demo_env n "demo_offer_pp t seq" "demo_sent u seq' (demo_sent t seq n)"] assms(2)
  by (simp_all add: vote_def demo_sent_def tables_after demo_replica_at_work_def) (simp_all add: demo_offer_pp_def)

lemma demo_digests_differ:
  "demo_digest (demo_transfer ''1'' ''3'') \<noteq> demo_digest (demo_transfer ''4'' ''5'')"
proof
  assume "demo_digest (demo_transfer ''1'' ''3'') = demo_digest (demo_transfer ''4'' ''5'')"
  then have "demo_json (JClientReq (Some (demo_request_of (demo_transfer ''1'' ''3'')))) =
      demo_json (JClientReq (Some (demo_request_of (demo_transfer ''4'' ''5''))))"
    by (auto simp: demo_digest_def MD5Hash_def demo_simps demo_json_def dest!: hex_encode_inj)
  then show False
    by (simp add: demo_json_def demo_request_of_def Let_def demo_transfer_def wire_SignedClientRequest_def
        wire_ClientRequest_def wire_Transaction_def)
qed

text \<open>What happens while the replica waits: it accepts another offer and gives up its first one.\<close>

definition or_stay :: "'b Node \<Rightarrow> ('b Node, 'a) outcome \<Rightarrow> 'b Node" where
  "or_stay n m = (case state_after m of None \<Rightarrow> n | Some n' \<Rightarrow> n')"

definition meanwhile :: "PrePrepareRequest \<Rightarrow> PrePrepareRequest \<Rightarrow> demo_bucket Node \<Rightarrow> demo_bucket Node" where
  "meanwhile other first n =
     (let m = or_stay n (rpc_PrePrepare demo_env [] n other) in
      or_stay m (sendPrepareReq demo_env id None id None m 1 first ''S1'' []))"

lemma accepting_runs: "node_runs E x n (or_stay n (rpc_PrePrepare E [] n req))"
proof (cases "state_after (rpc_PrePrepare E [] n req)")
  case (Some n')
  have "node_runs E x n n'" by (rule preprepare [OF _ Some]) simp
  then show ?thesis by (simp add: or_stay_def Some)
qed (simp add: or_stay_def idle)

lemma answering_runs: "node_runs E x n (or_stay n (sendPrepareReq E id None id None n seq req leader status))"
proof (cases "state_after (sendPrepareReq E id None id None n seq req leader status)")
  case (Some n')
  have "node_runs E x n n'" by (rule go_prepare [OF _ Some]) (auto intro: idle)
  then show ?thesis by (simp add: or_stay_def Some)
qed (simp add: or_stay_def idle)

lemma meanwhile_runs: "node_runs demo_env x n (meanwhile other first n)"
  unfolding meanwhile_def Let_def by (rule next_run [OF accepting_runs answering_runs])

lemma demo_answering_runs:
  "demo_replica_at_work n \<Longrightarrow> node_runs demo_env x n (demo_sent t seq n)"
  using answering_runs [of demo_env x n seq "demo_offer t seq" "''S1''" "[]"] by (simp add: demo_answers or_stay_def)

text \<open>
  C10. A replica that works signs two digests for one number: the check of a pre-prepare against
  the log comes before the wait for locks and is not repeated after it. There is a run of a
  node from its start in which the leader offers two transactions under the same number, the
  first of which waits for a lock while the second is accepted and overwrites its entry when it
  gets the lock; the node, never set to be Byzantine, then signs a prepare for each, in the same
  view. So the agreement of a cluster with a faulty leader rests on that wait not happening.
\<close>

theorem replica_signs_two_digests:
  "\<exists>n0 n c d. started demo_env n0 \<and> node_runs demo_env False n0 n \<and> \<not> Byzantine n \<and> c \<in> votes n \<and> d \<in> votes n \<and>
     c_NodeId c = node_Id n0 \<and> c_NodeId d = node_Id n0 \<and> c_View c = c_View d \<and> c_Sequence c = c_Sequence d \<and>
     c_Digest c \<noteq> c_Digest d"
proof -
  let ?A = "demo_transfer ''1'' ''2''" and ?B = "demo_transfer ''1'' ''3''" and ?C = "demo_transfer ''4'' ''5''"
  let ?r = "meanwhile (demo_offer ?C 2) (demo_offer ?A 1)"
  note clients = tx_clients_def demo_transfer_def valid_key_def
  have prev: "sub64 2 1 = 1" by (simp add: sub64_def wrap64_def)
  obtain b where b: "started demo_env (demo_peer ''S2'' 2 b)" using demo_peer_started by blast
  define n0 where "n0 = demo_peer ''S2'' 2 b"
  define n1 where "n1 = demo_logged ?A 1 (arrived 100 1 n0)"
  define w where "w = arrived 100 2 n1"
  define m2 where "m2 = demo_sent ?A 1 (demo_logged ?C 2 (arrived 100 2 w))"
  define n2 where "n2 = demo_logged ?B 2 m2"
  define n3 where "n3 = demo_sent ?C 2 n2"
  define n4 where "n4 = demo_sent ?B 2 n3"
  note defs = n1_def w_def m2_def n2_def n3_def n4_def
  have n0: "demo_replica_at_work n0" "TransactionLog n0 = Map.empty" "held demo_env (DB n0) = {}"
    using demo_peer_leader [of "''S2''" 2 b]
    by (simp_all add: n0_def demo_replica_at_work_def demo_peer_sel held_def locked_def demo_simps demo_get_def)
  then have s1: "rpc_PrePrepare demo_env [] n0 (demo_offer ?A 1) = Return n1 None"
    unfolding n1_def by (intro demo_accepts) simp_all
  have "rpc_PrePrepare demo_env [] w (demo_offer ?C 2) = Return (demo_logged ?C 2 (arrived 100 2 w)) None"
    by (rule demo_accepts) (simp_all add: w_def n1_def n0 prev clients)
  then have r: "?r w = m2"
    using demo_answers [of "demo_logged ?C 2 (arrived 100 2 w)" 1 ?A "[]"]
    by (simp add: meanwhile_def or_stay_def m2_def w_def n1_def n0(1))
  have s2: "rpc_PrePrepare demo_env [?r] n1 (demo_offer ?B 2) = Return n2 None"
    unfolding n2_def
    by (rule demo_accepts_late, simp_all add: r w_def [symmetric])
      (auto simp: n1_def m2_def w_def n0 prev clients)
  have "node_runs demo_env False n0 n1" by (rule preprepare [where rely = "[]" and req = "demo_offer ?A 1"]) (simp, simp only: s1 state_after.simps)
  moreover have "node_runs demo_env False n1 n2"
    by (rule preprepare [where rely = "[?r]" and req = "demo_offer ?B 2"]) (simp add: meanwhile_runs, simp only: s2 state_after.simps)
  moreover have "node_runs demo_env False n2 n3" "node_runs demo_env False n3 n4"
    using demo_answering_runs [of n2] demo_answering_runs [of n3] by (simp_all add: defs n0(1))
  ultimately have run: "node_runs demo_env False n0 n4" by (meson next_run)
  have votes: "\<lparr>c_View = 1, c_Sequence = 2, c_Digest = demo_digest ?C, c_NodeId = ''S2''\<rparr> \<in> votes n4"
    "\<lparr>c_View = 1, c_Sequence = 2, c_Digest = demo_digest ?B, c_NodeId = ''S2''\<rparr> \<in> votes n4"
    using demo_sent_votes [of n2] demo_sent_votes [of n3] by (simp_all add: defs n0(1))
  moreover have "demo_replica_at_work n4" by (simp add: defs n0(1))
  then have "\<not> Byzantine n4" "node_Id n0 = ''S2''" using n0(1) by (simp_all add: demo_replica_at_work_def)
  ultimately show ?thesis
    using b [folded n0_def] run demo_digests_differ
    by (intro exI [of _ n0] exI [of _ n4] exI [of _ "\<lparr>c_View = 1, c_Sequence = 2, c_Digest = demo_digest ?C, c_NodeId = ''S2''\<rparr>"]
        exI [of _ "\<lparr>c_View = 1, c_Sequence = 2, c_Digest = demo_digest ?B, c_NodeId = ''S2''\<rparr>"]) simp
qed

section \<open>A commit request nobody checks\<close>

text \<open>
  C11. \<open>PCCommit\<close> undoes a commit: sent to any node, by anyone, with any request that encodes
  (no signature, liveness, view or role is looked at), it makes the node run the protocol under
  its own counter, which on a replica never moved. The entry logged under that number, even
  one that is committed, is replaced by a fresh one with the request's digest, and when no
  certificates come, the answer is an error, the entry stays replaced, and the locks of the
  request's clients, whoever took them, are released.
\<close>

theorem commit_request_undoes_commit:
  assumes "bolt_ok E" "pcr_SignedClientReq req = Some r" "tx_of r = Some t" "seconds_of r = Some ts"
    and "MD5Hash E (JClientReq (Some r)) = Some d" "prepare_rely io = id" "prepare_events io = [TimerFires]"
    and "TransactionLog n (Seq n) = Some l" "tl_State l = 3" "tl_Digest l \<noteq> d"
  shows "\<exists>n' l'. rpc_PCCommit E io n req = Return n' (Inl NotPrepared) \<and>
     TransactionLog n' (Seq n) = Some l' \<and> tl_State l' = 1 \<and> tl_Digest l' = d \<and>
     held E (DB n') = held E (DB n) - {t_From t, t_To t}"
proof -
  let ?m = "n\<lparr>PCCommitsMap := (PCCommitsMap n)(t_ClientSeq t := True)\<rparr>"
  obtain m req' pp where num: "assign_seq E ?m r 0 ''C'' d = Return m (req', pp)" and pp: "pp_Sequence pp = Seq n"
    "pp_Digest pp = d" and req': "ppr_ClientReq req' = Some r" and m: "m = ?m\<lparr>Seq := add64 (Seq n) 1\<rparr>"
    by (simp add: assign_seq_def Let_def)
  obtain cq where cq: "scr_ClientRequest r = Some cq" "cr_Transaction cq = Some t"
    using assms(3) by (auto simp: tx_of_def bind_eq_Some_conv)
  obtain m' where ann: "announce m r req' pp = Return m' ()" and db: "DB m' = DB n"
    and log: "TransactionLog m' (Seq n) = Some \<lparr>tl_Transaction = Some t, tl_View = View n, tl_State = 1, tl_Digest = d,
        tl_Timestamp = ts, tl_ClientSeq = t_ClientSeq t\<rparr>"
    by (simp add: announce_def Let_def logClientRequest_def with_seconds_eq assms(4) req' cq pp m)
      (simp add: writeLog_def savePrePrepare_def put_request_def emits_def States_def)
  let ?e = "m'\<lparr>PrepareCerts := (PrepareCerts m')(Seq n := [])\<rparr>"
  have "collectPrepares (prepare_rely io) (prepare_events io) m' (Seq n) = Return ?e None"
    by (simp add: collectPrepares_def Let_def assms(6,7))
  moreover have "validatePrepares E ?e (Seq n) [] = Return ?e False"
    by (simp add: validatePrepares_cases F_def)
  ultimately have "runPBFT E io ?m r 0 ''C'' = Return (release_of E ?e t) (Some req', Some NotPrepared)"
    using num ann by (simp add: runPBFT_def assms(5) pp give_up_def with_tx_eq assms(3))
  then have "rpc_PCCommit E io n req = Return (release_of E ?e t) (Inl NotPrepared)"
    by (simp add: rpc_PCCommit_def assms(2,3) with_tx_eq Let_def)
  moreover have "held E (DB (release_of E ?e t)) = held E (DB n) - {t_From t, t_To t}"
    by (simp add: release_of_def held_ReleaseLocksDB [OF assms(1)] db tx_clients_def)
  moreover have "TransactionLog (release_of E ?e t) (Seq n) = TransactionLog m' (Seq n)"
    by (simp add: release_of_def)
  moreover obtain l' where "TransactionLog m' (Seq n) = Some l'" "tl_State l' = 1" "tl_Digest l' = d"
    using log by simp
  ultimately show ?thesis by (intro exI [of _ "release_of E ?e t"] exI [of _ l']) simp
qed

theorem commit_request_undoes_commit_witness:
  "\<exists>n' l'. rpc_PCCommit demo_env ((demo_io [])\<lparr>prepare_events := [TimerFires]\<rparr>) (demo_committed [[]])
      \<lparr>pcr_SignedClientReq = Some (demo_request_of demo_tx), pcr_Commits = [], pcr_NodeId = []\<rparr> = Return n' (Inl NotPrepared) \<and>
     rpc_GetStatus (demo_committed [[]]) 1 = Inr ''C'' \<and> rpc_GetStatus n' 1 = Inr ''PP''"
proof -
  let ?n = "demo_committed [[]]" and ?io = "(demo_io [])\<lparr>prepare_events := [TimerFires]\<rparr>"
  have n: "Seq ?n = 1" "TransactionLog ?n 1 = Some (demo_log 3 ''d'')"
    by (simp_all add: demo_committed_def demo_node_tables)
  have "length (demo_digest demo_tx) \<noteq> 1"
    using hex_encode_length [of "the (demo_json (JClientReq (Some (demo_request_of demo_tx))))"]
    by (simp add: demo_digest_def MD5Hash_def demo_simps demo_json_def)
  then have "demo_digest demo_tx \<noteq> ''d''" by auto
  then have d: "tl_Digest (demo_log 3 ''d'') \<noteq> demo_digest demo_tx" by (simp add: demo_log_def)
  from commit_request_undoes_commit [where req = "\<lparr>pcr_SignedClientReq = Some (demo_request_of demo_tx), pcr_Commits = [],
        pcr_NodeId = []\<rparr>" and io = ?io and n = ?n and l = "demo_log 3 ''d''", OF demo_bolt_ok _ demo_request_parts demo_MD5 [of demo_tx]] n d
  obtain n' l' where n': "rpc_PCCommit demo_env ?io ?n
      \<lparr>pcr_SignedClientReq = Some (demo_request_of demo_tx), pcr_Commits = [], pcr_NodeId = []\<rparr> = Return n' (Inl NotPrepared)"
    "TransactionLog n' 1 = Some l'" "tl_State l' = 1"
    by (simp add: demo_io_def demo_log_def) blast
  have "rpc_GetStatus ?n 1 = Inr ''C''" "rpc_GetStatus n' 1 = Inr ''PP''"
    by (simp_all add: rpc_GetStatus_def n n' demo_log_def IntToStates_def)
  with n'(1) show ?thesis by blast
qed

end
