(* ===== verification/Atomicity.thy ===== *)
theory Atomicity
  imports Runs
begin

text \<open>
  Who waits for the decision of a two-phase commit: only a participant whose own shard failed to
  prepare. One that has acknowledged waits for nothing; what that means when its
  acknowledgement is lost is shown in \<open>LostAck\<close>.
\<close>

section \<open>Who waits for the decision\<close>

definition no_wait :: "effect \<Rightarrow> bool" where
  "no_wait e \<longleftrightarrow> (\<forall>r. e \<noteq> GoWaitForPCCommit r)"

lemma run_effects_no_wait: "run_effects no_wait"
  by (simp add: run_effects_def no_wait_def)

lemma quiet_no_wait: "quiet no_wait n \<longleftrightarrow> (\<forall>r. GoWaitForPCCommit r \<notin> set (effects n))"
  by (auto simp: quiet_def no_wait_def list_all_iff)

text \<open>
  C13. The wait that can abort a participant is started exactly when it is of no use: \<open>PCPrepare\<close>
  starts it if and only if the request was valid and the participant's own shard then failed to
  prepare. A participant that has prepared and acknowledged starts none, so that nothing but a
  commit request ever follows, and if that does not come the prepared entry stays for good.
\<close>

theorem only_refusals_wait:
  assumes "rpc_PCPrepare E io n req = Return n' res" "quiet no_wait n" "all_quiet no_wait (io_fns io)"
  shows "(\<exists>r. GoWaitForPCCommit r \<in> set (effects n')) \<longleftrightarrow>
     validatePCPCommits E n req = Return n None \<and> (\<exists>e. res = Inl e)"
proof -
  obtain r t m err where r: "pcr_SignedClientReq req = Some r" "tx_of r = Some t"
    and chk: "validatePCPCommits E n req = Return m err"
    using assms(1) by (auto simp: rpc_PCPrepare_def outcome_simps)
  have m: "m = n" by (rule validatePCPCommits_state [OF chk])
  show ?thesis
  proof (cases err)
    case (Some e)
    with assms(1,2) chk r m show ?thesis
      by (auto simp: rpc_PCPrepare_def with_tx_eq quiet_no_wait)
  next
    case None
    then obtain m' p where run: "runPBFT E io n r 0 ''P'' = Return m' p"
      using assms(1) chk r m by (auto simp: rpc_PCPrepare_def with_tx_eq outcome_simps)
    have "state_after (runPBFT E io n r 0 ''P'') = Some m'" by (simp only: run state_after.simps)
    then have "quiet no_wait m'" by (rule keepsD [OF quiet_runPBFT [OF run_effects_no_wait assms(3,2)]])
    then show ?thesis
      using assms(1) chk r m None run
      by (cases "snd p") (auto simp: rpc_PCPrepare_def with_tx_eq quiet_no_wait emit_def)
  qed
qed

theorem only_refusals_wait_witness:
  "\<exists>n'. rpc_PCPrepare demo_env (demo_io (demo_digest demo_tx)) demo_node demo_pc = Return n' (Inr (pc_success n')) \<and>
     \<not> (\<exists>r. GoWaitForPCCommit r \<in> set (effects n'))"
proof -
  obtain n' where "runPBFT demo_env (demo_io (demo_digest demo_tx)) demo_node (demo_request_of demo_tx) 0 ''P'' = Return n' (Some (demo_ppr demo_tx ''P''), None)"
    using demo_run_succeeds [of demo_tx] by (auto simp: demo_tx_def)
  then have run: "rpc_PCPrepare demo_env (demo_io (demo_digest demo_tx)) demo_node demo_pc = Return n' (Inr (pc_success n'))"
    by (simp add: rpc_PCPrepare_def demo_pc_def with_tx_eq demo_request_parts demo_validates [unfolded demo_pc_def])
  have "quiet no_wait demo_node" "all_quiet no_wait (io_fns (demo_io dg))" for dg
    by (simp_all add: quiet_def demo_node_tables io_fns_def demo_io_def)
  with only_refusals_wait [OF run] run show ?thesis by blast
qed

end
