(* ===== verification/GwMenu.thy ===== *)
theory GwMenu
  imports GwClient Console "HOL-Library.Char_ord" "HOL-Library.List_Lexorder"
begin

text \<open>
  The menu of the gateway (the loop of \<open>main\<close> in \<open>gateway/gateway.go\<close>, the reports and
  \<open>shutdown\<close> of \<open>gateway/helpers.go\<close>) as the text it prints, round by round. What the user
  types, what the nodes answer, and what the other goroutines do while the loop waits are
  given per round. The throughput is a float: how it is rendered is an argument.
\<close>

section \<open>How values are printed\<close>

text \<open>
  \<open>time.Duration.String\<close>: a fraction of \<open>k\<close> digits without trailing zeros, in units of a
  second, or of a smaller unit when it is less than one.
\<close>

fun fmtFrac :: "nat \<Rightarrow> nat \<Rightarrow> bool \<Rightarrow> string \<Rightarrow> nat \<times> string" where
  "fmtFrac 0 v shown buf = (v, if shown then CHR ''.'' # buf else buf)"
| "fmtFrac (Suc k) v shown buf =
     (let shown = shown \<or> v mod 10 \<noteq> 0
      in fmtFrac k (v div 10) shown (if shown then digit_char (v mod 10) # buf else buf))"

definition with_fraction :: "nat \<Rightarrow> nat \<Rightarrow> string \<Rightarrow> string" where
  "with_fraction k u unit = (let (v, buf) = fmtFrac k u False unit in format_nat v @ buf)"

definition format_seconds :: "nat \<Rightarrow> string" where
  "format_seconds u =
     (let (s, buf) = fmtFrac 9 u False ''s'';
          m = s div 60; h = m div 60
      in (if h = 0 then [] else format_nat h @ ''h'') @ (if m = 0 then [] else format_nat (m mod 60) @ ''m'') @
         format_nat (s mod 60) @ buf)"

definition Duration_String :: "int64 \<Rightarrow> string" where
  "Duration_String d =
     (let u = nat \<bar>d\<bar>
      in (if d < 0 then ''-'' else []) @
         (if u = 0 then ''0s''
          else if u < 1000 then with_fraction 0 u ''ns''
          else if u < 1000000 then with_fraction 3 u [CHR 0xC2, CHR 0xB5, CHR ''s'']
          else if u < 1000000000 then with_fraction 6 u ''ms''
          else format_seconds u))"

text \<open>\<open>%v\<close> of a list of strings and of a map, whose keys \<open>fmt\<close> sorts; \<open>%-3s\<close> counts characters.\<close>

definition join :: "string list \<Rightarrow> string" where
  "join ws = (case ws of [] \<Rightarrow> [] | w # ws \<Rightarrow> w @ concat (map (\<lambda>v. CHR '' '' # v) ws))"

definition show_list :: "string list \<Rightarrow> string" where
  "show_list ws = CHR ''['' # join ws @ '']''"

definition show_map :: "('k::linorder \<Rightarrow> string) \<Rightarrow> ('v \<Rightarrow> string) \<Rightarrow> ('k \<times> 'v) list \<Rightarrow> string" where
  "show_map show_key show_value m =
     ''map['' @ join (map (\<lambda>(k, v). show_key k @ CHR '':'' # show_value v) (sort_key fst m)) @ '']''"

definition characters :: "string \<Rightarrow> nat" where
  "characters s = length (filter (\<lambda>c. (of_char c :: nat) div 64 \<noteq> 2) s)"

definition pad3 :: "string \<Rightarrow> string" where
  "pad3 s = s @ replicate (3 - characters s) CHR '' ''"

definition tx_text :: "Transaction \<Rightarrow> string" where
  "tx_text t = CHR ''('' # t_From t @ '', '' @ t_To t @ '', '' @ FormatInt (t_Amount t) @ '')''"

section \<open>The reports\<close>

definition gateway_printMenu :: string where
  "gateway_printMenu =
     [newline] @ ''Menu:'' @ [newline] @ ''1. Execute next set'' @ [newline] @
     ''2. Fetch Balance of client on its cluster'' @ [newline] @
     ''3. Fetch Datastore on all servers'' @ [newline] @ ''Choose an option: ''"

text \<open>\<open>printState\<close>; \<open>sets\<close> are the keys of \<open>ByzantineServersMap\<close>.\<close>

definition set_state :: "int64 list \<Rightarrow> Gateway \<Rightarrow> int64 \<Rightarrow> string" where
  "set_state sets gw i =
     ''Set '' @ FormatInt i @ [newline] @
     ''Live servers: '' @ show_list (LiveServersMap gw i) @ [newline] @
     ''Transaction Count: '' @ FormatInt (TransactionCountMap gw i) @ [newline] @
     ''ClusterWise Live Servers: '' @
       show_map id show_list (filter (\<lambda>(c, ns). ns \<noteq> [])
         (map (\<lambda>(c, ns). (c, ClusterLiveServersMap gw i c)) (ClusterNodeMap gw))) @ [newline] @
     ''Byzantine Servers: '' @ show_map FormatInt show_list (map (\<lambda>s. (s, ByzantineServersMap gw s)) sets) @ [newline]"

definition printState :: "int64 list \<Rightarrow> Gateway \<Rightarrow> string option" where
  "printState sets gw =
     map_option (\<lambda>is. ''Node Map: '' @ show_map id (show_map id id) (gw_NodeMap gw) @ [newline] @
         concat (map (set_state sets gw) is))
       (for_range 1 (MaxSetNum gw))"

definition latency_line :: "int64 \<times> resultStruct option \<Rightarrow> string" where
  "latency_line l =
     (case l of
        (i, None) \<Rightarrow> ''No data for seq: '' @ FormatInt i @ [newline]
      | (i, Some data) \<Rightarrow> FormatInt i @ ''. '' @ tx_text (rs_transaction data) @ '' '' @
          Duration_String (rs_latency data) @ '' '' @ (if rs_success data then ''success'' else ''abort'') @ [newline])"

definition average_text :: "(int64 \<Rightarrow> int64 \<Rightarrow> string) \<Rightarrow> string \<Rightarrow> int64 \<Rightarrow> (int64 \<times> int64) option \<Rightarrow> string" where
  "average_text throughput each cnt avg =
     (case avg of
        None \<Rightarrow> []
      | Some (a, dur) \<Rightarrow> ''Latency: '' @ Duration_String a @ '' per '' @ each @ '', Throughput: '' @
          throughput cnt dur @ '' transactions/second'' @ [newline])"

definition set_latency_text :: "(int64 \<Rightarrow> int64 \<Rightarrow> string) \<Rightarrow> int64 \<times> int64 \<times> (int64 \<times> int64) option \<Rightarrow> string" where
  "set_latency_text throughput row =
     (case row of (i, cnt, avg) \<Rightarrow>
        ''Set '' @ FormatInt i @ [newline] @ ''--------'' @ [newline] @
        ''Transaction count: '' @ FormatInt cnt @ [newline] @
        average_text throughput ''transction'' cnt avg @ [newline])"

definition overall_text :: "(int64 \<Rightarrow> int64 \<Rightarrow> string) \<Rightarrow> int64 \<times> (int64 \<times> int64) option \<Rightarrow> string" where
  "overall_text throughput row =
     (case row of (cnt, avg) \<Rightarrow>
        ''Transaction count: '' @ FormatInt cnt @ [newline] @ average_text throughput ''transaction'' cnt avg)"

section \<open>One round of the loop\<close>

record gw_round =
  ro_others :: "Gateway \<Rightarrow> Gateway"
  ro_input :: string
  ro_client :: string
  ro_clock :: "int64 \<Rightarrow> int64"
  ro_balance :: "string \<Rightarrow> string + int64"
  ro_datastore :: "string \<Rightarrow> string + DatastoreData list"

record gw_session =
  se_gateway :: Gateway
  se_set :: int64
  se_out :: string

text \<open>Option 2, for one node of the client's cluster; a node the gateway has no client for panics.\<close>

definition balance_line :: "gw_round \<Rightarrow> Gateway \<Rightarrow> string \<Rightarrow> string option" where
  "balance_line r gw node =
     (if node \<notin> set (gRPCClients gw) then None
      else Some (case ro_balance r node of
        Inl err \<Rightarrow> ''Error getting balance of '' @ ro_client r @ '' from '' @ node @ '': '' @ err @ [newline]
      | Inr balance \<Rightarrow> pad3 node @ '': '' @ FormatInt balance @ [newline]))"

text \<open>Option 3, for one node: an entry without a transaction panics.\<close>

definition datastore_line :: "DatastoreData \<Rightarrow> string option" where
  "datastore_line d =
     map_option (\<lambda>t. FormatInt (dd_Seq d) @ ''. '' @ tx_text t @ '' '' @ dd_Status d @ [newline]) (dd_Transaction d)"

definition datastore_text :: "gw_round \<Rightarrow> string \<Rightarrow> string option" where
  "datastore_text r node =
     (case ro_datastore r node of
        Inl err \<Rightarrow> Some (''Error getting datastore from '' @ node @ '': '' @ err @ [newline])
      | Inr data \<Rightarrow> texts ([Some (node @ [newline] @ ''-------'' @ [newline])] @ map datastore_line data @ [Some [newline]]))"

text \<open>What the options that only report print; \<open>None\<close> is a panic or a loop without end.\<close>

definition menu_report :: "(int64 \<Rightarrow> int64 \<Rightarrow> string) \<Rightarrow> int64 list \<Rightarrow> gw_round \<Rightarrow> Gateway \<Rightarrow> string option" where
  "menu_report throughput sets r gw =
     (let input = ro_input r in
      if input = ''2'' then texts (Some ''Enter Client ID: '' # map (balance_line r gw) (menu_balance_nodes gw (ro_client r)))
      else if input = ''3'' then Option.bind (menu_datastore_nodes gw) (\<lambda>nodes. texts (map (datastore_text r) nodes))
      else if input = ''4'' then map_option (overall_text throughput) (printOverallLatency gw)
      else if input = ''5'' then map_option (\<lambda>rows. concat (map (set_latency_text throughput) rows)) (printSetWiseLatency gw)
      else if input = ''6'' then map_option (\<lambda>ls. concat (map latency_line ls)) (printAllLatencies gw)
      else if input = ''8'' then printState sets gw
      else Some (''Invalid option'' @ [newline]))"

text \<open>
  A round prints the menu, waits for the input, and acts on it. The value is whether the
  program leaves its loop: it then closes its connections and ends.
\<close>

definition menu_round ::
  "'b env \<Rightarrow> (int64 \<Rightarrow> int64 \<Rightarrow> string) \<Rightarrow> int64 list \<Rightarrow> gw_round \<Rightarrow> gw_session \<Rightarrow> (gw_session, bool) outcome" where
  "menu_round E throughput sets r s =
     (let gw = ro_others r (se_gateway s); setNum = se_set s; out = se_out s @ gateway_printMenu in
      if ro_input r = ''1'' then
        (case menu_execute E (ro_clock r) setNum gw of
           Return gw' setNum' \<Rightarrow>
             Return \<lparr>se_gateway = gw', se_set = setNum', se_out = out @
               (if setNum \<le> MaxSetNum gw
                then ''Executing Set '' @ FormatInt setNum @ [newline] @ ''Set '' @ FormatInt setNum @ '' done'' @ [newline]
                else ''No more sets'' @ [newline])\<rparr> False
         | Panic \<Rightarrow> Panic
         | Blocked gw' \<Rightarrow> Blocked \<lparr>se_gateway = gw', se_set = setNum, se_out = out\<rparr>)
      else if ro_input r = ''0'' then
        Return \<lparr>se_gateway = gw, se_set = setNum, se_out = out @ ''Gracefully shutting down'' @ [newline]\<rparr> True
      else deref (menu_report throughput sets r gw) (\<lambda>t.
        Return \<lparr>se_gateway = gw, se_set = setNum, se_out = out @ t\<rparr> False))"

text \<open>The loop; when the input stops it waits.\<close>

fun gateway_session ::
  "'b env \<Rightarrow> (int64 \<Rightarrow> int64 \<Rightarrow> string) \<Rightarrow> int64 list \<Rightarrow> gw_round list \<Rightarrow> gw_session \<Rightarrow> (gw_session, unit) outcome" where
  "gateway_session E throughput sets [] s = Blocked s"
| "gateway_session E throughput sets (r # rs) s =
     andThen (menu_round E throughput sets r s) (\<lambda>s leave.
       if leave then Return s () else gateway_session E throughput sets rs s)"

end
