(* ===== verification/Session.thy ===== *)
theory Session
  imports Process GwMenu
begin

text \<open>
  Sessions of the gateway: from its start through the rounds of its menu. What a session has
  sent is read off the script: the sets it was told to execute, in their order, each
  transaction once, numbered without gaps.
\<close>

section \<open>Sets\<close>

text \<open>The requests that were given to a sender of their own, in the order they were started.\<close>

definition started_of :: "gw_effect \<Rightarrow> SignedClientRequest list" where
  "started_of e = (case e of GoSendTransaction r \<Rightarrow> [r] | _ \<Rightarrow> [])"

definition sent :: "Gateway \<Rightarrow> SignedClientRequest list" where
  "sent gw = concat (map started_of (gw_effects gw))"

fun numbered_from :: "int64 \<Rightarrow> Transaction list \<Rightarrow> Transaction list" where
  "numbered_from s [] = []"
| "numbered_from s (t # ts) = numbered s t # numbered_from (s + 1) ts"

lemma length_numbered_from [simp]: "length (numbered_from s ts) = length ts"
  by (induction ts arbitrary: s) simp_all

lemma nth_numbered_from: "i < length ts \<Longrightarrow> numbered_from s ts ! i = numbered (s + int i) (ts ! i)"
  by (induction ts arbitrary: s i) (auto simp: nth_Cons algebra_simps split: nat.splits)

lemma numbered_from_append:
  "numbered_from s (xs @ ys) = numbered_from s xs @ numbered_from (s + int (length xs)) ys"
  by (induction xs arbitrary: s) (simp_all add: algebra_simps)

lemma call_nodes_Return:
  "call_nodes call ns gw = Return gw' () \<Longrightarrow> gw' = gw\<lparr>gw_effects := gw_effects gw @ map call ns\<rparr>"
  by (induction call ns gw rule: call_nodes.induct) (auto simp: gw_emit_def split: if_splits)

lemma call_nodes_known:
  "call_nodes call ns gw =
     (if set ns \<subseteq> set (gRPCClients gw) then Return (gw\<lparr>gw_effects := gw_effects gw @ map call ns\<rparr>) () else Panic)"
  by (induction ns arbitrary: gw) (simp_all add: gw_emit_def)

text \<open>Setting the servers up only calls nodes.\<close>

definition only_calls :: "Gateway \<Rightarrow> Gateway \<Rightarrow> bool" where
  "only_calls gw gw' \<longleftrightarrow> (\<exists>es. concat (map started_of es) = [] \<and> gw' = gw\<lparr>gw_effects := gw_effects gw @ es\<rparr>)"

lemma only_calls_trans: "only_calls gw gw1 \<Longrightarrow> only_calls gw1 gw2 \<Longrightarrow> only_calls gw gw2"
proof -
  assume "only_calls gw gw1" "only_calls gw1 gw2"
  then obtain es es' where "concat (map started_of es) = []" "gw1 = gw\<lparr>gw_effects := gw_effects gw @ es\<rparr>"
    "concat (map started_of es') = []" "gw2 = gw1\<lparr>gw_effects := gw_effects gw1 @ es'\<rparr>"
    unfolding only_calls_def by blast
  then show ?thesis unfolding only_calls_def by (intro exI [of _ "es @ es'"]) simp
qed

lemma only_calls_nodes: "call_nodes call ns gw = Return gw' () \<Longrightarrow> (\<And>i. started_of (call i) = []) \<Longrightarrow> only_calls gw gw'"
  by (auto simp: only_calls_def dest!: call_nodes_Return intro!: exI [of _ "map call ns"])

lemma two_calls:
  assumes "andThen (call_nodes call1 ns1 gw) (\<lambda>gw _. andThen (call_nodes call2 ns2 gw) (\<lambda>gw _. Return gw True)) = Return gw' b"
    and "\<And>i. started_of (call1 i) = []" "\<And>i. started_of (call2 i) = []"
  shows "only_calls gw gw'"
proof -
  obtain gw1 where "call_nodes call1 ns1 gw = Return gw1 ()" "call_nodes call2 ns2 gw1 = Return gw' ()"
    using assms(1) by (auto simp: outcome_simps)
  from only_calls_trans [OF this [THEN only_calls_nodes]] assms(2,3) show ?thesis by blast
qed

lemma setLiveServers_only_calls: "setLiveServers gw live = Return gw' b \<Longrightarrow> only_calls gw gw'"
  unfolding setLiveServers_def Let_def by (erule two_calls) (simp_all add: started_of_def)

lemma setByzantineServers_only_calls: "setByzantineServers gw byz = Return gw' b \<Longrightarrow> only_calls gw gw'"
  unfolding setByzantineServers_def Let_def by (erule two_calls) (simp_all add: started_of_def)

lemma only_calls_keeps:
  assumes "only_calls gw gw'"
  shows "sent gw' = sent gw" "highestSeq gw' = highestSeq gw" "MaxSetNum gw' = MaxSetNum gw"
    "SetTransactionsMap gw' = SetTransactionsMap gw" "MaxExecutedSet gw' = MaxExecutedSet gw"
  using assms by (auto simp: only_calls_def sent_def)

lemma executeTransactions_keeps:
  "MaxSetNum (fst (executeTransactions E clock ts gw)) = MaxSetNum gw \<and>
     SetTransactionsMap (fst (executeTransactions E clock ts gw)) = SetTransactionsMap gw"
  by (induction ts arbitrary: gw) (simp_all add: Let_def gw_emit_def)

lemma executeTransactions_sent:
  assumes "executeTransactions E clock ts gw = (gw', ts')" "in64 (highestSeq gw)"
    and "highestSeq gw + int (length ts) \<le> max64"
  shows "map tx_of (sent gw') = map tx_of (sent gw) @ map Some (numbered_from (highestSeq gw + 1) ts)"
    "highestSeq gw' = highestSeq gw + int (length ts)"
proof -
  note all = executeTransactions_numbered [OF assms]
  have ts': "ts' = numbered_from (highestSeq gw + 1) ts"
    using all by (intro nth_equalityI) (simp_all add: nth_numbered_from)
  have "concat (map started_of (map (\<lambda>t. GoSendTransaction (r t)) us)) = map r us" for r us
    by (induction us) (simp_all add: started_of_def)
  then have "sent gw' = sent gw @ map (\<lambda>t. getSignedClientReq E gw t (clock (t_ClientSeq t))) ts'"
    using all by (simp add: sent_def)
  moreover have "tx_of (getSignedClientReq E gw t c) = Some t" for t c
    by (simp add: getSignedClientReq_def tx_of_def Let_def)
  ultimately show "map tx_of (sent gw') = map tx_of (sent gw) @ map Some (numbered_from (highestSeq gw + 1) ts)"
    by (simp add: ts')
  show "highestSeq gw' = highestSeq gw + int (length ts)" using all by simp
qed

section \<open>Rounds\<close>

text \<open>
  What the goroutines besides \<open>main\<close> leave alone: the script, the numbers given out, and
  the requests started. The reader of replies and the recorder of latencies do.
\<close>

definition same_main :: "Gateway \<Rightarrow> Gateway \<Rightarrow> bool" where
  "same_main gw gw' \<longleftrightarrow> sent gw' = sent gw \<and> highestSeq gw' = highestSeq gw \<and>
     MaxSetNum gw' = MaxSetNum gw \<and> SetTransactionsMap gw' = SetTransactionsMap gw"

definition leaves_main :: "(Gateway \<Rightarrow> Gateway) \<Rightarrow> bool" where
  "leaves_main others \<longleftrightarrow> (\<forall>gw. same_main gw (others gw))"

lemma same_main_refl [simp]: "same_main gw gw"
  by (simp add: same_main_def)

lemma same_main_trans: "same_main gw gw1 \<Longrightarrow> same_main gw1 gw2 \<Longrightarrow> same_main gw gw2"
  by (simp add: same_main_def)

lemma leaves_main_id: "leaves_main (\<lambda>gw. gw)"
  by (simp add: leaves_main_def)

lemma leaves_main_comp: "leaves_main f \<Longrightarrow> leaves_main g \<Longrightarrow> leaves_main (\<lambda>gw. f (g gw))"
  by (simp add: leaves_main_def same_main_def)

lemma leaves_main_storeLatency: "leaves_main (\<lambda>gw. storeLatency gw seq now b)"
  by (simp add: leaves_main_def same_main_def storeLatency_def sent_def split: option.splits)

lemma leaves_main_reads: "leaves_main (reads rs)"
proof -
  have "same_main gw gw'" if "readReplies rs gw = Return gw' ()" for gw gw'
    using that
  proof (induction rs arbitrary: gw)
    case (Cons r rs)
    obtain gw1 where r: "read_reply gw r = Return gw1 ()" and rs: "readReplies rs gw1 = Return gw' ()"
      using Cons.prems by (auto simp: outcome_simps)
    have "same_main gw gw1" using r by (auto simp: read_reply_def Let_def outcome_simps same_main_def sent_def)
    with Cons.IH [OF rs] show ?case by (blast intro: same_main_trans)
  qed simp
  then show ?thesis unfolding leaves_main_def reads_def by (auto split: outcome.split)
qed

text \<open>So does a sender: it emits its own calls and results, and counts replies anew.\<close>

lemma same_main_emit: "started_of e = [] \<Longrightarrow> same_main gw (gw_emit e gw)"
  by (simp add: same_main_def gw_emit_def sent_def)

lemma await_replies_same_main:
  assumes "await_replies es cs ts gw = Return gw' b" "\<And>f now. Look f now \<in> set es \<Longrightarrow> leaves_main f"
  shows "same_main gw gw'"
  using assms
proof (induction es cs ts gw rule: await_replies.induct)
  case (3 others now es cs ts gw)
  have first: "same_main gw (others gw)" using 3(3) [of others now] by (simp add: leaves_main_def)
  have taken: "same_main (others gw) (gw_emit (GoStoreLatency cs now r) (others gw))" for r
    by (rule same_main_emit) (simp add: started_of_def)
  have rest: "same_main (others gw) gw'" if "await_replies es cs ts (others gw) = Return gw' b"
    "\<not> int F + 1 \<le> res_count (others gw) ts True" "\<not> int F + 1 \<le> res_count (others gw) ts False"
    using 3(1) [OF refl that(2,3,1)] 3(3) by auto
  have "same_main (others gw) gw'"
    using 3(2) taken rest by (auto simp: Let_def split: if_splits)
  with first show ?case by (rule same_main_trans)
qed auto

lemma begin_attempt_same_main: "begin_attempt gw req now = Return gw' () \<Longrightarrow> same_main gw gw'"
  by (auto simp: begin_attempt_def outcome_simps Let_def same_main_def sent_def gw_emit_def started_of_def
      split: if_splits)

lemma sendTransaction_same_main:
  assumes "sendTransaction as req gw = Return gw' ()"
    and "\<And>a. a \<in> set as \<Longrightarrow> leaves_main (at_call a)"
    and "\<And>a f now. a \<in> set as \<Longrightarrow> Look f now \<in> set (at_events a) \<Longrightarrow> leaves_main f"
  shows "same_main gw gw'"
  using assms
proof (induction as arbitrary: gw)
  case (Cons a as)
  obtain g1 cs ts g2 retry where g1: "begin_attempt gw req (at_start a) = Return g1 ()"
    and g2: "await_replies (at_events a) cs ts (at_call a g1) = Return g2 retry"
    and rest: "(if retry then sendTransaction as req g2 else Return g2 ()) = Return gw' ()"
    using Cons.prems(1) by (auto simp: outcome_simps)
  have call: "same_main g1 (at_call a g1)" using Cons.prems(2) by (simp add: leaves_main_def)
  have waited: "same_main (at_call a g1) g2"
    by (rule await_replies_same_main [OF g2]) (use Cons.prems(3) in auto)
  have "same_main g2 gw'"
  proof (cases retry)
    case True
    with rest show ?thesis using Cons.prems(2,3) by (intro Cons.IH) auto
  qed (use rest in simp)
  with begin_attempt_same_main [OF g1] call waited show ?case by (blast intro: same_main_trans)
qed simp

text \<open>
  Between rounds: \<open>se_set\<close> is the next set, the sets before it have been sent as the script
  has them, and the sets from it on are still as the script has them.
\<close>

definition script_to :: "(int64 \<Rightarrow> Transaction list) \<Rightarrow> int64 \<Rightarrow> Transaction list" where
  "script_to T k = concat (map T [1..k])"

definition on_script :: "(int64 \<Rightarrow> Transaction list) \<Rightarrow> int64 \<Rightarrow> gw_session \<Rightarrow> bool" where
  "on_script T M s \<longleftrightarrow> (let gw = se_gateway s; k = se_set s - 1 in
     0 \<le> k \<and> k \<le> M \<and> MaxSetNum gw = M \<and> (\<forall>i>k. SetTransactionsMap gw i = T i) \<and>
     highestSeq gw = int (length (script_to T k)) \<and>
     map tx_of (sent gw) = map Some (numbered_from 1 (script_to T k)))"

lemma script_to_next: "0 \<le> k \<Longrightarrow> script_to T (k + 1) = script_to T k @ T (k + 1)"
  by (simp add: script_to_def upto_rec2)

lemma script_to_le: "k \<le> m \<Longrightarrow> length (script_to T k) \<le> length (script_to T m)"
proof (induction m rule: int_ge_induct)
  case (step m)
  then show ?case by (cases "0 \<le> m") (simp_all add: script_to_next, simp add: script_to_def)
qed simp

lemma on_script_others: "on_script T M s \<Longrightarrow> leaves_main f \<Longrightarrow> on_script T M (s\<lparr>se_gateway := f (se_gateway s)\<rparr>)"
  by (simp add: on_script_def leaves_main_def same_main_def Let_def)

lemma menu_execute_on_script:
  assumes "menu_execute E clock (se_set s) (se_gateway s) = Return gw' k'" "on_script T M s" "M < max64"
    and "int (length (script_to T M)) \<le> max64"
  shows "on_script T M \<lparr>se_gateway = gw', se_set = k', se_out = out\<rparr> \<and> k' = min (M + 1) (se_set s + 1)"
proof (cases "se_set s \<le> M")
  case False
  with assms(1,2) show ?thesis by (simp add: menu_execute_def on_script_def Let_def)
next
  case True
  let ?k = "se_set s - 1" and ?g = "se_gateway s"
  note inv = assms(2) [unfolded on_script_def Let_def]
  let ?g0 = "?g\<lparr>currentSet := se_set s, LatencyMap := (LatencyMap ?g)(se_set s \<mapsto> 0)\<rparr>"
  obtain g1 g2 where g1: "only_calls ?g0 g1" and g2: "only_calls g1 g2"
    and ret: "(let (gw, ts) = executeTransactions E clock (SetTransactionsMap g2 (se_set s)) g2
       in Return (gw\<lparr>SetTransactionsMap := (SetTransactionsMap gw)(se_set s := ts), MaxExecutedSet := se_set s\<rparr>)
            (add64 (se_set s) 1)) = Return gw' k'"
    using assms(1) True inv
    by (auto simp: menu_execute_def Let_def outcome_simps dest!: setLiveServers_only_calls setByzantineServers_only_calls)
  have g2_sel: "sent g2 = sent ?g" "highestSeq g2 = highestSeq ?g" "MaxSetNum g2 = M" "SetTransactionsMap g2 = SetTransactionsMap ?g"
    using only_calls_keeps [OF only_calls_trans [OF g1 g2]] inv by (simp_all add: sent_def)
  obtain g3 ts where g3: "executeTransactions E clock (T (se_set s)) g2 = (g3, ts)"
    "gw' = g3\<lparr>SetTransactionsMap := (SetTransactionsMap g3)(se_set s := ts), MaxExecutedSet := se_set s\<rparr>"
    "k' = add64 (se_set s) 1"
    using ret inv g2_sel(4) by (simp add: split_beta) (metis prod.collapse)
  have next_set: "script_to T (se_set s) = script_to T ?k @ T (se_set s)"
    using script_to_next [of ?k T] inv by simp
  have room: "in64 (highestSeq g2)" "highestSeq g2 + int (length (T (se_set s))) \<le> max64"
    using inv g2_sel(2) next_set script_to_le [OF True, of T] assms(4) by (simp_all add: in64_def min64_def max64_def)
  have k': "k' = se_set s + 1" using g3(3) True assms(3) inv by (simp add: add64_in in64_def min64_def)
  note new = executeTransactions_sent [OF g3(1) room]
  have kept: "MaxSetNum g3 = M" "SetTransactionsMap g3 = SetTransactionsMap ?g"
    using executeTransactions_keeps [of E clock "T (se_set s)" g2] g3(1) g2_sel by simp_all
  have "map tx_of (sent gw') = map Some (numbered_from 1 (script_to T (se_set s)))"
    using new(1) inv g2_sel(1,2) by (simp add: g3(2) sent_def next_set numbered_from_append add.commute)
  then show ?thesis
    using new(2) inv g2_sel(2) True kept by (simp add: on_script_def k' g3(2) next_set)
qed

lemma call_nodes_not_Blocked: "call_nodes call ns gw \<noteq> Blocked g"
  by (induction call ns gw rule: call_nodes.induct) auto

lemma menu_execute_not_Blocked: "menu_execute E clock k gw \<noteq> Blocked g"
  by (auto simp: menu_execute_def setLiveServers_def setByzantineServers_def Let_def outcome_simps
      call_nodes_not_Blocked split_beta)

lemma menu_round_on_script:
  assumes "menu_round E throughput sets r s = Return s' leave" "on_script T M s" "leaves_main (ro_others r)"
    and "M < max64" "int (length (script_to T M)) \<le> max64"
  shows "on_script T M s' \<and> leave = (ro_input r = ''0'') \<and>
     se_set s' = min (M + 1) (se_set s + (if ro_input r = ''1'' then 1 else 0))"
proof -
  let ?s = "s\<lparr>se_gateway := ro_others r (se_gateway s)\<rparr>"
  have inv: "on_script T M ?s" by (rule on_script_others [OF assms(2,3)])
  show ?thesis
  proof (cases "ro_input r = ''1''")
    case True
    then obtain gw' k' where x: "menu_execute E (ro_clock r) (se_set ?s) (se_gateway ?s) = Return gw' k'"
      using assms(1) by (auto simp: menu_round_def Let_def split: outcome.splits)
    with assms(1) True obtain out where s': "s' = \<lparr>se_gateway = gw', se_set = k', se_out = out\<rparr>" "\<not> leave"
      by (simp add: menu_round_def Let_def) blast
    with menu_execute_on_script [OF x inv assms(4,5), of out] True show ?thesis by (auto simp: s')
  next
    case False
    with assms(1) obtain out where "s' = \<lparr>se_gateway = se_gateway ?s, se_set = se_set s, se_out = out\<rparr>"
      "leave = (ro_input r = ''0'')"
      by (auto simp: menu_round_def Let_def outcome_simps split: if_splits)
    with inv False show ?thesis by (simp add: on_script_def Let_def)
  qed
qed

text \<open>How many sets a session asks for before it is told to end.\<close>

definition sets_asked :: "gw_round list \<Rightarrow> int64" where
  "sets_asked rs = int (length (filter (\<lambda>r. ro_input r = ''1'') (takeWhile (\<lambda>r. ro_input r \<noteq> ''0'') rs)))"

lemma sets_asked_nonneg: "0 \<le> sets_asked rs"
  by (simp add: sets_asked_def)

lemma sets_asked_Cons:
  "sets_asked (r # rs) = (if ro_input r = ''0'' then 0 else (if ro_input r = ''1'' then 1 else 0) + sets_asked rs)"
  by (simp add: sets_asked_def)

lemma session_on_script:
  assumes "state_after (gateway_session E throughput sets rs s) = Some s'" "on_script T M s"
    and "\<And>r. r \<in> set rs \<Longrightarrow> leaves_main (ro_others r)" "M < max64" "int (length (script_to T M)) \<le> max64"
  shows "on_script T M s' \<and> se_set s' = min (M + 1) (se_set s + sets_asked rs)"
  using assms(1-3)
proof (induction rs arbitrary: s)
  case Nil
  then show ?case by (simp add: sets_asked_def on_script_def Let_def)
next
  case (Cons r rs)
  have "menu_round E throughput sets r s \<noteq> Blocked s1" for s1
    by (auto simp: menu_round_def Let_def menu_execute_not_Blocked outcome_simps split: outcome.splits)
  with Cons.prems(1) obtain s1 leave where r: "menu_round E throughput sets r s = Return s1 leave"
    and rest: "state_after (if leave then Return s1 () else gateway_session E throughput sets rs s1) = Some s'"
    by (cases "menu_round E throughput sets r s") auto
  have s1: "on_script T M s1" "leave = (ro_input r = ''0'')"
    "se_set s1 = min (M + 1) (se_set s + (if ro_input r = ''1'' then 1 else 0))"
    using menu_round_on_script [OF r Cons.prems(2) _ assms(4,5)] Cons.prems(3) by simp_all
  show ?case
  proof (cases leave)
    case True
    with rest s1 show ?thesis by (simp add: sets_asked_Cons)
  next
    case False
    then have "on_script T M s' \<and> se_set s' = min (M + 1) (se_set s1 + sets_asked rs)"
      using Cons.IH [of s1] rest s1(1) Cons.prems(3) by simp
    with s1 False sets_asked_nonneg [of rs] show ?thesis by (auto simp: sets_asked_Cons min_def)
  qed
qed

section \<open>From the script to the cluster\<close>

text \<open>The transactions of the rows of sets 1 to k, in the order of the rows.\<close>

definition rows_to :: "int64 list \<Rightarrow> Transaction list \<Rightarrow> int64 \<Rightarrow> Transaction list" where
  "rows_to ks ts k = map snd (filter (\<lambda>(s, t). 1 \<le> s \<and> s \<le> k) (zip ks ts))"

lemma filter_sorted_split:
  fixes k :: int
  assumes "sorted (map fst zs)"
  shows "filter (\<lambda>(s, t). P s \<and> s \<le> k) zs @ filter (\<lambda>(s, t). P (k + 1) \<and> s = k + 1) zs =
    filter (\<lambda>(s, t). P s \<and> s \<le> k + 1) zs"
  using assms
proof (induction zs)
  case (Cons z zs)
  obtain s t where z: "z = (s, t)" by (cases z)
  show ?case
  proof (cases "s \<le> k")
    case True
    with Cons show ?thesis by (simp add: z)
  next
    case False
    have later: "\<And>z. z \<in> set zs \<Longrightarrow> \<not> fst z \<le> k" using Cons.prems False by (fastforce simp: z)
    then have "filter (\<lambda>(s, t). P s \<and> s \<le> k) zs = []" by (auto simp: filter_empty_conv)
    moreover have "filter (\<lambda>(s, t). P s \<and> s \<le> k + 1) zs = filter (\<lambda>(s, t). P (k + 1) \<and> s = k + 1) zs"
    proof (rule filter_cong [OF refl], clarsimp)
      fix s t
      assume "(s, t) \<in> set zs"
      then have "s \<le> k + 1 \<longleftrightarrow> s = k + 1" using later [of "(s, t)"] by auto
      then show "(P s \<and> s \<le> k + 1) = (P (k + 1) \<and> s = k + 1)" by auto
    qed
    moreover have "s \<le> k + 1 \<longleftrightarrow> s = k + 1" using False by auto
    ultimately show ?thesis using False by (auto simp: z)
  qed
qed simp

lemma rows_to_sets:
  assumes "sorted ks" "length ks = length ts" "0 \<le> k"
  shows "script_to (rows_of_set ks ts) k = rows_to ks ts k"
  using assms(3)
proof (induction k rule: int_ge_induct)
  case base
  have "filter (\<lambda>(s, t). 1 \<le> s \<and> s \<le> (0::int)) (zip ks ts) = []" by (auto simp: filter_empty_conv)
  then show ?case by (simp add: script_to_def rows_to_def)
next
  case (step k)
  have "sorted (map fst (zip ks ts))" using assms(1,2) by simp
  from filter_sorted_split [OF this, of "\<lambda>s. 1 \<le> s" k] step show ?case
    by (simp add: script_to_next rows_to_def rows_of_set_def flip: map_append)
qed

lemma gateway_main_script:
  assumes "gateway_main C config (Some rows) free made writable generated files nil = Some (gw, files')"
  shows "\<exists>ts. map row_transaction rows = map Some ts \<and> MaxSetNum gw = last (0 # running_sets 0 rows) \<and>
     SetTransactionsMap gw = rows_of_set (running_sets 0 rows) ts \<and> highestSeq gw = 0 \<and> gw_effects gw = []"
proof -
  obtain clusters g where g: "readCsv rows (gateway_readJson clusters (new_gateway nil)) = Return g ()"
    and gw: "MaxSetNum gw = MaxSetNum g" "SetTransactionsMap gw = SetTransactionsMap g" "highestSeq gw = highestSeq g"
      "gw_effects gw = gw_effects g"
    using assms
    by (auto simp: gateway_main_def gateway_initKeys_def gateway_establishConns_def
        split: option.splits outcome.splits if_splits prod.splits)
  let ?g0 = "gateway_readJson clusters (new_gateway nil)"
  obtain c where c: "read_rows (ClusterNodeMap ?g0) rows no_csv = Some c"
    and sel: "SetTransactionsMap g = cv_transactions c" "MaxSetNum g = cv_max c" "highestSeq g = 0" "gw_effects g = []"
    using g by (auto simp: readCsv_def gateway_readJson_def new_gateway_def split: option.splits)
  have "in64 (cv_count no_csv s)" for s by (simp add: no_csv_def in64_def min64_def max64_def)
  from read_rows_result [OF c this] show ?thesis by (auto simp: gw sel no_csv_def fun_eq_iff)
qed

text \<open>
  C38. The gateway sends the script: in every session that starts from the program's own start
  and does not panic, whatever is typed and whatever the other goroutines do besides starting
  requests, the requests started are those of the rows of sets 1 to k in the order of the
  rows, numbered 1, 2, 3, ... without gaps, each once, where k is the number of times option
  1 was taken before the end, at most the number of sets; the next set is k + 1.
\<close>

theorem session_sends_script:
  assumes "gateway_main C config (Some rows) free made writable generated files nil = Some (gw, files')"
    and "state_after (gateway_session E throughput sets rs \<lparr>se_gateway = gw, se_set = 1, se_out = []\<rparr>) = Some s'"
    and "\<And>r. r \<in> set rs \<Longrightarrow> leaves_main (ro_others r)"
    and "MaxSetNum gw < max64" "int (length rows) \<le> max64"
    and "k = min (MaxSetNum gw) (sets_asked rs)"
  shows "\<exists>ts. map row_transaction rows = map Some ts \<and>
     map tx_of (sent (se_gateway s')) = map Some (numbered_from 1 (rows_to (running_sets 0 rows) ts k)) \<and>
     highestSeq (se_gateway s') = int (length (rows_to (running_sets 0 rows) ts k)) \<and> se_set s' = k + 1"
proof -
  let ?ks = "running_sets 0 rows" and ?M = "MaxSetNum gw"
  obtain ts where ts: "map row_transaction rows = map Some ts"
    and gw: "?M = last (0 # ?ks)" "SetTransactionsMap gw = rows_of_set ?ks ts" "highestSeq gw = 0" "gw_effects gw = []"
    using gateway_main_script [OF assms(1)] by blast
  have len: "length ts = length rows" using arg_cong [OF ts, of length] by simp
  have sorted: "sorted (0 # ?ks)" by (rule running_sets_sorted)
  have M: "0 \<le> ?M" using sorted by (auto simp: gw(1))
  have sets: "script_to (rows_of_set ?ks ts) j = rows_to ?ks ts j" if "0 \<le> j" for j
    using rows_to_sets [of ?ks ts j] sorted that by (simp add: len)
  have "length (rows_to ?ks ts ?M) \<le> length rows"
    using length_filter_le [of "\<lambda>(s, t). 1 \<le> s \<and> s \<le> ?M" "zip ?ks ts"] by (simp add: rows_to_def len)
  then have room: "int (length (script_to (rows_of_set ?ks ts) ?M)) \<le> max64"
    using assms(5) by (simp add: sets [OF M] len)
  have "on_script (rows_of_set ?ks ts) ?M \<lparr>se_gateway = gw, se_set = 1, se_out = []\<rparr>"
    using M by (simp add: on_script_def gw(2-4) sent_def script_to_def)
  from session_on_script [OF assms(2) this assms(3,4) room]
  have "on_script (rows_of_set ?ks ts) ?M s'" "se_set s' = k + 1" by (auto simp: assms(6))
  moreover have "0 \<le> k" using M sets_asked_nonneg [of rs] by (simp add: assms(6))
  ultimately show ?thesis using ts by (auto simp: on_script_def Let_def sets)
qed

text \<open>The program's own start: a client for every node of the configuration.\<close>

lemma establishConns_clients: "set (gRPCClients (gateway_establishConns gw)) = set (all_nodes gw)"
  by (simp add: gateway_establishConns_def all_nodes_def)

lemma set_runs:
  assumes "set (all_nodes gw) \<subseteq> set (gRPCClients gw)" "k \<le> MaxSetNum gw"
    and "\<And>x. x \<in> set (ByzantineServersMap gw k) \<Longrightarrow> x \<noteq> [] \<Longrightarrow> x \<in> set (gRPCClients gw)"
  shows "\<exists>gw'. menu_execute E clock k gw = Return gw' (add64 k 1)"
proof -
  let ?g0 = "gw\<lparr>currentSet := k, LatencyMap := (LatencyMap gw)(k \<mapsto> 0)\<rparr>"
  have live: "\<exists>es. setLiveServers ?g0 ns = Return (?g0\<lparr>gw_effects := es\<rparr>) True" for ns
  proof -
    have "set (filter P (all_nodes ?g0)) \<subseteq> set (gRPCClients ?g0)" for P using assms(1) by (auto simp: all_nodes_def)
    then show ?thesis by (auto simp: setLiveServers_def call_nodes_known)
  qed
  have byz: "\<exists>g2. setByzantineServers (?g0\<lparr>gw_effects := es\<rparr>) (ByzantineServersMap gw k) = Return g2 True" for es
  proof -
    have "set (filter P (all_nodes (?g0\<lparr>gw_effects := es\<rparr>))) \<subseteq> set (gRPCClients ?g0)" for P
      using assms(1) by (auto simp: all_nodes_def)
    moreover have "set (filter (\<lambda>i. i \<noteq> []) (ByzantineServersMap gw k)) \<subseteq> set (gRPCClients ?g0)"
      using assms(3) by auto
    ultimately show ?thesis by (simp add: setByzantineServers_def call_nodes_known)
  qed
  obtain es where es: "setLiveServers ?g0 (LiveServersMap gw k) = Return (?g0\<lparr>gw_effects := es\<rparr>) True" using live by blast
  obtain g2 where g2: "setByzantineServers (?g0\<lparr>gw_effects := es\<rparr>) (ByzantineServersMap gw k) = Return g2 True" using byz by blast
  show ?thesis using assms(2) by (simp add: menu_execute_def Let_def es g2 split_beta)
qed

text \<open>
  C40. A name the configuration does not have in a set's list of Byzantine servers ends the
  gateway when the set is executed, and nothing else does: with a client for every node of
  the configuration, option 1 panics exactly then, and otherwise goes on to the next set.
  (An unknown name among the live servers is ignored.)
\<close>

theorem unknown_server_ends_gateway:
  assumes "set (all_nodes gw) \<subseteq> set (gRPCClients gw)" "k \<le> MaxSetNum gw"
  shows "if \<exists>x\<in>set (ByzantineServersMap gw k). x \<noteq> [] \<and> x \<notin> set (gRPCClients gw)
     then menu_execute E clock k gw = Panic
     else \<exists>gw'. menu_execute E clock k gw = Return gw' (add64 k 1)"
proof (cases "\<exists>x\<in>set (ByzantineServersMap gw k). x \<noteq> [] \<and> x \<notin> set (gRPCClients gw)")
  case False
  then have "\<exists>gw'. menu_execute E clock k gw = Return gw' (add64 k 1)" by (intro set_runs [OF assms]) blast
  then show ?thesis by (simp only: False if_False)
next
  case True
  then have "\<not> set (filter (\<lambda>i. i \<noteq> []) (ByzantineServersMap gw k)) \<subseteq> set (gRPCClients gw)" by auto
  then have "setByzantineServers (gw\<lparr>currentSet := k, LatencyMap := l, gw_effects := es\<rparr>) (ByzantineServersMap gw k) = Panic" for l es
    by (simp add: setByzantineServers_def Let_def call_nodes_known)
  then have "menu_execute E clock k gw = Panic"
    using assms(2) by (simp add: menu_execute_def Let_def setLiveServers_def call_nodes_known)
  then show ?thesis by (simp only: True if_True)
qed

section \<open>An example session\<close>

definition demo_round :: "string \<Rightarrow> gw_round" where
  "demo_round input = \<lparr>ro_others = reads [], ro_input = input, ro_client = ''1'', ro_clock = (\<lambda>seq. 100 * seq),
     ro_balance = (\<lambda>_. Inr 10), ro_datastore = (\<lambda>_. Inr [])\<rparr>"

abbreviation demo_start :: "string list list \<Rightarrow> (Gateway \<times> (string \<rightharpoonup> bytes)) option" where
  "demo_start rows \<equiv> gateway_main demo_codec (Some demo_clusters) (Some rows) True True (\<lambda>_. True) (Some (demo_key 0)) Map.empty (demo_key 0)"

lemma demo_start:
  "\<exists>gw files. demo_start demo_rows = Some (gw, files) \<and> ByzantineServersMap gw 1 = [''S5''] \<and> MaxSetNum gw = 1 \<and>
     gRPCClients gw = [''S1'', ''S2'', ''S3'', ''S4'', ''S5''] \<and> set (all_nodes gw) = set (gRPCClients gw)"
proof -
  let ?g = "gateway_readJson demo_clusters (new_gateway (demo_key 0))"
  obtain c where c: "read_rows (ClusterNodeMap ?g) demo_rows no_csv = Some c" "cv_byzantine c 1 = [''S5'']"
    using demo_script by blast
  have "cv_max c = 1" using read_rows_result [OF c(1)] by (auto simp: demo_rows_sets no_csv_def in64_def min64_def max64_def)
  then show ?thesis using c
    by (simp add: gateway_main_def readCsv_def gateway_initKeys_def GenerateRSAKeys_def gateway_establishConns_def all_nodes_def)
      (simp add: gateway_readJson_def demo_clusters_def)
qed

abbreviation demo_input :: "gw_round list" where
  "demo_input \<equiv> [demo_round ''1'', demo_round ''9'', demo_round ''0'']"

lemma demo_session:
  assumes "demo_start demo_rows = Some (gw, files)"
  shows "\<exists>s'. gateway_session demo_env throughput [] demo_input \<lparr>se_gateway = gw, se_set = 1, se_out = []\<rparr> = Return s' ()"
proof -
  have gw: "ByzantineServersMap gw 1 = [''S5'']" "MaxSetNum gw = 1" "''S5'' \<in> set (gRPCClients gw)"
    "set (all_nodes gw) = set (gRPCClients gw)"
    using demo_start assms by auto
  obtain g1 where "menu_execute demo_env (\<lambda>seq. 100 * seq) 1 gw = Return g1 (add64 1 1)"
    using set_runs [of gw 1 demo_env "\<lambda>seq. 100 * seq"] gw by auto
  moreover have "reads [] g = g" for g by (simp add: reads_def)
  ultimately show ?thesis by (simp add: menu_round_def Let_def demo_round_def menu_report_def)
qed

theorem session_sends_script_witness:
  "\<exists>gw files s' t1 t2. demo_start demo_rows = Some (gw, files) \<and>
     gateway_session demo_env (\<lambda>_ _. []) [] demo_input \<lparr>se_gateway = gw, se_set = 1, se_out = []\<rparr> = Return s' () \<and>
     map row_transaction demo_rows = [Some t1, Some t2] \<and>
     map tx_of (sent (se_gateway s')) = [Some (numbered 1 t1), Some (numbered 2 t2)] \<and> se_set s' = 2"
proof -
  obtain gw files where start: "demo_start demo_rows = Some (gw, files)" and M: "MaxSetNum gw = 1"
    using demo_start by blast
  obtain s' where s': "gateway_session demo_env (\<lambda>_ _. []) [] demo_input \<lparr>se_gateway = gw, se_set = 1, se_out = []\<rparr> = Return s' ()"
    using demo_session [OF start] by blast
  have returned: "state_after (gateway_session demo_env (\<lambda>_ _. []) [] demo_input \<lparr>se_gateway = gw, se_set = 1, se_out = []\<rparr>) = Some s'"
    by (simp only: s' state_after.simps)
  have rely: "leaves_main (ro_others r)" if "r \<in> set demo_input" for r
    using that leaves_main_reads by (auto simp: demo_round_def)
  have one: "1 = min (MaxSetNum gw) (sets_asked demo_input)"
    by (simp add: M sets_asked_def demo_round_def)
  have room: "MaxSetNum gw < max64" "int (length demo_rows) \<le> max64" by (simp_all add: M max64_def demo_rows_def)
  obtain ts where ts: "map row_transaction demo_rows = map Some ts"
    and all: "map tx_of (sent (se_gateway s')) = map Some (numbered_from 1 (rows_to (running_sets 0 demo_rows) ts 1))" "se_set s' = 2"
    using session_sends_script [OF start returned rely room one] by auto
  from ts obtain t u where "ts = [t, u]"
    by (subst (asm) demo_rows_split) (auto simp: Cons_eq_map_conv)
  with ts all start s' show ?thesis by (auto simp: demo_rows_sets rows_to_def)
qed

theorem unknown_server_ends_gateway_witness:
  "\<exists>gw files gw'. demo_start demo_rows = Some (gw, files) \<and>
     menu_execute demo_env (\<lambda>seq. 100 * seq) 1 gw = Return gw' (add64 1 1) \<and>
     menu_execute demo_env (\<lambda>seq. 100 * seq) 1 (gw\<lparr>ByzantineServersMap := (\<lambda>_. [''S9''])\<rparr>) = Panic"
proof -
  obtain gw files where gw: "demo_start demo_rows = Some (gw, files)" "ByzantineServersMap gw 1 = [''S5'']" "MaxSetNum gw = 1"
    "gRPCClients gw = [''S1'', ''S2'', ''S3'', ''S4'', ''S5'']" "set (all_nodes gw) = set (gRPCClients gw)"
    using demo_start by blast
  let ?bad = "gw\<lparr>ByzantineServersMap := (\<lambda>_. [''S9''])\<rparr>"
  have "all_nodes ?bad = all_nodes gw" by (simp add: all_nodes_def)
  with gw have "menu_execute demo_env (\<lambda>seq. 100 * seq) 1 ?bad = Panic"
    using unknown_server_ends_gateway [of ?bad 1 demo_env "\<lambda>seq. 100 * seq"] by simp
  moreover have "\<exists>gw'. menu_execute demo_env (\<lambda>seq. 100 * seq) 1 gw = Return gw' (add64 1 1)"
    using unknown_server_ends_gateway [of gw 1 demo_env "\<lambda>seq. 100 * seq"] gw(2-5) by simp
  ultimately show ?thesis using gw(1) by blast
qed

end
