(* ===== verification/Leaks.thy ===== *)
theory Leaks
  imports Runs Acceptance
begin

text \<open>
  A request the gateway sends again, after its entry has been executed: the run takes the locks
  of its clients, commits the entry under its old number, and leaves the locks to an executor
  that is past it and does not give them back. Until somebody else releases them, as a failing
  run or a call of PCCommit does, every later transfer of these clients waits.
\<close>

section \<open>What a run leaves alone\<close>

text \<open>Locks held, and an executor that waits at a number that has no entry.\<close>

definition stuck :: "'b env \<Rightarrow> string set \<Rightarrow> int64 \<Rightarrow> 'b Node \<Rightarrow> bool" where
  "stuck E cs s n \<longleftrightarrow> cs \<subseteq> held E (DB n) \<and> ExecutorSeq n = s \<and> Datastore n s = None"

lemma stuck_cong:
  "locksBucket (DB n') = locksBucket (DB n) \<Longrightarrow> ExecutorSeq n' = ExecutorSeq n \<Longrightarrow> Datastore n' s = Datastore n s \<Longrightarrow>
     stuck E cs s n' = stuck E cs s n"
  by (simp add: stuck_def held_cong [of "DB n'" "DB n"])

text \<open>
  What the other goroutines do while the run waits: they may run anything, but neither move
  the executor nor commit further entries, and keep the saved pre-prepares; once the run
  has its locks, they release none.
\<close>

definition no_progress :: "('b Node \<Rightarrow> 'b Node) \<Rightarrow> bool" where
  "no_progress f \<longleftrightarrow> (\<forall>n. ExecutorSeq (f n) = ExecutorSeq n \<and> Datastore (f n) = Datastore n \<and> PrePrepares (f n) = PrePrepares n)"

definition no_release :: "'b env \<Rightarrow> ('b Node \<Rightarrow> 'b Node) \<Rightarrow> bool" where
  "no_release E f \<longleftrightarrow> (\<forall>n. held E (DB n) \<subseteq> held E (DB (f n)))"

lemma lock_loop_no_progress:
  assumes "lock_loop E cs byz rely n = Return n' ()" "\<And>f. f \<in> set rely \<Longrightarrow> no_progress f"
  shows "ExecutorSeq n' = ExecutorSeq n \<and> Datastore n' = Datastore n \<and> PrePrepares n' = PrePrepares n"
  using assms
proof (induction rely arbitrary: n)
  case Nil
  then show ?case by (subst (asm) lock_loop.simps) (auto simp: CheckAndGetLocks_cases split: if_splits)
next
  case (Cons f rely)
  from Cons.prems(1) consider "n' = n\<lparr>DB := if byz n then DB n else GetLocksDB E (DB n) cs\<rparr>"
    | "lock_loop E cs byz rely (f n) = Return n' ()"
    by (subst (asm) lock_loop.simps) (auto simp: CheckAndGetLocks_cases split: if_splits)
  then show ?case
  proof cases
    case 2
    have "no_progress f" using Cons.prems(2) by simp
    with Cons.IH [OF 2] Cons.prems(2) show ?thesis by (simp add: no_progress_def)
  qed simp
qed

lemma secure_locks_stuck:
  assumes "bolt_ok E" "tx_of r = Some t" "secure_locks E rely n r = Return m None"
    and "\<And>f. f \<in> set rely \<Longrightarrow> no_progress f" "Datastore n (ExecutorSeq n) = None"
  shows "stuck E {c \<in> {t_From t, t_To t}. valid_key c} (ExecutorSeq n) m \<and> PrePrepares m = PrePrepares n"
proof -
  have l: "lock_loop E (tx_clients t) (\<lambda>_. False) rely n = Return m ()"
    using assms(3) by (auto simp: secure_locks_def outcome_simps assms(2) split: if_splits sum.splits)
  have "{c \<in> {t_From t, t_To t}. valid_key c} \<subseteq> held E (DB m)"
    using lock_loop_takes [OF assms(1) l] by (auto simp: tx_clients_def)
  with lock_loop_no_progress [OF l assms(4)] assms(5) show ?thesis by (simp add: stuck_def)
qed

lemma assign_seq_old:
  "assign_seq E m r i status d = Return m' (req, pp) \<Longrightarrow> i \<noteq> 0 \<Longrightarrow>
     m' = m \<and> PrePrepares m i = Some req \<and> ppr_PrePrepare req = Some pp"
  by (auto simp: assign_seq_def outcome_simps)

lemma announce_stuck: "announce m r req pp = Return m' () \<Longrightarrow> stuck E cs s m' = stuck E cs s m"
  by (rule stuck_cong)
    (auto simp: announce_def Let_def outcome_simps logClientRequest_def put_request_def writeLog_def savePrePrepare_def emits_def)

lemma others_stuck:
  assumes "no_progress f" "no_release E f" "stuck E cs s m"
  shows "stuck E cs s (f m)"
proof -
  have "held E (DB m) \<subseteq> held E (DB (f m))" using assms(2) by (simp add: no_release_def)
  with assms(1,3) show ?thesis by (auto simp: stuck_def no_progress_def)
qed

lemma collectPrepares_stuck:
  assumes "collectPrepares f events m i = Return m' e" "no_progress f" "no_release E f" "stuck E cs s m"
  shows "stuck E cs s m'"
proof -
  have "stuck E cs s m' = stuck E cs s (f m)"
    using assms(1) by (intro stuck_cong) (auto simp: collectPrepares_def Let_def split: option.splits)
  with others_stuck [OF assms(2-4)] show ?thesis by simp
qed

lemma validatePrepares_stuck: "validatePrepares E m i certs = Return m' b \<Longrightarrow> stuck E cs s m' = stuck E cs s m"
  by (rule stuck_cong) (auto simp: validatePrepares_cases prepared_state_def Let_def updateLog_def split: if_splits option.splits)

lemma committed_state_stuck:
  "i \<noteq> s \<Longrightarrow> stuck E cs s (committed_state E m i certs status k t) = stuck E cs s m"
  by (rule stuck_cong)
    (auto simp: committed_state_def Let_def commit_entry_def saveTransactionToDatastore_def emit_def updateLog_def
      AppendToWALEntry_def split: option.splits)

lemma collectCommits_stuck:
  assumes "collectCommits E f events m i status k t = Return m' True" "no_progress f" "no_release E f" "stuck E cs s m" "i \<noteq> s"
  shows "stuck E cs s m'"
proof -
  obtain certs where v: "validateCommits E ((f m)\<lparr>CommitCerts := (CommitCerts (f m))(i := certs)\<rparr>) i certs status k t = Return m' True"
    using assms(1) by (auto simp: collectCommits_def Let_def split: option.splits)
  have "stuck E cs s (f m)" by (rule others_stuck [OF assms(2-4)])
  then have "stuck E cs s ((f m)\<lparr>CommitCerts := (CommitCerts (f m))(i := certs)\<rparr>)" by (simp add: stuck_def)
  with committed_state_stuck [OF assms(5)] show ?thesis unfolding validateCommits_True(2) [OF v] by blast
qed

section \<open>The run\<close>

lemma resent_run_stuck:
  assumes "bolt_ok E" "tx_of r = Some t" "runPBFT E io n r i [] = Return n' (req, None)" "i \<noteq> 0"
    and others: "\<And>f. f \<in> set (lock_rely io) \<Longrightarrow> no_progress f" "no_progress (prepare_rely io)" "no_release E (prepare_rely io)"
      "no_progress (commit_rely io)" "no_release E (commit_rely io)"
    and "Datastore n (ExecutorSeq n) = None"
    and old: "\<And>q p. PrePrepares n i = Some q \<Longrightarrow> ppr_PrePrepare q = Some p \<Longrightarrow> pp_Sequence p \<noteq> ExecutorSeq n"
  shows "stuck E {c \<in> {t_From t, t_To t}. valid_key c} (ExecutorSeq n) n'"
proof -
  let ?cs = "{c \<in> {t_From t, t_To t}. valid_key c}" and ?s = "ExecutorSeq n"
  obtain d m1 m2 q pp m3 m4 e m5 where secured: "secure_locks E (lock_rely io) n r = Return m1 None"
    and assigned: "assign_seq E m1 r i [] d = Return m2 (q, pp)"
    and announced: "announce m2 r q pp = Return m3 ()"
    and collected: "collectPrepares (prepare_rely io) (prepare_events io) m3 (pp_Sequence pp) = Return m4 e"
    and prepared: "validatePrepares E m4 (pp_Sequence pp) (PrepareCerts m4 (pp_Sequence pp)) = Return m5 True"
    and committed: "collectCommits E (commit_rely io) (commit_events io) (emit (GoSendCommitToSelf (pp_Sequence pp)) m5)
        (pp_Sequence pp) [] (t_ClientSeq t) (Some t) = Return n' True"
    using assms(3) by (auto simp: runPBFT_def give_up_def with_tx_eq assms(2) outcome_simps split: option.splits if_splits)
  note m1 = secure_locks_stuck [OF assms(1,2) secured others(1) assms(10)]
  note m2 = assign_seq_old [OF assigned assms(4)]
  have seq: "pp_Sequence pp \<noteq> ?s" using old m1 m2 by auto
  have "stuck E ?cs ?s m2" using m1 m2 by blast
  then have "stuck E ?cs ?s m3" by (simp only: announce_stuck [OF announced])
  then have "stuck E ?cs ?s m4" by (rule collectPrepares_stuck [OF collected others(2,3)])
  then have "stuck E ?cs ?s m5" by (simp only: validatePrepares_stuck [OF prepared])
  then have "stuck E ?cs ?s (emit (GoSendCommitToSelf (pp_Sequence pp)) m5)" by (simp add: stuck_def emit_def)
  then show ?thesis by (rule collectCommits_stuck [OF committed others(4,5) _ seq])
qed

lemma stuck_executor: "stuck E cs s n \<Longrightarrow> executor_rounds E k n = Return n ()"
  by (induction k) (simp_all add: stuck_def executor_round_def GetDatastoreLog_def)

lemma stuck_blocks:
  assumes "stuck E cs s n" "tx_of r = Some t" "{t_From t, t_To t} \<inter> cs \<noteq> {}" "\<And>f. f \<in> set rely \<Longrightarrow> no_release E f"
  shows "\<exists>m. secure_locks E rely n r = Blocked m"
proof -
  obtain c where c: "c \<in> set (tx_clients t)" "c \<in> held E (DB n)"
    using assms(1,3) by (auto simp: stuck_def tx_clients_def)
  have "\<exists>m. lock_loop E (tx_clients t) (\<lambda>_. False) rely n = Blocked m \<and> c \<in> held E (DB m)"
    by (rule lock_loop_waits [OF c]) (use assms(4) in \<open>auto simp: no_release_def\<close>)
  then show ?thesis by (auto simp: secure_locks_def with_tx_eq assms(2))
qed

text \<open>
  C30. A request that is sent again leaves its clients locked, for as long as nobody but the
  executor releases them. At the leader, which has executed the entry of the request and waits
  for a number that is not committed yet, the client's request (within the shard) arrives
  again, and its run succeeds; while it waits, the other goroutines neither commit nor execute
  anything further (\<open>no_progress\<close>) and, once it has its locks, release none (\<open>no_release\<close>).
  Then the handler returns with the valid names of both clients locked, the executor, past the
  number, does nothing in any number of rounds, and a later transfer of one of them never gets
  its locks while the others release none.
\<close>

theorem resent_request_keeps_locks:
  assumes "bolt_ok E" "node_wf E n" "Live n" "\<not> ViewChanging n" "getViewLeader n = Some (node_Id n)"
    and "PublicKeyMap n ''client'' = Some pk"
    and "verified E pk (top_fields wire_ClientRequest (scr_ClientRequest r)) (scr_Signature r)"
    and "tx_of r = Some t" "seconds_of r = Some ts" "t_ClusterFrom t = t_ClusterTo t"
    and "RequestLog n ts = Some rd" "rd_Seq rd \<noteq> 0" "rd_Seq rd < ExecutorSeq n" "Datastore n (ExecutorSeq n) = None"
    and run: "runPBFT E (prepare_run io) (emit GoTimerStartIfNotRunning n) r (rd_Seq rd) [] = Return n' (req, None)"
    and others: "\<And>f. f \<in> set (lock_rely (prepare_run io)) \<Longrightarrow> no_progress f"
      "\<And>f. f \<in> {prepare_rely (prepare_run io), commit_rely (prepare_run io)} \<Longrightarrow> no_progress f \<and> no_release E f"
  shows "rpc_ExecuteTransaction E io n r = Return n' None \<and>
     {c \<in> {t_From t, t_To t}. valid_key c} \<subseteq> held E (DB n') \<and>
     (\<forall>k. executor_rounds E k n' = Return n' ()) \<and>
     (\<forall>r' t' rely. tx_of r' = Some t' \<and> (\<exists>c\<in>{t_From t', t_To t'}. c \<in> {t_From t, t_To t} \<and> valid_key c) \<and>
        (\<forall>f\<in>set rely. no_release E f) \<longrightarrow> (\<exists>m. secure_locks E rely n' r' = Blocked m))"
proof -
  let ?n = "emit GoTimerStartIfNotRunning n"
  have sel: "ExecutorSeq ?n = ExecutorSeq n" "Datastore ?n = Datastore n" "PrePrepares ?n = PrePrepares n"
    "getViewLeader ?n = getViewLeader n" "node_Id ?n = node_Id n"
    by (simp_all add: emit_def getViewLeader_def)
  have old: "pp_Sequence p \<noteq> ExecutorSeq ?n" if "PrePrepares ?n (rd_Seq rd) = Some q" "ppr_PrePrepare q = Some p" for q p
    using assms(2,13) that by (fastforce simp: sel node_wf_def preprepares_wf_def)
  have stuck: "stuck E {c \<in> {t_From t, t_To t}. valid_key c} (ExecutorSeq n) n'"
    using resent_run_stuck [OF assms(1,8) run assms(12) others(1) _ _ _ _ _ old] others(2) assms(14) by (simp add: sel)
  have "\<not> rd_Executed rd" using assms(2,11) by (auto simp: node_wf_def requests_wf_def)
  moreover obtain cq where "scr_ClientRequest r = Some cq" "cr_Transaction cq = Some t"
    using assms(8) by (auto simp: tx_of_def bind_eq_Some_conv)
  ultimately have "rpc_ExecuteTransaction E io n r = Return n' None"
    using assms(3-7,9-11) run
    by (simp add: rpc_ExecuteTransaction_def with_seconds_eq with_tx_eq assms(8) sel Let_def runIntrashard_def)
  moreover have "\<exists>m. secure_locks E rely n' r' = Blocked m"
    if "tx_of r' = Some t'" "\<exists>c\<in>{t_From t', t_To t'}. c \<in> {t_From t, t_To t} \<and> valid_key c" "\<forall>f\<in>set rely. no_release E f" for r' t' rely
    using that by (intro stuck_blocks [OF stuck]) auto
  ultimately show ?thesis using stuck stuck_executor [OF stuck] by (auto simp: stuck_def)
qed

text \<open>The demonstration leader after its first entry has been executed.\<close>

definition demo_again :: "demo_bucket Node" where
  "demo_again = (demo_committed [[]])\<lparr>PrePrepares := [1 \<mapsto> demo_ppr demo_tx []], ExecutorSeq := 2, Seq := 2,
     RequestLog := [100 \<mapsto> \<lparr>rd_Seq = 1, rd_Executed = False, rd_Result = False\<rparr>]\<rparr>"

lemma demo_again_sel:
  "DB demo_again = demo_db" "View demo_again = 1" "PublicKeyMap demo_again = demo_keys" "\<not> Byzantine demo_again"
  "ClusterId demo_again = ''C1''" "ExecutorSeq demo_again = 2" "Datastore demo_again 2 = None" "Live demo_again"
  "\<not> ViewChanging demo_again" "node_Id demo_again = ''S1''" "PrePrepares demo_again 1 = Some (demo_ppr demo_tx [])"
  "RequestLog demo_again 100 = Some \<lparr>rd_Seq = 1, rd_Executed = False, rd_Result = False\<rparr>"
  "getViewLeader demo_again = getViewLeader demo_node"
  by (simp_all add: demo_again_def demo_committed_def demo_node_tables getViewLeader_def)

lemma demo_again_wf: "node_wf demo_env demo_again"
  using demo_committed_wf [of "[[]]"]
  by (simp add: node_wf_def demo_again_def requests_wf_def preprepares_wf_def demo_ppr_def demo_pp_def)

theorem resent_request_keeps_locks_witness:
  "\<exists>n'. rpc_ExecuteTransaction demo_env \<lparr>prepare_run = demo_io (demo_digest demo_tx), ack_rely = id, ack = True,
       decide_run = demo_io (demo_digest demo_tx), commit_attempts = []\<rparr> demo_again (demo_request_of demo_tx) = Return n' None \<and>
     ''1'' \<in> held demo_env (DB n') \<and> executor_rounds demo_env 1000 n' = Return n' () \<and>
     (\<exists>m. secure_locks demo_env [id, id, id] n' (demo_request_of demo_cross_tx) = Blocked m)"
proof -
  let ?io = "\<lparr>prepare_run = demo_io (demo_digest demo_tx), ack_rely = id, ack = True,
       decide_run = demo_io (demo_digest demo_tx), commit_attempts = []\<rparr> :: demo_bucket cross_io"
  let ?n = "emit GoTimerStartIfNotRunning demo_again" and ?r = "demo_request_of demo_tx"
  have tx: "t_From demo_tx = ''1''" "t_ClusterFrom demo_tx = ''C1''" "t_Amount demo_tx \<le> 10" "t_To demo_tx = ''2''"
    "t_ClusterFrom demo_tx = t_ClusterTo demo_tx" by (simp_all add: demo_tx_def)
  have sel: "DB ?n = demo_db" "View ?n = 1" "PublicKeyMap ?n = demo_keys" "\<not> Byzantine ?n" "ClusterId ?n = ''C1''"
    "PrePrepares ?n 1 = Some (demo_ppr demo_tx [])"
    by (simp_all add: emit_def demo_again_sel)
  have assigned: "assign_seq demo_env (if [] = ''P'' \<or> [] = [] then ?n\<lparr>DB := GetLocksDB demo_env demo_db (tx_clients demo_tx)\<rparr> else ?n)
      ?r 1 [] (demo_digest demo_tx) = Return (?n\<lparr>DB := GetLocksDB demo_env demo_db (tx_clients demo_tx)\<rparr>)
        (demo_ppr demo_tx [], demo_pp (demo_digest demo_tx) [])"
    by (simp add: assign_seq_def sel demo_ppr_def)
  obtain n' where "runPBFT demo_env (demo_io (demo_digest demo_tx)) ?n ?r 1 [] = Return n' (Some (demo_ppr demo_tx []), None)"
    using demo_run_from [OF tx(1-3) sel(1-5) assigned] sel by auto
  then have run: "runPBFT demo_env (prepare_run ?io) ?n ?r (rd_Seq \<lparr>rd_Seq = 1, rd_Executed = False, rd_Result = False\<rparr>) [] =
      Return n' (Some (demo_ppr demo_tx []), None)" by simp
  have lead: "getViewLeader demo_again = Some (node_Id demo_again)"
    using demo_leader by (simp add: demo_again_sel demo_replica_def getViewLeader_def demo_node_tables)
  have key: "PublicKeyMap demo_again ''client'' = Some (PublicKey 0 65537)"
    "verified demo_env (PublicKey 0 65537) (top_fields wire_ClientRequest (scr_ClientRequest ?r)) (scr_Signature ?r)"
    by (simp_all add: demo_again_sel demo_keys_def demo_request_of_def Let_def demo_verified)
  have valid: "valid_key ''1''" by (simp add: valid_key_def)
  have others: "no_progress f" if "f \<in> set (lock_rely (prepare_run ?io))" for f
    using that by (simp add: demo_io_def)
  have others': "no_progress f \<and> no_release demo_env f" if "f \<in> {prepare_rely (prepare_run ?io), commit_rely (prepare_run ?io)}" for f
    using that by (auto simp: demo_io_def no_progress_def no_release_def)
  note locked_now = resent_request_keeps_locks [OF demo_bolt_ok demo_again_wf demo_again_sel(8,9) lead key
      demo_request_parts tx(5) demo_again_sel(12) _ _ _ run others others']
  have facts: "rd_Seq \<lparr>rd_Seq = 1, rd_Executed = False, rd_Result = False\<rparr> \<noteq> 0"
    "rd_Seq \<lparr>rd_Seq = 1, rd_Executed = False, rd_Result = False\<rparr> < ExecutorSeq demo_again"
    "Datastore demo_again (ExecutorSeq demo_again) = None" by (simp_all add: demo_again_sel)
  note locked_now = locked_now [OF facts]
  have "t_From demo_cross_tx = ''1''" by (simp add: demo_cross_tx_def)
  then have "\<exists>m. secure_locks demo_env [id, id, id] n' (demo_request_of demo_cross_tx) = Blocked m"
    using locked_now [THEN conjunct2, THEN conjunct2, THEN conjunct2, rule_format, of "demo_request_of demo_cross_tx" demo_cross_tx "[id, id, id]"]
      valid by (auto simp: demo_request_parts tx no_release_def)
  moreover have "rpc_ExecuteTransaction demo_env ?io demo_again ?r = Return n' None"
    "executor_rounds demo_env 1000 n' = Return n' ()" "''1'' \<in> held demo_env (DB n')"
    using locked_now valid by (auto simp: tx)
  ultimately show ?thesis by blast
qed

end
