(* ===== verification/Settlement.thy ===== *)
theory Settlement
  imports Runs Reachable Client
begin

text \<open>
  What one transfer goes through when nothing goes wrong, in pieces: a run whose votes arrive
  returns and commits its entry; the executor applies a committed entry, or a prepare and its
  commit; the coordinator of a cross-shard transfer and its participant each commit both.
  The theory \<open>EndToEnd\<close> puts the pieces together.
\<close>

section \<open>Votes\<close>

text \<open>What makes a certificate count for a digest, apart from the state of the log.\<close>

definition prepare_vote :: "'b env \<Rightarrow> (string \<rightharpoonup> PublicKey) \<Rightarrow> string \<Rightarrow> PrepareRequest \<Rightarrow> bool" where
  "prepare_vote E keys digest r \<longleftrightarrow> (\<exists>p pk. pr_Prepare r = Some p \<and> keys (p_NodeId p) = Some pk \<and>
     verified E pk (wire_Prepare p) (pr_Signature r) \<and> p_Digest p = digest)"

definition commit_vote :: "'b env \<Rightarrow> (string \<rightharpoonup> PublicKey) \<Rightarrow> string \<Rightarrow> CommitRequest \<Rightarrow> bool" where
  "commit_vote E keys digest r \<longleftrightarrow> (\<exists>c pk. cmr_Commit r = Some c \<and> keys (c_NodeId c) = Some pk \<and>
     verified E pk (wire_Commit c) (cmr_Signature r) \<and> c_Digest c = digest)"

lemma prepare_valid_vote:
  "TransactionLog n seq = Some l \<Longrightarrow> prepare_valid E n seq = prepare_vote E (PublicKeyMap n) (tl_Digest l)"
  by (auto simp: prepare_valid_def prepare_vote_def fun_eq_iff)

lemma commit_valid_vote:
  "TransactionLog n seq = Some l \<Longrightarrow> 2 \<le> tl_State l \<Longrightarrow>
     commit_valid E n seq = commit_vote E (PublicKeyMap n) (tl_Digest l)"
  by (auto simp: commit_valid_def commit_vote_def fun_eq_iff)

text \<open>The events of a run bring enough votes, from messages that have a body.\<close>

definition enough_votes :: "'b env \<Rightarrow> (string \<rightharpoonup> PublicKey) \<Rightarrow> string \<Rightarrow> 'b pbft_io \<Rightarrow> bool" where
  "enough_votes E keys digest io \<longleftrightarrow>
     (\<exists>ps cs. collect (2 * F) (prepare_events io) [] = Some ps \<and> list_all has_prepare ps \<and>
        2 * F \<le> length (filter (prepare_vote E keys digest) ps) \<and>
        collect (2 * F + 1) (commit_events io) [] = Some cs \<and> list_all has_commit cs \<and>
        2 * F + 1 \<le> length (filter (commit_vote E keys digest) cs))"

text \<open>
  While a run waits the others receive messages and certificates and send what they like, but
  leave the tables, the stores, the counters and the executor alone.
\<close>

definition steady :: "'b Node \<Rightarrow> _" where
  "steady n = (core n, ExecutorSeq n, PublicKeyMap n, Byzantine n, View n, Live n, ViewChanging n,
     Seq n, PrepareCertChans n, CommitCertChans n)"

definition leaves_steady :: "('b Node \<Rightarrow> 'b Node) \<Rightarrow> bool" where
  "leaves_steady f \<longleftrightarrow> (\<forall>n. steady (f n) = steady n \<and> set (effects n) \<subseteq> set (effects (f n)))"

lemma leaves_steady_id [simp]: "leaves_steady id" "leaves_steady (\<lambda>n. n)"
  by (simp_all add: leaves_steady_def)

text \<open>What of a node no run and no idle goroutine changes.\<close>

definition lasting :: "'b Node \<Rightarrow> _" where
  "lasting n = (ClusterId n, node_Id n, ClientMap n, LeaderMap n, node_PrivateKey n, PublicKeyMap n,
     Byzantine n, View n, ExecutorSeq n, Live n, ViewChanging n)"

lemma lasting_steady: "steady m = steady n \<Longrightarrow> lasting m = lasting n"
  by (simp add: steady_def lasting_def core_def)

lemma lasting_updateLog [simp]: "lasting (updateLog n seq s) = lasting n"
  by (simp add: updateLog_def lasting_def split: option.split)

section \<open>The run returns and commits\<close>

definition entry_of :: "int64 \<Rightarrow> string \<Rightarrow> Transaction \<Rightarrow> int64 \<Rightarrow> DBUnit" where
  "entry_of seq status t ts =
     \<lparr>u_Seq = seq, u_Transaction = Some t, u_Status = status, u_timestamp = ts, u_ClientSeq = t_ClientSeq t\<rparr>"

text \<open>The locks a run takes: for a new transaction and for a prepare.\<close>

definition taken :: "string \<Rightarrow> Transaction \<Rightarrow> string set" where
  "taken status t = (if status = [] \<or> status = ''P'' then {c \<in> {t_From t, t_To t}. valid_key c} else {})"

text \<open>The counter and the channels: what a leader sets up for a new number.\<close>

definition numbering :: "'b Node \<Rightarrow> int64 \<times> (int64 \<Rightarrow> bool) \<times> (int64 \<Rightarrow> bool)" where
  "numbering n = (Seq n, PrepareCertChans n, CommitCertChans n)"

definition next_numbering :: "'b Node \<Rightarrow> int64 \<times> (int64 \<Rightarrow> bool) \<times> (int64 \<Rightarrow> bool)" where
  "next_numbering n =
     (add64 (Seq n) 1, (PrepareCertChans n)(Seq n := True), (CommitCertChans n)(Seq n := True))"

text \<open>
  What the states of one node have in common while an entry is agreed on: where it stands, its
  money, what it has sent; \<open>k\<close> is its numbering, \<open>locks\<close> what it has locked.
\<close>

definition follows :: "'b env \<Rightarrow> 'b Node \<Rightarrow> _ \<Rightarrow> string set \<Rightarrow> 'b Node \<Rightarrow> bool" where
  "follows E n k locks m \<longleftrightarrow> lasting m = lasting n \<and> numbering m = k \<and>
     balancesBucket (DB m) = balancesBucket (DB n) \<and> held E (DB m) = held E (DB n) \<union> locks \<and>
     set (effects n) \<subseteq> set (effects m)"

text \<open>The transaction is logged under number \<open>i\<close> in a given phase.\<close>

definition announced ::
  "'b env \<Rightarrow> 'b Node \<Rightarrow> int64 \<Rightarrow> _ \<Rightarrow> string set \<Rightarrow> int64 \<Rightarrow> Transaction \<Rightarrow> int64 \<Rightarrow> string \<Rightarrow> 'b Node \<Rightarrow> bool" where
  "announced E n i k locks st t ts digest m \<longleftrightarrow> follows E n k locks m \<and> Datastore m = Datastore n \<and>
     walBucket (DB m) = walBucket (DB n) \<and>
     (\<exists>l. TransactionLog m i = Some l \<and> tl_Transaction l = Some t \<and> tl_State l = st \<and>
        tl_Digest l = digest \<and> tl_Timestamp l = ts)"

lemma announced_steady:
  "announced E n i k locks st t ts digest m \<Longrightarrow> steady m' = steady m \<Longrightarrow> set (effects m) \<subseteq> set (effects m') \<Longrightarrow>
     announced E n i k locks st t ts digest m'"
  using lasting_steady [of m' m] by (auto simp: announced_def follows_def steady_def core_def numbering_def)

lemma secure_locks_free:
  assumes "tx_of r = Some t" "{t_From t, t_To t} \<inter> held E (DB n) = {}"
    and "t_ClusterFrom t = ClusterId n \<Longrightarrow> \<exists>b. GetBalance E (DB n) (t_From t) = Inr b \<and> t_Amount t \<le> b"
  shows "secure_locks E rely n r = Return (n\<lparr>DB := GetLocksDB E (DB n) (tx_clients t)\<rparr>) None"
proof -
  have free: "set (tx_clients t) \<inter> held E (DB n) = {}" using assms(2) by (simp add: tx_clients_def)
  have "GetBalance E (GetLocksDB E (DB n) (tx_clients t)) (t_From t) = GetBalance E (DB n) (t_From t)"
    by (rule GetBalance_cong) simp
  then show ?thesis
    using assms(1,3) free by (auto simp: secure_locks_def with_tx_eq lock_loop.simps CheckAndGetLocks_cases)
qed

lemma announce_announced:
  assumes "ppr_ClientReq req = Some r" "tx_of r = Some t" "seconds_of r = Some ts" "pp_Sequence pp = i"
    and "follows E n (q, pch, cch) locks m" "Datastore m = Datastore n"
    and "walBucket (DB m) = walBucket (DB n)"
  shows "\<exists>m'. announce m r req pp = Return m' () \<and>
     announced E n i (q, pch(i := True), cch(i := True)) locks 1 t ts (pp_Digest pp) m' \<and>
     (\<forall>x\<in>set (peers n (ClusterId n)) - {node_Id n}. RpcPrePrepare x req \<in> set (effects m'))"
proof -
  let ?m = "(savePrePrepare (writeLog (put_request m ts i) i t (View m) (pp_Digest pp) ts) i req)
    \<lparr>PrepareCertChans := pch(i := True), CommitCertChans := cch(i := True)\<rparr>"
  have m: "PrepareCertChans m = pch" "CommitCertChans m = cch" "peers m (ClusterId m) = peers n (ClusterId n)" "node_Id m = node_Id n"
    using assms(5) by (simp_all add: follows_def numbering_def lasting_def peers_def)
  obtain cq where "scr_ClientRequest r = Some cq" "cr_Transaction cq = Some t"
    using assms(2) by (auto simp: tx_of_def bind_eq_Some_conv)
  then have "\<exists>m'. announce m r req pp = Return m' () \<and> steady m' = steady ?m \<and> set (effects m) \<subseteq> set (effects m') \<and>
      (\<forall>x\<in>set (peers m (ClusterId m)) - {node_Id m}. RpcPrePrepare x req \<in> set (effects m'))"
    using assms(1-4)
    by (simp add: announce_def Let_def logClientRequest_def with_seconds_eq)
      (auto simp: writeLog_def savePrePrepare_def put_request_def emits_def steady_def core_def m(1,2) [symmetric] peers_def)
  moreover have "announced E n i (q, pch(i := True), cch(i := True)) locks 1 t ts (pp_Digest pp) ?m" "effects ?m = effects m"
    using assms(5-7)
    by (simp_all add: announced_def follows_def lasting_def numbering_def writeLog_def savePrePrepare_def put_request_def States_def)
  ultimately show ?thesis
    using announced_steady [of E n i "(q, pch(i := True), cch(i := True))" locks 1 t ts "pp_Digest pp" ?m] m(3,4) by metis
qed

lemma collectPrepares_announced:
  assumes "announced E n i k locks 1 t ts d m" "leaves_steady rely" "collect (2 * F) events [] = Some ps"
  shows "\<exists>m'. collectPrepares rely events m i = Return m' None \<and> announced E n i k locks 1 t ts d m' \<and>
     PrepareCerts m' i = ps \<and> effects m' = effects (rely m)"
proof -
  have "announced E n i k locks 1 t ts d ((rely m)\<lparr>PrepareCerts := (PrepareCerts (rely m))(i := ps)\<rparr>)"
    by (rule announced_steady [OF assms(1)]) (use assms(2) in \<open>simp_all add: leaves_steady_def steady_def core_def\<close>)
  then show ?thesis by (simp add: collectPrepares_def Let_def assms(3))
qed

lemma validatePrepares_announced:
  assumes "announced E n i k locks 1 t ts d m" "\<not> Byzantine n" "list_all has_prepare ps"
    and "2 * F \<le> length (filter (prepare_vote E (PublicKeyMap n) d) ps)"
  shows "\<exists>m'. validatePrepares E m i ps = Return m' True \<and> announced E n i k locks 2 t ts d m' \<and> effects m' = effects m \<and>
     PrepareCerts m' i = filter (prepare_vote E (PublicKeyMap n) d) ps"
proof -
  obtain l where l: "TransactionLog m i = Some l" "tl_Transaction l = Some t" "tl_State l = 1" "tl_Digest l = d"
    "tl_Timestamp l = ts" and m: "PublicKeyMap m = PublicKeyMap n" "\<not> Byzantine m"
    using assms(1,2) by (auto simp: announced_def follows_def lasting_def)
  have "validatePrepares E m i ps = Return (prepared_state m i (filter (prepare_valid E m i) ps)) True"
    using assms(3,4) by (simp add: validatePrepares_cases prepare_valid_vote [OF l(1)] l(4) m(1))
  moreover have "announced E n i k locks 2 t ts d (prepared_state m i cs)" "effects (prepared_state m i cs) = effects m"
    "PrepareCerts (prepared_state m i cs) i = cs" for cs
  proof -
    have same: "lasting (prepared_state m i cs) = lasting m" "numbering (prepared_state m i cs) = numbering m"
      using lasting_updateLog [of m i "''prepared''"]
      by (simp_all add: prepared_state_def Let_def lasting_def numbering_def updateLog_def split: option.splits)
    then show "announced E n i k locks 2 t ts d (prepared_state m i cs)"
      using assms(1) l m(2)
      by (simp add: announced_def follows_def) (simp add: prepared_state_def Let_def updateLog_Some [OF l(1)] States_def)
    show "effects (prepared_state m i cs) = effects m" "PrepareCerts (prepared_state m i cs) i = cs"
      by (simp_all add: prepared_state_def Let_def updateLog_Some [OF l(1)])
  qed
  moreover have "prepare_valid E m i = prepare_vote E (PublicKeyMap n) d" using prepare_valid_vote [OF l(1), of E] l(4) m(1) by simp
  ultimately show ?thesis by metis
qed

text \<open>
  A node that has committed: its entry, what the commit of a prepare appends to the write-ahead
  log, and the votes of its commit.
\<close>

definition wal_of :: "Transaction \<Rightarrow> WALLog list" where
  "wal_of t = [\<lparr>wl_Operation = ''transaction'', wl_Subject = [], wl_Transaction = Some t\<rparr>]"

definition wal_after :: "'b env \<Rightarrow> 'b Database \<Rightarrow> string \<Rightarrow> Transaction \<Rightarrow> 'b" where
  "wal_after E d status t =
     walBucket (if status = ''P'' then fst (AppendToWALEntry E d (t_ClientSeq t) (wal_of t)) else d)"

lemma wal_after_cong: "walBucket d = walBucket d' \<Longrightarrow> wal_after E d status t = wal_after E d' status t"
  by (simp add: wal_after_def AppendToWALEntry_def split: option.splits)

definition committed_at ::
  "'b env \<Rightarrow> 'b Node \<Rightarrow> int64 \<Rightarrow> _ \<Rightarrow> string \<Rightarrow> Transaction \<Rightarrow> int64 \<Rightarrow> string \<Rightarrow> 'b Node \<Rightarrow> bool" where
  "committed_at E n i k status t ts digest m \<longleftrightarrow> follows E n k (taken status t) m \<and>
     Datastore m = (Datastore n)(i \<mapsto> entry_of i status t ts) \<and>
     walBucket (DB m) = wal_after E (DB n) status t \<and>
     2 * F + 1 \<le> length (CommitCerts m i) \<and> list_all (commit_vote E (PublicKeyMap n) digest) (CommitCerts m i)"

abbreviation run_committed :: "'b env \<Rightarrow> 'b Node \<Rightarrow> string \<Rightarrow> Transaction \<Rightarrow> int64 \<Rightarrow> string \<Rightarrow> 'b Node \<Rightarrow> bool" where
  "run_committed E n \<equiv> committed_at E n (Seq n) (next_numbering n)"

lemmas run_committed_simps = committed_at_def follows_def lasting_def numbering_def next_numbering_def

lemma commit_entry_lasting:
  "lasting (commit_entry E m seq status c t) = lasting m" "numbering (commit_entry E m seq status c t) = numbering m"
  by (simp_all add: commit_entry_def Let_def saveTransactionToDatastore_def lasting_def numbering_def updateLog_def split: option.splits)

lemma commit_entry_wal:
  "walBucket (DB (commit_entry E m seq status (t_ClientSeq t) (Some t))) = wal_after E (DB m) status t"
  by (simp add: commit_entry_def Let_def saveTransactionToDatastore_def wal_after_def wal_of_def)

lemma validateCommits_announced:
  assumes "announced E n i k (taken status t) 2 t ts d m" "\<not> Byzantine n" "list_all has_commit cs"
    and "2 * F + 1 \<le> length (filter (commit_vote E (PublicKeyMap n) d) cs)"
  shows "\<exists>m'. validateCommits E m i cs status (t_ClientSeq t) (Some t) = Return m' True \<and>
     committed_at E n i k status t ts d m' \<and> set (effects m) \<subseteq> set (effects m') \<and>
     PrepareCerts m' = PrepareCerts m \<and> CommitCerts m' i = filter (commit_vote E (PublicKeyMap n) d) cs"
proof -
  obtain l where l: "TransactionLog m i = Some l" "tl_Transaction l = Some t" "tl_State l = 2" "tl_Digest l = d"
    "tl_Timestamp l = ts" and same: "PublicKeyMap m = PublicKeyMap n" "\<not> Byzantine m"
    using assms(1,2) by (auto simp: announced_def follows_def lasting_def)
  have votes: "commit_valid E m i = commit_vote E (PublicKeyMap n) d"
    using commit_valid_vote [OF l(1), of E] l(3,4) same(1) by simp
  let ?cs = "filter (commit_vote E (PublicKeyMap n) d) cs"
  let ?c = "committed_state E m i ?cs status (t_ClientSeq t) (Some t)" and ?e = "commit_entry E m i status (t_ClientSeq t) (Some t)"
  have "validateCommits E m i cs status (t_ClientSeq t) (Some t) = Return ?c True"
    using assms(3,4) unfolding validateCommits_cases votes by simp
  note e = commit_entry_tables [OF l(1), of E status "t_ClientSeq t" "Some t"] commit_entry_lasting [of E m i status "t_ClientSeq t" "Some t"]
  have c: "?c = emit (GoSaveTransaction i status) (?e\<lparr>CommitCerts := (CommitCerts ?e)(i := ?cs)\<rparr>)"
    using same(2) by (simp only: committed_state_def Let_def simp_thms if_True)
  have "follows E n k (taken status t) ?c" "set (effects m) \<subseteq> set (effects ?c)"
    using assms(1) e(5-) held_cong [OF e(6)] unfolding c announced_def follows_def
    by (auto simp: emit_def lasting_def numbering_def)
  moreover have "Datastore ?c = (Datastore n)(i \<mapsto> entry_of i status t ts)"
    using assms(1) e(2) l unfolding c announced_def by (simp add: emit_def entry_of_def)
  moreover have "CommitCerts ?c i = ?cs" "PrepareCerts ?c = PrepareCerts m"
    unfolding c by (simp_all add: emit_def commit_entry_def Let_def saveTransactionToDatastore_def updateLog_Some [OF l(1)])
  moreover have "walBucket (DB ?c) = wal_after E (DB n) status t"
  proof -
    have "walBucket (DB m) = walBucket (DB n)" using assms(1) by (simp add: announced_def)
    from wal_after_cong [OF this] show ?thesis unfolding c by (simp add: emit_def commit_entry_wal)
  qed
  ultimately show ?thesis
    using assms(4) \<open>validateCommits E m i cs status (t_ClientSeq t) (Some t) = Return ?c True\<close>
    by (simp add: committed_at_def list_all_iff)
qed

lemma collectCommits_announced:
  assumes "announced E n i k (taken status t) 2 t ts d m" "\<not> Byzantine n" "leaves_steady rely"
    and "collect (2 * F + 1) events [] = Some cs" "list_all has_commit cs"
    and "2 * F + 1 \<le> length (filter (commit_vote E (PublicKeyMap n) d) cs)"
  shows "\<exists>m'. collectCommits E rely events m i status (t_ClientSeq t) (Some t) = Return m' True \<and>
     committed_at E n i k status t ts d m' \<and> set (effects (rely m)) \<subseteq> set (effects m') \<and>
     PrepareCerts m' = PrepareCerts (rely m) \<and> CommitCerts m' i = filter (commit_vote E (PublicKeyMap n) d) cs"
proof -
  let ?m = "(rely m)\<lparr>CommitCerts := (CommitCerts (rely m))(i := cs)\<rparr>"
  have "announced E n i k (taken status t) 2 t ts d ?m"
    by (rule announced_steady [OF assms(1)]) (use assms(3) in \<open>simp_all add: leaves_steady_def steady_def core_def\<close>)
  from validateCommits_announced [OF this assms(2,5,6)] show ?thesis
    by (simp only: collectCommits_def Let_def assms(4) option.case) simp
qed

text \<open>What a run needs of its node, for a request with a digest.\<close>

definition can_run :: "'b env \<Rightarrow> 'b Node \<Rightarrow> string \<Rightarrow> Transaction \<Rightarrow> bool" where
  "can_run E n status t \<longleftrightarrow> \<not> Byzantine n \<and> (status = [] \<or> status = ''P'' \<longrightarrow>
     {t_From t, t_To t} \<inter> held E (DB n) = {} \<and>
     (t_ClusterFrom t = ClusterId n \<longrightarrow> (\<exists>b. GetBalance E (DB n) (t_From t) = Inr b \<and> t_Amount t \<le> b)))"

definition votes_arrive :: "'b env \<Rightarrow> (string \<rightharpoonup> PublicKey) \<Rightarrow> string \<Rightarrow> 'b pbft_io \<Rightarrow> bool" where
  "votes_arrive E keys digest io \<longleftrightarrow> enough_votes E keys digest io \<and>
     leaves_steady (prepare_rely io) \<and> leaves_steady (commit_rely io) \<and> lock_rely io = []"

text \<open>The pre-prepare that a leader makes of a request.\<close>

definition offer_body :: "'b Node \<Rightarrow> string \<Rightarrow> string \<Rightarrow> PrePrepare" where
  "offer_body n status digest =
     \<lparr>pp_View = View n, pp_Sequence = Seq n, pp_Digest = digest, pp_Status = status, pp_Wal = [], pp_Locks = []\<rparr>"

definition offer_of :: "'b env \<Rightarrow> 'b Node \<Rightarrow> SignedClientRequest \<Rightarrow> string \<Rightarrow> string \<Rightarrow> PrePrepareRequest" where
  "offer_of E n r status digest = \<lparr>ppr_PrePrepare = Some (offer_body n status digest),
     ppr_Signature = signature_or_nil E (node_PrivateKey n) (wire_PrePrepare (offer_body n status digest)), ppr_ClientReq = Some r\<rparr>"

lemma offer_simps [simp]:
  "ppr_PrePrepare (offer_of E n r status d) = Some (offer_body n status d)" "ppr_ClientReq (offer_of E n r status d) = Some r"
  "pp_View (offer_body n status d) = View n" "pp_Sequence (offer_body n status d) = Seq n"
  "pp_Digest (offer_body n status d) = d" "pp_Status (offer_body n status d) = status"
  by (simp_all add: offer_of_def offer_body_def)

text \<open>A run, with the states in which it waits for the prepares and for the commits.\<close>

lemma run_stages:
  fixes r d and n :: "'b Node" and E :: "'b env"
  defines "req \<equiv> \<lambda>status. offer_of E n r status d"
  assumes "bolt_ok E" "MD5Hash E (JClientReq (Some r)) = Some d" "tx_of r = Some t" "seconds_of r = Some ts"
    and "can_run E n status t" "votes_arrive E (PublicKeyMap n) d io"
  shows "\<exists>n1 n2 n'. runPBFT E io n r 0 status = Return n' (Some (req status), None) \<and> run_committed E n status t ts d n' \<and>
     announced E n (Seq n) (next_numbering n) (taken status t) 1 t ts d n1 \<and>
     announced E n (Seq n) (next_numbering n) (taken status t) 2 t ts d n2 \<and>
     (\<forall>x\<in>set (peers n (ClusterId n)) - {node_Id n}. RpcPrePrepare x (req status) \<in> set (effects n1)) \<and>
     set (effects (prepare_rely io n1)) \<subseteq> set (effects n2) \<and> set (effects (commit_rely io n2)) \<subseteq> set (effects n') \<and>
     PrepareCerts n' = PrepareCerts (commit_rely io n2) \<and>
     (\<forall>ps. collect (2 * F) (prepare_events io) [] = Some ps \<longrightarrow>
        PrepareCerts n2 (Seq n) = filter (prepare_vote E (PublicKeyMap n) d) ps) \<and>
     (\<forall>cs. collect (2 * F + 1) (commit_events io) [] = Some cs \<longrightarrow>
        CommitCerts n' (Seq n) = filter (commit_vote E (PublicKeyMap n) d) cs)"
proof -
  let ?m = "if status = ''P'' \<or> status = [] then n\<lparr>DB := GetLocksDB E (DB n) (tx_clients t)\<rparr> else n"
  let ?L = "taken status t" and ?k = "next_numbering n" and ?pp = "offer_body n status d"
  obtain ps cs where votes: "collect (2 * F) (prepare_events io) [] = Some ps" "list_all has_prepare ps"
      "2 * F \<le> length (filter (prepare_vote E (PublicKeyMap n) d) ps)"
      "collect (2 * F + 1) (commit_events io) [] = Some cs" "list_all has_commit cs"
      "2 * F + 1 \<le> length (filter (commit_vote E (PublicKeyMap n) d) cs)"
    and rely: "leaves_steady (prepare_rely io)" "leaves_steady (commit_rely io)"
    using assms(7) by (auto simp: votes_arrive_def enough_votes_def)
  have working: "\<not> Byzantine n" using assms(6) by (simp add: can_run_def)
  have s1: "(if status = ''P'' \<or> status = [] then secure_locks E (lock_rely io) n r else Return n None) = Return ?m None"
    using secure_locks_free [OF assms(4), of E n "lock_rely io"] assms(6) by (auto simp: can_run_def)
  have m: "lasting ?m = lasting n" "held E (DB ?m) = held E (DB n) \<union> ?L" "numbering ?m = numbering n"
    "balancesBucket (DB ?m) = balancesBucket (DB n)" "Datastore ?m = Datastore n" "effects ?m = effects n"
    "walBucket (DB ?m) = walBucket (DB n)"
    by (auto simp: lasting_def numbering_def taken_def held_GetLocksDB [OF assms(2)] tx_clients_def)
  define n0 where "n0 = ?m\<lparr>Seq := add64 (Seq ?m) 1\<rparr>"
  have "View ?m = View n" "Seq ?m = Seq n" "node_PrivateKey ?m = node_PrivateKey n" by simp_all
  then have s2: "assign_seq E ?m r 0 status d = Return n0 (req status, ?pp)"
    by (simp only: assign_seq_def Let_def simp_thms if_True n0_def req_def offer_of_def offer_body_def)
  have n0: "follows E n (add64 (Seq n) 1, PrepareCertChans n, CommitCertChans n) ?L n0" "Datastore n0 = Datastore n"
    "walBucket (DB n0) = walBucket (DB n)"
    using m by (simp_all add: n0_def follows_def) (simp add: lasting_def numbering_def)
  obtain n1 where s3: "announce n0 r (req status) ?pp = Return n1 ()" and n1: "announced E n (Seq n) ?k ?L 1 t ts d n1"
    and sent: "\<forall>x\<in>set (peers n (ClusterId n)) - {node_Id n}. RpcPrePrepare x (req status) \<in> set (effects n1)"
    using announce_announced [OF _ assms(4,5) _ n0, of "req status" ?pp "Seq n"] by (auto simp: req_def next_numbering_def)
  obtain m1 where s4: "collectPrepares (prepare_rely io) (prepare_events io) n1 (Seq n) = Return m1 None"
    and m1: "announced E n (Seq n) ?k ?L 1 t ts d m1" "PrepareCerts m1 (Seq n) = ps" "effects m1 = effects (prepare_rely io n1)"
    using collectPrepares_announced [OF n1 rely(1) votes(1)] by blast
  obtain m2 where s5: "validatePrepares E m1 (Seq n) ps = Return m2 True"
    and m2: "announced E n (Seq n) ?k ?L 2 t ts d m2" "effects m2 = effects m1"
      "PrepareCerts m2 (Seq n) = filter (prepare_vote E (PublicKeyMap n) d) ps"
    using validatePrepares_announced [OF m1(1) working votes(2,3)] by blast
  define n2 where "n2 = emit (GoSendCommitToSelf (Seq n)) m2"
  have n2: "announced E n (Seq n) ?k ?L 2 t ts d n2" "set (effects m2) \<subseteq> set (effects n2)" "PrepareCerts n2 = PrepareCerts m2"
    unfolding n2_def by (rule announced_steady [OF m2(1)]) (auto simp: emit_def steady_def core_def)
  obtain n' where s7: "collectCommits E (commit_rely io) (commit_events io) n2 (Seq n) status (t_ClientSeq t) (Some t) = Return n' True"
    and n': "run_committed E n status t ts d n'" "set (effects (commit_rely io n2)) \<subseteq> set (effects n')"
      "PrepareCerts n' = PrepareCerts (commit_rely io n2)" "CommitCerts n' (Seq n) = filter (commit_vote E (PublicKeyMap n) d) cs"
    using collectCommits_announced [OF n2(1) working rely(2) votes(4-6)] by blast
  have "runPBFT E io n r 0 status = Return n' (Some (req status), None)"
    unfolding runPBFT_def s1
    by (simp add: assms(3,4) s2 s3 s4 m1(2) s5 n2_def [symmetric] s7 with_tx_eq del: if_split)
  moreover have "set (effects (prepare_rely io n1)) \<subseteq> set (effects n2)" using m1(3) m2(2) n2(2) by simp
  moreover have "PrepareCerts n2 (Seq n) = filter (prepare_vote E (PublicKeyMap n) d) ps" using n2(3) m2(3) by simp
  ultimately show ?thesis
    using n' n1 n2(1) sent votes(1,4) by (intro exI [of _ n1] exI [of _ n2] exI [of _ n']) simp
qed

lemma run_commits:
  assumes "bolt_ok E" "MD5Hash E (JClientReq (Some r)) = Some d" "tx_of r = Some t" "seconds_of r = Some ts"
    and "can_run E n status t" "votes_arrive E (PublicKeyMap n) d io"
  shows "\<exists>n' p pp. runPBFT E io n r 0 status = Return n' (Some p, None) \<and> ppr_PrePrepare p = Some pp \<and>
     pp_Sequence pp = Seq n \<and> run_committed E n status t ts d n'"
  using run_stages [OF assms] by (metis offer_simps(1,4))

section \<open>The executor applies what was committed\<close>

lemma run_keeps_wf:
  assumes "bolt_ok E" "json_pointers_ok E" "node_wf E n" "runPBFT E io n r oldSeq status = Return n' res"
    and "votes_arrive E keys d io"
  shows "node_wf E n'"
proof -
  let ?I = "\<lambda>n. bolt_ok E \<and> json_pointers_ok E \<longrightarrow> node_wf E n"
  have "?I (f m)" if "leaves_steady f" "?I m" for f m
    using that tables.frame [of E m "f m"] by (simp add: leaves_steady_def steady_def)
  then have "all_keep ?I (io_fns io)" using assms(5) by (simp add: io_fns_def votes_arrive_def)
  then have "keeps ?I (runPBFT E io n r oldSeq status)" by (rule tables.keeps_runPBFT) (simp add: assms(3))
  then have "?I n'" by (rule keepsD) (simp only: assms(4) state_after.simps)
  then show ?thesis using assms(1,2) by blast
qed

lemma wf_steady: "steady m = steady n \<Longrightarrow> node_wf E m = node_wf E n"
  by (simp add: steady_def core_def node_wf_def)

text \<open>A node that works, knows the client's key, and has executed all that it has committed.\<close>

definition ready :: "'b env \<Rightarrow> PublicKey \<Rightarrow> 'b Node \<Rightarrow> bool" where
  "ready E key n \<longleftrightarrow> node_wf E n \<and> Live n \<and> \<not> ViewChanging n \<and> PublicKeyMap n ''client'' = Some key \<and>
     ExecutorSeq n = Seq n"

lemma single_executes:
  assumes "bolt_ok E" "node_wf E m" "Datastore m (ExecutorSeq m) = Some (entry_of i [] t ts)"
  shows "\<exists>m'. executor_round E m = Return m' () \<and> balance_view E (DB m') = transfer t (balance_view E (DB m)) \<and>
     held E (DB m') = held E (DB m) - {t_From t, t_To t} \<and> GoReplyToClient ts True (t_ClientSeq t) \<in> set (effects m')"
proof -
  obtain m' where m': "executor_round E m = Return m' ()"
    "abs_exec E m' = exec_step (Datastore m) (wal_view E (DB m)) (abs_exec E m)"
    using executor_round_refines [OF assms(1,2)] by blast
  have "abs_exec E m' = exec_unit (wal_view E (DB m)) (entry_of i [] t ts) (abs_exec E m)"
    unfolding m'(2) by (simp add: exec_step_def abs_exec_def assms(3))
  with m'(1) show ?thesis
    by (simp add: exec_unit_def entry_of_def unit_transfers_def unit_releases_def unit_effects_def abs_exec_def)
qed

lemma pair_executes:
  assumes "bolt_ok E" "node_wf E m" "Datastore m (ExecutorSeq m) = Some (entry_of i ''P'' t ts)"
    and "Datastore m (add64 (ExecutorSeq m) 1) = Some (entry_of j ''C'' t ts)"
  shows "\<exists>m'. executor_rounds E 2 m = Return m' () \<and> balance_view E (DB m') = transfer t (balance_view E (DB m)) \<and>
     held E (DB m') = held E (DB m) - {t_From t, t_To t}"
proof -
  let ?wal = "wal_view E (DB m)"
  obtain m' where m': "executor_rounds E 2 m = Return m' ()"
    "abs_exec E m' = (exec_step (Datastore m) ?wal ^^ 2) (abs_exec E m)"
    using executor_rounds_refine [OF assms(1,2)] by blast
  have "abs_exec E m' = exec_unit ?wal (entry_of j ''C'' t ts) (exec_unit ?wal (entry_of i ''P'' t ts) (abs_exec E m))"
    unfolding m'(2) by (simp add: numeral_2_eq_2 exec_step_def abs_exec_def assms(3,4)) (simp add: exec_unit_def assms(4))
  with m'(1) show ?thesis
    by (simp add: exec_unit_def entry_of_def unit_transfers_def unit_releases_def abs_exec_def)
qed

lemma taken_released:
  "L \<subseteq> {t_From t, t_To t} \<Longrightarrow> {t_From t, t_To t} \<inter> H = {} \<Longrightarrow> (H \<union> L) - {t_From t, t_To t} = H"
  by auto

lemma committed_settles:
  assumes "bolt_ok E" "node_wf E b" "committed_at E m i k [] t ts d b" "ExecutorSeq m = i" "{t_From t, t_To t} \<inter> held E (DB m) = {}"
  shows "\<exists>x. executor_round E b = Return x () \<and> balance_view E (DB x) = transfer t (balance_view E (DB m)) \<and>
     held E (DB x) = held E (DB m) \<and> GoReplyToClient ts True (t_ClientSeq t) \<in> set (effects x)"
proof -
  have b: "Datastore b (ExecutorSeq b) = Some (entry_of i [] t ts)" "balance_view E (DB b) = balance_view E (DB m)"
    "held E (DB b) = held E (DB m) \<union> taken [] t"
    using assms(3,4) by (auto simp: committed_at_def follows_def lasting_def intro: balance_view_cong)
  obtain x where "executor_round E b = Return x ()" "balance_view E (DB x) = transfer t (balance_view E (DB b))"
    "held E (DB x) = held E (DB b) - {t_From t, t_To t}" "GoReplyToClient ts True (t_ClientSeq t) \<in> set (effects x)"
    using single_executes [OF assms(1,2) b(1)] by blast
  then show ?thesis using b(2,3) taken_released [OF _ assms(5), of "taken [] t"] by (auto simp: taken_def)
qed

text \<open>A prepare followed by its decision, at either side.\<close>

definition pair_decided :: "'b env \<Rightarrow> 'b Node \<Rightarrow> string \<Rightarrow> Transaction \<Rightarrow> int64 \<Rightarrow> 'b Node \<Rightarrow> bool" where
  "pair_decided E n decision t ts m \<longleftrightarrow> ExecutorSeq m = ExecutorSeq n \<and>
     Datastore m (Seq n) = Some (entry_of (Seq n) ''P'' t ts) \<and>
     Datastore m (add64 (Seq n) 1) = Some (entry_of (add64 (Seq n) 1) decision t ts) \<and>
     balancesBucket (DB m) = balancesBucket (DB n) \<and> held E (DB m) = held E (DB n) \<union> taken ''P'' t \<and>
     walBucket (DB m) = wal_after E (DB n) ''P'' t"

abbreviation pair_committed :: "'b env \<Rightarrow> 'b Node \<Rightarrow> Transaction \<Rightarrow> int64 \<Rightarrow> 'b Node \<Rightarrow> bool" where
  "pair_committed E n \<equiv> pair_decided E n ''C''"

lemma prepare_then_decide:
  assumes "run_committed E n ''P'' t ts d n1" "steady n2 = steady n1" "run_committed E n2 decision t ts d n3" "in64 (Seq n)"
    and "decision \<noteq> []" "decision \<noteq> ''P''"
  shows "pair_decided E n decision t ts n3"
proof -
  have one: "add64 (Seq n) 1 \<noteq> Seq n" using add64_left_inj [of 1 0 "Seq n"] assms(4)
    by (simp add: in64_def min64_def max64_def add64_in)
  have n2: "Seq n2 = add64 (Seq n) 1" "ExecutorSeq n2 = ExecutorSeq n" "Datastore n2 = (Datastore n)(Seq n \<mapsto> entry_of (Seq n) ''P'' t ts)"
    "balancesBucket (DB n2) = balancesBucket (DB n)" "held E (DB n2) = held E (DB n) \<union> taken ''P'' t"
    "walBucket (DB n2) = wal_after E (DB n) ''P'' t"
    using assms(1,2) by (auto simp: run_committed_simps steady_def core_def)
  have n3: "ExecutorSeq n3 = ExecutorSeq n2" "Datastore n3 = (Datastore n2)(Seq n2 \<mapsto> entry_of (Seq n2) decision t ts)"
    "balancesBucket (DB n3) = balancesBucket (DB n2)" "held E (DB n3) = held E (DB n2) \<union> taken decision t"
    "walBucket (DB n3) = walBucket (DB n2)"
    using assms(3,6) by (auto simp: run_committed_simps wal_after_def)
  show ?thesis using one assms(5,6) by (simp add: pair_decided_def n2 n3) (simp add: taken_def)
qed

lemma pair_committed_executes:
  assumes "bolt_ok E" "pair_committed E n t ts m" "node_wf E m" "ExecutorSeq n = Seq n" "{t_From t, t_To t} \<inter> held E (DB n) = {}"
  shows "\<exists>m'. executor_rounds E 2 m = Return m' () \<and> balance_view E (DB m') = transfer t (balance_view E (DB n)) \<and>
     held E (DB m') = held E (DB n)"
proof -
  have m: "Datastore m (ExecutorSeq m) = Some (entry_of (Seq n) ''P'' t ts)"
    "Datastore m (add64 (ExecutorSeq m) 1) = Some (entry_of (add64 (Seq n) 1) ''C'' t ts)"
    "balance_view E (DB m) = balance_view E (DB n)" "held E (DB m) = held E (DB n) \<union> taken ''P'' t"
    using assms(2,4) by (auto simp: pair_decided_def intro: balance_view_cong)
  obtain m' where "executor_rounds E 2 m = Return m' ()" "balance_view E (DB m') = transfer t (balance_view E (DB m))"
    "held E (DB m') = held E (DB m) - {t_From t, t_To t}"
    using pair_executes [OF assms(1,3) m(1,2)] by blast
  then show ?thesis using m(3,4) taken_released [OF _ assms(5), of "taken ''P'' t"] by (auto simp: taken_def)
qed

section \<open>The two sides of a cross-shard transfer\<close>

lemma send_commit_accepted:
  assumes "list_all (leaves_steady \<circ> fst) tries" "True \<in> snd ` set tries"
  shows "\<exists>n'. send_commit l pc tries n = Return n' () \<and> steady n' = steady n \<and>
     insert (RpcPCCommit l pc) (set (effects n)) \<subseteq> set (effects n')"
  using assms
proof (induction tries arbitrary: n)
  case (Cons a tries)
  obtain f accepted where a: "a = (f, accepted)" by (cases a)
  let ?n = "f (emit (RpcPCCommit l pc) n)"
  have "steady (emit (RpcPCCommit l pc) n) = steady n" by (simp add: emit_def steady_def core_def)
  moreover have "set (effects (emit (RpcPCCommit l pc) n)) = insert (RpcPCCommit l pc) (set (effects n))" by (simp add: emit_def)
  ultimately have n: "steady ?n = steady n" "insert (RpcPCCommit l pc) (set (effects n)) \<subseteq> set (effects ?n)"
    using Cons.prems(1) by (auto simp: a leaves_steady_def)
  show ?case
  proof (cases accepted)
    case True
    with n show ?thesis by (simp add: a Let_def)
  next
    case False
    then have "\<exists>n'. send_commit l pc tries ?n = Return n' () \<and> steady n' = steady ?n \<and>
        insert (RpcPCCommit l pc) (set (effects ?n)) \<subseteq> set (effects n')"
      using Cons.prems by (intro Cons.IH) (auto simp: a)
    with n False show ?thesis by (auto simp: a Let_def)
  qed
qed simp

text \<open>The coordinator's side: what its environment does, when nothing goes wrong.\<close>

definition smooth :: "'b env \<Rightarrow> (string \<rightharpoonup> PublicKey) \<Rightarrow> string \<Rightarrow> 'b cross_io \<Rightarrow> bool" where
  "smooth E keys digest io \<longleftrightarrow> votes_arrive E keys digest (prepare_run io) \<and> votes_arrive E keys digest (decide_run io) \<and>
     leaves_steady (ack_rely io) \<and> ack io \<and>
     list_all (leaves_steady \<circ> fst) (commit_attempts io) \<and> True \<in> snd ` set (commit_attempts io)"

text \<open>The two runs of the coordinator, before and after the participant's answer.\<close>

lemma coordinator_runs:
  assumes env: "bolt_ok E" "json_pointers_ok E" "MD5Hash E (JClientReq (Some r)) = Some d" "tx_of r = Some t" "seconds_of r = Some ts"
    and n: "node_wf E n" "can_run E n ''P'' t" "in64 (Seq n)"
    and io: "votes_arrive E (PublicKeyMap n) d (prepare_run io)" "votes_arrive E (PublicKeyMap n) d (decide_run io)" "leaves_steady (ack_rely io)"
    and l: "LeaderMap n (t_ClusterTo t) = Some l" "l \<in> set (peers n (t_ClusterTo t))"
    and dec: "decision \<noteq> []" "decision \<noteq> ''P''"
  shows "\<exists>n1 p pp pc n3 p3. runPBFT E (prepare_run io) n r 0 ''P'' = Return n1 (Some p, None) \<and>
     ppr_PrePrepare p = Some pp \<and> pp_Sequence pp = Seq n \<and> LeaderMap n1 (t_ClusterTo t) = Some l \<and>
     l \<in> set (peers n1 (t_ClusterTo t)) \<and>
     pc = \<lparr>pcr_SignedClientReq = Some r, pcr_Commits = CommitCerts n1 (Seq n), pcr_NodeId = node_Id n1\<rparr> \<and>
     runPBFT E (decide_run io) (ack_rely io (emit (RpcPCPrepare l pc) n1)) r 0 decision = Return n3 (Some p3, None) \<and>
     pair_decided E n decision t ts n3 \<and> node_wf E n3 \<and> RpcPCPrepare l pc \<in> set (effects n3) \<and>
     2 * F + 1 \<le> length (pcr_Commits pc) \<and> list_all (commit_vote E (PublicKeyMap n) d) (pcr_Commits pc)"
proof -
  obtain n1 p pp where run1: "runPBFT E (prepare_run io) n r 0 ''P'' = Return n1 (Some p, None)"
      "ppr_PrePrepare p = Some pp" "pp_Sequence pp = Seq n"
    and c1: "run_committed E n ''P'' t ts d n1"
    using run_commits [OF env(1,3,4,5) n(2) io(1)] by blast
  define pc where "pc = \<lparr>pcr_SignedClientReq = Some r, pcr_Commits = CommitCerts n1 (Seq n), pcr_NodeId = node_Id n1\<rparr>"
  let ?n2 = "ack_rely io (emit (RpcPCPrepare l pc) n1)"
  have emitted: "steady (emit e m) = steady m" "set (effects (emit e m)) = insert e (set (effects m))" for e and m :: "'a Node"
    by (simp_all add: emit_def steady_def core_def)
  have n2: "steady ?n2 = steady n1" "RpcPCPrepare l pc \<in> set (effects ?n2)"
    using io(3) emitted [of "RpcPCPrepare l pc" n1] by (auto simp: leaves_steady_def)
  have "lasting ?n2 = lasting n" "lasting n1 = lasting n"
    using lasting_steady [OF n2(1)] c1 by (simp_all add: run_committed_simps)
  then have same: "PublicKeyMap ?n2 = PublicKeyMap n" "Byzantine ?n2 = Byzantine n" "LeaderMap n1 = LeaderMap n" "ClientMap n1 = ClientMap n"
    by (simp_all add: lasting_def)
  have wf2: "node_wf E ?n2"
    using run_keeps_wf [OF env(1,2) n(1) run1(1) io(1)] wf_steady [OF n2(1), of E] by blast
  have can2: "can_run E ?n2 decision t" using n(2) same(2) dec by (simp add: can_run_def)
  have votes2: "votes_arrive E (PublicKeyMap ?n2) d (decide_run io)" unfolding same(1) by (rule io(2))
  obtain n3 p3 where run3: "runPBFT E (decide_run io) ?n2 r 0 decision = Return n3 (Some p3, None)"
    and c3: "run_committed E ?n2 decision t ts d n3"
    using run_commits [OF env(1,3,4,5) can2 votes2] by blast
  have "node_wf E n3" by (rule run_keeps_wf [OF env(1,2) wf2 run3 votes2])
  moreover have "LeaderMap n1 (t_ClusterTo t) = Some l" "l \<in> set (peers n1 (t_ClusterTo t))"
    using l same(3,4) by (simp_all add: peers_def)
  moreover have "pair_decided E n decision t ts n3" by (rule prepare_then_decide [OF c1 n2(1) c3 n(3) dec])
  moreover have "RpcPCPrepare l pc \<in> set (effects n3)" using n2(2) c3 by (auto simp: run_committed_simps)
  moreover have "2 * F + 1 \<le> length (pcr_Commits pc)" "list_all (commit_vote E (PublicKeyMap n) d) (pcr_Commits pc)"
    using c1 by (simp_all add: pc_def committed_at_def)
  ultimately show ?thesis using run1 run3 pc_def by blast
qed

lemma coordinator_completes:
  assumes env: "bolt_ok E" "json_pointers_ok E" "MD5Hash E (JClientReq (Some r)) = Some d" "tx_of r = Some t" "seconds_of r = Some ts"
    and n: "node_wf E n" "can_run E n ''P'' t" "in64 (Seq n)" "smooth E (PublicKeyMap n) d io"
    and l: "LeaderMap n (t_ClusterTo t) = Some l" "l \<in> set (peers n (t_ClusterTo t))"
  shows "\<exists>n' pc. runCrossShard E io n r 0 = Return n' () \<and> pair_committed E n t ts n' \<and> node_wf E n' \<and>
     {RpcPCPrepare l pc, RpcPCCommit l pc, GoReplyToClient ts True (t_ClientSeq t)} \<subseteq> set (effects n') \<and>
     pcr_SignedClientReq pc = Some r \<and> 2 * F + 1 \<le> length (pcr_Commits pc) \<and>
     list_all (commit_vote E (PublicKeyMap n) d) (pcr_Commits pc)"
proof -
  have io: "votes_arrive E (PublicKeyMap n) d (prepare_run io)" "votes_arrive E (PublicKeyMap n) d (decide_run io)"
    "leaves_steady (ack_rely io)" "ack io" "list_all (leaves_steady \<circ> fst) (commit_attempts io)"
    "True \<in> snd ` set (commit_attempts io)" using n(4) by (simp_all only: smooth_def)
  have dec: "''C'' \<noteq> []" "''C'' \<noteq> ''P''" by simp_all
  obtain cq where cq: "scr_ClientRequest r = Some cq" "cr_Transaction cq = Some t"
    using env(4) by (auto simp: tx_of_def bind_eq_Some_conv)
  obtain n1 p pp pc n3 p3 where run1: "runPBFT E (prepare_run io) n r 0 ''P'' = Return n1 (Some p, None)"
      "ppr_PrePrepare p = Some pp" "pp_Sequence pp = Seq n"
    and peer: "LeaderMap n1 (t_ClusterTo t) = Some l" "l \<in> set (peers n1 (t_ClusterTo t))"
    and pc: "pc = \<lparr>pcr_SignedClientReq = Some r, pcr_Commits = CommitCerts n1 (Seq n), pcr_NodeId = node_Id n1\<rparr>"
    and run3: "runPBFT E (decide_run io) (ack_rely io (emit (RpcPCPrepare l pc) n1)) r 0 ''C'' = Return n3 (Some p3, None)"
    and n3: "pair_committed E n t ts n3" "node_wf E n3" "RpcPCPrepare l pc \<in> set (effects n3)"
    and votes: "2 * F + 1 \<le> length (pcr_Commits pc)" "list_all (commit_vote E (PublicKeyMap n) d) (pcr_Commits pc)"
    using coordinator_runs [OF env n(1-3) io(1-3) l dec] by (elim exE conjE) (rule that)
  let ?n4 = "emits [GoReplyToClient ts True (t_ClientSeq t), GoEraseWal (t_ClientSeq t)] n3"
  have n4: "steady ?n4 = steady n3" "set (effects n3) \<subseteq> set (effects ?n4)" "GoReplyToClient ts True (t_ClientSeq t) \<in> set (effects ?n4)"
    by (auto simp: emits_def steady_def core_def)
  obtain n5 where n5: "send_commit l pc (commit_attempts io) ?n4 = Return n5 ()" "steady n5 = steady ?n4"
    "insert (RpcPCCommit l pc) (set (effects ?n4)) \<subseteq> set (effects n5)"
    using send_commit_accepted [OF io(5,6), of l pc ?n4] by blast
  have "cross_decide E io n1 r t (Seq n) = Return n5 ()"
    using io(4) by (simp add: cross_decide_def Let_def peer with_client_def pc [symmetric] run3 with_seconds_eq env(5) n5(1))
  then have "runCrossShard E io n r 0 = Return n5 ()"
    by (simp add: runCrossShard_def cq run1)
  moreover have "pair_committed E n t ts n5"
    using n3(1) n4(1) n5(2) by (simp add: pair_decided_def steady_def core_def)
  moreover have "node_wf E n5" using n3(2) wf_steady [of n5 n3 E] n4(1) n5(2) by simp
  moreover have "RpcPCPrepare l pc \<in> set (effects n5)" using n3(3) n4(2) n5(3) by blast
  moreover have "pcr_SignedClientReq pc = Some r" by (simp add: pc)
  ultimately show ?thesis using votes n4(3) n5(3) by blast
qed

text \<open>The participant counts the coordinator's commits, when it knows the keys they are signed with.\<close>

lemma matching_votes:
  assumes "keys \<subseteq>\<^sub>m PublicKeyMap m" "commit_vote E keys d c"
  shows "matching_commit E m d c \<and> has_commit c"
  using assms by (auto simp: commit_vote_def matching_commit_def map_le_def dom_def)

lemma participant_prepares:
  assumes env: "bolt_ok E" "json_pointers_ok E" "MD5Hash E (JClientReq (Some r)) = Some d" "tx_of r = Some t" "seconds_of r = Some ts"
    and pc: "pcr_SignedClientReq pc = Some r" "2 * F + 1 \<le> length (pcr_Commits pc)" "list_all (commit_vote E keys d) (pcr_Commits pc)"
      "keys \<subseteq>\<^sub>m PublicKeyMap m"
    and client: "PublicKeyMap m ''client'' = Some pk" "verified E pk (top_fields wire_ClientRequest (scr_ClientRequest r)) (scr_Signature r)"
    and m: "node_wf E m" "can_run E m ''P'' t" and io: "votes_arrive E (PublicKeyMap m) d io"
  shows "\<exists>m1 p. runPBFT E io m r 0 ''P'' = Return m1 (Some p, None) \<and>
     rpc_PCPrepare E io m pc = Return m1 (Inr (pc_success m1)) \<and> run_committed E m ''P'' t ts d m1 \<and> node_wf E m1"
proof -
  have "list_all has_commit (pcr_Commits pc)" "filter (matching_commit E m d) (pcr_Commits pc) = pcr_Commits pc"
    using pc(3) matching_votes [OF pc(4)] by (auto simp: list_all_iff filter_id_conv)
  then have valid: "validatePCPCommits E m pc = Return m None"
    using pc(1,2) client env(3) by (simp add: validatePCPCommits_def getPublicKey_def count_commits_eq)
  obtain m1 p where run1: "runPBFT E io m r 0 ''P'' = Return m1 (Some p, None)" and c1: "run_committed E m ''P'' t ts d m1"
    using run_commits [OF env(1,3,4,5) m(2) io] by blast
  moreover have "rpc_PCPrepare E io m pc = Return m1 (Inr (pc_success m1))"
    by (simp add: rpc_PCPrepare_def pc(1) with_tx_eq env(4) valid run1)
  moreover have "node_wf E m1" by (rule run_keeps_wf [OF env(1,2) m(1) run1 io])
  ultimately show ?thesis by blast
qed

lemma participant_completes:
  assumes env: "bolt_ok E" "json_pointers_ok E" "MD5Hash E (JClientReq (Some r)) = Some d" "tx_of r = Some t" "seconds_of r = Some ts"
    and pc: "pcr_SignedClientReq pc = Some r" "2 * F + 1 \<le> length (pcr_Commits pc)" "list_all (commit_vote E keys d) (pcr_Commits pc)"
      "keys \<subseteq>\<^sub>m PublicKeyMap m"
    and client: "PublicKeyMap m ''client'' = Some pk" "verified E pk (top_fields wire_ClientRequest (scr_ClientRequest r)) (scr_Signature r)"
    and m: "node_wf E m" "can_run E m ''P'' t" "in64 (Seq m)"
    and io: "votes_arrive E (PublicKeyMap m) d io" "votes_arrive E (PublicKeyMap m) d io'" "leaves_steady wait"
  shows "\<exists>m1 m2. rpc_PCPrepare E io m pc = Return m1 (Inr (pc_success m1)) \<and>
     rpc_PCCommit E io' (wait m1) pc = Return m2 (Inr (pc_success m2)) \<and> pair_committed E m t ts m2 \<and> node_wf E m2"
proof -
  obtain m1 p where part: "rpc_PCPrepare E io m pc = Return m1 (Inr (pc_success m1))" "node_wf E m1"
    and c1: "run_committed E m ''P'' t ts d m1"
    using participant_prepares [OF env pc client m(1,2) io(1)] by blast
  let ?m2 = "(wait m1)\<lparr>PCCommitsMap := (PCCommitsMap (wait m1))(t_ClientSeq t := True)\<rparr>"
  have m2: "steady ?m2 = steady m1" using io(3) by (simp add: leaves_steady_def steady_def core_def)
  have same: "PublicKeyMap ?m2 = PublicKeyMap m" "Byzantine ?m2 = Byzantine m"
    using lasting_steady [OF m2] c1 by (simp_all add: run_committed_simps)
  have wf2: "node_wf E ?m2" using part(2) wf_steady [OF m2, of E] by blast
  have can2: "can_run E ?m2 ''C'' t" using m(2) same(2) by (simp add: can_run_def)
  have votes2: "votes_arrive E (PublicKeyMap ?m2) d io'" unfolding same(1) by (rule io(2))
  obtain m3 p3 where run3: "runPBFT E io' ?m2 r 0 ''C'' = Return m3 (Some p3, None)" and c3: "run_committed E ?m2 ''C'' t ts d m3"
    using run_commits [OF env(1,3,4,5) can2 votes2] by blast
  have "rpc_PCCommit E io' (wait m1) pc = Return m3 (Inr (pc_success m3))"
    by (simp add: rpc_PCCommit_def pc(1) with_tx_eq env(4) Let_def run3)
  moreover have "pair_committed E m t ts m3" by (rule prepare_then_decide [OF c1 m2 c3 m(3)]) simp_all
  moreover have "node_wf E m3" by (rule run_keeps_wf [OF env(1,2) wf2 run3 votes2])
  ultimately show ?thesis using part(1) by blast
qed

end
