(* ===== verification/EndToEnd.thy ===== *)
theory EndToEnd
  imports Settlement
begin

text \<open>
  Transfers from end to end, when nothing goes wrong: within a cluster from the gateway's
  signed request to the reply it accepts, and across clusters with the messages that the
  coordinator sends handed to the participant.
\<close>

section \<open>Requests and replies\<close>

lemma getSignedClientReq_parts:
  "tx_of (getSignedClientReq E gw t ts) = Some t" "seconds_of (getSignedClientReq E gw t ts) = Some ts"
  "\<exists>cq. scr_ClientRequest (getSignedClientReq E gw t ts) = Some cq \<and> cr_Transaction cq = Some t"
  by (simp_all add: getSignedClientReq_def tx_of_def seconds_of_def Let_def)

lemma getSignedClientReq_verified:
  assumes "crypto_ok E" "\<And>m. SignMessage E (gw_PrivateKey gw) m \<noteq> None"
  shows "verified E (sk_Public (gw_PrivateKey gw))
    (top_fields wire_ClientRequest (scr_ClientRequest (getSignedClientReq E gw t ts))) (scr_Signature (getSignedClientReq E gw t ts))"
proof -
  obtain cq where cq: "scr_ClientRequest (getSignedClientReq E gw t ts) = Some cq"
    "scr_Signature (getSignedClientReq E gw t ts) = signature_or_nil E (gw_PrivateKey gw) (wire_ClientRequest cq)"
    by (simp add: getSignedClientReq_def Let_def)
  with assms(2) [of "wire_ClientRequest cq"] SignMessage_verified [OF assms(1), of "gw_PrivateKey gw" "wire_ClientRequest cq"]
  show ?thesis by (auto simp: signature_or_nil_def)
qed

lemma executor_round_identity:
  assumes "executor_round E m = Return m' ()"
  shows "node_Id m' = node_Id m \<and> node_PrivateKey m' = node_PrivateKey m"
  using identity.all_runs_keep [of E True m m'] execute [of True E m m'] assms by fastforce

lemma reply_sent:
  assumes "\<And>m. SignMessage E (node_PrivateKey n) m \<noteq> None"
  shows "replyToClient E n ts res k \<noteq> n"
proof
  let ?r = "\<lparr>r_View = View n, r_Timestamp = Some \<lparr>ts_Seconds = ts, ts_Nanos = 0\<rparr>, r_Server = node_Id n,
      r_Result = res, r_Clientseq = k\<rparr>"
  assume "replyToClient E n ts res k = n"
  then have "effects (replyToClient E n ts res k) = effects n" by simp
  then show False using assms [of "wire_Reply ?r"] by (auto simp: replyToClient_def Let_def emit_def)
qed

text \<open>A leader's own entry: the request is fresh, and the node leads its view.\<close>

definition fresh_at_leader :: "'b Node \<Rightarrow> int64 \<Rightarrow> bool" where
  "fresh_at_leader n ts \<longleftrightarrow> getViewLeader n = Some (node_Id n) \<and> RequestLog n ts = None"

lemma ExecuteTransaction_fresh:
  assumes "ready E (sk_Public (gw_PrivateKey gw)) n" "fresh_at_leader n ts" "crypto_ok E"
    and "\<And>m. SignMessage E (gw_PrivateKey gw) m \<noteq> None" "r = getSignedClientReq E gw t ts"
    and "(if t_ClusterFrom t = t_ClusterTo t then runIntrashard E (prepare_run io) (emit GoTimerStartIfNotRunning n) r 0
          else runCrossShard E io (emit GoTimerStartIfNotRunning n) r 0) = Return n' ()"
  shows "rpc_ExecuteTransaction E io n r = Return n' None"
proof -
  have leads: "getViewLeader (emit GoTimerStartIfNotRunning n) = getViewLeader n" "node_Id (emit GoTimerStartIfNotRunning n) = node_Id n"
    by (simp_all add: getViewLeader_def emit_def)
  obtain cq where r: "seconds_of r = Some ts" "tx_of r = Some t" "scr_ClientRequest r = Some cq" "cr_Transaction cq = Some t"
    and "verified E (sk_Public (gw_PrivateKey gw)) (top_fields wire_ClientRequest (Some cq)) (scr_Signature r)"
    using getSignedClientReq_parts [of E gw t ts] getSignedClientReq_verified [OF assms(3,4), of t ts]
    unfolding assms(5) by fastforce
  then show ?thesis
    using assms(1,2)
    by (simp add: rpc_ExecuteTransaction_def ready_def fresh_at_leader_def with_seconds_eq with_tx_eq leads Let_def assms(6)
        split del: if_split)
qed

lemma timer_started:
  fixes n :: "'b Node"
  defines "m \<equiv> emit GoTimerStartIfNotRunning n"
  shows "steady m = steady n" "can_run E m status t = can_run E n status t" "PublicKeyMap m = PublicKeyMap n" "Seq m = Seq n"
    "ExecutorSeq m = ExecutorSeq n" "node_wf E m = node_wf E n" "LeaderMap m = LeaderMap n" "peers m c = peers n c" "DB m = DB n"
  by (simp_all add: m_def emit_def steady_def core_def can_run_def node_wf_def peers_def)

section \<open>A concrete leader and its gateway\<close>

lemma demo_request_of_gateway: "getSignedClientReq demo_env demo_gateway t 100 = demo_request_of t"
  by (simp add: getSignedClientReq_def demo_request_of_def Let_def demo_gateway_def gateway_establishConns_def
      gateway_readJson_def new_gateway_def)

lemma demo_gateway_key: "gw_PrivateKey demo_gateway = demo_key 0"
  by (simp add: demo_gateway_def gateway_establishConns_def gateway_readJson_def new_gateway_def)

lemma demo_signs: "SignMessage demo_env sk m \<noteq> None"
  by (simp add: SignMessage_def demo_simps demo_marshal_def demo_sign_def)

lemma demo_gateway_digest:
  "MD5Hash demo_env (JClientReq (Some (getSignedClientReq demo_env demo_gateway t 100))) = Some (demo_digest t)"
  by (simp add: demo_request_of_gateway demo_MD5)

lemma demo_votes_arrive: "votes_arrive demo_env demo_keys dg (demo_io dg)"
proof -
  have "prepare_vote demo_env demo_keys dg (demo_prepare_cert 2 ''S2'' 1 dg)"
    "prepare_vote demo_env demo_keys dg (demo_prepare_cert 3 ''S3'' 1 dg)"
    using demo_verified [of 2] demo_verified [of 3]
    by (simp_all add: prepare_vote_def demo_prepare_cert_def Let_def demo_keys_def)
  moreover have "commit_vote demo_env demo_keys dg (demo_commit_cert 1 ''S1'' 1 dg)"
    "commit_vote demo_env demo_keys dg (demo_commit_cert 2 ''S2'' 1 dg)"
    "commit_vote demo_env demo_keys dg (demo_commit_cert 3 ''S3'' 1 dg)"
    using demo_verified [of 1] demo_verified [of 2] demo_verified [of 3]
    by (simp_all add: commit_vote_def demo_commit_cert_def Let_def demo_keys_def)
  ultimately have "enough_votes demo_env demo_keys dg (demo_io dg)"
    unfolding enough_votes_def demo_collect by (simp add: F_def)
  then show ?thesis by (simp add: votes_arrive_def) (simp add: demo_io_def)
qed

lemma demo_ready:
  "ready demo_env (sk_Public (gw_PrivateKey demo_gateway)) demo_node" "fresh_at_leader demo_node 100"
proof -
  have "getViewLeader demo_node = Some (node_Id demo_node)"
    using demo_leader by (simp add: demo_replica_def getViewLeader_def demo_node_tables)
  then show "fresh_at_leader demo_node 100" by (simp add: fresh_at_leader_def demo_node_tables)
  show "ready demo_env (sk_Public (gw_PrivateKey demo_gateway)) demo_node"
    by (simp add: ready_def demo_node_wf demo_node_tables demo_gateway_key demo_keys_def demo_key_def)
qed

lemma demo_can_run: "t_From t = ''1'' \<Longrightarrow> t_Amount t \<le> 10 \<Longrightarrow> can_run demo_env demo_node status t"
  by (simp add: can_run_def demo_node_tables demo_no_locks demo_has_ten)

text \<open>The environment of a cross-shard run in which the second attempt at the commit call is accepted.\<close>

definition demo_smooth_io :: "Transaction \<Rightarrow> demo_bucket cross_io" where
  "demo_smooth_io t = (let io = demo_io (demo_digest t) in
     \<lparr>prepare_run = io, ack_rely = id, ack = True, decide_run = io, commit_attempts = [(id, False), (id, True)]\<rparr>)"

lemma demo_smooth:
  "smooth demo_env demo_keys (demo_digest t) (demo_smooth_io t)"
  "votes_arrive demo_env demo_keys (demo_digest t) (prepare_run (demo_smooth_io t))"
  by (simp_all add: smooth_def demo_smooth_io_def Let_def demo_votes_arrive)

section \<open>Within a cluster\<close>

text \<open>
  C5. A transfer completes: when the gateway's signed request for a transfer within a cluster
  reaches a working leader that has not seen it, has executed all it has committed, and holds
  enough of the sender's money and no lock of either client, and the cluster's votes for the
  request's digest arrive in time, then the handler returns, one round of the executor moves
  exactly this transfer's money, no lock is left behind, and the reply it causes passes the
  gateway's check and tells it of success under the request's timestamp.
\<close>

theorem transfer_completes:
  assumes "bolt_ok E" "json_pointers_ok E" "crypto_ok E"
    and "\<And>m. SignMessage E (gw_PrivateKey gw) m \<noteq> None" "\<And>m. SignMessage E (node_PrivateKey n) m \<noteq> None"
    and "r = getSignedClientReq E gw t ts" "MD5Hash E (JClientReq (Some r)) = Some d"
    and "ready E (sk_Public (gw_PrivateKey gw)) n" "fresh_at_leader n ts" "can_run E n [] t"
    and "t_ClusterFrom t = t_ClusterTo t" "votes_arrive E (PublicKeyMap n) d (prepare_run io)"
    and "gw_PublicKeyMap gw' (node_Id n) = Some (sk_Public (node_PrivateKey n))"
  shows "\<exists>n1 n2 sr g. rpc_ExecuteTransaction E io n r = Return n1 None \<and>
     executor_round E n1 = Return n2 () \<and> balance_view E (DB n2) = transfer t (balance_view E (DB n)) \<and>
     held E (DB n2) = held E (DB n) \<and> GoReplyToClient ts True (t_ClientSeq t) \<in> set (effects n2) \<and>
     effects (replyToClient E n2 ts True (t_ClientSeq t)) = effects n2 @ [RpcReply sr] \<and>
     gateway_Reply E gw' sr = Return g None \<and>
     gw_effects g = gw_effects gw' @ [ChanResult \<lparr>rr_Timestamp = ts, rr_Result = True, rr_Server = node_Id n,
        rr_View = View n2, rr_ClientSeq = t_ClientSeq t\<rparr>]"
proof -
  let ?n = "emit GoTimerStartIfNotRunning n"
  have r: "tx_of r = Some t" "seconds_of r = Some ts" by (simp_all add: assms(6) getSignedClientReq_parts)
  have can: "can_run E ?n [] t" and votes: "votes_arrive E (PublicKeyMap ?n) d (prepare_run io)"
    using assms(10,12) by (simp_all only: timer_started)
  obtain n1 p where run: "runPBFT E (prepare_run io) ?n r 0 [] = Return n1 (Some p, None)"
    and committed: "run_committed E ?n [] t ts d n1"
    using run_commits [OF assms(1,7) r can votes] by blast
  have "runIntrashard E (prepare_run io) ?n r 0 = Return n1 ()"
    using getSignedClientReq_parts(3) [of E gw t ts] assms(6) run by (auto simp: runIntrashard_def)
  then have returned: "rpc_ExecuteTransaction E io n r = Return n1 None"
    using ExecuteTransaction_fresh [OF assms(8,9,3,4,6), of io n1] assms(11) by simp
  have "node_wf E ?n" "ExecutorSeq n = Seq n" using assms(8) by (simp_all add: ready_def timer_started)
  then have wf: "node_wf E n1" using run_keeps_wf [OF assms(1,2) _ run votes] by blast
  have same: "committed_at E n (Seq n) (next_numbering ?n) [] t ts d n1"
    using committed by (simp add: run_committed_simps emit_def)
  obtain n2 where n2: "executor_round E n1 = Return n2 ()" "balance_view E (DB n2) = transfer t (balance_view E (DB n))"
    "held E (DB n2) = held E (DB n)" "GoReplyToClient ts True (t_ClientSeq t) \<in> set (effects n2)"
    using committed_settles [OF assms(1) wf same \<open>ExecutorSeq n = Seq n\<close>] assms(10) by (auto simp: can_run_def)
  have id: "node_Id n2 = node_Id n" "node_PrivateKey n2 = node_PrivateKey n"
    using executor_round_identity [OF n2(1)] same by (simp_all add: run_committed_simps)
  have key: "gw_PublicKeyMap gw' (node_Id n2) = Some (sk_Public (node_PrivateKey n2))" using assms(13) by (simp only: id)
  have "replyToClient E n2 ts True (t_ClientSeq t) \<noteq> n2" by (rule reply_sent) (simp only: id assms(5) not_False_eq_True)
  from node_reply_reaches_client [OF assms(3) this key] id obtain sr g where
    "effects (replyToClient E n2 ts True (t_ClientSeq t)) = effects n2 @ [RpcReply sr]"
    "gateway_Reply E gw' sr = Return g None"
    "gw_effects g = gw_effects gw' @ [ChanResult \<lparr>rr_Timestamp = ts, rr_Result = True, rr_Server = node_Id n,
        rr_View = View n2, rr_ClientSeq = t_ClientSeq t\<rparr>]"
    by auto
  with returned n2 show ?thesis by auto
qed

theorem transfer_completes_witness:
  "\<exists>n1 n2 sr g. rpc_ExecuteTransaction demo_env (demo_smooth_io demo_tx) demo_node (getSignedClientReq demo_env demo_gateway demo_tx 100) = Return n1 None \<and>
     executor_round demo_env n1 = Return n2 () \<and>
     balance_view demo_env (DB n2) ''1'' = Some 7 \<and> balance_view demo_env (DB n2) ''2'' = Some 13 \<and> held demo_env (DB n2) = {} \<and>
     effects (replyToClient demo_env n2 100 True 7) = effects n2 @ [RpcReply sr] \<and> gateway_Reply demo_env demo_gateway sr = Return g None"
proof -
  have tx: "t_From demo_tx = ''1''" "t_To demo_tx = ''2''" "t_ClusterFrom demo_tx = t_ClusterTo demo_tx"
    "t_Amount demo_tx = 3" "t_ClientSeq demo_tx = 7"
    by (simp_all add: demo_tx_def)
  have key: "gw_PublicKeyMap demo_gateway (node_Id demo_node) = Some (sk_Public (node_PrivateKey demo_node))"
    by (simp add: demo_node_tables demo_gateway_sel demo_keys_def demo_key_def)
  have can: "can_run demo_env demo_node [] demo_tx" by (simp add: demo_can_run tx)
  have votes: "votes_arrive demo_env (PublicKeyMap demo_node) (demo_digest demo_tx) (prepare_run (demo_smooth_io demo_tx))"
    by (simp add: demo_node_tables demo_smooth)
  have view: "balance_view demo_env demo_db ''1'' = Some 10" "balance_view demo_env demo_db ''2'' = Some 10"
    by (simp_all add: balance_view_def GetBalance_def demo_db_buckets demo_simps demo_get_def valid_key_def demo_ten_parsed)
  have moved: "transfer demo_tx (balance_view demo_env (DB demo_node)) ''1'' = Some 7"
    "transfer demo_tx (balance_view demo_env (DB demo_node)) ''2'' = Some 13"
    using view by (simp_all add: transfer_def credit_view_def debit_view_def demo_node_tables tx int64_simps in64_def min64_def max64_def)
  from transfer_completes [OF demo_bolt_ok demo_json_pointers_ok demo_crypto_ok demo_signs demo_signs refl demo_gateway_digest
      demo_ready can tx(3) votes key]
  show ?thesis using moved tx(5) by (auto simp: demo_node_tables demo_no_locks)
qed

section \<open>Across clusters\<close>

text \<open>
  C4. A transfer across clusters completes: the gateway's request reaches the working leader of
  the sender's cluster, which can run the prepare and is told of the participant's consent;
  both clusters' votes arrive. Then the coordinator returns, and the messages it has sent to
  the participant, in whatever state the participant is ready, make it prepare and then
  commit; two rounds of the executor at each of them apply the transfer exactly once at both,
  and neither keeps a lock.
\<close>

theorem cross_shard_completes:
  assumes "bolt_ok E" "json_pointers_ok E" "crypto_ok E" "\<And>m. SignMessage E (gw_PrivateKey gw) m \<noteq> None"
    and "r = getSignedClientReq E gw t ts" "MD5Hash E (JClientReq (Some r)) = Some d" "t_ClusterFrom t \<noteq> t_ClusterTo t"
    and n: "ready E (sk_Public (gw_PrivateKey gw)) n" "fresh_at_leader n ts" "can_run E n ''P'' t" "in64 (Seq n)"
      "smooth E (PublicKeyMap n) d io"
    and l: "LeaderMap n (t_ClusterTo t) = Some l" "l \<in> set (peers n (t_ClusterTo t))"
    and m: "ready E (sk_Public (gw_PrivateKey gw)) m" "can_run E m ''P'' t" "in64 (Seq m)" "PublicKeyMap n \<subseteq>\<^sub>m PublicKeyMap m"
      "votes_arrive E (PublicKeyMap m) d prepare_io" "votes_arrive E (PublicKeyMap m) d commit_io" "leaves_steady wait"
  shows "\<exists>n1 n2 pc m1 m2 m3. rpc_ExecuteTransaction E io n r = Return n1 None \<and>
     {RpcPCPrepare l pc, RpcPCCommit l pc, GoReplyToClient ts True (t_ClientSeq t)} \<subseteq> set (effects n1) \<and>
     rpc_PCPrepare E prepare_io m pc = Return m1 (Inr (pc_success m1)) \<and>
     rpc_PCCommit E commit_io (wait m1) pc = Return m2 (Inr (pc_success m2)) \<and>
     executor_rounds E 2 n1 = Return n2 () \<and> balance_view E (DB n2) = transfer t (balance_view E (DB n)) \<and>
     held E (DB n2) = held E (DB n) \<and>
     executor_rounds E 2 m2 = Return m3 () \<and> balance_view E (DB m3) = transfer t (balance_view E (DB m)) \<and>
     held E (DB m3) = held E (DB m)"
proof -
  let ?n = "emit GoTimerStartIfNotRunning n"
  have r: "tx_of r = Some t" "seconds_of r = Some ts" by (simp_all add: assms(5) getSignedClientReq_parts)
  have wf: "node_wf E ?n" "node_wf E m" and next_seq: "ExecutorSeq ?n = Seq ?n" "ExecutorSeq m = Seq m"
    using n(1) m(1) by (simp_all add: ready_def timer_started)
  have free: "{t_From t, t_To t} \<inter> held E (DB ?n) = {}" "{t_From t, t_To t} \<inter> held E (DB m) = {}"
    using n(3) m(2) by (simp_all add: can_run_def timer_started)
  have at_n: "can_run E ?n ''P'' t" "in64 (Seq ?n)" "smooth E (PublicKeyMap ?n) d io"
    "LeaderMap ?n (t_ClusterTo t) = Some l" "l \<in> set (peers ?n (t_ClusterTo t))"
    using n(3-5) l by (simp_all only: timer_started)
  obtain n1 pc where run: "runCrossShard E io ?n r 0 = Return n1 ()" and n1: "pair_committed E ?n t ts n1" "node_wf E n1"
    and sent: "{RpcPCPrepare l pc, RpcPCCommit l pc, GoReplyToClient ts True (t_ClientSeq t)} \<subseteq> set (effects n1)"
    and pc: "pcr_SignedClientReq pc = Some r" "2 * F + 1 \<le> length (pcr_Commits pc)"
      "list_all (commit_vote E (PublicKeyMap ?n) d) (pcr_Commits pc)"
    using coordinator_completes [OF assms(1,2,6) r wf(1) at_n] by blast
  have returned: "rpc_ExecuteTransaction E io n r = Return n1 None"
    using ExecuteTransaction_fresh [OF n(1,2) assms(3,4,5), of io n1] run assms(7) by simp
  have keys: "PublicKeyMap ?n \<subseteq>\<^sub>m PublicKeyMap m" using m(4) by (simp only: timer_started)
  have client: "PublicKeyMap m ''client'' = Some (sk_Public (gw_PrivateKey gw))" using m(1) by (simp add: ready_def)
  have signed: "verified E (sk_Public (gw_PrivateKey gw)) (top_fields wire_ClientRequest (scr_ClientRequest r)) (scr_Signature r)"
    unfolding assms(5) by (rule getSignedClientReq_verified [OF assms(3,4)])
  obtain m1 m2 where part: "rpc_PCPrepare E prepare_io m pc = Return m1 (Inr (pc_success m1))"
    "rpc_PCCommit E commit_io (wait m1) pc = Return m2 (Inr (pc_success m2))" "pair_committed E m t ts m2" "node_wf E m2"
    using participant_completes [OF assms(1,2,6) r pc keys client signed wf(2) m(2,3,5-7)] by blast
  have "\<exists>n2. executor_rounds E 2 n1 = Return n2 () \<and> balance_view E (DB n2) = transfer t (balance_view E (DB n)) \<and>
      held E (DB n2) = held E (DB n)"
    using pair_committed_executes [OF assms(1) n1 next_seq(1) free(1)] by (simp only: timer_started)
  moreover have "\<exists>m3. executor_rounds E 2 m2 = Return m3 () \<and> balance_view E (DB m3) = transfer t (balance_view E (DB m)) \<and>
      held E (DB m3) = held E (DB m)"
    by (rule pair_committed_executes [OF assms(1) part(3,4) next_seq(2) free(2)])
  ultimately show ?thesis using returned sent part(1,2) by blast
qed

text \<open>The leader of the second cluster, where the client that receives lives.\<close>

definition demo_participant_node :: "demo_bucket Node" where
  "demo_participant_node = demo_node\<lparr>ClusterId := ''C2'', node_Id := ''S5'', DB := demo_db2\<rparr>"

lemma demo_participant_ready:
  "ready demo_env (sk_Public (gw_PrivateKey demo_gateway)) demo_participant_node"
  "can_run demo_env demo_participant_node ''P'' demo_cross_tx" "held demo_env demo_db2 = {}"
proof -
  show locks: "held demo_env demo_db2 = {}"
    by (simp add: held_def locked_def demo_db2_def createBuckets_def demo_simps demo_get_def)
  show "can_run demo_env demo_participant_node ''P'' demo_cross_tx"
    by (simp add: can_run_def demo_participant_node_def locks demo_node_tables demo_cross_tx_def)
  have "node_wf demo_env demo_participant_node"
    using demo_node_wf by (simp add: node_wf_def demo_participant_node_def demo_db2_wal demo_wal_empty)
  then show "ready demo_env (sk_Public (gw_PrivateKey demo_gateway)) demo_participant_node"
    using demo_ready(1) by (simp add: ready_def) (simp add: demo_participant_node_def)
qed

theorem cross_shard_completes_witness:
  "\<exists>n1 n2 pc m1 m2 m3. rpc_ExecuteTransaction demo_env (demo_smooth_io demo_cross_tx) demo_node
       (getSignedClientReq demo_env demo_gateway demo_cross_tx 100) = Return n1 None \<and>
     RpcPCPrepare ''S5'' pc \<in> set (effects n1) \<and>
     rpc_PCPrepare demo_env (demo_io (demo_digest demo_cross_tx)) demo_participant_node pc = Return m1 (Inr (pc_success m1)) \<and>
     rpc_PCCommit demo_env (demo_io (demo_digest demo_cross_tx)) (id m1) pc = Return m2 (Inr (pc_success m2)) \<and>
     executor_rounds demo_env 2 n1 = Return n2 () \<and> balance_view demo_env (DB n2) ''1'' = Some 6 \<and> held demo_env (DB n2) = {} \<and>
     executor_rounds demo_env 2 m2 = Return m3 () \<and> balance_view demo_env (DB m3) ''1001'' = Some 14 \<and> held demo_env (DB m3) = {}"
proof -
  have tx: "t_From demo_cross_tx = ''1''" "t_To demo_cross_tx = ''1001''" "t_ClusterFrom demo_cross_tx \<noteq> t_ClusterTo demo_cross_tx"
    "t_Amount demo_cross_tx = 4" "t_ClusterTo demo_cross_tx = ''C2''"
    by (simp_all add: demo_cross_tx_def)
  have n: "can_run demo_env demo_node ''P'' demo_cross_tx" "in64 (Seq demo_node)"
    "smooth demo_env (PublicKeyMap demo_node) (demo_digest demo_cross_tx) (demo_smooth_io demo_cross_tx)"
    by (simp_all add: demo_can_run tx demo_node_tables in64_def min64_def max64_def demo_smooth)
  have l: "LeaderMap demo_node (t_ClusterTo demo_cross_tx) = Some ''S5''" "''S5'' \<in> set (peers demo_node (t_ClusterTo demo_cross_tx))"
    by (simp_all add: tx demo_node_peers) (simp add: demo_node_def establishConns_def NewNode_def demo_clusters_def)
  have m: "in64 (Seq demo_participant_node)" "PublicKeyMap demo_node \<subseteq>\<^sub>m PublicKeyMap demo_participant_node"
    "votes_arrive demo_env (PublicKeyMap demo_participant_node) (demo_digest demo_cross_tx) (demo_io (demo_digest demo_cross_tx))"
    by (simp_all add: demo_participant_node_def demo_node_tables in64_def min64_def max64_def demo_votes_arrive)
  have moved: "transfer demo_cross_tx (balance_view demo_env (DB demo_node)) ''1'' = Some 6"
    "transfer demo_cross_tx (balance_view demo_env (DB demo_participant_node)) ''1001'' = Some 14"
    using demo_balances
    by (simp_all add: transfer_def credit_view_def debit_view_def demo_node_tables demo_participant_node_def tx
        int64_simps in64_def min64_def max64_def)
  have locks: "held demo_env (DB demo_node) = {}" "held demo_env (DB demo_participant_node) = {}"
    by (simp_all add: demo_node_tables demo_no_locks demo_participant_node_def demo_participant_ready(3))
  from cross_shard_completes [OF demo_bolt_ok demo_json_pointers_ok demo_crypto_ok demo_signs refl demo_gateway_digest tx(3)
      demo_ready n l demo_participant_ready(1,2) m(1,2,3,3) leaves_steady_id(1)]
  show ?thesis unfolding moved(1) locks using moved by fastforce
qed

end
