(* ===== verification/Followers.thy ===== *)
theory Followers
  imports EndToEnd Races
begin

text \<open>
  The cluster's side of a run: where the votes come from. Two working replicas that take the
  leader's offer send, by their own handlers, the certificates that the leader's handlers put
  on its channels; with these the run commits at the leader and at both replicas. The fourth
  node of the cluster may be silent.
\<close>

section \<open>A leader and its followers\<close>

text \<open>The commit that a node signs for a digest, as a request.\<close>

definition commit_of :: "'b env \<Rightarrow> 'b Node \<Rightarrow> int64 \<Rightarrow> string \<Rightarrow> CommitRequest" where
  "commit_of E n i d = \<lparr>cmr_Commit = Some (own_commit n i d),
     cmr_Signature = signature_or_nil E (node_PrivateKey n) (wire_Commit (own_commit n i d))\<rparr>"

text \<open>A working leader with a request that its client signed.\<close>

definition leads :: "'b env \<Rightarrow> SignedClientRequest \<Rightarrow> 'b Node \<Rightarrow> bool" where
  "leads E r n \<longleftrightarrow> Live n \<and> \<not> ViewChanging n \<and> \<not> Byzantine n \<and> getViewLeader n = Some (node_Id n) \<and>
     PublicKeyMap n (node_Id n) = Some (sk_Public (node_PrivateKey n)) \<and>
     (\<forall>b. SignMessage E (node_PrivateKey n) b \<noteq> None) \<and>
     (\<exists>pk. PublicKeyMap n ''client'' = Some pk \<and>
        verified E pk (top_fields wire_ClientRequest (scr_ClientRequest r)) (scr_Signature r))"

text \<open>
  A working replica of the leader's cluster and view: it has the same keys, has seen all offers
  before the next one, and holds no lock of the transaction's clients.
\<close>

definition follower :: "'b env \<Rightarrow> 'b Node \<Rightarrow> string \<Rightarrow> Transaction \<Rightarrow> 'b Node \<Rightarrow> bool" where
  "follower E n status t m \<longleftrightarrow> Live m \<and> \<not> ViewChanging m \<and> \<not> Byzantine m \<and>
     View m = View n \<and> ClusterId m = ClusterId n \<and> node_Id n \<in> set (peers m (ClusterId n)) \<and>
     PublicKeyMap m = PublicKeyMap n \<and> PublicKeyMap n (node_Id m) = Some (sk_Public (node_PrivateKey m)) \<and>
     (\<forall>b. SignMessage E (node_PrivateKey m) b \<noteq> None) \<and>
     TransactionLog m (Seq n) = None \<and> (Seq n = 1 \<or> PrePrepares m (sub64 (Seq n) 1) \<noteq> None) \<and>
     (status = [] \<or> status = ''P'' \<longrightarrow> {t_From t, t_To t} \<inter> held E (DB m) = {})"

lemma signature_verified:
  assumes "crypto_ok E" "\<forall>b. SignMessage E sk b \<noteq> None"
  shows "verified E (sk_Public sk) b (signature_or_nil E sk b)"
proof -
  obtain sg where "SignMessage E sk b = Some sg" using assms(2) by fastforce
  with SignMessage_verified [OF assms(1) this] show ?thesis by (simp add: signature_or_nil_def)
qed

lemma prepare_of_vote:
  assumes "crypto_ok E" "\<forall>b. SignMessage E (node_PrivateKey m) b \<noteq> None" "\<not> Byzantine m"
    and "keys (node_Id m) = Some (sk_Public (node_PrivateKey m))" "pp_Digest pp = d"
  shows "prepare_vote E keys d (prepare_of E m pp)" "has_prepare (prepare_of E m pp)"
  using assms signature_verified [OF assms(1,2)] by (simp_all add: prepare_vote_def prepare_of_def own_prepare_def)

lemma commit_of_vote:
  assumes "crypto_ok E" "\<forall>b. SignMessage E (node_PrivateKey m) b \<noteq> None"
    and "keys (node_Id m) = Some (sk_Public (node_PrivateKey m))"
  shows "commit_vote E keys d (commit_of E m i d)" "has_commit (commit_of E m i d)"
  using assms signature_verified [OF assms(1,2)] by (simp_all add: commit_vote_def commit_of_def own_commit_def)

section \<open>A follower takes the offer and votes\<close>

lemma getViewLeader_cong: "View m = View n \<Longrightarrow> ClusterId m = ClusterId n \<Longrightarrow> getViewLeader m = getViewLeader n"
  by (simp add: getViewLeader_def)

lemma offer_acceptable:
  assumes "crypto_ok E" "MD5Hash E (JClientReq (Some r)) = Some d" "leads E r n" "follower E n status t m"
  shows "acceptable E m (offer_of E n r status d) (offer_body n status d) r" "getViewLeader m = Some (node_Id n)"
proof -
  show lead: "getViewLeader m = Some (node_Id n)"
    using assms(3,4) getViewLeader_cong [of m n] by (simp add: leads_def follower_def)
  have "verified E (sk_Public (node_PrivateKey n)) (wire_PrePrepare (offer_body n status d)) (ppr_Signature (offer_of E n r status d))"
    using signature_verified [OF assms(1)] assms(3) by (simp add: leads_def offer_of_def)
  then show "acceptable E m (offer_of E n r status d) (offer_body n status d) r"
    using assms(2-4) lead by (simp add: acceptable_def leads_def follower_def)
qed

lemma follower_accepts:
  assumes "bolt_ok E" "crypto_ok E" "MD5Hash E (JClientReq (Some r)) = Some d" "tx_of r = Some t" "seconds_of r = Some ts"
    and "leads E r n" "follower E n status t m"
  shows "\<exists>a. rpc_PrePrepare E [] m (offer_of E n r status d) = Return a None \<and>
     announced E m (Seq n) (numbering m) (taken status t) 1 t ts d a \<and>
     GoSendPrepareReq (Seq n) (offer_of E n r status d) (node_Id n) status \<in> set (effects a)"
proof -
  let ?req = "offer_of E n r status d" and ?pp = "offer_body n status d"
  let ?m1 = "arrived ts (Seq n) m"
  let ?m2 = "if status = [] \<or> status = ''P'' then ?m1\<lparr>DB := GetLocksDB E (DB ?m1) (tx_clients t)\<rparr> else ?m1"
  let ?a = "emit (GoSendPrepareReq (Seq n) ?req (node_Id n) status) (savePrePrepare (writeLog ?m2 (Seq n) t (View ?m2) d ts) (Seq n) ?req)"
  have m: "Live m" "\<not> ViewChanging m" "\<not> Byzantine m" "status = [] \<or> status = ''P'' \<Longrightarrow> {t_From t, t_To t} \<inter> held E (DB m) = {}"
    using assms(7) by (simp_all add: follower_def)
  have m1: "DB ?m1 = DB m" "Byzantine ?m1 = Byzantine m" by (simp_all add: arrived_def emit_def put_request_def Let_def)
  have "lock_loop E (tx_clients t) Byzantine [] ?m1 = Return (?m1\<lparr>DB := GetLocksDB E (DB ?m1) (tx_clients t)\<rparr>) ()"
    if "status = [] \<or> status = ''P''"
    using m(3,4) that by (subst lock_loop.simps) (simp add: CheckAndGetLocks_cases m1 tx_clients_def)
  then have locks: "(if status = [] \<or> status = ''P'' then lock_loop E (tx_clients t) Byzantine [] ?m1 else Return ?m1 ()) = Return ?m2 ()"
    by simp
  have new: "(if RequestLog (emit GoTimerStartIfNotRunning m) ts = None then put_request (emit GoTimerStartIfNotRunning m) ts (Seq n)
      else emit GoTimerStartIfNotRunning m) = ?m1"
    by (simp add: arrived_def Let_def)
  have "preprepare_accept E [] m ?req ?pp (node_Id n) = Return ?a None"
    unfolding preprepare_accept_def Let_def
    by (simp add: with_seconds_eq with_tx_eq assms(4,5) new locks cong: if_cong split del: if_split)
  then have "rpc_PrePrepare E [] m ?req = Return ?a None"
    using offer_acceptable [OF assms(2,3,6,7)] m by (simp add: rpc_PrePrepare_def acceptable_passes)
  moreover have "announced E m (Seq n) (numbering m) (taken status t) 1 t ts d ?a"
    by (auto simp: announced_def follows_def lasting_def numbering_def taken_def arrived_def emit_def put_request_def
        savePrePrepare_def writeLog_def Let_def held_GetLocksDB [OF assms(1)] tx_clients_def States_def)
  moreover have "GoSendPrepareReq (Seq n) ?req (node_Id n) status \<in> set (effects ?a)" by (simp add: emit_def)
  ultimately show ?thesis by blast
qed

text \<open>With certificates that count, the replica sends its prepare, then its commit, and commits.\<close>

lemma follower_votes:
  assumes "announced E m i k (taken status t) 1 t ts d a" "ppr_PrePrepare req = Some pp" "pp_Sequence pp = i" "pp_Digest pp = d"
    and m: "\<not> Byzantine m" "getViewLeader m = Some leader" "leader \<in> set (peers m (ClusterId m))"
      "\<forall>b. SignMessage E (node_PrivateKey m) b \<noteq> None" "ppr_ClientReq req = Some r" "tx_of r = Some t"
    and ps: "list_all has_prepare ps" "2 * F \<le> length (filter (prepare_vote E (PublicKeyMap m) d) ps)"
    and cs: "list_all has_commit cs" "2 * F + 1 \<le> length (filter (commit_vote E (PublicKeyMap m) d) cs)"
  shows "\<exists>b. sendPrepareReq E id (Some ps) id (Some cs) a i req leader status = Return b None \<and>
     committed_at E m i k status t ts d b \<and>
     RpcPrepare leader (prepare_of E m pp) \<in> set (effects b) \<and> RpcCommit leader (commit_of E m i d) \<in> set (effects b)"
proof -
  have same: "lasting x = lasting m \<Longrightarrow> getViewLeader x = Some leader \<and> leader \<in> set (peers x (ClusterId x)) \<and>
      own_prepare x pp = own_prepare m pp \<and> own_commit x i d = own_commit m i d \<and>
      node_PrivateKey x = node_PrivateKey m \<and> \<not> Byzantine x" for x
    using m(1-3) getViewLeader_cong [of x m]
    by (simp add: lasting_def peers_def own_prepare_def own_commit_def)
  have like: "lasting x = lasting m" if "announced E m i k L st t ts d x" for x L st
    using that by (simp add: announced_def follows_def)
  define a1 where "a1 = (emit (RpcPrepare leader (prepare_of E m pp)) a)\<lparr>PrepareCerts := (PrepareCerts a)(i := ps)\<rparr>"
  have a1: "announced E m i k (taken status t) 1 t ts d a1" "effects a1 = effects a @ [RpcPrepare leader (prepare_of E m pp)]"
    unfolding a1_def by (rule announced_steady [OF assms(1)]) (auto simp: emit_def steady_def core_def)
  obtain a2 where s2: "validatePrepares E a1 i ps = Return a2 True"
    and a2: "announced E m i k (taken status t) 2 t ts d a2" "effects a2 = effects a1"
    using validatePrepares_announced [OF a1(1) m(1) ps] by blast
  obtain l where l: "TransactionLog a2 i = Some l" "tl_Digest l = d" using a2(1) by (auto simp: announced_def)
  define a3 where "a3 = (emit (RpcCommit leader (commit_of E m i d)) a2)\<lparr>CommitCerts := (CommitCerts a2)(i := cs)\<rparr>"
  have a3: "announced E m i k (taken status t) 2 t ts d a3" "effects a3 = effects a2 @ [RpcCommit leader (commit_of E m i d)]"
    unfolding a3_def by (rule announced_steady [OF a2(1)]) (auto simp: emit_def steady_def core_def)
  obtain b where s3: "validateCommits E a3 i cs status (t_ClientSeq t) (Some t) = Return b True"
    and b: "committed_at E m i k status t ts d b" "set (effects a3) \<subseteq> set (effects b)"
    using validateCommits_announced [OF a3(1) m(1) cs] by blast
  have sign: "SignMessage E (node_PrivateKey m) w = Some (signature_or_nil E (node_PrivateKey m) w)" for w
    using m(4) by (auto simp: signature_or_nil_def split: option.splits)
  note x = same [OF like [OF assms(1)]] and x2 = same [OF like [OF a2(1)]]
  have "sendCommitReq E id (Some cs) a2 i status (t_ClientSeq t) (Some t) = Return b None"
    using x2 s3 unfolding a3_def
    by (simp add: sendCommitReq_def getTransactionLog_def l with_client_def Let_def commit_of_def emit_def sign)
  moreover have "sendPrepareReq E id (Some ps) id (Some cs) a i req leader status =
      andThen (sendCommitReq E id (Some cs) a2 i status (t_ClientSeq t) (Some t)) (\<lambda>n e. Return n None)"
    using x s2 assms(2) m(5,6) unfolding a1_def
    by (simp add: sendPrepareReq_def Let_def with_client_def with_request_tx_def with_tx_eq emit_def prepare_of_def sign)
  ultimately have "sendPrepareReq E id (Some ps) id (Some cs) a i req leader status = Return b None" by simp
  then show ?thesis using b a1(2) a2(2) a3(2) by auto
qed

section \<open>The leader takes the votes\<close>

text \<open>
  What the other goroutines of the leader do while its run waits: they handle the prepares; then
  they send the leader's own commit to itself and handle the others. Every handler answers
  with the certificates that its poll has seen.
\<close>

definition leader_io :: "'b env \<Rightarrow> int64 \<Rightarrow> PrepareRequest list \<Rightarrow> CommitRequest list \<Rightarrow> 'b pbft_io" where
  "leader_io E i ps cs =
     \<lparr>lock_rely = [],
      prepare_rely = fold (\<lambda>p m. or_stay m (rpc_Prepare E True [ps] m p)) ps,
      prepare_events = map Receive ps @ [AfterMajorityFires],
      commit_rely = (\<lambda>m. fold (\<lambda>c m. or_stay m (rpc_Commit E True [cs] m c)) (tl cs)
        (or_stay m (sendCommitToSelf E id True [cs] m i))),
      commit_events = map Receive cs @ [AfterMajorityFires]\<rparr>"

definition listening :: "(string \<rightharpoonup> PublicKey) \<Rightarrow> int64 \<Rightarrow> string \<Rightarrow> 'b Node \<Rightarrow> bool" where
  "listening keys i d m \<longleftrightarrow> Live m \<and> \<not> ViewChanging m \<and> \<not> Byzantine m \<and> PublicKeyMap m = keys \<and>
     PrepareCertChans m i \<and> CommitCertChans m i \<and> TransactionLog m i \<noteq> None \<and> tl_Digest (log_at m i) = d"

lemma listening_emit [simp]: "listening keys i d (emit e m) = listening keys i d m"
  by (simp add: listening_def emit_def log_at_def getTransactionLog_def)

lemma announced_listening:
  assumes "announced E n (Seq n) (next_numbering n) L st t ts d m" "leads E r n"
  shows "listening (PublicKeyMap n) (Seq n) d m"
  using assms
  by (auto simp: announced_def follows_def lasting_def numbering_def next_numbering_def leads_def listening_def log_at_logged)

lemma takes_prepare:
  assumes "listening keys i d m" "prepare_vote E keys d p" "map_option p_Sequence (pr_Prepare p) = Some i" "2 * F \<le> length ps"
  shows "rpc_Prepare E True [ps] m p = Return (emit (ChanPrepare i p) m) (Inr ps)"
proof -
  obtain b pk where p: "pr_Prepare p = Some b" "p_Sequence b = i" "p_Digest b = d" "keys (p_NodeId b) = Some pk"
    "verified E pk (wire_Prepare b) (pr_Signature p)"
    using assms(2,3) by (auto simp: prepare_vote_def)
  then show ?thesis using assms(1,4) by (simp add: rpc_Prepare_def listening_def verifyPrepareRequest_def)
qed

lemma takes_commit:
  assumes "listening keys i d m" "commit_vote E keys d c" "map_option c_Sequence (cmr_Commit c) = Some i" "2 * F + 1 \<le> length cs"
  shows "rpc_Commit E True [cs] m c = Return (emit (ChanCommit i c) m) (Inr cs)"
proof -
  obtain b pk where c: "cmr_Commit c = Some b" "c_Sequence b = i" "c_Digest b = d" "keys (c_NodeId b) = Some pk"
    "verified E pk (wire_Commit b) (cmr_Signature c)"
    using assms(2,3) by (auto simp: commit_vote_def)
  then show ?thesis using assms(1,4) by (simp add: rpc_Commit_def listening_def verifyCommitRequest_def)
qed

text \<open>Folding one goroutine after the other over the state.\<close>

lemma fold_emits:
  assumes "\<And>x m. x \<in> set xs \<Longrightarrow> listening keys i d m \<Longrightarrow> f x m = emit (e x) m" "listening keys i d m"
  shows "fold f xs m = emits (map e xs) m"
  using assms
  by (induction xs arbitrary: m) (simp_all add: emits_def, simp add: emit_def)

lemma leaves_steady_comp:
  assumes "leaves_steady f" "leaves_steady g"
  shows "leaves_steady (\<lambda>m. f (g m))"
  unfolding leaves_steady_def
proof
  fix m
  have "steady (g m) = steady m" "set (effects m) \<subseteq> set (effects (g m))" "steady (f (g m)) = steady (g m)"
    "set (effects (g m)) \<subseteq> set (effects (f (g m)))"
    using assms by (simp_all add: leaves_steady_def)
  then show "steady (f (g m)) = steady m \<and> set (effects m) \<subseteq> set (effects (f (g m)))" by simp
qed

lemma leaves_steady_fold: "(\<And>x. x \<in> set xs \<Longrightarrow> leaves_steady (f x)) \<Longrightarrow> leaves_steady (fold f xs)"
  by (induction xs) (simp_all add: comp_def leaves_steady_comp)

lemma leaves_steady_or_stay:
  assumes "\<And>m. keeps (\<lambda>x. steady x = steady m \<and> set (effects m) \<subseteq> set (effects x)) (h m)"
  shows "leaves_steady (\<lambda>m. or_stay m (h m))"
  unfolding leaves_steady_def
proof
  fix m
  show "steady (or_stay m (h m)) = steady m \<and> set (effects m) \<subseteq> set (effects (or_stay m (h m)))"
    using keepsD [OF assms [of m]] by (cases "state_after (h m)") (simp_all add: or_stay_def)
qed

lemma handlers_steady:
  fixes m :: "'b Node"
  defines "Q x \<equiv> steady x = steady m \<and> set (effects m) \<subseteq> set (effects x)"
  shows "keeps Q (rpc_Prepare E b polls m p)" "keeps Q (rpc_Commit E b polls' m c)" "keeps Q (sendCommitToSelf E id b polls' m i)"
proof -
  have base: "Q m" by (simp add: Q_def)
  have emitted: "Q x \<Longrightarrow> Q (emit e x)" for e x by (auto simp: Q_def emit_def steady_def core_def)
  show "keeps Q (rpc_Prepare E b polls m p)"
    unfolding rpc_Prepare_def Let_def by (intro keeps_rules wf_rules) (simp_all add: base emitted)
  have commit: "keeps Q (rpc_Commit E b polls' m c)" for c
    unfolding rpc_Commit_def Let_def by (intro keeps_rules wf_rules) (simp_all add: base emitted)
  show "keeps Q (rpc_Commit E b polls' m c)" by (rule commit)
  show "keeps Q (sendCommitToSelf E id b polls' m i)" by (simp add: sendCommitToSelf_def Let_def commit)
qed

lemma leader_io_steady: "leaves_steady (prepare_rely (leader_io E i ps cs))" "leaves_steady (commit_rely (leader_io E i ps cs))"
proof -
  have step: "leaves_steady (\<lambda>m. or_stay m (rpc_Prepare E True [ps] m p))" "leaves_steady (\<lambda>m. or_stay m (rpc_Commit E True [cs] m c))"
    "leaves_steady (\<lambda>m. or_stay m (sendCommitToSelf E id True [cs] m i))" for p c
    by (rule leaves_steady_or_stay, rule handlers_steady)+
  show "leaves_steady (prepare_rely (leader_io E i ps cs))"
    unfolding leader_io_def pbft_io.simps by (rule leaves_steady_fold) (rule step(1))
  have "leaves_steady (fold (\<lambda>c m. or_stay m (rpc_Commit E True [cs] m c)) (tl cs))"
    by (rule leaves_steady_fold) (rule step(2))
  from leaves_steady_comp [OF this step(3)] show "leaves_steady (commit_rely (leader_io E i ps cs))"
    by (simp add: leader_io_def)
qed

lemma leader_handles:
  assumes "leads E r n" "announced E n (Seq n) (next_numbering n) L st t ts d m"
    and ps: "list_all (\<lambda>p. prepare_vote E (PublicKeyMap n) d p \<and> map_option p_Sequence (pr_Prepare p) = Some (Seq n)) ps" "2 * F \<le> length ps"
    and cs: "list_all (\<lambda>c. commit_vote E (PublicKeyMap n) d c \<and> map_option c_Sequence (cmr_Commit c) = Some (Seq n)) cs" "2 * F + 1 \<le> length cs"
      "hd cs = commit_of E n (Seq n) d"
  shows "prepare_rely (leader_io E (Seq n) ps cs) m = emits (map (ChanPrepare (Seq n)) ps) m"
    "commit_rely (leader_io E (Seq n) ps cs) m = emits (map (ChanCommit (Seq n)) cs) m"
proof -
  note listens = announced_listening [OF assms(2,1)]
  show "prepare_rely (leader_io E (Seq n) ps cs) m = emits (map (ChanPrepare (Seq n)) ps) m"
    unfolding leader_io_def pbft_io.simps
    by (rule fold_emits [OF _ listens]) (use ps in \<open>simp add: takes_prepare list_all_iff or_stay_def\<close>)
  obtain cs' where c: "cs = commit_of E n (Seq n) d # cs'" using cs(2,3) by (cases cs) simp_all
  obtain l where "TransactionLog m (Seq n) = Some l" "tl_Digest l = d" "lasting m = lasting n"
    using assms(2) by (auto simp: announced_def follows_def)
  then have "sendCommitToSelf E id True [cs] m (Seq n) = rpc_Commit E True [cs] m (commit_of E n (Seq n) d)"
    by (simp add: sendCommitToSelf_def Let_def commit_of_def own_commit_def lasting_def log_at_logged)
  also have "\<dots> = Return (emit (ChanCommit (Seq n) (commit_of E n (Seq n) d)) m) (Inr cs)"
    by (rule takes_commit [OF listens]) (use cs c in simp_all)
  finally have self: "or_stay m (sendCommitToSelf E id True [cs] m (Seq n)) = emit (ChanCommit (Seq n) (commit_of E n (Seq n) d)) m"
    by (simp add: or_stay_def)
  have "fold (\<lambda>c m. or_stay m (rpc_Commit E True [cs] m c)) cs' (emit (ChanCommit (Seq n) (commit_of E n (Seq n) d)) m) =
      emits (map (ChanCommit (Seq n)) cs') (emit (ChanCommit (Seq n) (commit_of E n (Seq n) d)) m)"
    by (rule fold_emits [of cs' "PublicKeyMap n" "Seq n" d])
      (use cs c listens in \<open>simp_all add: takes_commit list_all_iff or_stay_def\<close>)
  then show "commit_rely (leader_io E (Seq n) ps cs) m = emits (map (ChanCommit (Seq n)) cs) m"
    unfolding leader_io_def pbft_io.simps self by (simp add: c emits_def emit_def)
qed

section \<open>The cluster commits\<close>

lemma collect_all:
  "collect (2 * F) (map Receive [p, p'] @ [AfterMajorityFires]) [] = Some [p, p']"
  "collect (2 * F + 1) (map Receive [c, c', c''] @ [AfterMajorityFires]) [] = Some [c, c', c'']"
  by (simp_all add: F_def)

lemma leader_commits:
  assumes env: "bolt_ok E" "crypto_ok E" "MD5Hash E (JClientReq (Some r)) = Some d" "tx_of r = Some t" "seconds_of r = Some ts"
    and n: "leads E r n" "can_run E n status t" and m: "follower E n status t m" "follower E n status t m'"
    and ps: "ps = map (\<lambda>x. prepare_of E x (offer_body n status d)) [m, m']"
    and cs: "cs = map (\<lambda>x. commit_of E x (Seq n) d) [n, m, m']"
  shows "\<exists>n1. runPBFT E (leader_io E (Seq n) ps cs) n r 0 status = Return n1 (Some (offer_of E n r status d), None) \<and>
     run_committed E n status t ts d n1 \<and>
     ChanPrepare (Seq n) ` set ps \<union> ChanCommit (Seq n) ` set cs \<subseteq> set (effects n1) \<and>
     (\<forall>x\<in>set (peers n (ClusterId n)) - {node_Id n}. RpcPrePrepare x (offer_of E n r status d) \<in> set (effects n1)) \<and>
     PrepareCerts n1 (Seq n) = ps \<and> CommitCerts n1 (Seq n) = cs"
    "list_all (prepare_vote E (PublicKeyMap n) d) ps" "list_all has_prepare ps" "2 * F \<le> length ps"
    "list_all (commit_vote E (PublicKeyMap n) d) cs" "list_all has_commit cs" "2 * F + 1 \<le> length cs"
    "votes_arrive E (PublicKeyMap n) d (leader_io E (Seq n) ps cs)"
proof -
  let ?io = "leader_io E (Seq n) ps cs"
  have pvote: "prepare_vote E (PublicKeyMap n) d (prepare_of E x (offer_body n status d))" if "follower E n status t x" for x
    by (rule prepare_of_vote(1) [OF env(2)]) (use that in \<open>simp_all add: follower_def\<close>)
  have cvote: "commit_vote E (PublicKeyMap n) d (commit_of E n (Seq n) d)"
    "follower E n status t x \<Longrightarrow> commit_vote E (PublicKeyMap n) d (commit_of E x (Seq n) d)" for x
    by (rule commit_of_vote(1) [OF env(2)]; use n(1) in \<open>simp add: leads_def follower_def\<close>)+
  have votes: "list_all (\<lambda>p. prepare_vote E (PublicKeyMap n) d p \<and> map_option p_Sequence (pr_Prepare p) = Some (Seq n)) ps"
    "list_all (\<lambda>c. commit_vote E (PublicKeyMap n) d c \<and> map_option c_Sequence (cmr_Commit c) = Some (Seq n)) cs"
    "hd cs = commit_of E n (Seq n) d"
    using pvote [OF m(1)] pvote [OF m(2)] cvote(1) cvote(2) [OF m(1)] cvote(2) [OF m(2)] unfolding ps cs
    by simp_all (simp_all add: prepare_of_def own_prepare_def commit_of_def own_commit_def)
  then show all: "list_all (prepare_vote E (PublicKeyMap n) d) ps" "list_all (commit_vote E (PublicKeyMap n) d) cs"
    by (simp_all add: list_all_iff)
  show many: "list_all has_prepare ps" "2 * F \<le> length ps" "list_all has_commit cs" "2 * F + 1 \<le> length cs"
    by (simp_all add: ps cs prepare_of_def commit_of_def F_def)
  have collected: "collect (2 * F) (prepare_events ?io) [] = Some ps" "collect (2 * F + 1) (commit_events ?io) [] = Some cs"
    unfolding leader_io_def pbft_io.simps ps cs by (simp_all only: list.map(1,2) collect_all [unfolded list.map])
  have counted: "filter (prepare_vote E (PublicKeyMap n) d) ps = ps" "filter (commit_vote E (PublicKeyMap n) d) cs = cs"
    using all by (simp_all add: filter_id_conv list_all_iff)
  have "lock_rely ?io = []" by (simp add: leader_io_def)
  then show arrive: "votes_arrive E (PublicKeyMap n) d ?io"
    using collected counted many leader_io_steady [of E "Seq n" ps cs] by (simp add: votes_arrive_def enough_votes_def)
  from run_stages [OF env(1,3,4,5) n(2) arrive] obtain n1 n2 n' where
    run: "runPBFT E ?io n r 0 status = Return n' (Some (offer_of E n r status d), None)" "run_committed E n status t ts d n'"
    and n1: "announced E n (Seq n) (next_numbering n) (taken status t) 1 t ts d n1"
      "\<forall>x\<in>set (peers n (ClusterId n)) - {node_Id n}. RpcPrePrepare x (offer_of E n r status d) \<in> set (effects n1)"
    and n2: "announced E n (Seq n) (next_numbering n) (taken status t) 2 t ts d n2" "PrepareCerts n2 (Seq n) = ps"
    and grows: "set (effects (prepare_rely ?io n1)) \<subseteq> set (effects n2)" "set (effects (commit_rely ?io n2)) \<subseteq> set (effects n')"
    and certs: "PrepareCerts n' = PrepareCerts (commit_rely ?io n2)" "CommitCerts n' (Seq n) = cs"
    using collected counted by auto
  note handled = leader_handles(1) [OF n(1) n1(1) votes(1) many(2) votes(2) many(4) votes(3)]
    leader_handles(2) [OF n(1) n2(1) votes(1) many(2) votes(2) many(4) votes(3)]
  have "set (effects n1) \<union> ChanPrepare (Seq n) ` set ps \<subseteq> set (effects n2)"
    "set (effects n2) \<union> ChanCommit (Seq n) ` set cs \<subseteq> set (effects n')" "PrepareCerts n' (Seq n) = ps"
    using grows certs(1) n2(2) unfolding handled by (simp_all add: emits_def)
  then show "\<exists>n1. runPBFT E ?io n r 0 status = Return n1 (Some (offer_of E n r status d), None) \<and>
     run_committed E n status t ts d n1 \<and>
     ChanPrepare (Seq n) ` set ps \<union> ChanCommit (Seq n) ` set cs \<subseteq> set (effects n1) \<and>
     (\<forall>x\<in>set (peers n (ClusterId n)) - {node_Id n}. RpcPrePrepare x (offer_of E n r status d) \<in> set (effects n1)) \<and>
     PrepareCerts n1 (Seq n) = ps \<and> CommitCerts n1 (Seq n) = cs"
    using run certs(2) n1(2) by (intro exI [of _ n']) blast
qed

lemma follower_commits:
  assumes env: "bolt_ok E" "crypto_ok E" "MD5Hash E (JClientReq (Some r)) = Some d" "tx_of r = Some t" "seconds_of r = Some ts"
    and "leads E r n" "follower E n status t m"
    and ps: "list_all (prepare_vote E (PublicKeyMap n) d) ps" "list_all has_prepare ps" "2 * F \<le> length ps"
    and cs: "list_all (commit_vote E (PublicKeyMap n) d) cs" "list_all has_commit cs" "2 * F + 1 \<le> length cs"
  shows "\<exists>a b. rpc_PrePrepare E [] m (offer_of E n r status d) = Return a None \<and>
     GoSendPrepareReq (Seq n) (offer_of E n r status d) (node_Id n) status \<in> set (effects a) \<and>
     sendPrepareReq E id (Some ps) id (Some cs) a (Seq n) (offer_of E n r status d) (node_Id n) status = Return b None \<and>
     committed_at E m (Seq n) (numbering m) status t ts d b \<and>
     {RpcPrepare (node_Id n) (prepare_of E m (offer_body n status d)), RpcCommit (node_Id n) (commit_of E m (Seq n) d)} \<subseteq> set (effects b)"
proof -
  have m: "\<not> Byzantine m" "node_Id n \<in> set (peers m (ClusterId m))" "\<forall>b. SignMessage E (node_PrivateKey m) b \<noteq> None"
    "PublicKeyMap m = PublicKeyMap n" using assms(7) by (simp_all add: follower_def)
  have counted: "2 * F \<le> length (filter (prepare_vote E (PublicKeyMap m) d) ps)" "2 * F + 1 \<le> length (filter (commit_vote E (PublicKeyMap m) d) cs)"
    using ps(1,3) cs(1,3) m(4) by (simp_all add: list_all_iff)
  obtain a where a: "rpc_PrePrepare E [] m (offer_of E n r status d) = Return a None"
    "announced E m (Seq n) (numbering m) (taken status t) 1 t ts d a"
    "GoSendPrepareReq (Seq n) (offer_of E n r status d) (node_Id n) status \<in> set (effects a)"
    using follower_accepts [OF env assms(6,7)] by blast
  from follower_votes [OF a(2) offer_simps(1,4,5) m(1) offer_acceptable(2) [OF env(2,3) assms(6,7)] m(2,3) offer_simps(2) env(4)
      ps(2) counted(1) cs(2) counted(2)] a(1,3)
  show ?thesis by blast
qed

lemma follower_wf:
  assumes "bolt_ok E" "json_pointers_ok E" "node_wf E m" "rpc_PrePrepare E [] m req = Return a err"
    and "sendPrepareReq E id r1 id r2 a i req leader status = Return b err'"
  shows "node_wf E b"
proof -
  have after: "state_after (rpc_PrePrepare E [] m req) = Some a" "state_after (sendPrepareReq E id r1 id r2 a i req leader status) = Some b"
    by (simp_all add: assms(4,5))
  have "node_runs E True m a" by (rule preprepare [OF _ after(1)]) simp
  moreover have "node_runs E True a b" by (rule go_prepare [OF _ after(2)]) (auto intro: idle)
  ultimately show ?thesis using runs_wf [OF assms(1,2)] assms(3) next_run by blast
qed

text \<open>A node that has executed everything before number \<open>i\<close>.\<close>

definition caught_up :: "'b env \<Rightarrow> int64 \<Rightarrow> 'b Node \<Rightarrow> bool" where
  "caught_up E i n \<longleftrightarrow> node_wf E n \<and> ExecutorSeq n = i"

text \<open>
  The executor of \<open>n'\<close> applies a transfer to the money that \<open>n\<close> had, gives its locks back and
  has the client told of success.
\<close>

definition settles :: "'b env \<Rightarrow> Transaction \<Rightarrow> int64 \<Rightarrow> 'b Node \<Rightarrow> 'b Node \<Rightarrow> bool" where
  "settles E t ts n n' \<longleftrightarrow> (\<exists>x. executor_round E n' = Return x () \<and>
     balance_view E (DB x) = transfer t (balance_view E (DB n)) \<and> held E (DB x) = held E (DB n) \<and>
     GoReplyToClient ts True (t_ClientSeq t) \<in> set (effects x))"

lemma committed_settles':
  "bolt_ok E \<Longrightarrow> node_wf E b \<Longrightarrow> committed_at E m i k [] t ts d b \<Longrightarrow> caught_up E i m \<Longrightarrow>
     {t_From t, t_To t} \<inter> held E (DB m) = {} \<Longrightarrow> settles E t ts m b"
  unfolding settles_def by (rule committed_settles) (simp_all add: caught_up_def)

text \<open>Two replicas of the demonstration node's cluster, with the same accounts.\<close>

definition demo_follower :: "string \<Rightarrow> int \<Rightarrow> demo_bucket Node" where
  "demo_follower name i = demo_peer name i (balancesBucket demo_db)"

lemma demo_follower_sel:
  "DB (demo_follower name i) = demo_db" "ExecutorSeq (demo_follower name i) = 1" "node_PrivateKey (demo_follower name i) = demo_key i"
  "node_Id (demo_follower name i) = name" "Datastore (demo_follower name i) = Map.empty" "DatastoreMax (demo_follower name i) = 0"
  by (simp_all add: demo_follower_def demo_peer_sel)
    (simp_all add: demo_peer_def establishConns_def NewNode_def demo_db_def)

lemma demo_follows:
  assumes "name \<noteq> ''S1''" "demo_keys name = Some (PublicKey i 65537)"
  shows "follower demo_env demo_node status t (demo_follower name i)" "caught_up demo_env 1 (demo_follower name i)"
proof -
  have signs: "\<forall>b. SignMessage demo_env (demo_key i) b \<noteq> None" by (intro allI demo_signs)
  show "follower demo_env demo_node status t (demo_follower name i)"
    unfolding follower_def demo_follower_sel
    using signs assms demo_peer_leader [OF assms(1)] demo_no_locks
    by (simp add: demo_follower_def demo_peer_sel demo_node_tables demo_key_def del: not_None_eq)
  show "caught_up demo_env 1 (demo_follower name i)"
    unfolding caught_up_def node_wf_def demo_follower_sel
    by (simp add: demo_follower_def demo_peer_sel demo_db_buckets demo_wal_empty log_wf_def datastore_wf_def requests_wf_def preprepares_wf_def)
qed

lemma demo_leads: "leads demo_env (demo_request_of t) demo_node"
proof -
  have "getViewLeader demo_node = Some (node_Id demo_node)" using demo_ready(2) by (simp add: fresh_at_leader_def)
  moreover have "\<forall>b. SignMessage demo_env (demo_key 1) b \<noteq> None" by (intro allI demo_signs)
  moreover obtain r where "scr_ClientRequest (demo_request_of t) = Some r"
    "scr_Signature (demo_request_of t) = signature_or_nil demo_env (demo_key 0) (wire_ClientRequest r)"
    by (simp add: demo_request_of_def Let_def)
  ultimately show ?thesis
    using demo_verified [of 0] unfolding leads_def
    by (simp add: demo_node_tables demo_keys_def demo_key_def del: not_None_eq)
qed

lemma demo_settled:
  assumes "settles demo_env demo_tx 100 x y" "DB x = demo_db"
  shows "\<exists>z. executor_round demo_env y = Return z () \<and> balance_view demo_env (DB z) ''1'' = Some 7 \<and>
     balance_view demo_env (DB z) ''2'' = Some 13 \<and> held demo_env (DB z) = {} \<and> GoReplyToClient 100 True 7 \<in> set (effects z)"
proof -
  have tx: "t_From demo_tx = ''1''" "t_To demo_tx = ''2''" "t_Amount demo_tx = 3" "t_ClientSeq demo_tx = 7"
    by (simp_all add: demo_tx_def)
  have view: "balance_view demo_env demo_db ''1'' = Some 10" "balance_view demo_env demo_db ''2'' = Some 10"
    by (simp_all add: balance_view_def GetBalance_def demo_db_buckets demo_simps demo_get_def valid_key_def demo_ten_parsed)
  have "transfer demo_tx (balance_view demo_env demo_db) ''1'' = Some 7" "transfer demo_tx (balance_view demo_env demo_db) ''2'' = Some 13"
    using view by (simp_all add: transfer_def credit_view_def debit_view_def tx int64_simps in64_def min64_def max64_def)
  with assms show ?thesis by (auto simp: settles_def tx demo_no_locks)
qed

text \<open>
  C3. A cluster settles a transfer, and its votes come from its own code: a working leader with a
  request that its client signed and two working replicas, all three with nothing left to
  execute and neither client locked, while the fourth node may be silent. The leader offers the
  request to its peers; each replica takes the offer and sends its prepare and its commit; the
  leader's handlers put exactly these, with the leader's own commit, on the channels that its
  run reads, and its tables hold the certificates that it answers with. The run succeeds, and
  at each of the three nodes the executor then moves the money once, gives the locks back and
  has the client told of success, so that F + 1 replies can reach it.
\<close>

theorem cluster_settles:
  assumes "bolt_ok E" "json_pointers_ok E" "crypto_ok E"
    and "MD5Hash E (JClientReq (Some r)) = Some d" "tx_of r = Some t" "seconds_of r = Some ts"
    and "leads E r n" "can_run E n [] t" "follower E n [] t m" "follower E n [] t m'"
    and "caught_up E (Seq n) n" "caught_up E (Seq n) m" "caught_up E (Seq n) m'"
    and "ps = map (\<lambda>x. prepare_of E x (offer_body n [] d)) [m, m']" "cs = map (\<lambda>x. commit_of E x (Seq n) d) [n, m, m']"
    and "req = offer_of E n r [] d"
  shows "\<exists>n'. runPBFT E (leader_io E (Seq n) ps cs) n r 0 [] = Return n' (Some req, None) \<and>
     ChanPrepare (Seq n) ` set ps \<union> ChanCommit (Seq n) ` set cs \<subseteq> set (effects n') \<and>
     PrepareCerts n' (Seq n) = ps \<and> CommitCerts n' (Seq n) = cs \<and> settles E t ts n n' \<and>
     (\<forall>i\<in>set (peers n (ClusterId n)) - {node_Id n}. RpcPrePrepare i req \<in> set (effects n')) \<and>
     (\<forall>x\<in>{m, m'}. \<exists>a b. rpc_PrePrepare E [] x req = Return a None \<and>
        GoSendPrepareReq (Seq n) req (node_Id n) [] \<in> set (effects a) \<and>
        sendPrepareReq E id (Some ps) id (Some cs) a (Seq n) req (node_Id n) [] = Return b None \<and>
        RpcPrepare (node_Id n) (prepare_of E x (offer_body n [] d)) \<in> set (effects b) \<and>
        RpcCommit (node_Id n) (commit_of E x (Seq n) d) \<in> set (effects b) \<and> settles E t ts x b)"
proof -
  note leader = leader_commits [OF assms(1,3-10,14,15)]
  have free: "{t_From t, t_To t} \<inter> held E (DB n) = {}" "x \<in> {m, m'} \<Longrightarrow> {t_From t, t_To t} \<inter> held E (DB x) = {}"
    "x \<in> {n, m, m'} \<Longrightarrow> caught_up E (Seq n) x" "x \<in> {m, m'} \<Longrightarrow> follower E n [] t x" for x
    using assms(8-13) by (auto simp: can_run_def follower_def)
  obtain n' where n': "runPBFT E (leader_io E (Seq n) ps cs) n r 0 [] = Return n' (Some req, None)" "run_committed E n [] t ts d n'"
    "ChanPrepare (Seq n) ` set ps \<union> ChanCommit (Seq n) ` set cs \<subseteq> set (effects n')"
    "\<forall>i\<in>set (peers n (ClusterId n)) - {node_Id n}. RpcPrePrepare i req \<in> set (effects n')"
    "PrepareCerts n' (Seq n) = ps" "CommitCerts n' (Seq n) = cs"
    using leader(1) unfolding assms(16) by blast
  have "node_wf E n'" using run_keeps_wf [OF assms(1,2) _ n'(1) leader(8)] assms(11) by (simp add: caught_up_def)
  then have settled: "settles E t ts n n'" using committed_settles' [OF assms(1) _ n'(2) assms(11) free(1)] by blast
  have "\<exists>a b. rpc_PrePrepare E [] x req = Return a None \<and>
        GoSendPrepareReq (Seq n) req (node_Id n) [] \<in> set (effects a) \<and>
        sendPrepareReq E id (Some ps) id (Some cs) a (Seq n) req (node_Id n) [] = Return b None \<and>
        RpcPrepare (node_Id n) (prepare_of E x (offer_body n [] d)) \<in> set (effects b) \<and>
        RpcCommit (node_Id n) (commit_of E x (Seq n) d) \<in> set (effects b) \<and> settles E t ts x b" if x: "x \<in> {m, m'}" for x
  proof -
    obtain a b where ab: "rpc_PrePrepare E [] x req = Return a None" "GoSendPrepareReq (Seq n) req (node_Id n) [] \<in> set (effects a)"
      "sendPrepareReq E id (Some ps) id (Some cs) a (Seq n) req (node_Id n) [] = Return b None"
      "committed_at E x (Seq n) (numbering x) [] t ts d b"
      "{RpcPrepare (node_Id n) (prepare_of E x (offer_body n [] d)), RpcCommit (node_Id n) (commit_of E x (Seq n) d)} \<subseteq> set (effects b)"
      using follower_commits [OF assms(1,3-7) free(4) [OF x] leader(2-7)] unfolding assms(16) by blast
    have "caught_up E (Seq n) x" using free(3) x by blast
    moreover have "node_wf E b"
      using follower_wf [OF assms(1,2) _ ab(1,3)] \<open>caught_up E (Seq n) x\<close> by (simp add: caught_up_def)
    ultimately have "settles E t ts x b" using committed_settles' [OF assms(1) _ ab(4) _ free(2) [OF x]] by blast
    with ab show ?thesis by blast
  qed
  with n' settled show ?thesis by blast
qed

theorem cluster_settles_witness:
  "\<exists>ps cs req n' z. runPBFT demo_env (leader_io demo_env 1 ps cs) demo_node (demo_request_of demo_tx) 0 [] = Return n' (Some req, None) \<and>
     ps = map (\<lambda>x. prepare_of demo_env x (offer_body demo_node [] (demo_digest demo_tx))) [demo_follower ''S2'' 2, demo_follower ''S3'' 3] \<and>
     CommitCerts n' 1 = cs \<and> RpcPrePrepare ''S2'' req \<in> set (effects n') \<and>
     executor_round demo_env n' = Return z () \<and> balance_view demo_env (DB z) ''1'' = Some 7 \<and>
     (\<forall>x\<in>{demo_follower ''S2'' 2, demo_follower ''S3'' 3}. \<exists>a b z. rpc_PrePrepare demo_env [] x req = Return a None \<and>
        sendPrepareReq demo_env id (Some ps) id (Some cs) a 1 req ''S1'' [] = Return b None \<and>
        executor_round demo_env b = Return z () \<and> balance_view demo_env (DB z) ''2'' = Some 13 \<and> held demo_env (DB z) = {} \<and>
        GoReplyToClient 100 True 7 \<in> set (effects z))"
proof -
  let ?n = demo_node and ?m = "demo_follower ''S2'' 2" and ?m' = "demo_follower ''S3'' 3" and ?d = "demo_digest demo_tx"
  define ps where "ps = map (\<lambda>x. prepare_of demo_env x (offer_body ?n [] ?d)) [?m, ?m']"
  define cs where "cs = map (\<lambda>x. commit_of demo_env x (Seq ?n) ?d) [?n, ?m, ?m']"
  define req where "req = offer_of demo_env ?n (demo_request_of demo_tx) [] ?d"
  have m: "follower demo_env ?n [] demo_tx ?m" "follower demo_env ?n [] demo_tx ?m'" "caught_up demo_env (Seq ?n) ?m" "caught_up demo_env (Seq ?n) ?m'"
    using demo_follows [of "''S2''" 2] demo_follows [of "''S3''" 3] by (simp_all add: demo_keys_def demo_node_tables)
  have n: "can_run demo_env ?n [] demo_tx" "caught_up demo_env (Seq ?n) ?n"
    by (simp_all add: demo_can_run demo_tx_def caught_up_def demo_node_wf demo_node_tables)
  have sel: "Seq ?n = 1" "node_Id ?n = ''S1''" "''S2'' \<in> set (peers ?n (ClusterId ?n)) - {node_Id ?n}"
    by (simp_all add: demo_node_tables demo_node_peers)
  obtain n' where raw: "runPBFT demo_env (leader_io demo_env (Seq ?n) ps cs) ?n (demo_request_of demo_tx) 0 [] = Return n' (Some req, None)"
    "CommitCerts n' (Seq ?n) = cs" "settles demo_env demo_tx 100 ?n n'"
    "\<forall>i\<in>set (peers ?n (ClusterId ?n)) - {node_Id ?n}. RpcPrePrepare i req \<in> set (effects n')"
    and others: "\<forall>x\<in>{?m, ?m'}. \<exists>a b. rpc_PrePrepare demo_env [] x req = Return a None \<and>
        GoSendPrepareReq (Seq ?n) req (node_Id ?n) [] \<in> set (effects a) \<and>
        sendPrepareReq demo_env id (Some ps) id (Some cs) a (Seq ?n) req (node_Id ?n) [] = Return b None \<and>
        RpcPrepare (node_Id ?n) (prepare_of demo_env x (offer_body ?n [] ?d)) \<in> set (effects b) \<and>
        RpcCommit (node_Id ?n) (commit_of demo_env x (Seq ?n) ?d) \<in> set (effects b) \<and> settles demo_env demo_tx 100 x b"
    using cluster_settles [OF demo_bolt_ok demo_json_pointers_ok demo_crypto_ok demo_MD5 demo_request_parts demo_leads
        n(1) m(1,2) n(2) m(3,4) ps_def cs_def req_def]
    by (elim exE conjE) (rule that; assumption)
  have n': "runPBFT demo_env (leader_io demo_env 1 ps cs) ?n (demo_request_of demo_tx) 0 [] = Return n' (Some req, None)"
    "CommitCerts n' 1 = cs" "settles demo_env demo_tx 100 ?n n'" "RpcPrePrepare ''S2'' req \<in> set (effects n')"
    using raw(1,2) raw(3) bspec [OF raw(4) sel(3)] by (simp_all only: sel(1))
  obtain z where z: "executor_round demo_env n' = Return z ()" "balance_view demo_env (DB z) ''1'' = Some 7"
    using demo_settled [OF n'(3)] by (auto simp: demo_node_tables)
  have "\<exists>a b z. rpc_PrePrepare demo_env [] x req = Return a None \<and>
        sendPrepareReq demo_env id (Some ps) id (Some cs) a 1 req ''S1'' [] = Return b None \<and>
        executor_round demo_env b = Return z () \<and> balance_view demo_env (DB z) ''2'' = Some 13 \<and> held demo_env (DB z) = {} \<and>
        GoReplyToClient 100 True 7 \<in> set (effects z)" if x: "x \<in> {?m, ?m'}" for x
  proof -
    have "DB x = demo_db" using x by (auto simp: demo_follower_sel)
    moreover obtain a b where "rpc_PrePrepare demo_env [] x req = Return a None"
      "sendPrepareReq demo_env id (Some ps) id (Some cs) a 1 req ''S1'' [] = Return b None" "settles demo_env demo_tx 100 x b"
      using bspec [OF others x] unfolding sel(1,2) by (elim exE conjE) (rule that)
    ultimately show ?thesis using demo_settled by blast
  qed
  with n' z show ?thesis
    by - (rule exI [of _ ps], rule exI [of _ cs], rule exI [of _ req], rule exI [of _ n'], rule exI [of _ z],
      intro conjI ballI; (rule ps_def | assumption | blast))
qed

end
