(* ===== verification/Offers.thy ===== *)
theory Offers
  imports Followers
begin

text \<open>
  Agreement under a working leader, with nothing assumed about certificates. The leader's run is
  orderly; what it has offered is what its pre-prepares say. The other nodes of the cluster run
  as they like in the first view (\<open>replica_runs\<close>): they may be set Byzantine, may accept
  another pre-prepare while one waits for its locks, and may be given any certificates. What
  is assumed is that nobody forges the leader's signature, and that a node which does not lead
  is not asked for a two-phase commit. Then whatever two of them commit under one number are
  requests with the digest that the leader has logged there.
\<close>

section \<open>Offers\<close>

definition offers :: "'b Node \<Rightarrow> PrePrepare set" where
  "offers n = {pp. \<exists>i req. RpcPrePrepare i req \<in> set (effects n) \<and> ppr_PrePrepare req = Some pp}"

lemma offers_logged:
  assumes "sound v me True n" "MaxSeq n < max64" "pp \<in> offers n"
  shows "digest_at n (pp_Sequence pp) = Some (pp_Digest pp)"
proof -
  obtain i req where e: "RpcPrePrepare i req \<in> set (effects n)" "ppr_PrePrepare req = Some pp"
    using assms(3) by (auto simp: offers_def)
  with assms(1,2) have "effect_ok n (RpcPrePrepare i req)" unfolding sound_def by blast
  with e(2) show ?thesis by simp
qed

text \<open>A transaction of a request whose digest was offered for the number.\<close>

definition has_offer :: "'b env \<Rightarrow> PrePrepare set \<Rightarrow> int64 \<Rightarrow> string \<Rightarrow> Transaction option \<Rightarrow> bool" where
  "has_offer E ofs seq d t \<longleftrightarrow> (\<exists>pp\<in>ofs. pp_Sequence pp = seq \<and> pp_Digest pp = d) \<and>
     (\<exists>r. MD5Hash E (JClientReq (Some r)) = Some d \<and> tx_of r = t)"

definition within_offers :: "'b env \<Rightarrow> PrePrepare set \<Rightarrow> 'b Node \<Rightarrow> bool" where
  "within_offers E ofs n \<longleftrightarrow>
     (\<forall>seq l. TransactionLog n seq = Some l \<longrightarrow> has_offer E ofs seq (tl_Digest l) (tl_Transaction l)) \<and>
     (\<forall>seq u. Datastore n seq = Some u \<longrightarrow> TransactionLog n seq \<noteq> None \<and> (\<exists>d. has_offer E ofs seq d (u_Transaction u)))"

lemma within_offers_updateLog: "within_offers E ofs n \<Longrightarrow> within_offers E ofs (updateLog n seq s)"
  by (auto simp: within_offers_def updateLog_def split: option.splits)

lemma within_offers_commit:
  assumes "within_offers E ofs n" "TransactionLog n seq = Some l"
  shows "within_offers E ofs (commit_entry E n seq s k t)"
  using assms unfolding within_offers_def commit_entry_tables [OF assms(2)] by auto

interpretation in_offers: executed_quietly E "within_offers E ofs" for E ofs
  by unfold_locales
    (auto simp: within_offers_updateLog within_offers_commit, auto simp: within_offers_def core_def)

section \<open>A replica takes only what was offered\<close>

text \<open>Nobody but the leader can make a pre-prepare that passes under the leader's key.\<close>

definition unforged_offer :: "'b env \<Rightarrow> PrePrepare set \<Rightarrow> 'b Node \<Rightarrow> PrePrepareRequest \<Rightarrow> bool" where
  "unforged_offer E ofs n req \<longleftrightarrow>
     (\<forall>pp leader pk. ppr_PrePrepare req = Some pp \<and> getViewLeader n = Some leader \<and> PublicKeyMap n leader = Some pk \<and>
        verified E pk (wire_PrePrepare pp) (ppr_Signature req) \<longrightarrow> pp \<in> ofs)"

lemma within_preprepare_accept:
  assumes "all_keep (within_offers E ofs) rely" "within_offers E ofs n" "ppr_ClientReq req = Some r"
    and "pp \<in> ofs" "MD5Hash E (JClientReq (Some r)) = Some (pp_Digest pp)"
  shows "keeps (within_offers E ofs) (preprepare_accept E rely n req pp leader)"
proof -
  let ?I = "within_offers E ofs"
  have frame: "?I m \<Longrightarrow> TransactionLog m' = TransactionLog m \<Longrightarrow> Datastore m' = Datastore m \<Longrightarrow> ?I m'" for m m'
    by (simp add: within_offers_def)
  have written: "?I (emit e (savePrePrepare (writeLog m (pp_Sequence pp) t v (pp_Digest pp) ts) (pp_Sequence pp) req))"
    if "?I m" "tx_of r = Some t" for m t v ts e
    using that assms(4,5)
    by (auto simp: within_offers_def has_offer_def emit_def savePrePrepare_def writeLog_def)
  have n: "?I (emit GoTimerStartIfNotRunning n)" by (rule frame [OF assms(2)]) (simp_all add: emit_def)
  have put: "?I m \<Longrightarrow> ?I (put_request m ts seq)" for m ts seq by (erule frame) (simp_all add: put_request_def)
  have tx: "ppr_ClientReq req = Some cr \<Longrightarrow> tx_of cr = Some t \<Longrightarrow> tx_of r = Some t" for cr t using assms(3) by simp
  show ?thesis
    unfolding preprepare_accept_def Let_def with_tx_eq with_seconds_eq
    by (intro keeps_rules in_offers.keeps_lock_loop assms(1) written) (simp_all add: n put tx)
qed

lemma within_rpc_PrePrepare:
  assumes "all_keep (within_offers E ofs) rely" "within_offers E ofs n" "unforged_offer E ofs n req"
  shows "keeps (within_offers E ofs) (rpc_PrePrepare E rely n req)"
proof -
  have accept: "keeps (within_offers E ofs) (preprepare_accept E rely m req pp leader)"
    if pp: "ppr_PrePrepare req = Some pp" and checks: "preprepare_checks E n req pp = Return m None" for m pp leader
  proof -
    obtain cr where "acceptable E n req pp cr" using preprepare_checks_pass [OF checks pp] by blast
    then have cr: "ppr_ClientReq req = Some cr" "MD5Hash E (JClientReq (Some cr)) = Some (pp_Digest pp)" "pp \<in> ofs"
      using assms(3) unfolding acceptable_def unforged_offer_def by blast+
    have "m = n" by (rule preprepare_checks_state [OF checks])
    with within_preprepare_accept [OF assms(1,2) cr(1,3,2)] show ?thesis by simp
  qed
  have "within_offers E ofs (emit GoTimerStartIfNotRunning n)" by (simp add: in_offers.inv_frame assms(2))
  then show ?thesis
    unfolding rpc_PrePrepare_def
    by (intro keeps_rules accept) (use assms(2) in \<open>auto dest: preprepare_checks_state intro: keeps_preprepare_checks\<close>)
qed

section \<open>The runs of a replica\<close>

text \<open>
  A node that does not lead, in the first view. It passes client requests on; a pre-prepare under
  the leader's key is one of the offers; it is not asked for a two-phase commit and adopts no
  view. While it waits for locks it does the same, in any order.
\<close>

inductive replica_runs :: "'b env \<Rightarrow> PrePrepare set \<Rightarrow> 'b Node \<Rightarrow> 'b Node \<Rightarrow> bool" for E ofs where
  rr_idle: "replica_runs E ofs n n"
| rr_next: "replica_runs E ofs n m \<Longrightarrow> replica_runs E ofs m n' \<Longrightarrow> replica_runs E ofs n n'"
| rr_client: "getViewLeader n \<noteq> Some (node_Id n) \<Longrightarrow>
    state_after (rpc_ExecuteTransaction E io n r) = Some n' \<Longrightarrow> replica_runs E ofs n n'"
| rr_preprepare: "(\<And>f m. f \<in> set rely \<Longrightarrow> replica_runs E ofs m (f m)) \<Longrightarrow> unforged_offer E ofs n req \<Longrightarrow>
    state_after (rpc_PrePrepare E rely n req) = Some n' \<Longrightarrow> replica_runs E ofs n n'"
| rr_prepare: "state_after (rpc_Prepare E rd polls n preq) = Some n' \<Longrightarrow> replica_runs E ofs n n'"
| rr_commit: "state_after (rpc_Commit E rd cpolls n creq) = Some n' \<Longrightarrow> replica_runs E ofs n n'"
| rr_checkpoint: "state_after (rpc_Checkpoint E n cp) = Some n' \<Longrightarrow> replica_runs E ofs n n'"
| rr_view_change: "state_after (rpc_ViewChange E n vc) = Some n' \<Longrightarrow> replica_runs E ofs n n'"
| rr_go_prepare: "(\<And>f m. f \<in> set [rely1, rely2] \<Longrightarrow> replica_runs E ofs m (f m)) \<Longrightarrow>
    state_after (sendPrepareReq E rely1 reply1 rely2 reply2 n seq req leader status) = Some n' \<Longrightarrow> replica_runs E ofs n n'"
| rr_go_commit_self: "(\<And>m. replica_runs E ofs m (wait m)) \<Longrightarrow>
    state_after (sendCommitToSelf E wait rd cpolls n seq) = Some n' \<Longrightarrow> replica_runs E ofs n n'"
| rr_go_view_change: "state_after (sendViewChange E n view) = Some n' \<Longrightarrow> replica_runs E ofs n n'"
| rr_go_update: "replica_runs E ofs n (updateLog n seq status)"
| rr_go_save: "state_after (saveTransaction E n seq status) = Some n' \<Longrightarrow> replica_runs E ofs n n'"
| rr_go_garbage: "state_after (collectGarbage n seq) = Some n' \<Longrightarrow> replica_runs E ofs n n'"
| rr_go_erase: "replica_runs E ofs n (n\<lparr>DB := EraseWal E (DB n) k\<rparr>)"
| rr_go_reply: "replica_runs E ofs n (replyToClient E n ts res k)"
| rr_execute: "state_after (executor_round E n) = Some n' \<Longrightarrow> replica_runs E ofs n n'"
| rr_monitor: "replica_runs E ofs n (monitor_round n)"
| rr_expire: "replica_runs E ofs n (n\<lparr>Tmr := timer_expires (Tmr n)\<rparr>)"
| rr_start_timer: "replica_runs E ofs n (n\<lparr>Tmr := StartIfNotRunning (Tmr n)\<rparr>)"
| rr_read_key: "replica_runs E ofs n (readPublicKeyIntoMap pem n path)"
| rr_set_status: "replica_runs E ofs n (rpc_SetStatus n b)"
| rr_set_byzantine: "replica_runs E ofs n (rpc_SetByzantine n b)"

lemma within_passed_on:
  assumes "within_offers E ofs n" "getViewLeader n \<noteq> Some (node_Id n)"
  shows "keeps (within_offers E ofs) (rpc_ExecuteTransaction E io n r)"
proof -
  have "getViewLeader (emit e n) = getViewLeader n" "node_Id (emit e n) = node_Id n" for e
    by (simp_all add: getViewLeader_def emit_def)
  with assms show ?thesis
    unfolding rpc_ExecuteTransaction_def Let_def with_seconds_def with_tx_def
    by (intro keeps_rules wf_rules) (simp_all add: in_offers.inv_frame in_offers.inv_replyToClient)
qed

lemma replica_within: "replica_runs E ofs n n' \<Longrightarrow> within_offers E ofs n \<Longrightarrow> within_offers E ofs n'"
proof (induction rule: replica_runs.induct)
  case (rr_next n m n')
  then show ?case by blast
next
  case (rr_client n io r n')
  from keepsD [OF within_passed_on [OF rr_client.prems rr_client.hyps(1)] rr_client.hyps(2)] show ?case .
next
  case (rr_preprepare rely n req n')
  have "all_keep (within_offers E ofs) rely" using rr_preprepare.IH by (intro all_keepI) blast
  from keepsD [OF within_rpc_PrePrepare [OF this rr_preprepare.prems rr_preprepare.hyps(2)] rr_preprepare.hyps(3)]
  show ?case .
next
  case (rr_go_prepare rely1 rely2 reply1 reply2 n seq req leader status n')
  have "all_keep (within_offers E ofs) [rely1, rely2]" using rr_go_prepare.IH by (intro all_keepI) blast
  from keepsD [OF in_offers.keeps_sendPrepareReq [OF this rr_go_prepare.prems] rr_go_prepare.hyps(2)] show ?case .
next
  case (rr_go_commit_self wait rd cpolls n seq n')
  have "all_keep (within_offers E ofs) [wait]" using rr_go_commit_self.IH by simp
  from keepsD [OF in_offers.keeps_sendCommitToSelf [OF this rr_go_commit_self.prems] rr_go_commit_self.hyps(2)] show ?case .
next
  case (rr_go_erase n k)
  then show ?case by (rule in_offers.inv_EraseWal)
qed ((rule keepsD [OF in_offers.keeps_rpc_Prepare] keepsD [OF in_offers.keeps_rpc_Commit] keepsD [OF in_offers.keeps_rpc_Checkpoint]
    keepsD [OF in_offers.keeps_rpc_ViewChange] keepsD [OF in_offers.keeps_sendViewChange] keepsD [OF in_offers.keeps_saveTransaction]
    keepsD [OF in_offers.keeps_collectGarbage] keepsD [OF in_offers.keeps_executor_round] in_offers.inv_updateLog; assumption)
  | simp add: in_offers.inv_frame in_offers.inv_monitor_round in_offers.inv_readPublicKeyIntoMap in_offers.inv_replyToClient
      rpc_SetStatus_def rpc_SetByzantine_def)+

section \<open>Agreement\<close>

lemma started_within: "started E n \<Longrightarrow> within_offers E ofs n"
  using started_fresh [of E n] by (simp add: within_offers_def)

text \<open>
  C2. Agreement under a working leader, whatever the certificates: the leader's run is orderly,
  two other nodes of the cluster run in the first view as they like, Byzantine or not, except
  that a pre-prepare which passes under the leader's key is one the leader has sent, and that
  they take no part in a two-phase commit. If both have committed an entry under a sequence
  number, then both have logged there the digest that the leader has, and both committed
  transactions are those of client requests with that digest. It does not matter which
  certificates made them commit, nor in which order the pre-prepares came.
\<close>

theorem replicas_commit_leaders_requests:
  assumes "started E l0" "orderly_runs E True l0 l" "MaxSeq l < max64"
    and "started E n0" "replica_runs E (offers l) n0 n" "Datastore n seq = Some u"
    and "started E m0" "replica_runs E (offers l) m0 m" "Datastore m seq = Some w"
  shows "\<exists>d r r'. digest_at l seq = Some d \<and> digest_at n seq = Some d \<and> digest_at m seq = Some d \<and>
     MD5Hash E (JClientReq (Some r)) = Some d \<and> u_Transaction u = tx_of r \<and>
     MD5Hash E (JClientReq (Some r')) = Some d \<and> u_Transaction w = tx_of r'"
proof -
  have s: "sound 1 (node_Id l0) True l" by (rule orderly_sound [OF assms(2) started_sound [OF assms(1)]])
  have offered: "digest_at l seq = Some d" if "has_offer E (offers l) seq d t" for d t
    using offers_logged [OF s assms(3)] that by (auto simp: has_offer_def)
  have committed: "\<exists>d r. digest_at l seq = Some d \<and> digest_at x seq = Some d \<and>
      MD5Hash E (JClientReq (Some r)) = Some d \<and> u_Transaction v = tx_of r"
    if "within_offers E (offers l) x" "Datastore x seq = Some v" for x v
  proof -
    have "TransactionLog x seq \<noteq> None \<and> (\<exists>d. has_offer E (offers l) seq d (u_Transaction v))"
      using that unfolding within_offers_def by blast
    then obtain d e where d: "TransactionLog x seq = Some e" "has_offer E (offers l) seq d (u_Transaction v)" by auto
    then have e: "TransactionLog x seq = Some e" "has_offer E (offers l) seq (tl_Digest e) (tl_Transaction e)"
      using that(1) unfolding within_offers_def by blast+
    have "tl_Digest e = d" using offered [OF e(2)] offered [OF d(2)] by simp
    with e d(2) offered [OF d(2)] show ?thesis by (auto simp: digest_at_def has_offer_def)
  qed
  show ?thesis
    using committed [OF replica_within [OF assms(5) started_within [OF assms(4)]] assms(6)]
      committed [OF replica_within [OF assms(8) started_within [OF assms(7)]] assms(9)] by force
qed

text \<open>The leader and two replicas of the demonstration cluster, from their start.\<close>

lemma demo_peer_store: "walBucket (DB (demo_peer name i b)) = ([], 0)" "node_PrivateKey (demo_peer name i b) = demo_key i"
  "ExecutorSeq (demo_peer name i b) = 1" "Seq (demo_peer name i b) = 1"
  by (simp_all add: demo_peer_def establishConns_def NewNode_def createBuckets_def demo_simps)

lemma demo_peer_opened:
  "\<exists>b. started demo_env (demo_peer name i b) \<and> (\<exists>x. GetBalance demo_env (DB (demo_peer name i b)) ''1'' = Inr x \<and> 3 \<le> x)"
proof -
  have ends: "in64 1" "in64 1000" "(1000::int) < max64" and big: "in64 InitialBalance" "3 \<le> InitialBalance"
    by (simp_all add: in64_def min64_def max64_def InitialBalance_def)
  obtain b where run: "Start demo_env (NewNode (demo_key i) demo_keys (createBuckets demo_env) ''C1'' name demo_clusters
      (FormatInt 1) (FormatInt 1000)) = Return (demo_peer name i b) ()"
    and b: "bkt_get demo_env b = (\<lambda>c. if c \<in> FormatInt ` {1..1000} then Some (FormatInt InitialBalance) else None)"
    using Start_runs [OF demo_bolt_ok ends] unfolding demo_peer_def by blast
  have "FormatInt 1 = ''1''" by code_simp
  then have "''1'' \<in> FormatInt ` {1..1000}" by force
  then have "GetBalance demo_env (DB (demo_peer name i b)) ''1'' = Inr InitialBalance"
    using big(1) by (simp add: GetBalance_def demo_peer_def b)
  with startedI [OF run] big(2) show ?thesis by blast
qed

lemma demo_announces:
  assumes "Seq m = 1" "View m = 1" "node_PrivateKey m = demo_key 1" "node_Id m = ''S1''" "''S2'' \<in> set (peers m (ClusterId m))"
    and "MaxSeq m = 0" "tx_of r = Some t" "seconds_of r = Some ts"
  shows "\<exists>n1 n2 req. assign_seq demo_env m r 0 [] d = Return n1 (req, offer_body demo_node [] d) \<and>
     announce n1 r req (offer_body demo_node [] d) = Return n2 () \<and> MaxSeq n2 = 1 \<and>
     RpcPrePrepare ''S2'' req \<in> set (effects n2) \<and> ppr_PrePrepare req = Some (offer_body demo_node [] d)"
proof -
  obtain cq where cq: "scr_ClientRequest r = Some cq" "cr_Transaction cq = Some t"
    using assms(7) by (auto simp: tx_of_def bind_eq_Some_conv)
  then show ?thesis
    using assms
    by (auto simp: assign_seq_def Let_def announce_def logClientRequest_def with_seconds_eq offer_body_def demo_node_tables
        emits_def savePrePrepare_def writeLog_def put_request_def peers_def)
qed

lemma demo_offers:
  "\<exists>n0 n. started demo_env n0 \<and> orderly_runs demo_env True n0 n \<and> MaxSeq n < max64 \<and>
     offer_body demo_node [] (demo_digest demo_tx) \<in> offers n"
proof -
  let ?t = demo_tx and ?r = "demo_request_of demo_tx" and ?d = "demo_digest demo_tx"
  let ?io = "(demo_smooth_io demo_tx)\<lparr>prepare_run := (demo_io [])\<lparr>prepare_events := []\<rparr>\<rparr>"
  obtain b x where b: "started demo_env (demo_peer ''S1'' 1 b)"
    and money: "GetBalance demo_env (DB (demo_peer ''S1'' 1 b)) ''1'' = Inr x" "3 \<le> x"
    using demo_peer_opened by blast
  let ?n = "demo_peer ''S1'' 1 b" and ?n' = "emit GoTimerStartIfNotRunning (demo_peer ''S1'' 1 b)"
  define m where "m = ?n'\<lparr>DB := GetLocksDB demo_env (DB ?n') (tx_clients ?t)\<rparr>"
  have locks: "secure_locks demo_env [] ?n' ?r = Return m None"
    unfolding m_def
    by (rule secure_locks_free [OF demo_request_parts(1)])
      (use money in \<open>simp_all add: emit_def held_def locked_def demo_peer_sel demo_simps demo_get_def demo_tx_def\<close>)
  have "''S2'' \<in> set (peers m (ClusterId m))"
    by (simp add: m_def emit_def peers_def demo_peer_def establishConns_def NewNode_def demo_clusters_def)
  moreover have "Seq m = 1" "View m = 1" "node_PrivateKey m = demo_key 1" "node_Id m = ''S1''" "MaxSeq m = 0"
    by (simp_all add: m_def emit_def demo_peer_sel demo_peer_store)
  ultimately obtain n1 n2 req where n2: "assign_seq demo_env m ?r 0 [] ?d = Return n1 (req, offer_body demo_node [] ?d)"
    "announce n1 ?r req (offer_body demo_node [] ?d) = Return n2 ()" "MaxSeq n2 = 1"
    and sent: "RpcPrePrepare ''S2'' req \<in> set (effects n2)" "ppr_PrePrepare req = Some (offer_body demo_node [] ?d)"
    using demo_announces [of m ?r ?t 100 ?d] demo_request_parts by blast
  have offer: "offer_body demo_node [] ?d \<in> offers n2"
    unfolding offers_def by (intro CollectI exI conjI) (rule sent)+
  have "runPBFT demo_env (prepare_run ?io) ?n' ?r 0 [] = Blocked n2"
    by (simp add: runPBFT_def demo_MD5 demo_io_def locks n2(1,2) collectPrepares_def Let_def)
  then have run: "runIntrashard demo_env (prepare_run ?io) ?n' ?r 0 = Blocked n2"
    by (simp add: runIntrashard_def demo_request_of_def Let_def)
  have lead: "getViewLeader ?n' = Some ''S1''"
    using demo_leader by (simp add: getViewLeader_def demo_peer_sel demo_replica_sel demo_replica_def demo_node_tables emit_def)
  have "verified demo_env (PublicKey 0 65537) (top_fields wire_ClientRequest (scr_ClientRequest ?r)) (scr_Signature ?r)"
    using demo_verified [of 0] by (simp add: demo_request_of_def Let_def)
  moreover have "t_ClusterFrom ?t = t_ClusterTo ?t" "node_Id ?n' = ''S1''" "demo_keys ''client'' = Some (PublicKey 0 65537)"
    by (simp_all add: demo_tx_def demo_peer_sel emit_def demo_keys_def)
  ultimately have "rpc_ExecuteTransaction demo_env ?io ?n ?r = Blocked n2"
    unfolding rpc_ExecuteTransaction_def with_seconds_eq with_tx_eq demo_request_parts
    using run lead by (simp add: demo_peer_sel)
  then have "state_after (rpc_ExecuteTransaction demo_env ?io ?n ?r) = Some n2" by simp
  then have "orderly_runs demo_env True ?n n2"
    by (rule ov_client [rotated 2]) (auto simp: cross_fns_def io_fns_def demo_smooth_io_def demo_io_def Let_def intro: ov_idle)
  moreover have "MaxSeq n2 < max64" by (simp add: n2(3) max64_def)
  ultimately show ?thesis using b offer by blast
qed

lemma demo_accepts_offer:
  assumes "name \<noteq> ''S1''" "demo_keys name = Some (PublicKey i 65537)"
    "offer_body demo_node [] (demo_digest demo_tx) \<in> ofs"
  shows "\<exists>n0 n u. started demo_env n0 \<and> replica_runs demo_env ofs n0 n \<and> Datastore n 1 = Some u \<and>
     u_Transaction u = Some demo_tx"
proof -
  let ?d = "demo_digest demo_tx" and ?r = "demo_request_of demo_tx"
  let ?ps = "map (\<lambda>i. demo_prepare_cert (fst i) (snd i) 1 ?d) [(2, ''S2''), (3, ''S3'')]"
  let ?cs = "map (\<lambda>i. demo_commit_cert (fst i) (snd i) 1 ?d) [(1, ''S1''), (2, ''S2''), (3, ''S3'')]"
  obtain b where b: "started demo_env (demo_peer name i b)" using demo_peer_started by blast
  let ?m = "demo_peer name i b" and ?req = "offer_of demo_env demo_node (demo_request_of demo_tx) [] (demo_digest demo_tx)"
  have signs: "\<forall>b. SignMessage demo_env (demo_key i) b \<noteq> None" by (intro allI demo_signs)
  have free: "held demo_env (DB ?m) = {}" by (simp add: held_def locked_def demo_peer_sel demo_simps demo_get_def)
  have "follower demo_env demo_node [] demo_tx ?m"
    unfolding follower_def
    using signs assms(1,2) demo_peer_leader [OF assms(1)] free
    by (simp add: demo_peer_sel demo_peer_store demo_node_tables demo_key_def del: not_None_eq)
  moreover have "list_all (prepare_vote demo_env (PublicKeyMap demo_node) ?d) ?ps" "list_all has_prepare ?ps" "2 * F \<le> length ?ps"
    "list_all (commit_vote demo_env (PublicKeyMap demo_node) ?d) ?cs" "list_all has_commit ?cs" "2 * F + 1 \<le> length ?cs"
    using demo_verified
    by (simp_all add: prepare_vote_def commit_vote_def demo_prepare_cert_def demo_commit_cert_def Let_def demo_keys_def demo_node_tables F_def)
  ultimately obtain x y where x: "rpc_PrePrepare demo_env [] ?m ?req = Return x None"
    and y: "sendPrepareReq demo_env id (Some ?ps) id (Some ?cs) x (Seq demo_node) ?req (node_Id demo_node) [] = Return y None"
    and c: "committed_at demo_env ?m (Seq demo_node) (numbering ?m) [] demo_tx 100 ?d y"
    using follower_commits [OF demo_bolt_ok demo_crypto_ok demo_MD5 demo_request_parts demo_leads] by blast
  have "replica_runs demo_env ofs ?m x"
    by (rule rr_preprepare [where rely = "[]" and req = ?req]) (simp_all add: x unforged_offer_def assms(3))
  moreover have "replica_runs demo_env ofs x y"
    by (rule rr_go_prepare [OF _ arg_cong [OF y, of state_after, simplified]]) (auto intro: rr_idle)
  ultimately have "replica_runs demo_env ofs ?m y" by (rule rr_next)
  moreover have "Datastore y 1 = Some (entry_of 1 [] demo_tx 100)" using c by (simp add: committed_at_def demo_node_tables)
  moreover have "u_Transaction (entry_of 1 [] demo_tx 100) = Some demo_tx" by (simp add: entry_of_def)
  ultimately show ?thesis using b by blast
qed

theorem replicas_commit_leaders_requests_witness:
  "\<exists>(l :: demo_bucket Node) (n :: demo_bucket Node) (m :: demo_bucket Node) u w. Datastore n 1 = Some u \<and> Datastore m 1 = Some w \<and>
     u_Transaction u = Some demo_tx \<and> u_Transaction w = Some demo_tx \<and>
     digest_at l 1 \<noteq> None \<and> digest_at n 1 = digest_at l 1 \<and> digest_at m 1 = digest_at l 1"
proof -
  obtain l0 l where l: "started demo_env l0" "orderly_runs demo_env True l0 l" "MaxSeq l < max64"
    "offer_body demo_node [] (demo_digest demo_tx) \<in> offers l" using demo_offers by blast
  obtain n0 n u where n: "started demo_env n0" "replica_runs demo_env (offers l) n0 n" "Datastore n 1 = Some u"
    and u: "u_Transaction u = Some demo_tx"
    using demo_accepts_offer [of "''S2''" 2, OF _ _ l(4)] by (auto simp: demo_keys_def)
  obtain m0 m w where m: "started demo_env m0" "replica_runs demo_env (offers l) m0 m" "Datastore m 1 = Some w"
    and w: "u_Transaction w = Some demo_tx"
    using demo_accepts_offer [of "''S3''" 3, OF _ _ l(4)] by (auto simp: demo_keys_def)
  from replicas_commit_leaders_requests [OF l(1-3) n m]
  have "digest_at l 1 \<noteq> None" "digest_at n 1 = digest_at l 1" "digest_at m 1 = digest_at l 1" by auto
  with n(3) m(3) u w show ?thesis by blast
qed

end
