(* ===== verification/LostAck.thy ===== *)
theory LostAck
  imports EndToEnd Atomicity
begin

text \<open>
  Two-phase commit is not atomic when the participant's acknowledgement is lost: from the client's
  request on, through the handlers of both sides and their executors, the coordinator undoes
  the debit while the participant keeps the credit and the locks, and nothing that could
  undo these is under way.
\<close>

section \<open>The coordinator undoes its prepare\<close>

text \<open>The write-ahead log holds nothing under the transaction's number, and takes it.\<close>

definition wal_ready :: "'b env \<Rightarrow> 'b Database \<Rightarrow> Transaction \<Rightarrow> bool" where
  "wal_ready E d t \<longleftrightarrow> wal_readable E d (t_ClientSeq t) \<and> wal_view E d (t_ClientSeq t) = [] \<and> ascii_tx t \<and>
     snd (AppendToWALEntry E d (t_ClientSeq t) (wal_of t)) = None"

lemma wal_ready_view:
  assumes "bolt_ok E" "json_ok E" "wal_ready E d t" "walBucket d' = wal_after E d ''P'' t"
  shows "wal_view E d' (t_ClientSeq t) = wal_of t"
proof -
  have app: "AppendToWALEntry E d (t_ClientSeq t) (wal_of t) = (fst (AppendToWALEntry E d (t_ClientSeq t) (wal_of t)), None)"
    using assms(3) by (simp add: wal_ready_def prod_eq_iff)
  have "ascii_wal \<lparr>Logs = wal_view E d (t_ClientSeq t) @ wal_of t\<rparr>"
    using assms(3) by (simp add: wal_ready_def ascii_wal_def wal_of_def ascii_def ascii_tx_opt_def)
  from AppendToWALEntry_read [OF assms(1,2) _ this app] assms(3)
  have "ReadWALEntry E (fst (AppendToWALEntry E d (t_ClientSeq t) (wal_of t))) (t_ClientSeq t) = Inr \<lparr>Logs = wal_of t\<rparr>"
    by (simp add: wal_ready_def)
  then show ?thesis using assms(4) by (simp add: wal_view_def wal_after_def ReadWALEntry_def)
qed

lemma aborted_pair_executes:
  assumes "bolt_ok E" "node_wf E m" "Datastore m (ExecutorSeq m) = Some (entry_of i ''P'' t ts)"
    and "Datastore m (add64 (ExecutorSeq m) 1) = Some (entry_of j ''A'' t ts)" "wal_view E (DB m) (t_ClientSeq t) = wal_of t"
  shows "\<exists>m'. executor_rounds E 2 m = Return m' () \<and> balance_view E (DB m') = balance_view E (DB m) \<and>
     held E (DB m') = held E (DB m) - {t_From t, t_To t} \<and>
     effects m' = effects m @ [GoReplyToClient ts False (t_ClientSeq t), GoUpdateLog j ''executed'']"
proof -
  let ?wal = "wal_view E (DB m)"
  obtain m' where m': "executor_rounds E 2 m = Return m' ()"
    "abs_exec E m' = (exec_step (Datastore m) ?wal ^^ 2) (abs_exec E m)"
    using executor_rounds_refine [OF assms(1,2)] by blast
  have abs: "abs_exec E m' = exec_unit ?wal (entry_of j ''A'' t ts) (exec_unit ?wal (entry_of i ''P'' t ts) (abs_exec E m))"
    unfolding m'(2) by (simp add: numeral_2_eq_2 exec_step_def abs_exec_def assms(3,4)) (simp add: exec_unit_def assms(4))
  have units: "unit_transfers ?wal (entry_of i ''P'' t ts) = [t]" "unit_transfers ?wal (entry_of j ''A'' t ts) = [reverse_tx t]"
    by (simp_all add: unit_transfers_def entry_of_def assms(5) wal_of_def)
  have "fold transfer [t, reverse_tx t] (balance_view E (DB m)) = balance_view E (DB m)"
    using abort_cancels_transfers [OF view_in64_balance_view units, of "[]" "[]" "[]" E "DB m"] units by simp
  then show ?thesis
    using m'(1) abs units
    by (simp add: exec_unit_def unit_releases_def unit_effects_def abs_exec_def) (simp add: entry_of_def)
qed

lemma coordinator_undoes:
  assumes "bolt_ok E" "json_ok E" "pair_decided E n ''A'' t ts m" "node_wf E m" "ExecutorSeq n = Seq n" "wal_ready E (DB n) t"
    and "{t_From t, t_To t} \<inter> held E (DB n) = {}"
  shows "\<exists>m'. executor_rounds E 2 m = Return m' () \<and> balance_view E (DB m') = balance_view E (DB n) \<and>
     held E (DB m') = held E (DB n) \<and>
     effects m' = effects m @ [GoReplyToClient ts False (t_ClientSeq t), GoUpdateLog (add64 (Seq n) 1) ''executed'']"
proof -
  have m: "Datastore m (ExecutorSeq m) = Some (entry_of (Seq n) ''P'' t ts)"
    "Datastore m (add64 (ExecutorSeq m) 1) = Some (entry_of (add64 (Seq n) 1) ''A'' t ts)"
    "balance_view E (DB m) = balance_view E (DB n)" "held E (DB m) = held E (DB n) \<union> taken ''P'' t"
    using assms(3,5) by (auto simp: pair_decided_def intro: balance_view_cong)
  have "wal_view E (DB m) (t_ClientSeq t) = wal_of t"
    by (rule wal_ready_view [OF assms(1,2,6)]) (use assms(3) in \<open>simp add: pair_decided_def\<close>)
  from aborted_pair_executes [OF assms(1,4) m(1,2) this] obtain m' where m': "executor_rounds E 2 m = Return m' ()"
    "balance_view E (DB m') = balance_view E (DB n)" "held E (DB m') = held E (DB n) \<union> taken ''P'' t - {t_From t, t_To t}"
    "effects m' = effects m @ [GoReplyToClient ts False (t_ClientSeq t), GoUpdateLog (add64 (Seq n) 1) ''executed'']"
    unfolding m(3,4) by blast
  have "taken ''P'' t \<subseteq> {t_From t, t_To t}" by (auto simp: taken_def)
  from taken_released [OF this assms(7)] m' show ?thesis by auto
qed

section \<open>The participant keeps its prepare\<close>

lemma prepared_executes:
  assumes "bolt_ok E" "run_committed E n ''P'' t ts d m" "node_wf E m" "ExecutorSeq n = Seq n"
  shows "\<exists>m'. executor_round E m = Return m' () \<and> balance_view E (DB m') = transfer t (balance_view E (DB n)) \<and>
     held E (DB m') = held E (DB n) \<union> taken ''P'' t \<and> effects m' = effects m"
proof -
  have m: "Datastore m (ExecutorSeq m) = Some (entry_of (Seq n) ''P'' t ts)" "balance_view E (DB m) = balance_view E (DB n)"
    "held E (DB m) = held E (DB n) \<union> taken ''P'' t"
    using assms(2,4) by (auto simp: run_committed_simps intro: balance_view_cong)
  obtain m' where m': "executor_round E m = Return m' ()"
    "abs_exec E m' = exec_step (Datastore m) (wal_view E (DB m)) (abs_exec E m)"
    using executor_round_refines [OF assms(1,3)] by blast
  have "abs_exec E m' = exec_unit (wal_view E (DB m)) (entry_of (Seq n) ''P'' t ts) (abs_exec E m)"
    unfolding m'(2) by (simp add: exec_step_def abs_exec_def m(1))
  with m'(1) m(2,3) show ?thesis
    by (simp add: exec_unit_def entry_of_def unit_transfers_def unit_releases_def unit_effects_def abs_exec_def)
qed

lemma quiet_run:
  assumes "runPBFT E io n r i s = Return n' x" "quiet P n" "all_quiet P (io_fns io)" "run_effects P"
  shows "quiet P n'"
proof (rule keepsD [OF quiet_runPBFT [OF assms(4,3,2)]])
  show "state_after (runPBFT E io n r i s) = Some n'" by (simp only: assms(1) state_after.simps)
qed

section \<open>A lost acknowledgement\<close>

text \<open>Nothing that decides about the request at the participant: a commit call, or the wait that aborts.\<close>

definition no_commit_for :: "SignedClientRequest \<Rightarrow> effect \<Rightarrow> bool" where
  "no_commit_for r e \<longleftrightarrow> (\<forall>i q. e = RpcPCCommit i q \<longrightarrow> pcr_SignedClientReq q \<noteq> Some r)"

definition no_wait_for :: "SignedClientRequest \<Rightarrow> effect \<Rightarrow> bool" where
  "no_wait_for r e \<longleftrightarrow> e \<noteq> GoWaitForPCCommit r"

lemma run_effects_undecided: "run_effects (no_commit_for r)" "run_effects (no_wait_for r)"
  by (simp_all add: run_effects_def no_commit_for_def no_wait_for_def)

text \<open>The coordinator, when it is not told of the participant's consent.\<close>

lemma coordinator_gives_up:
  assumes env: "bolt_ok E" "json_pointers_ok E" "MD5Hash E (JClientReq (Some r)) = Some d" "tx_of r = Some t" "seconds_of r = Some ts"
    and n: "node_wf E n" "can_run E n ''P'' t" "in64 (Seq n)"
    and io: "votes_arrive E (PublicKeyMap n) d (prepare_run io)" "votes_arrive E (PublicKeyMap n) d (decide_run io)"
      "leaves_steady (ack_rely io)" "\<not> ack io"
    and l: "LeaderMap n (t_ClusterTo t) = Some l" "l \<in> set (peers n (t_ClusterTo t))"
    and quiet: "quiet (no_commit_for r) n" "all_quiet (no_commit_for r) (cross_fns io)"
  shows "\<exists>n' pc. runCrossShard E io n r 0 = Return n' () \<and> pair_decided E n ''A'' t ts n' \<and> node_wf E n' \<and>
     RpcPCPrepare l pc \<in> set (effects n') \<and> quiet (no_commit_for r) n' \<and>
     pcr_SignedClientReq pc = Some r \<and> 2 * F + 1 \<le> length (pcr_Commits pc) \<and>
     list_all (commit_vote E (PublicKeyMap n) d) (pcr_Commits pc)"
proof -
  have dec: "''A'' \<noteq> []" "''A'' \<noteq> ''P''" by simp_all
  obtain cq where cq: "scr_ClientRequest r = Some cq" "cr_Transaction cq = Some t"
    using env(4) by (auto simp: tx_of_def bind_eq_Some_conv)
  obtain n1 p pp pc n3 p3 where run1: "runPBFT E (prepare_run io) n r 0 ''P'' = Return n1 (Some p, None)"
      "ppr_PrePrepare p = Some pp" "pp_Sequence pp = Seq n"
    and peer: "LeaderMap n1 (t_ClusterTo t) = Some l" "l \<in> set (peers n1 (t_ClusterTo t))"
    and pc: "pc = \<lparr>pcr_SignedClientReq = Some r, pcr_Commits = CommitCerts n1 (Seq n), pcr_NodeId = node_Id n1\<rparr>"
    and run3: "runPBFT E (decide_run io) (ack_rely io (emit (RpcPCPrepare l pc) n1)) r 0 ''A'' = Return n3 (Some p3, None)"
    and n3: "pair_decided E n ''A'' t ts n3" "node_wf E n3" "RpcPCPrepare l pc \<in> set (effects n3)"
    and votes: "2 * F + 1 \<le> length (pcr_Commits pc)" "list_all (commit_vote E (PublicKeyMap n) d) (pcr_Commits pc)"
    using coordinator_runs [OF env n io(1-3) l dec] by (elim exE conjE) (rule that)
  have fns: "all_quiet (no_commit_for r) (io_fns (prepare_run io))" "all_quiet (no_commit_for r) (io_fns (decide_run io))"
    "all_quiet (no_commit_for r) [ack_rely io]" using quiet(2) by (simp_all add: cross_fns_def)
  have "quiet (no_commit_for r) n1" by (rule quiet_run [OF run1(1) quiet(1) fns(1) run_effects_undecided(1)])
  then have "quiet (no_commit_for r) (ack_rely io (emit (RpcPCPrepare l pc) n1))"
    using fns(3) by (simp add: quiet_simps no_commit_for_def)
  then have "quiet (no_commit_for r) n3" by (rule quiet_run [OF run3 _ fns(2) run_effects_undecided(1)])
  moreover have "cross_decide E io n1 r t (Seq n) = Return n3 ()"
    using io(4) by (simp add: cross_decide_def Let_def peer with_client_def pc [symmetric] run3)
  then have "runCrossShard E io n r 0 = Return n3 ()" by (simp add: runCrossShard_def cq run1)
  moreover have "pcr_SignedClientReq pc = Some r" by (simp add: pc)
  ultimately show ?thesis using n3 votes by blast
qed

text \<open>What the two shards hold together when one has credited the transfer and the other has undone it.\<close>

lemma credited:
  assumes "bolt_ok E" "balance_view E (DB m) (t_To t) = Some c" "balance_view E (DB m) (t_From t) = None"
    and "balance_view E (DB n2) = balance_view E (DB n)" "balance_view E (DB m2) = transfer t (balance_view E (DB m))"
  shows "balance_view E (DB m2) (t_To t) = Some (add64 c (t_Amount t)) \<and>
     (total (balance_view E (DB n2)) + total (balance_view E (DB m2))) mod 18446744073709551616 =
       (total (balance_view E (DB n)) + total (balance_view E (DB m)) + t_Amount t) mod 18446744073709551616"
proof -
  let ?M = "18446744073709551616 :: int" and ?m = "balance_view E (DB m)"
  have "total (transfer t ?m) mod ?M = (total ?m + t_Amount t) mod ?M"
    using total_transfer [OF finite_balance_view [OF assms(1)], of "DB m" t] assms(2,3) by (simp add: domIff)
  then have "(total (balance_view E (DB n)) + total (transfer t ?m)) mod ?M =
      (total (balance_view E (DB n)) + (total ?m + t_Amount t)) mod ?M"
    by (intro mod_add_cong refl)
  moreover have "t_From t \<noteq> t_To t" using assms(2,3) by auto
  ultimately show ?thesis using assms by (simp add: transfer_to add.assoc)
qed

text \<open>
  C12. A lost acknowledgement creates money. The gateway's request for a transfer across clusters
  reaches the working leader of the sender's cluster, and the votes of both clusters arrive,
  but the coordinator is not told that the participant agreed (the call failed, or its answer
  did not come). The handlers then do this: the coordinator has its own shard prepare and
  abort; the participant, which got the very message the coordinator sent, prepares and
  answers with success; no commit call for the request goes out and no wait that could abort
  it is started, so that nothing is under way that decides about it at the participant. The
  executors then give the sender the money back and tell the client of failure, and at the
  participant credit the receiver, whose locks are kept. Together the shards hold the
  transferred amount more than before (as \<open>int64\<close> sums wrap, modulo $2^{64}$).
\<close>

theorem lost_acknowledgement_creates_money:
  assumes "bolt_ok E" "json_ok E" "json_pointers_ok E" "crypto_ok E" "\<And>m. SignMessage E (gw_PrivateKey gw) m \<noteq> None"
    and "r = getSignedClientReq E gw t ts" "MD5Hash E (JClientReq (Some r)) = Some d" "t_ClusterFrom t \<noteq> t_ClusterTo t"
    and n: "ready E (sk_Public (gw_PrivateKey gw)) n" "fresh_at_leader n ts" "can_run E n ''P'' t" "in64 (Seq n)" "wal_ready E (DB n) t"
    and io: "votes_arrive E (PublicKeyMap n) d (prepare_run io)" "votes_arrive E (PublicKeyMap n) d (decide_run io)"
      "leaves_steady (ack_rely io)" "\<not> ack io"
    and l: "LeaderMap n (t_ClusterTo t) = Some l" "l \<in> set (peers n (t_ClusterTo t))"
    and m: "ready E (sk_Public (gw_PrivateKey gw)) m" "can_run E m ''P'' t" "PublicKeyMap n \<subseteq>\<^sub>m PublicKeyMap m"
      "votes_arrive E (PublicKeyMap m) d prepare_io" "balance_view E (DB m) (t_To t) = Some c" "balance_view E (DB m) (t_From t) = None"
    and quiet: "quiet (no_commit_for r) n" "all_quiet (no_commit_for r) (cross_fns io)"
      "quiet (no_wait_for r) m" "all_quiet (no_wait_for r) (io_fns prepare_io)"
  shows "\<exists>n1 n2 pc m1 m2. rpc_ExecuteTransaction E io n r = Return n1 None \<and> RpcPCPrepare l pc \<in> set (effects n1) \<and>
     rpc_PCPrepare E prepare_io m pc = Return m1 (Inr (pc_success m1)) \<and>
     executor_rounds E 2 n1 = Return n2 () \<and> executor_round E m1 = Return m2 () \<and>
     quiet (no_commit_for r) n2 \<and> quiet (no_wait_for r) m2 \<and>
     balance_view E (DB n2) = balance_view E (DB n) \<and> held E (DB n2) = held E (DB n) \<and>
     GoReplyToClient ts False (t_ClientSeq t) \<in> set (effects n2) \<and>
     balance_view E (DB m2) (t_To t) = Some (add64 c (t_Amount t)) \<and> held E (DB m2) = held E (DB m) \<union> taken ''P'' t \<and>
     (total (balance_view E (DB n2)) + total (balance_view E (DB m2))) mod 18446744073709551616 =
       (total (balance_view E (DB n)) + total (balance_view E (DB m)) + t_Amount t) mod 18446744073709551616"
proof -
  let ?n = "emit GoTimerStartIfNotRunning n"
  have r: "tx_of r = Some t" "seconds_of r = Some ts" by (simp_all add: assms(6) getSignedClientReq_parts)
  have wf: "node_wf E ?n" "node_wf E m" and next_seq: "ExecutorSeq ?n = Seq ?n" "ExecutorSeq m = Seq m"
    using n(1) m(1) by (simp_all add: ready_def timer_started)
  have free: "{t_From t, t_To t} \<inter> held E (DB ?n) = {}" using n(3) by (simp add: can_run_def timer_started)
  have at_n: "can_run E ?n ''P'' t" "in64 (Seq ?n)" "votes_arrive E (PublicKeyMap ?n) d (prepare_run io)"
    "votes_arrive E (PublicKeyMap ?n) d (decide_run io)" "LeaderMap ?n (t_ClusterTo t) = Some l"
    "l \<in> set (peers ?n (t_ClusterTo t))" "wal_ready E (DB ?n) t"
    using n(3-5) io(1,2) l by (simp_all only: timer_started)
  have q: "quiet (no_commit_for r) ?n" using quiet(1) by (simp add: quiet_simps no_commit_for_def)
  obtain n1 pc where run: "runCrossShard E io ?n r 0 = Return n1 ()" and n1: "pair_decided E ?n ''A'' t ts n1" "node_wf E n1"
    and sent: "RpcPCPrepare l pc \<in> set (effects n1)" "quiet (no_commit_for r) n1"
    and pc: "pcr_SignedClientReq pc = Some r" "2 * F + 1 \<le> length (pcr_Commits pc)"
      "list_all (commit_vote E (PublicKeyMap ?n) d) (pcr_Commits pc)"
    using coordinator_gives_up [OF assms(1,3,7) r wf(1) at_n(1-4) io(3,4) at_n(5,6) q quiet(2)] by (elim exE conjE) (rule that)
  have returned: "rpc_ExecuteTransaction E io n r = Return n1 None"
    using ExecuteTransaction_fresh [OF n(1,2) assms(4,5,6), of io n1] run assms(8) by simp
  obtain n2 where n2: "executor_rounds E 2 n1 = Return n2 ()" "balance_view E (DB n2) = balance_view E (DB n)"
    "held E (DB n2) = held E (DB n)" and e2: "effects n2 = effects n1 @
       [GoReplyToClient ts False (t_ClientSeq t), GoUpdateLog (add64 (Seq ?n) 1) ''executed'']"
    using coordinator_undoes [OF assms(1,2) n1 next_seq(1) at_n(7) free] unfolding timer_started by blast
  have e2': "quiet (no_commit_for r) n2" "GoReplyToClient ts False (t_ClientSeq t) \<in> set (effects n2)"
    using sent(2) e2 by (simp_all add: quiet_def no_commit_for_def)
  have keys: "PublicKeyMap ?n \<subseteq>\<^sub>m PublicKeyMap m" using m(3) by (simp only: timer_started)
  have client: "PublicKeyMap m ''client'' = Some (sk_Public (gw_PrivateKey gw))" using m(1) by (simp add: ready_def)
  have signed: "verified E (sk_Public (gw_PrivateKey gw)) (top_fields wire_ClientRequest (scr_ClientRequest r)) (scr_Signature r)"
    unfolding assms(6) by (rule getSignedClientReq_verified [OF assms(4,5)])
  obtain m1 p where part: "runPBFT E prepare_io m r 0 ''P'' = Return m1 (Some p, None)"
    "rpc_PCPrepare E prepare_io m pc = Return m1 (Inr (pc_success m1))" "run_committed E m ''P'' t ts d m1" "node_wf E m1"
    using participant_prepares [OF assms(1,3,7) r pc keys client signed wf(2) m(2,4)] by blast
  obtain m2 where m2: "executor_round E m1 = Return m2 ()" "balance_view E (DB m2) = transfer t (balance_view E (DB m))"
    "held E (DB m2) = held E (DB m) \<union> taken ''P'' t" "effects m2 = effects m1"
    using prepared_executes [OF assms(1) part(3,4) next_seq(2)] by blast
  have "quiet (no_wait_for r) m2"
    using quiet_run [OF part(1) quiet(3,4) run_effects_undecided(2)] m2(4) by (simp add: quiet_def)
  with returned sent(1) part(2) n2 e2' m2(1-3) credited [OF assms(1) m(5,6) n2(2) m2(2)] show ?thesis by blast
qed

lemma demo_wal_ready: "ascii_tx t \<Longrightarrow> in64 (t_ClientSeq t) \<Longrightarrow> wal_ready demo_env demo_db t"
proof -
  assume t: "ascii_tx t" "in64 (t_ClientSeq t)"
  have none: "bkt_get demo_env (walBucket demo_db) k = None" for k
    by (simp add: demo_db_buckets demo_simps demo_get_def)
  have "snd (AppendToWALEntry demo_env demo_db (t_ClientSeq t) (wal_of t)) = None"
    using t(2) by (simp add: AppendToWALEntry_def wal_of_def demo_db_buckets demo_simps demo_get_def demo_json_def demo_put_def)
  with t(1) show ?thesis
    by (simp add: wal_ready_def wal_readable_def wal_view_def ReadWALEntry_def none)
qed

definition demo_lost_io :: "demo_bucket cross_io" where
  "demo_lost_io = (demo_smooth_io demo_cross_tx)\<lparr>ack := False\<rparr>"

theorem lost_acknowledgement_creates_money_witness:
  "\<exists>n1 n2 pc m1 m2. rpc_ExecuteTransaction demo_env demo_lost_io demo_node
       (getSignedClientReq demo_env demo_gateway demo_cross_tx 100) = Return n1 None \<and>
     rpc_PCPrepare demo_env (demo_io (demo_digest demo_cross_tx)) demo_participant_node pc = Return m1 (Inr (pc_success m1)) \<and>
     executor_rounds demo_env 2 n1 = Return n2 () \<and> executor_round demo_env m1 = Return m2 () \<and>
     balance_view demo_env (DB n2) ''1'' = Some 10 \<and> balance_view demo_env (DB m2) ''1001'' = Some 14"
proof -
  let ?t = demo_cross_tx
  have tx: "t_From ?t = ''1''" "t_To ?t = ''1001''" "t_ClusterFrom ?t \<noteq> t_ClusterTo ?t"
    "t_Amount ?t = 4" "t_ClusterTo ?t = ''C2''" "ascii_tx ?t" "in64 (t_ClientSeq ?t)"
    by (simp_all add: demo_cross_tx_def ascii_tx_def ascii_def in64_def min64_def max64_def)
  have n: "can_run demo_env demo_node ''P'' ?t" "in64 (Seq demo_node)" "wal_ready demo_env (DB demo_node) ?t"
    by (simp_all add: demo_can_run tx demo_node_tables in64_def min64_def max64_def demo_wal_ready [OF tx(6,7)])
  have io: "votes_arrive demo_env (PublicKeyMap demo_node) (demo_digest ?t) (prepare_run demo_lost_io)"
    "votes_arrive demo_env (PublicKeyMap demo_node) (demo_digest ?t) (decide_run demo_lost_io)"
    "leaves_steady (ack_rely demo_lost_io)" "\<not> ack demo_lost_io"
    by (simp_all add: demo_lost_io_def demo_smooth_io_def Let_def demo_votes_arrive demo_node_tables)
  have l: "LeaderMap demo_node (t_ClusterTo ?t) = Some ''S5''" "''S5'' \<in> set (peers demo_node (t_ClusterTo ?t))"
    by (simp_all add: tx demo_node_peers) (simp add: demo_node_def establishConns_def NewNode_def demo_clusters_def)
  have m: "PublicKeyMap demo_node \<subseteq>\<^sub>m PublicKeyMap demo_participant_node"
    "votes_arrive demo_env (PublicKeyMap demo_participant_node) (demo_digest ?t) (demo_io (demo_digest ?t))"
    "balance_view demo_env (DB demo_participant_node) (t_To ?t) = Some 10"
    "balance_view demo_env (DB demo_participant_node) (t_From ?t) = None"
    using demo_balances by (simp_all add: demo_participant_node_def demo_node_tables demo_votes_arrive tx)
  have quiet: "quiet P demo_node" "all_quiet P (cross_fns demo_lost_io)" "quiet P demo_participant_node"
    "all_quiet P (io_fns (demo_io dg))" for P dg
    by (simp_all add: quiet_def demo_node_tables demo_participant_node_def cross_fns_def io_fns_def demo_lost_io_def
      demo_smooth_io_def demo_io_def Let_def)
  have "add64 10 4 = 14" by (simp add: add64_def wrap64_def)
  with lost_acknowledgement_creates_money [OF demo_bolt_ok demo_json_ok demo_json_pointers_ok demo_crypto_ok demo_signs refl
      demo_gateway_digest tx(3) demo_ready n io l demo_participant_ready(1,2) m quiet]
  show ?thesis using demo_balances(1) unfolding tx(2,4) demo_node_tables(7) by fastforce
qed

end
