(* ===== verification/Spec2Isabelle.thy ===== *)
theory Spec2Isabelle
  imports Execution Quorum Agreement Acceptance Runs Invariants Reachable Views Client Scripts Stores Process
    OneView Races Atomicity Session Leaks EndToEnd Followers Offers LostAck
begin

text \<open>
  A sharded bank that runs PBFT inside each shard and two-phase commit across shards.

  \<^bold>\<open>The program.\<close> Three clusters of four nodes (\<open>main.go\<close>, \<open>node/\<close>) each keep the balances of one
  range of accounts in a bbolt store (\<open>db/\<close>). A gateway (\<open>gateway/\<close>) reads a script of
  transfers, signs each one and sends it to the leader of the sender's cluster. The leader
  takes the locks of both clients, gives the transfer a sequence number and runs
  pre-prepare, prepare and commit with its cluster; a committed entry goes to the node's
  datastore, and an executor goroutine applies the datastore in order and answers the
  gateway. A transfer between clusters is prepared (status \<open>P\<close>) in the sender's cluster,
  then in the receiver's, and committed (\<open>C\<close>) or aborted (\<open>A\<close>, undone from the write-ahead
  log) in both by further runs of PBFT. Checkpoints and view changes complete the protocol.

  \<^bold>\<open>Theories and sources.\<close>
  \<^item> \<open>Prelude\<close>: 64-bit integers with their wrap-around, \<open>outcome\<close> (a handler returns, panics,
    or waits), nil pointers, counting loops; \<open>Strconv\<close>: the conversions of \<open>strconv\<close> that the
    stores and names use; \<open>Messages\<close>: the messages of \<open>pbft/pbft.proto\<close> and
    \<open>gateway/clientrpc/client.proto\<close> and the fields they are signed by; \<open>Interfaces\<close>: the
    contracts between components, as locales.
  \<^item> \<open>Externals\<close>: the libraries the code calls as a record \<open>env\<close> of parameters (protobuf, JSON,
    SHA-256, MD5, RSA, bbolt), what is documented of them (\<open>crypto_ok\<close>, \<open>json_ok\<close>, \<open>bolt_ok\<close>), and
    the signing, checking and hashing of \<open>cryptox/crypto.go\<close>; \<open>Keys\<close>: the rest of that file
    and the exchange of keys through files (\<open>node/utils.go\<close>, \<open>gateway/helpers.go\<close>).
  \<^item> \<open>Db\<close>: the operations of \<open>db/balances.go\<close>, \<open>db/locks.go\<close>, \<open>db/wal.go\<close>, \<open>db/logs.go\<close>, \<open>db/db.go\<close>;
    \<open>Balances\<close>, \<open>Locks\<close>, \<open>Wal\<close>, \<open>Stores\<close>: what each bucket means and what its operations do to
    that meaning.
  \<^item> \<open>NodeState\<close>: the struct \<open>Node\<close> as a record, the constants of \<open>config/constants.go\<close>, and the
    \<open>effect\<close>s of a handler; \<open>NodeLog\<close>: \<open>NewNode\<close>, \<open>Start\<close> and the tables by sequence number;
    \<open>Timer\<close>: \<open>node/timer.go\<close>.
  \<^item> \<open>Certs\<close>: checking and acting on certificates; \<open>Replica\<close>: \<open>PrePrepare\<close>, \<open>Prepare\<close>, \<open>Commit\<close> and
    the goroutines that answer them; \<open>Primary\<close>: \<open>runPBFT\<close> with its collectors; \<open>Executor\<close>: the
    executor and the replies; \<open>TwoPhase\<close>: \<open>ExecuteTransaction\<close>, \<open>PCPrepare\<close>, \<open>PCCommit\<close> and
    \<open>node/pbft_runner.go\<close>; \<open>Checkpoints\<close>, \<open>ViewChange\<close>: the rest of \<open>node/operations.go\<close> and
    \<open>node/rpc.go\<close>.
  \<^item> \<open>Console\<close>: the reports of a node and the listings of the stores as text; \<open>Process\<close>: the two \<open>main\<close> functions, opening the
    database and the console.
  \<^item> \<open>GwState\<close>, \<open>GwScript\<close>, \<open>GwClient\<close>: the gateway, its script and its operations; \<open>GwMenu\<close>:
    its menu round by round, with the text of its reports.
  \<^item> \<open>DemoEnv\<close>, \<open>DemoNode\<close>: one concrete environment, shown to keep every promise that the
    theorems ask of the libraries, and one concrete node; the witnesses are evaluated there.

  \<^bold>\<open>How code is translated.\<close> A handler is a function from the node to an \<open>outcome\<close>. A nil
  pointer or a nil interface that is used is \<open>Panic\<close>. A message to a peer and a goroutine
  started with \<open>go\<close> are appended to \<open>effects\<close>, in order; the goroutine's body is a definition
  of its own, run later. Where a handler waits (for a lock, a reply, a channel or a timer) the
  other goroutines go on: what they do to the node is an argument (\<open>rely\<close>, or a record
  \<open>pbft_io\<close> or \<open>cross_io\<close> of them), and so is the order in which certificates and timers
  arrive. A waiting loop takes a list with an element for every round; when the list is used
  up and the loop has not ended the outcome is \<open>Blocked\<close>. The theorems quantify over all
  these lists, so no bound is chosen for them; the executor's loop is run for any number of
  rounds, and its termination is a theorem. Errors that the code drops are dropped. A map
  that is only looked up is a partial function; where the order of a walk over a map can
  matter, the order is an argument. Mutexes that are released on every path have no field;
  \<open>CheckpointCertsLock\<close>, which is not, has one.

  \<^bold>\<open>What is shown.\<close>
  \<^item> \<open>Quorum\<close>, \<open>Agreement\<close>: leaders, intersecting quorums, what a commit takes and all it
    changes, and that signers are not told apart.
  \<^item> \<open>Steady\<close>, \<open>OneView\<close>: that a node whose run in its first view is orderly (the relation
    \<open>orderly_runs\<close>, a part of \<open>node_runs\<close> under conditions which the code does not enforce) signs
    one digest per number, from an invariant of its tables and of all it has sent; hence the
    agreement of a whole cluster, for certificates of distinct signers. \<open>Races\<close>: the program
    itself breaks these conditions: a second acceptance during a wait makes a replica sign two
    digests, and \<open>PCCommit\<close> at a replica undoes a commit.
  \<^item> \<open>Offers\<close>: the agreement that is left when replicas do not run orderly and certificates are
    worth nothing: what replicas commit is what the leader offered, because its pre-prepares
    are signed and the leader gives a number one digest.
  \<^item> \<open>Atomicity\<close>: who waits for the decision of a two-phase commit. \<open>LostAck\<close>: a request across
    clusters whose acknowledgement does not reach the coordinator, from the handlers of both
    sides to the executors, creates money. \<open>Leaks\<close>: the locks that a request leaves behind
    when it is sent again after its entry was executed.
  \<^item> \<open>Acceptance\<close>: when a pre-prepare is accepted and what acceptance writes. \<open>Runs\<close>: what
    success and failure of a run mean, within a shard and across shards.
  \<^item> \<open>Settlement\<close>, \<open>EndToEnd\<close>: that transfers complete when nothing goes wrong. Within a cluster,
    from the gateway's signed request through the run and the executor to the reply it
    accepts; across clusters, both sides prepare and commit on the coordinator's messages and
    the executors apply the transfer once. "Nothing goes wrong" is spelled out: a leader that
    is up and has caught up (\<open>ready\<close>, \<open>fresh_at_leader\<close>), free locks and enough money (\<open>can_run\<close>),
    votes and answers that arrive (\<open>votes_arrive\<close>, \<open>smooth\<close>). \<open>Followers\<close>: that the votes do
    arrive from the code itself, when two replicas work and messages are delivered.
  \<^item> \<open>Execution\<close>: an abstract machine of positions, balances, locks and replies that the executor
    refines on well-formed nodes; order, conservation, undoing.
  \<^item> \<open>WellFormed\<close>, \<open>Invariants\<close>, \<open>Reachable\<close>: invariants of a node as the locales
    \<open>quiet_invariant\<close> (under the handlers that log no new entry),
    \<open>node_invariant\<close> (under all handlers) and \<open>executed_invariant\<close> (under the executor too), their interpretations (well-formedness, the
    books, the tables that only grow, the mutex that stays taken), the relation \<open>node_runs\<close> of
    everything a node can do in any order, and what holds in every reachable state.
  \<^item> \<open>Views\<close>, \<open>Hazards\<close>: view changes, the second execution they cause, forged checkpoints, the
    mutex that is never released and the timer whose tick is lost until somebody stops it.
  \<^item> \<open>Client\<close>, \<open>Scripts\<close>, \<open>Keys\<close>, \<open>Stores\<close>, \<open>Reports\<close>: the gateway, its script and reports, the exchange
    of keys, the write-ahead log, the reports of a node. \<open>Session\<close>: what a whole session of the
    gateway sends, whatever is typed and whatever the other goroutines do meanwhile.

  \<^bold>\<open>Bounds.\<close> \<open>int64\<close> values are integers with every operation wrapped to 64 bits (\<open>add64\<close> and
  its companions); theorems that need values in range say so. \<open>F = 1\<close> and clusters of four
  nodes are the program's.

  \<^bold>\<open>Not modelled.\<close> The generated stubs only connect handlers to gRPC; a call is an effect at
  the caller and a handler at the callee, and nothing is assumed of delivery. Encoders,
  decoders, hashes, RSA, PEM, bbolt, the clock and the file system are parameters: JSON and
  CSV files enter as decoded. Throughput is a floating-point number that is only printed: its
  rendering is a parameter. Durations that a node measures only to log them are left out.
  Making a gRPC client is taken to succeed, and the timer, nil until \<open>Start\<close> makes it, is there
  from \<open>NewNode\<close> on: nothing uses it earlier. Data races are not modelled: a handler runs
  without interference except where it waits. The database file is opened once per process.
  The script \<open>starter.py\<close>, which opens a terminal for each server, the waits and closed
  connections at the end of a process, and the constants of \<open>node/node.go\<close> that no code uses
  have no definition. Agreement is shown within the first view and under the conditions that
  \<open>OneView\<close> and \<open>Offers\<close> name: without them, and across view changes (\<open>Views\<close>), the code does
  not have it.
\<close>

end
